(* ===== verification/Adv_Prelude.thy ===== *)
theory Adv_Prelude
  imports Main "HOL-Library.Word" "HOL-Library.State_Monad"
begin

text \<open>
  Shared vocabulary of the development: the C types of the component at their width, the
  state-monad combinators in which the C bodies are written, the rule collections used by
  every theory, the calculus of the relations that every run of a body stays in (\<open>steps_in\<close>), and the lemmas on decimal numbers and strings the components share.
\<close>

section \<open>C types and constants\<close>

type_synonym BOOL = "8 word"
type_synonym ULONG = "64 word"
type_synonym ANSC_STATUS = "64 word"

abbreviation TRUE :: BOOL where "TRUE \<equiv> 1"
abbreviation FALSE :: BOOL where "FALSE \<equiv> 0"
abbreviation ANSC_STATUS_SUCCESS :: ANSC_STATUS where "ANSC_STATUS_SUCCESS \<equiv> 0"
abbreviation ANSC_STATUS_FAILURE :: ANSC_STATUS where "ANSC_STATUS_FAILURE \<equiv> 0xFFFFFFFF"
abbreviation EOK :: int where "EOK \<equiv> 0"

text \<open>The C truth value of a comparison, and of a \<open>BOOL\<close>.\<close>

definition of_bool8 :: "bool \<Rightarrow> BOOL" where
  "of_bool8 b = (if b then TRUE else FALSE)"

lemma of_bool8_simps [simp]: "of_bool8 True = TRUE" "of_bool8 False = FALSE"
  by (simp_all add: of_bool8_def)

lemma of_bool8_zero [simp]: "of_bool8 b = 0 \<longleftrightarrow> \<not> b"
  by (simp add: of_bool8_def)

text \<open>What a switch stores for a \<open>BOOL\<close> argument: any non-zero byte counts as TRUE.\<close>

definition norm_bool :: "BOOL \<Rightarrow> BOOL" where
  "norm_bool b = (if b \<noteq> 0 then TRUE else FALSE)"

lemma norm_bool_zero [simp]: "norm_bool b = 0 \<longleftrightarrow> b = 0"
  by (simp add: norm_bool_def)

lemma norm_bool_id [simp]: "norm_bool TRUE = TRUE" "norm_bool FALSE = FALSE"
  by (simp_all add: norm_bool_def)

section \<open>State monad\<close>

abbreviation return :: "'a \<Rightarrow> ('s, 'a) state" where
  "return \<equiv> State_Monad.return"

definition gets :: "('s \<Rightarrow> 'a) \<Rightarrow> ('s, 'a) state" where
  "gets f = State (\<lambda>s. (f s, s))"

definition modify :: "('s \<Rightarrow> 's) \<Rightarrow> ('s, unit) state" where
  "modify f = State (\<lambda>s. ((), f s))"

lemma run_state_gets [simp]: "run_state (gets f) s = (f s, s)"
  by (simp add: gets_def)

lemma run_state_modify [simp]: "run_state (modify f) s = ((), f s)"
  by (simp add: modify_def)

lemma run_state_if [simp]:
  "run_state (if b then m else n) s = (if b then run_state m s else run_state n s)"
  by simp

lemma run_state_State [simp]: "run_state (State f) s = f s"
  by simp

text \<open>\<open>preserves I m\<close>: whatever \<open>m\<close> answers, it keeps the state predicate \<open>I\<close>.
  The rules below follow the shape of a body, so that an invariant of an operation is
  proved by the operation's own structure.\<close>

definition preserves :: "('s \<Rightarrow> bool) \<Rightarrow> ('s, 'a) state \<Rightarrow> bool" where
  "preserves I m \<longleftrightarrow> (\<forall>s. I s \<longrightarrow> I (snd (run_state m s)))"

named_theorems preserves_rules

lemma preservesI: "(\<And>s. I s \<Longrightarrow> I (snd (run_state m s))) \<Longrightarrow> preserves I m"
  by (simp add: preserves_def)

lemma preservesD: "preserves I m \<Longrightarrow> I s \<Longrightarrow> I (snd (run_state m s))"
  by (simp add: preserves_def)

lemma preserves_return [preserves_rules]: "preserves I (return x)"
  by (simp add: preserves_def)

lemma preserves_gets [preserves_rules]: "preserves I (gets f)"
  by (simp add: preserves_def)

lemma preserves_modify: "(\<And>s. I s \<Longrightarrow> I (f s)) \<Longrightarrow> preserves I (modify f)"
  by (simp add: preserves_def)

lemma preserves_bind [preserves_rules]:
  assumes "preserves I m" "\<And>x. preserves I (f x)"
  shows "preserves I (m \<bind> f)"
  using assms by (fastforce simp: preserves_def split: prod.splits)

lemma preserves_if [preserves_rules]:
  assumes "b \<Longrightarrow> preserves I m" "\<not> b \<Longrightarrow> preserves I n"
  shows "preserves I (if b then m else n)"
  using assms by simp

lemma preserves_case_prod [preserves_rules]:
  "(\<And>x y. preserves I (f x y)) \<Longrightarrow> preserves I (case p of (x, y) \<Rightarrow> f x y)"
  by (simp split: prod.splits)

lemma preserves_case_option [preserves_rules]:
  "preserves I f \<Longrightarrow> (\<And>x. preserves I (g x)) \<Longrightarrow>
   preserves I (case v of None \<Rightarrow> f | Some x \<Rightarrow> g x)"
  by (simp split: option.splits)

lemma preserves_True [simp]: "preserves (\<lambda>_. True) m"
  by (simp add: preserves_def)

section \<open>Calls that respect a relation\<close>

text \<open>What a call may do to the state, as a relation between the state before and after. When the relation
  is a preorder, whatever is built of calls that respect it respects it too.\<close>

definition steps_in :: "('s \<Rightarrow> 's \<Rightarrow> bool) \<Rightarrow> ('s, 'a) state \<Rightarrow> bool" where
  "steps_in R m \<longleftrightarrow> (\<forall>s. R s (snd (run_state m s)))"

definition step_order :: "('s \<Rightarrow> 's \<Rightarrow> bool) \<Rightarrow> bool" where
  "step_order R \<longleftrightarrow> (\<forall>s. R s s) \<and> (\<forall>s t u. R s t \<longrightarrow> R t u \<longrightarrow> R s u)"

lemma step_order_eq: "step_order (\<lambda>s t. f t = f s)"
  by (simp add: step_order_def)

lemma steps_in_return: "step_order R \<Longrightarrow> steps_in R (return x)"
  by (simp add: steps_in_def step_order_def)

lemma steps_in_gets: "step_order R \<Longrightarrow> steps_in R (gets f)"
  by (simp add: steps_in_def step_order_def)

lemma steps_in_bind: "step_order R \<Longrightarrow> steps_in R m \<Longrightarrow> (\<And>x. steps_in R (f x)) \<Longrightarrow> steps_in R (m \<bind> f)"
  by (simp add: steps_in_def step_order_def case_prod_beta) metis

lemma steps_in_if:
  "step_order R \<Longrightarrow> (b \<Longrightarrow> steps_in R m) \<Longrightarrow> (\<not> b \<Longrightarrow> steps_in R n) \<Longrightarrow> steps_in R (if b then m else n)"
  by simp

lemma steps_in_case_prod: "step_order R \<Longrightarrow> (\<And>x y. steps_in R (f x y)) \<Longrightarrow> steps_in R (case p of (x, y) \<Rightarrow> f x y)"
  by (simp split: prod.splits)

lemma steps_in_case_option:
  "step_order R \<Longrightarrow> steps_in R f \<Longrightarrow> (\<And>x. steps_in R (g x)) \<Longrightarrow> steps_in R (case v of None \<Rightarrow> f | Some x \<Rightarrow> g x)"
  by (simp split: option.splits)

lemmas steps_in_structure =
  steps_in_return steps_in_gets steps_in_bind steps_in_if steps_in_case_prod steps_in_case_option

section \<open>Decimal numbers as C prints and reads them\<close>

text \<open>The digits \<open>sprintf\<close> writes for \<open>%lu\<close>, and the value of a run of digits.\<close>

definition digit_char :: "nat \<Rightarrow> char" where
  "digit_char d = char_of (48 + d)"

definition isdigit :: "char \<Rightarrow> bool" where
  "isdigit c \<longleftrightarrow> 48 \<le> (of_char c :: nat) \<and> (of_char c :: nat) \<le> 57"

fun nat_digits :: "nat \<Rightarrow> string" where
  "nat_digits n = (if n < 10 then [digit_char n] else nat_digits (n div 10) @ [digit_char (n mod 10)])"

declare nat_digits.simps [simp del]

definition dec_step :: "nat \<Rightarrow> char \<Rightarrow> nat" where
  "dec_step acc c = 10 * acc + (of_char c - 48)"

definition dec_value :: "string \<Rightarrow> nat" where
  "dec_value cs = foldl dec_step 0 cs"

lemma of_char_digit [simp]: "d < 10 \<Longrightarrow> (of_char (digit_char d) :: nat) = 48 + d"
  by (simp add: digit_char_def)

lemma isdigit_digit_char [simp]: "d < 10 \<Longrightarrow> isdigit (digit_char d)"
  by (simp add: isdigit_def)

lemma nat_digits_isdigit: "list_all isdigit (nat_digits n)"
  by (induction n rule: nat_digits.induct) (subst nat_digits.simps, simp)

lemma nat_digits_not_Nil [simp]: "nat_digits n \<noteq> []"
  by (subst nat_digits.simps) simp

lemma dec_value_append: "dec_value (xs @ [c]) = 10 * dec_value xs + (of_char c - 48)"
  by (simp add: dec_value_def dec_step_def)

lemma dec_value_nat_digits [simp]: "dec_value (nat_digits n) = n"
proof (induction n rule: nat_digits.induct)
  case (1 n)
  show ?case
  proof (cases "n < 10")
    case True
    then show ?thesis
      by (subst nat_digits.simps) (simp add: dec_value_def dec_step_def)
  next
    case False
    then show ?thesis
      using 1 by (subst nat_digits.simps) (simp add: dec_value_append)
  qed
qed

lemma length_nat_digits: "n < 10 ^ k \<Longrightarrow> 0 < k \<Longrightarrow> length (nat_digits n) \<le> k"
proof (induction k arbitrary: n)
  case 0
  then show ?case by simp
next
  case (Suc k)
  show ?case
  proof (cases "n < 10")
    case True
    then show ?thesis by (subst nat_digits.simps) simp
  next
    case False
    with Suc.prems have "k > 0" by (cases k) auto
    moreover have "n div 10 < 10 ^ k"
      using Suc.prems(1) by (simp add: less_mult_imp_div_less mult.commute)
    ultimately have "length (nat_digits (n div 10)) \<le> k"
      using Suc.IH by blast
    then show ?thesis using False by (subst nat_digits.simps) simp
  qed
qed

lemma nat_digits_ulong_length: "length (nat_digits (unat (v :: ULONG))) \<le> 20"
proof -
  have "unat v < 2 ^ 64" using unsigned_less [of v] by simp
  also have "(2::nat) ^ 64 < 10 ^ 20" by simp
  finally show ?thesis by (intro length_nat_digits) simp_all
qed

text \<open>\<open>strtoul\<close> in base 10: leading white space, one optional sign, then digits. The
  result is the value, whether \<open>errno\<close> is set (out of range), and whether nothing was
  converted (\<open>endptr == buf\<close>). A minus sign negates modulo \<open>2 ^ 64\<close>.\<close>

definition isspace :: "char \<Rightarrow> bool" where
  "isspace c \<longleftrightarrow> c = CHR 0x20 \<or> (9 \<le> (of_char c :: nat) \<and> (of_char c :: nat) \<le> 13)"

definition strtoul_sign :: "string \<Rightarrow> bool \<times> string" where
  "strtoul_sign cs = (case cs of
      [] \<Rightarrow> (False, [])
    | c # r \<Rightarrow> if c = CHR ''-'' then (True, r) else if c = CHR ''+'' then (False, r) else (False, cs))"

definition strtoul :: "string \<Rightarrow> ULONG \<times> bool \<times> bool" where
  "strtoul cs = (case strtoul_sign (dropWhile isspace cs) of (neg, r) \<Rightarrow>
     let ds = takeWhile isdigit r; n = dec_value ds in
     if ds = [] then (0, False, True)
     else if n \<ge> 2 ^ 64 then (- 1, True, False)
     else (if neg then - word_of_nat n else word_of_nat n, False, False))"

lemma isdigit_not_space: "isdigit c \<Longrightarrow> \<not> isspace c"
  by (auto simp: isdigit_def isspace_def)

lemma isdigit_not_sign: "isdigit c \<Longrightarrow> c \<noteq> CHR ''-'' \<and> c \<noteq> CHR ''+''"
  by (auto simp: isdigit_def)

lemma strtoul_nat_digits:
  assumes "n < 2 ^ 64"
  shows "strtoul (nat_digits n) = (word_of_nat n, False, False)"
proof -
  obtain c r where cr: "nat_digits n = c # r"
    using nat_digits_not_Nil [of n] by (cases "nat_digits n") auto
  have all: "\<forall>x \<in> set (nat_digits n). isdigit x"
    using nat_digits_isdigit [of n] by (simp add: list_all_iff)
  then have c: "isdigit c" using cr by simp
  have "dropWhile isspace (nat_digits n) = nat_digits n"
    using cr c isdigit_not_space by simp
  moreover have "strtoul_sign (nat_digits n) = (False, nat_digits n)"
    using cr isdigit_not_sign [OF c] by (simp add: strtoul_sign_def)
  moreover have tw: "takeWhile isdigit (nat_digits n) = nat_digits n"
    using all by simp
  ultimately show ?thesis
    using assms by (simp add: strtoul_def Let_def tw)
qed

section \<open>Strings\<close>

definition contains_char :: "char \<Rightarrow> string \<Rightarrow> bool" where
  "contains_char c s \<longleftrightarrow> c \<in> set s"

definition starts_with :: "string \<Rightarrow> string \<Rightarrow> bool" where
  "starts_with s p \<longleftrightarrow> take (length p) s = p"

lemma starts_with_append [simp]: "starts_with (p @ s) p"
  by (simp add: starts_with_def)

lemma starts_with_iff: "starts_with s p \<longleftrightarrow> (\<exists>r. s = p @ r)"
  by (metis append_eq_conv_conj starts_with_def append_take_drop_id)

end
