(* ===== verification/Adv_Env.thy ===== *)
theory Adv_Env
  imports Adv_Prelude
begin

text \<open>
  The environment of the component: the build configuration (the preprocessor flags the
  sources test) and every routine that is called but not defined under \<open>src/\<close> (safec string
  routines, \<open>AnscEqualString\<close>, syscfg, \<open>v_secure_system\<close>, rbus, files, cJSON, the start and
  stop entry points of the Wi-Fi data-collection library). They are the fields of one record
  over an abstract outside world \<open>'w\<close>; a routine that can see or change the world is a
  function \<open>'w \<Rightarrow> 'r \<times> 'w\<close>, so the world may also move on during a call that only reads.
  What the code relies on of them is stated by the named predicates at the end.
\<close>

section \<open>Results of the called libraries\<close>

datatype rbus_value =
    RBUS_BOOLEAN bool
  | RBUS_OTHER "string option"  \<comment> \<open>the text \<open>rbusValue_ToString\<close> returns, None for NULL\<close>

datatype rbus_reply =
    RBUS_ERROR int
  | RBUS_VALUE rbus_value

datatype cjson_item =
    CJSON_PARSE_ERROR
  | CJSON_NO_ITEM
  | CJSON_STRING string         \<comment> \<open>\<open>valuestring\<close> is set\<close>
  | CJSON_INT "32 word"         \<comment> \<open>\<open>valuestring\<close> is NULL, \<open>valueint\<close> holds the number\<close>

record 'w env =
  \<comment> \<open>build flags\<close>
  WIFI_DATA_COLLECTION :: bool
  NETWORK_INTELLIGENCE :: bool
  XB3_ARM_or_BCM_MIPS :: bool        \<comment> \<open>\<open>_COSA_INTEL_XB3_ARM_ || _COSA_BCM_MIPS_\<close>\<close>
  DOWNLOADMODULE_ENABLE :: bool
  XF3_PRODUCT_REQ :: bool
  WAN_FAILOVER_SUPPORTED :: bool
  WIFI_WEBCONFIG_INIT_DATA_NAMESPACE :: string   \<comment> \<open>named by a Wi-Fi header\<close>
  \<comment> \<open>pure string routines\<close>
  x_strcmp_s :: "string \<Rightarrow> nat \<Rightarrow> string \<Rightarrow> int \<times> int"   \<comment> \<open>return code and indicator\<close>
  x_strcpy_s :: "nat \<Rightarrow> string \<Rightarrow> int \<times> string"           \<comment> \<open>return code and destination\<close>
  x_sprintf_s_lu :: "nat \<Rightarrow> ULONG \<Rightarrow> int \<times> string"        \<comment> \<open>\<open>sprintf_s(buf, n, \"%lu\", v)\<close>\<close>
  x_AnscEqualString :: "string \<Rightarrow> string \<Rightarrow> BOOL \<Rightarrow> BOOL"
  x_cJSON_item :: "string \<Rightarrow> string \<Rightarrow> cjson_item"        \<comment> \<open>parse, then look a key up\<close>
  \<comment> \<open>routines that touch the world\<close>
  x_syscfg_get :: "string \<Rightarrow> nat \<Rightarrow> 'w \<Rightarrow> (ANSC_STATUS \<times> string) \<times> 'w"
  x_syscfg_set :: "string \<Rightarrow> string \<Rightarrow> 'w \<Rightarrow> ANSC_STATUS \<times> 'w"
  x_syscfg_commit :: "'w \<Rightarrow> ANSC_STATUS \<times> 'w"
  x_system :: "string \<Rightarrow> 'w \<Rightarrow> int \<times> 'w"
  x_rbus_get :: "string \<Rightarrow> 'w \<Rightarrow> rbus_reply \<times> 'w"
  x_rbus_set :: "string \<Rightarrow> bool \<Rightarrow> 'w \<Rightarrow> int \<times> 'w"
  x_rbus_getStr :: "string \<Rightarrow> 'w \<Rightarrow> (int \<times> string) \<times> 'w"
  x_sysinfo_uptime :: "'w \<Rightarrow> ULONG option \<times> 'w"
  x_sleep :: "nat \<Rightarrow> 'w \<Rightarrow> unit \<times> 'w"
  x_fread_all :: "string \<Rightarrow> 'w \<Rightarrow> string option \<times> 'w"   \<comment> \<open>contents, None when \<open>fopen\<close> fails\<close>
  x_fwrite_all :: "string \<Rightarrow> string \<Rightarrow> 'w \<Rightarrow> bool \<times> 'w"
  x_dcl_init :: "'w \<Rightarrow> ANSC_STATUS \<times> 'w"
  x_dcl_deinit :: "'w \<Rightarrow> ANSC_STATUS \<times> 'w"

section \<open>Exit status of a command\<close>

definition WIFEXITED :: "int \<Rightarrow> bool" where
  "WIFEXITED rc \<longleftrightarrow> rc mod 128 = 0"

definition WEXITSTATUS :: "int \<Rightarrow> int" where
  "WEXITSTATUS rc = (rc div 256) mod 256"

section \<open>Comparing a parameter name\<close>

text \<open>The idiom \<open>rc = strcmp_s(lit, strlen(lit), name, &ind); if ((rc == EOK) && (!ind))\<close>.\<close>

definition strcmp_s_matches :: "'w env \<Rightarrow> string \<Rightarrow> string \<Rightarrow> bool" where
  "strcmp_s_matches E lit name = (case x_strcmp_s E lit (length lit) name of
     (rc, ind) \<Rightarrow> rc = EOK \<and> ind = 0)"

definition AnscEqualString :: "'w env \<Rightarrow> string \<Rightarrow> string \<Rightarrow> BOOL \<Rightarrow> bool" where
  "AnscEqualString E s t cs \<longleftrightarrow> x_AnscEqualString E s t cs \<noteq> 0"

section \<open>Documented behaviour\<close>

text \<open>\<open>strcmp_s\<close> bounded by the length of its first, non-empty, argument succeeds and its
  indicator is zero exactly for equal strings.\<close>

definition strcmp_s_law :: "'w env \<Rightarrow> bool" where
  "strcmp_s_law E \<longleftrightarrow> (\<forall>s t. s \<noteq> [] \<longrightarrow>
     fst (x_strcmp_s E s (length s) t) = EOK \<and> (snd (x_strcmp_s E s (length s) t) = 0 \<longleftrightarrow> s = t))"

definition ansc_equal_law :: "'w env \<Rightarrow> bool" where
  "ansc_equal_law E \<longleftrightarrow> (\<forall>s t. x_AnscEqualString E s t TRUE \<noteq> 0 \<longleftrightarrow> s = t)"

definition sprintf_s_law :: "'w env \<Rightarrow> bool" where
  "sprintf_s_law E \<longleftrightarrow> (\<forall>n v. length (nat_digits (unat v)) < n \<longrightarrow>
     x_sprintf_s_lu E n v = (int (length (nat_digits (unat v))), nat_digits (unat v)))"

text \<open>\<open>strcpy_s\<close> copies when the string and its terminator fit, and otherwise reports an error.\<close>

definition strcpy_s_law :: "'w env \<Rightarrow> bool" where
  "strcpy_s_law E \<longleftrightarrow> (\<forall>n s. (length s < n \<longrightarrow> x_strcpy_s E n s = (EOK, s)) \<and>
     (n \<le> length s \<longrightarrow> fst (x_strcpy_s E n s) \<noteq> EOK))"

text \<open>The configuration store: \<open>cfg\<close> reads the committed settings off the world. Getting
  returns the stored text when it fits the buffer and fails for an unknown key, setting
  stores, and neither a commit, nor a command, nor reading a file changes a stored setting.\<close>

definition syscfg_law :: "'w env \<Rightarrow> ('w \<Rightarrow> string \<Rightarrow> string option) \<Rightarrow> bool" where
  "syscfg_law E cfg \<longleftrightarrow>
     (\<forall>k n w. cfg (snd (x_syscfg_get E k n w)) = cfg w
        \<and> (case cfg w k of None \<Rightarrow> fst (fst (x_syscfg_get E k n w)) \<noteq> 0
            | Some v \<Rightarrow> length v < n \<longrightarrow> fst (x_syscfg_get E k n w) = (0, v)))
   \<and> (\<forall>k v w. cfg (snd (x_syscfg_set E k v w)) =
        (if fst (x_syscfg_set E k v w) = 0 then (cfg w)(k \<mapsto> v) else cfg w))
   \<and> (\<forall>w. cfg (snd (x_syscfg_commit E w)) = cfg w)
   \<and> (\<forall>c w. cfg (snd (x_system E c w)) = cfg w)
   \<and> (\<forall>f w. cfg (snd (x_fread_all E f w)) = cfg w)"

lemma strcmp_s_matches_iff:
  "strcmp_s_law E \<Longrightarrow> lit \<noteq> [] \<Longrightarrow> strcmp_s_matches E lit name \<longleftrightarrow> lit = name"
  unfolding strcmp_s_law_def strcmp_s_matches_def by (auto simp: case_prod_beta)

lemma AnscEqualString_iff:
  "ansc_equal_law E \<Longrightarrow> AnscEqualString E s t TRUE \<longleftrightarrow> s = t"
  unfolding ansc_equal_law_def AnscEqualString_def by simp

lemma syscfg_set_cfg:
  assumes "syscfg_law E cfg" "x_syscfg_set E k v w = (r, w')"
  shows "cfg w' = (if r = 0 then (cfg w)(k \<mapsto> v) else cfg w)"
  using assms unfolding syscfg_law_def by (metis fst_conv snd_conv)

lemma syscfg_commit_cfg:
  assumes "syscfg_law E cfg" "x_syscfg_commit E w = (r, w')"
  shows "cfg w' = cfg w"
  using assms unfolding syscfg_law_def by (metis snd_conv)

lemma system_cfg:
  assumes "syscfg_law E cfg" "x_system E c w = (r, w')"
  shows "cfg w' = cfg w"
  using assms unfolding syscfg_law_def by (metis snd_conv)

lemma fread_cfg:
  assumes "syscfg_law E cfg" "x_fread_all E f w = (r, w')"
  shows "cfg w' = cfg w"
  using assms unfolding syscfg_law_def by (metis snd_conv)

lemma syscfg_get_cfg:
  assumes "syscfg_law E cfg" "x_syscfg_get E k n w = (r, w')"
  shows "cfg w' = cfg w"
  using assms unfolding syscfg_law_def by (metis snd_conv)

lemma syscfg_get_Some:
  assumes "syscfg_law E cfg" "cfg w k = Some v" "length v < n"
  shows "fst (x_syscfg_get E k n w) = (0, v)"
proof -
  have "case cfg w k of None \<Rightarrow> fst (fst (x_syscfg_get E k n w)) \<noteq> 0
        | Some v \<Rightarrow> length v < n \<longrightarrow> fst (x_syscfg_get E k n w) = (0, v)"
    using assms(1) unfolding syscfg_law_def by blast
  then show ?thesis using assms(2,3) by simp
qed

lemma syscfg_get_None:
  assumes "syscfg_law E cfg" "cfg w k = None"
  shows "fst (fst (x_syscfg_get E k n w)) \<noteq> 0"
proof -
  have "case cfg w k of None \<Rightarrow> fst (fst (x_syscfg_get E k n w)) \<noteq> 0
        | Some v \<Rightarrow> length v < n \<longrightarrow> fst (x_syscfg_get E k n w) = (0, v)"
    using assms(1) unfolding syscfg_law_def by blast
  then show ?thesis using assms(2) by simp
qed

section \<open>A concrete environment\<close>

text \<open>An environment over a world that holds the settings, the files, the Levl parameter and
  the commands issued so far. The concrete instances of the properties evaluate the model in it.\<close>

record demo_world =
  dw_cfg :: "(string \<times> string) list"
  dw_files :: "(string \<times> string) list"
  dw_levl :: bool
  dw_cmds :: "string list"

definition demo_world0 :: demo_world where
  "demo_world0 = \<lparr> dw_cfg = [], dw_files = [], dw_levl = True, dw_cmds = [] \<rparr>"

definition demo_env :: "demo_world env" where
  "demo_env = \<lparr>
     WIFI_DATA_COLLECTION = True, NETWORK_INTELLIGENCE = True, XB3_ARM_or_BCM_MIPS = False,
     DOWNLOADMODULE_ENABLE = False, XF3_PRODUCT_REQ = False, WAN_FAILOVER_SUPPORTED = False,
     WIFI_WEBCONFIG_INIT_DATA_NAMESPACE = ''Device.WiFi.Init'',
     x_strcmp_s = (\<lambda>s n t. (0, if s = t then 0 else 1)),
     x_strcpy_s = (\<lambda>n s. if length s < n then (0, s) else (406, [])),
     x_sprintf_s_lu = (\<lambda>n v. if length (nat_digits (unat v)) < n
        then (int (length (nat_digits (unat v))), nat_digits (unat v)) else (- 1, [])),
     x_AnscEqualString = (\<lambda>s t cs. of_bool8 (s = t)),
     x_cJSON_item = (\<lambda>d k. CJSON_NO_ITEM),
     x_syscfg_get = (\<lambda>k n w. (case map_of (dw_cfg w) k of
        Some v \<Rightarrow> if length v < n then (0, v) else (0, take (n - 1) v) | None \<Rightarrow> (1, []), w)),
     x_syscfg_set = (\<lambda>k v w. (0, w\<lparr>dw_cfg := (k, v) # dw_cfg w\<rparr>)),
     x_syscfg_commit = (\<lambda>w. (0, w)),
     x_system = (\<lambda>c w. (0, w\<lparr>dw_cmds := c # dw_cmds w\<rparr>)),
     x_rbus_get = (\<lambda>p w. (RBUS_VALUE (RBUS_BOOLEAN (dw_levl w)), w)),
     x_rbus_set = (\<lambda>p v w. (0, w\<lparr>dw_levl := v\<rparr>)),
     x_rbus_getStr = (\<lambda>p w. ((0, ''cfg''), w)),
     x_sysinfo_uptime = (\<lambda>w. (Some 1000, w)),
     x_sleep = (\<lambda>n w. ((), w)),
     x_fread_all = (\<lambda>p w. (map_of (dw_files w) p, w)),
     x_fwrite_all = (\<lambda>p c w. (True, w\<lparr>dw_files := (p, c) # dw_files w\<rparr>)),
     x_dcl_init = (\<lambda>w. (0, w)),
     x_dcl_deinit = (\<lambda>w. (0, w)) \<rparr>"

text \<open>The same environment with a configuration store that refuses every write.\<close>

definition demo_env_ro :: "demo_world env" where
  "demo_env_ro = demo_env\<lparr>x_syscfg_set := (\<lambda>k v w. (5, w))\<rparr>"

lemma demo_strcmp_law: "strcmp_s_law demo_env"
  by (simp add: strcmp_s_law_def demo_env_def)

lemma demo_ansc_law: "ansc_equal_law demo_env"
  by (simp add: ansc_equal_law_def demo_env_def)

lemma demo_sprintf_law: "sprintf_s_law demo_env"
  by (simp add: sprintf_s_law_def demo_env_def)

lemma demo_strcpy_law: "strcpy_s_law demo_env"
  by (simp add: strcpy_s_law_def demo_env_def)

lemma demo_syscfg_law: "syscfg_law demo_env (\<lambda>w. map_of (dw_cfg w))"
  by (auto simp: syscfg_law_def demo_env_def split: option.splits)

lemma demo_ro_ansc_law: "ansc_equal_law demo_env_ro"
  by (simp add: ansc_equal_law_def demo_env_def demo_env_ro_def)

lemma demo_ro_syscfg_law: "syscfg_law demo_env_ro (\<lambda>w. map_of (dw_cfg w))"
  by (auto simp: syscfg_law_def demo_env_def demo_env_ro_def split: option.splits)

lemmas demo_laws = demo_strcmp_law demo_ansc_law demo_sprintf_law demo_strcpy_law
  demo_syscfg_law demo_ro_ansc_law demo_ro_syscfg_law

end
