(* ===== verification/Adv_Agent.thy ===== *)
theory Adv_Agent
  imports Adv_Env
begin

text \<open>
  The data model of \<open>cosa_adv_security_internal.h\<close> (the agent object and its sub-objects) and
  the state the operations run in: the global agent object, the other globals of
  \<open>cosa_adv_security_internal.c\<close>, and the outside world. Every C structure that holds one
  \<open>BOOL bEnable\<close> is the record \<open>COSA_DATAMODEL_FLAG\<close>.
\<close>

section \<open>Data model\<close>

record COSA_DATAMODEL_FLAG =
  flag_bEnable :: BOOL

record COSA_DATAMODEL_SB =
  sb_bEnable :: BOOL
  ulLookupTimeout :: ULONG

record COSA_DATAMODEL_ADVSEC =
  advsec_bEnable :: BOOL
  pSafeBrows :: COSA_DATAMODEL_SB
  pSoftFlowd :: COSA_DATAMODEL_FLAG

record COSA_DATAMODEL_NI_RFC =
  ni_bEnable :: BOOL
  ni_uMemoryLimit :: ULONG

record COSA_DATAMODEL_RABID =
  uMemoryLimit :: ULONG
  uMacCacheSize :: ULONG
  uDNSCacheSize :: ULONG

record COSA_DATAMODEL_AGENT =
  bEnable :: BOOL
  pAdvSec :: COSA_DATAMODEL_ADVSEC
  ulLoggingPeriod :: ULONG
  ulLogLevel :: ULONG
  pAdvPC :: COSA_DATAMODEL_FLAG
  pAdvPC_RFC :: COSA_DATAMODEL_FLAG
  pPrivProt :: COSA_DATAMODEL_FLAG
  pPrivProt_RFC :: COSA_DATAMODEL_FLAG
  pDFIcmpv6_RFC :: COSA_DATAMODEL_FLAG
  pWSDiscoveryAnalysis_RFC :: COSA_DATAMODEL_FLAG
  pAdvSecOTM_RFC :: COSA_DATAMODEL_FLAG
  pAdvSecUserSpace_RFC :: COSA_DATAMODEL_FLAG
  pAdvNetworkIntelligence_RFC :: COSA_DATAMODEL_NI_RFC
  pAdvWifiDataCollection_RFC :: COSA_DATAMODEL_FLAG
  pLevl_RFC :: COSA_DATAMODEL_FLAG
  pAdvSecAgent_RFC :: COSA_DATAMODEL_FLAG
  pAdvSecSafeBrowsing_RFC :: COSA_DATAMODEL_FLAG
  pAdvSecCujoTelemetryWiFiFP_RFC :: COSA_DATAMODEL_FLAG
  pAdvSecCujoTracer_RFC :: COSA_DATAMODEL_FLAG
  pAdvSecCujoTelemetry_RFC :: COSA_DATAMODEL_FLAG
  pAdvSecSATE_RFC :: COSA_DATAMODEL_FLAG
  pAdvSecTCPTrackerFilterDevices_RFC :: COSA_DATAMODEL_FLAG
  pAdvSecDoHBlocking_RFC :: COSA_DATAMODEL_FLAG
  pAdvSecDNSECHBlocking_RFC :: COSA_DATAMODEL_FLAG
  pRaptr_RFC :: COSA_DATAMODEL_FLAG
  pRabid :: COSA_DATAMODEL_RABID
  iStatus :: int
  iState :: int

text \<open>The object as \<open>AnscAllocateMemory\<close> hands it out: every byte zero.\<close>

definition agent_zero :: COSA_DATAMODEL_AGENT where
  "agent_zero =
    (let off = \<lparr>flag_bEnable = FALSE\<rparr> in
     \<lparr> bEnable = FALSE,
       pAdvSec = \<lparr>advsec_bEnable = FALSE,
                  pSafeBrows = \<lparr>sb_bEnable = FALSE, ulLookupTimeout = 0\<rparr>, pSoftFlowd = off\<rparr>,
       ulLoggingPeriod = 0, ulLogLevel = 0, pAdvPC = off, pAdvPC_RFC = off, pPrivProt = off,
       pPrivProt_RFC = off, pDFIcmpv6_RFC = off, pWSDiscoveryAnalysis_RFC = off,
       pAdvSecOTM_RFC = off, pAdvSecUserSpace_RFC = off,
       pAdvNetworkIntelligence_RFC = \<lparr>ni_bEnable = FALSE, ni_uMemoryLimit = 0\<rparr>,
       pAdvWifiDataCollection_RFC = off, pLevl_RFC = off, pAdvSecAgent_RFC = off,
       pAdvSecSafeBrowsing_RFC = off, pAdvSecCujoTelemetryWiFiFP_RFC = off,
       pAdvSecCujoTracer_RFC = off, pAdvSecCujoTelemetry_RFC = off, pAdvSecSATE_RFC = off,
       pAdvSecTCPTrackerFilterDevices_RFC = off, pAdvSecDoHBlocking_RFC = off,
       pAdvSecDNSECHBlocking_RFC = off, pRaptr_RFC = off,
       pRabid = \<lparr>uMemoryLimit = 0, uMacCacheSize = 0, uDNSCacheSize = 0\<rparr>,
       iStatus = 0, iState = 0 \<rparr>)"

section \<open>State\<close>

record 'w advst =
  agent :: COSA_DATAMODEL_AGENT
  rbus_handle_open :: bool           \<comment> \<open>\<open>rbus_handle != NULL\<close>\<close>
  prevBridgeMode :: string
  prevWanIfname :: string
  logReady :: bool
  AdvsecSysEventHandlerStarted :: bool
  world :: 'w

type_synonym ('w, 'a) adv = "('w advst, 'a) state"

definition demo_state :: "COSA_DATAMODEL_AGENT \<Rightarrow> demo_world advst" where
  "demo_state a = \<lparr> agent = a, rbus_handle_open = True, prevBridgeMode = [],
     prevWanIfname = ''erouter0'', logReady = False,
     AdvsecSysEventHandlerStarted = False, world = demo_world0 \<rparr>"

text \<open>Calling a routine of the environment, and writing a field of the agent.\<close>

definition call :: "('w \<Rightarrow> 'r \<times> 'w) \<Rightarrow> ('w, 'r) adv" where
  "call f = State (\<lambda>s. case f (world s) of (r, w') \<Rightarrow> (r, s\<lparr>world := w'\<rparr>))"

definition upd_agent :: "(COSA_DATAMODEL_AGENT \<Rightarrow> COSA_DATAMODEL_AGENT) \<Rightarrow> ('w, unit) adv" where
  "upd_agent f = modify (\<lambda>s. s\<lparr>agent := f (agent s)\<rparr>)"

definition set_flag :: "BOOL \<Rightarrow> COSA_DATAMODEL_FLAG \<Rightarrow> COSA_DATAMODEL_FLAG" where
  "set_flag v f = f\<lparr>flag_bEnable := v\<rparr>"

lemma flag_set_flag [simp]: "flag_bEnable (set_flag v f) = v"
  by (simp add: set_flag_def)

lemma set_flag_set_flag [simp]: "set_flag v (set_flag u f) = set_flag v f"
  by (simp add: set_flag_def)

lemma set_flag_same [simp]: "flag_bEnable f = v \<Longrightarrow> set_flag v f = f"
  by (auto simp: set_flag_def)

lemma run_state_call [simp]:
  "run_state (call f) s = (fst (f (world s)), s\<lparr>world := snd (f (world s))\<rparr>)"
  by (simp add: call_def case_prod_beta)

lemma run_state_upd_agent [simp]:
  "run_state (upd_agent f) s = ((), s\<lparr>agent := f (agent s)\<rparr>)"
  by (simp add: upd_agent_def)

lemma preserves_call [preserves_rules]: "preserves (\<lambda>s. P (agent s)) (call f)"
  by (simp add: preserves_def)

lemma preserves_upd_agent:
  "(\<And>a. P a \<Longrightarrow> P (f a)) \<Longrightarrow> preserves (\<lambda>s. P (agent s)) (upd_agent f)"
  by (simp add: preserves_def)

text \<open>\<open>quiet m\<close>: the call \<open>m\<close> leaves the agent object as it was.\<close>

definition quiet :: "('w, 'a) adv \<Rightarrow> bool" where
  "quiet m \<longleftrightarrow> (\<forall>s. agent (snd (run_state m s)) = agent s)"

named_theorems quiet_rules

lemma quietD: "quiet m \<Longrightarrow> agent (snd (run_state m s)) = agent s"
  by (simp add: quiet_def)

lemma quiet_run: "quiet m \<Longrightarrow> run_state m s = (r, s') \<Longrightarrow> agent s' = agent s"
  by (metis quietD snd_conv)

lemma quiet_respects: "quiet m = steps_in (\<lambda>s t. agent t = agent s) m"
  by (simp add: quiet_def steps_in_def)

lemmas quiet_structure [quiet_rules] = steps_in_structure [OF step_order_eq [of "\<lambda>s :: 'w advst. agent s"], folded quiet_respects]

lemma quiet_call [quiet_rules]: "quiet (call f)"
  by (simp add: quiet_def)

lemma quiet_preserves: "quiet m \<Longrightarrow> preserves (\<lambda>s. P (agent s)) m"
  by (simp add: quiet_def preserves_def)

text \<open>\<open>keeps_cfg\<close>: a call that leaves the stored settings as they were.\<close>

definition keeps_cfg :: "('w \<Rightarrow> string \<Rightarrow> string option) \<Rightarrow> ('w, 'a) adv \<Rightarrow> bool" where
  "keeps_cfg cfg m \<longleftrightarrow> (\<forall>s. cfg (world (snd (run_state m s))) = cfg (world s))"

lemma keeps_cfgD: "keeps_cfg cfg m \<Longrightarrow> cfg (world (snd (run_state m s))) = cfg (world s)"
  by (simp add: keeps_cfg_def)

end
