(* ===== verification/Adv_Syscfg.thy ===== *)
theory Adv_Syscfg
  imports Adv_Agent
begin

text \<open>
  The helpers of \<open>cosa_adv_security_internal.c\<close> through which every operation reaches the
  outside: settings in syscfg (numbers and strings), small files, and the Wi-Fi agent over
  rbus. The lemmas give the round trip of a number through syscfg, the frame of each helper
  (none of them writes the agent object), and the retry bound of the Wi-Fi precheck.
\<close>

section \<open>syscfg\<close>

text \<open>The out parameter \<open>*value\<close> keeps its old contents when \<open>syscfg_get\<close> fails.\<close>

definition CosaGetSysCfgUlong :: "'w env \<Rightarrow> string \<Rightarrow> ULONG \<Rightarrow> ('w, ANSC_STATUS \<times> ULONG) adv" where
  "CosaGetSysCfgUlong E setting value = do {
     (ret, buf) \<leftarrow> call (x_syscfg_get E setting 32);
     if ret = ANSC_STATUS_SUCCESS
     then (case strtoul buf of (v, err, none) \<Rightarrow> return (ret, if err \<or> none then 0 else v))
     else return (ret, value)
   }"

definition CosaSetSysCfgUlong :: "'w env \<Rightarrow> string \<Rightarrow> ULONG \<Rightarrow> ('w, ANSC_STATUS) adv" where
  "CosaSetSysCfgUlong E setting value =
     (case x_sprintf_s_lu E 32 value of (rc, buf) \<Rightarrow>
        if rc < EOK then return ANSC_STATUS_FAILURE
        else do {
          ret \<leftarrow> call (x_syscfg_set E setting buf);
          if ret \<noteq> ANSC_STATUS_SUCCESS then return ret
          else call (x_syscfg_commit E)
        })"

text \<open>Status, contents written to \<open>pValue\<close> (None when untouched), and \<open>*pulSize\<close> afterwards.\<close>

definition CosaGetSysCfgString ::
    "'w env \<Rightarrow> string \<Rightarrow> ULONG \<Rightarrow> ('w, ANSC_STATUS \<times> string option \<times> ULONG) adv" where
  "CosaGetSysCfgString E setting pulSize = do {
     (r, buf) \<leftarrow> call (x_syscfg_get E setting 1024);
     if r = ANSC_STATUS_SUCCESS
     then (case x_strcpy_s E (unat pulSize) buf of (rc, pValue) \<Rightarrow>
             if rc \<noteq> EOK then return (ANSC_STATUS_FAILURE, Some pValue, pulSize)
             else return (ANSC_STATUS_SUCCESS, Some pValue, of_nat (length pValue)))
     else return (ANSC_STATUS_FAILURE, None, pulSize)
   }"

definition CosaSetSysCfgString :: "'w env \<Rightarrow> string \<Rightarrow> string \<Rightarrow> ('w, ANSC_STATUS) adv" where
  "CosaSetSysCfgString E setting pValue = do {
     r \<leftarrow> call (x_syscfg_set E setting pValue);
     if r \<noteq> 0 then return ANSC_STATUS_FAILURE
     else do {
       c \<leftarrow> call (x_syscfg_commit E);
       if c \<noteq> 0 then return ANSC_STATUS_FAILURE
       else return ANSC_STATUS_SUCCESS
     }
   }"

text \<open>The names of the settings.\<close>

abbreviation "g_DeviceFingerPrintEnabled \<equiv> ''Advsecurity_DeviceFingerPrint''"
abbreviation "g_AdvSecuritySBEnabled \<equiv> ''Advsecurity_SafeBrowsing''"
abbreviation "g_AdvSecuritySFEnabled \<equiv> ''Advsecurity_Softflowd''"
abbreviation "g_DeviceFingerPrintLogginPeriod \<equiv> ''Advsecurity_LoggingPeriod''"
abbreviation "g_DeviceFingerPrintLogLevel \<equiv> ''Advsecurity_LogLevel''"
abbreviation "g_AdvSecCustomEndpointURL \<equiv> ''Advsecurity_CustomEndpointURL''"
abbreviation "g_AdvSecDefaultEndpointURL \<equiv> ''Advsecurity_DefaultEndpointURL''"
abbreviation "g_AdvSecurityLookupTimeout \<equiv> ''Advsecurity_LookupTimeout''"
abbreviation "g_AdvParentalControl \<equiv> ''Adv_PCActivate''"
abbreviation "g_PrivacyProtection \<equiv> ''Adv_PPActivate''"
abbreviation "g_RabidMemoryLimit \<equiv> ''Advsecurity_RabidMemoryLimit''"
abbreviation "g_RabidMacCacheSize \<equiv> ''Advsecurity_RabidMacCacheSize''"
abbreviation "g_RabidDNSCacheSize \<equiv> ''Advsecurity_RabidDNSCacheSize''"
abbreviation "g_PrivacyProtectionEnabled \<equiv> ''Adv_PrivProtRFCEnable''"
abbreviation "g_AdvParentalControlEnabled \<equiv> ''Adv_PCRFCEnable''"
abbreviation "g_DeviceFingerPrintICMPv6Enabled \<equiv> ''Adv_DFICMPv6RFCEnable''"
abbreviation "g_WSDiscoveryAnalysisEnabled \<equiv> ''Adv_WSDisAnaRFCEnable''"
abbreviation "g_AdvSecOTMEnabled \<equiv> ''Adv_AdvSecOTMRFCEnable''"
abbreviation "g_AdvSecUserSpaceEnabled \<equiv> ''Adv_AdvSecUserSpaceRFCEnable''"
abbreviation "g_RaptrEnabled \<equiv> ''Adv_RaptrRFCEnable''"
abbreviation "g_AdvSecNetworkIntelligenceEnabled \<equiv> ''Adv_AdvSecNetworkIntelligenceRFCEnable''"
abbreviation "g_NetworkIntelligenceMemoryLimit \<equiv> ''Advsecurity_NetworkIntelligenceMemoryLimit''"
abbreviation "g_AdvWifiDataCollection \<equiv> ''Adv_WifiDataCollectionRFCEnable''"
abbreviation "g_LevlEnabled \<equiv> ''Adv_LevlRFCEnable''"
abbreviation "g_AdvSecAgentEnabled \<equiv> ''Adv_AdvSecAgentRFCEnable''"
abbreviation "g_AdvSecSafeBrowsingEnabled \<equiv> ''Adv_AdvSecSafeBrowsingRFCEnable''"
abbreviation "g_AdvSecCujoTelemetryWiFiFPEnabled \<equiv> ''Adv_AdvSecCujoTelemetryWiFiFPRFCEnable''"
abbreviation "g_AdvSecCujoTracerEnabled \<equiv> ''Adv_AdvSecCujoTracerRFCEnable''"
abbreviation "g_AdvSecCujoTelemetryEnabled \<equiv> ''Adv_AdvSecCujoTelemetryRFCEnable''"
abbreviation "g_AdvSecSATEEnabled \<equiv> ''Adv_SATERFCEnable''"
abbreviation "g_AdvSecTCPTrackerFilterDevicesEnabled \<equiv> ''Adv_TCPTrackerFilterDevicesRFCEnable''"
abbreviation "g_AdvSecDoHBlockingEnabled \<equiv> ''Adv_DoHBlockingRFCEnable''"
abbreviation "g_AdvSecDNSECHBlockingEnabled \<equiv> ''Adv_DNSECHBlockingRFCEnable''"

section \<open>Commands and files\<close>

definition TEMP_DOWNLOAD_LOCATION :: "'w env \<Rightarrow> string" where
  "TEMP_DOWNLOAD_LOCATION E = (if DOWNLOADMODULE_ENABLE E then ''/tmp/cujo_dnld'' else '''')"

text \<open>\<open>v_secure_system(TEMP_DOWNLOAD_LOCATION"/usr/ccsp/advsec/start_adv_security.sh <args>")\<close>.\<close>

definition start_adv_security :: "'w env \<Rightarrow> string \<Rightarrow> ('w, int) adv" where
  "start_adv_security E args =
     call (x_system E (TEMP_DOWNLOAD_LOCATION E @ ''/usr/ccsp/advsec/start_adv_security.sh '' @ args))"

definition advsec_write_to_file :: "'w env \<Rightarrow> string option \<Rightarrow> string option \<Rightarrow> ('w, bool) adv" where
  "advsec_write_to_file E fpath str = (case (fpath, str) of
      (Some f, Some c) \<Rightarrow> call (x_fwrite_all E f c)
    | _ \<Rightarrow> return False)"

text \<open>The bytes left in \<open>str\<close> when the file could be opened.\<close>

definition advsec_read_from_file :: "'w env \<Rightarrow> string option \<Rightarrow> int \<Rightarrow> ('w, string option) adv" where
  "advsec_read_from_file E fpath sz = (case fpath of
      None \<Rightarrow> return None
    | Some f \<Rightarrow> if sz \<le> 1 then return None
        else do {
          c \<leftarrow> call (x_fread_all E f);
          return (map_option (take (nat (sz - 1))) c)
        })"

definition file_exists :: "'w env \<Rightarrow> string \<Rightarrow> ('w, bool) adv" where
  "file_exists E f = do { c \<leftarrow> call (x_fread_all E f); return (c \<noteq> None) }"

definition Is_Device_Finger_Print_Enabled :: "('w, BOOL) adv" where
  "Is_Device_Finger_Print_Enabled = gets (\<lambda>s. bEnable (agent s))"

definition Is_Device_Finger_Print_Enabled_Completed :: "'w env \<Rightarrow> ('w, bool) adv" where
  "Is_Device_Finger_Print_Enabled_Completed E = file_exists E ''/tmp/advsec_initialized''"

definition Is_Agent_Initialization_Completed :: "'w env \<Rightarrow> ('w, bool) adv" where
  "Is_Agent_Initialization_Completed E = file_exists E ''/tmp/advsec_initialized''"

section \<open>The Wi-Fi agent\<close>

abbreviation RBUS_ERROR_SUCCESS :: int where "RBUS_ERROR_SUCCESS \<equiv> 0"

abbreviation "LEVL_DML \<equiv> ''Device.WiFi.Levl''"

text \<open>Status and the contents of the zeroed return buffer of \<open>retValSize\<close> bytes.\<close>

definition Wifi_GetParameterValue :: "'w env \<Rightarrow> string \<Rightarrow> nat \<Rightarrow> ('w, ANSC_STATUS \<times> string) adv" where
  "Wifi_GetParameterValue E pParamName retValSize = do {
     opened \<leftarrow> gets rbus_handle_open;
     if \<not> opened then return (ANSC_STATUS_FAILURE, [])
     else do {
       reply \<leftarrow> call (x_rbus_get E pParamName);
       return (case reply of
           RBUS_ERROR e \<Rightarrow> (ANSC_STATUS_FAILURE, [])
         | RBUS_VALUE (RBUS_BOOLEAN b) \<Rightarrow>
             (ANSC_STATUS_SUCCESS, take (retValSize - 1) (if b then ''true'' else ''false''))
         | RBUS_VALUE (RBUS_OTHER None) \<Rightarrow> (ANSC_STATUS_SUCCESS, [])
         | RBUS_VALUE (RBUS_OTHER (Some t)) \<Rightarrow> (ANSC_STATUS_SUCCESS, take (retValSize - 1) t))
     }
   }"

definition Wifi_Get_Status :: "'w env \<Rightarrow> string \<Rightarrow> ('w, BOOL) adv" where
  "Wifi_Get_Status E pParamName = do {
     (ret, Value) \<leftarrow> Wifi_GetParameterValue E pParamName 128;
     return (if ret = ANSC_STATUS_SUCCESS \<and> Value \<noteq> [] \<and> strcmp_s_matches E ''true'' Value
             then TRUE else FALSE)
   }"

definition Wifi_SetParameterValue :: "'w env \<Rightarrow> string \<Rightarrow> bool \<Rightarrow> ('w, ANSC_STATUS) adv" where
  "Wifi_SetParameterValue E paramName bValue = do {
     opened \<leftarrow> gets rbus_handle_open;
     if \<not> opened then return ANSC_STATUS_FAILURE
     else do {
       ret \<leftarrow> call (x_rbus_set E paramName bValue);
       return (if ret \<noteq> RBUS_ERROR_SUCCESS then ANSC_STATUS_FAILURE else ANSC_STATUS_SUCCESS)
     }
   }"

text \<open>The retry loop of the precheck; \<open>returnStatus\<close> is carried from one round to the next.\<close>

fun wifidcl_precheck_loop :: "'w env \<Rightarrow> nat \<Rightarrow> nat \<Rightarrow> int \<Rightarrow> ('w, int) adv" where
  "wifidcl_precheck_loop E retry_delay 0 returnStatus = return returnStatus"
| "wifidcl_precheck_loop E retry_delay (Suc n) returnStatus = do {
     (r, s) \<leftarrow> call (x_rbus_getStr E (WIFI_WEBCONFIG_INIT_DATA_NAMESPACE E));
     if r \<noteq> RBUS_ERROR_SUCCESS
     then do { _ \<leftarrow> call (x_sleep E retry_delay); wifidcl_precheck_loop E retry_delay n r }
     else if length s = 0
     then do { _ \<leftarrow> call (x_sleep E retry_delay); wifidcl_precheck_loop E retry_delay n (- 1) }
     else return r
   }"

definition wifidcl_init_precheck :: "'w env \<Rightarrow> ('w, int) adv" where
  "wifidcl_init_precheck E = do {
     opened \<leftarrow> gets rbus_handle_open;
     if \<not> opened then return (- 1)
     else do {
       up \<leftarrow> call (x_sysinfo_uptime E);
       case up of None \<Rightarrow> return (- 1)
       | Some uptime_seconds \<Rightarrow>
           if uptime_seconds > 600 then wifidcl_precheck_loop E 0 1 (- 1)
           else wifidcl_precheck_loop E 15 5 (- 1)
     }
   }"

section \<open>Frame: none of the helpers writes the agent\<close>

lemma quiet_GetSysCfgUlong [quiet_rules]: "quiet (CosaGetSysCfgUlong E k v)"
  unfolding CosaGetSysCfgUlong_def by (intro quiet_rules)

lemma quiet_SetSysCfgUlong [quiet_rules]: "quiet (CosaSetSysCfgUlong E k v)"
  unfolding CosaSetSysCfgUlong_def by (intro quiet_rules)

lemma quiet_GetSysCfgString [quiet_rules]: "quiet (CosaGetSysCfgString E k n)"
  unfolding CosaGetSysCfgString_def by (intro quiet_rules)

lemma quiet_SetSysCfgString [quiet_rules]: "quiet (CosaSetSysCfgString E k v)"
  unfolding CosaSetSysCfgString_def by (intro quiet_rules)

lemma quiet_start_adv_security [quiet_rules]: "quiet (start_adv_security E a)"
  unfolding start_adv_security_def by (intro quiet_rules)

lemma quiet_write_to_file [quiet_rules]: "quiet (advsec_write_to_file E f c)"
  unfolding advsec_write_to_file_def by (intro quiet_rules)

lemma quiet_read_from_file [quiet_rules]: "quiet (advsec_read_from_file E f n)"
  unfolding advsec_read_from_file_def by (intro quiet_rules)

lemma quiet_file_exists [quiet_rules]: "quiet (file_exists E f)"
  unfolding file_exists_def by (intro quiet_rules)

lemma quiet_enabled [quiet_rules]:
  "quiet Is_Device_Finger_Print_Enabled"
  "quiet (Is_Device_Finger_Print_Enabled_Completed E)"
  "quiet (Is_Agent_Initialization_Completed E)"
  unfolding Is_Device_Finger_Print_Enabled_def Is_Device_Finger_Print_Enabled_Completed_def
    Is_Agent_Initialization_Completed_def by (intro quiet_rules)+

lemma quiet_Wifi_Get [quiet_rules]: "quiet (Wifi_GetParameterValue E p n)"
  unfolding Wifi_GetParameterValue_def by (intro quiet_rules)

lemma quiet_Wifi_Get_Status [quiet_rules]: "quiet (Wifi_Get_Status E p)"
  unfolding Wifi_Get_Status_def by (intro quiet_rules)

lemma quiet_Wifi_Set [quiet_rules]: "quiet (Wifi_SetParameterValue E p b)"
  unfolding Wifi_SetParameterValue_def by (intro quiet_rules)

lemma quiet_precheck_loop [quiet_rules]: "quiet (wifidcl_precheck_loop E d n r)"
  by (induction n arbitrary: r) (auto intro!: quiet_rules)

lemma quiet_precheck [quiet_rules]: "quiet (wifidcl_init_precheck E)"
  unfolding wifidcl_init_precheck_def by (intro quiet_rules)

section \<open>A number survives syscfg\<close>

lemma SetSysCfgUlong_fits:
  "sprintf_s_law E \<Longrightarrow> x_sprintf_s_lu E 32 v = (int (length (nat_digits (unat v))), nat_digits (unat v))"
  using nat_digits_ulong_length [of v] unfolding sprintf_s_law_def by simp

lemma SetSysCfgUlong_stores:
  assumes "syscfg_law E cfg" "sprintf_s_law E"
    and "run_state (CosaSetSysCfgUlong E k v) s = (ANSC_STATUS_SUCCESS, s')"
  shows "cfg (world s') = (cfg (world s))(k \<mapsto> nat_digits (unat v))"
proof -
  obtain r1 w1 where set1: "x_syscfg_set E k (nat_digits (unat v)) (world s) = (r1, w1)"
    by fastforce
  obtain r2 w2 where com: "x_syscfg_commit E w1 = (r2, w2)" by fastforce
  have r1: "r1 = 0"
    using assms(3) set1 by (auto simp: CosaSetSysCfgUlong_def SetSysCfgUlong_fits [OF assms(2)] split: if_splits)
  then have "world s' = w2"
    using assms(3) set1 com
    by (auto simp: CosaSetSysCfgUlong_def SetSysCfgUlong_fits [OF assms(2)])
  then show ?thesis
    using syscfg_set_cfg [OF assms(1) set1] syscfg_commit_cfg [OF assms(1) com] r1 by simp
qed

lemma GetSysCfgUlong_reads:
  assumes "syscfg_law E cfg" "cfg (world s) k = Some (nat_digits (unat v))"
  shows "fst (run_state (CosaGetSysCfgUlong E k old) s) = (ANSC_STATUS_SUCCESS, v)"
proof -
  have "length (nat_digits (unat v)) < 32"
    using nat_digits_ulong_length [of v] by simp
  then have "fst (x_syscfg_get E k 32 (world s)) = (0, nat_digits (unat v))"
    using syscfg_get_Some [OF assms] by blast
  moreover have "unat v < 2 ^ 64" using unsigned_less [of v] by simp
  ultimately show ?thesis
    using strtoul_nat_digits [of "unat v"]
    by (simp add: CosaGetSysCfgUlong_def)
qed

end
