(* ===== verification/Adv_Toggle.thy ===== *)
theory Adv_Toggle
  imports Adv_Syscfg
begin

text \<open>
  The contracts between the feature switches of \<open>cosa_adv_security_internal.c\<close> and the
  data-model handlers of \<open>cosa_adv_security_dml.c\<close>. \<open>setting_switch\<close> is what one \<open>Init\<close> or
  \<open>DeInit\<close> routine promises (the flag follows the status it returns, a success is stored in
  syscfg), \<open>rfc_toggle\<close> pairs two of them over one flag, and \<open>rfc_object\<close> adds the pair of
  get and set handlers. The client lemmas are proved once, inside the locales; the features
  and the handlers are interpreted in the theories that define them.
\<close>

section \<open>The body the switches share\<close>

definition switch_body :: "'w env \<Rightarrow> string \<Rightarrow> ULONG \<Rightarrow> (COSA_DATAMODEL_AGENT \<Rightarrow> COSA_DATAMODEL_AGENT) \<Rightarrow>
    string \<Rightarrow> ('w, ANSC_STATUS) adv" where
  "switch_body E key v f args = do {
     returnStatus \<leftarrow> CosaSetSysCfgUlong E key v;
     if returnStatus \<noteq> ANSC_STATUS_SUCCESS then return returnStatus
     else do {
       _ \<leftarrow> upd_agent f;
       _ \<leftarrow> start_adv_security E args;
       return returnStatus
     }
   }"

lemma start_adv_security_cfg:
  assumes "syscfg_law E cfg"
  shows "cfg (world (snd (run_state (start_adv_security E a) s))) = cfg (world s)"
  using system_cfg [OF assms] by (simp add: start_adv_security_def) (metis prod.collapse)

lemma SetSysCfgUlong_cfg:
  assumes "syscfg_law E cfg" "sprintf_s_law E" "fst (run_state (CosaSetSysCfgUlong E k v) s) = 0"
  shows "cfg (world (snd (run_state (CosaSetSysCfgUlong E k v) s)))
       = (cfg (world s))(k \<mapsto> nat_digits (unat v))"
  by (rule SetSysCfgUlong_stores [OF assms(1,2)]) (simp add: prod_eq_iff assms(3))

lemma SetSysCfgUlong_agent [simp]:
  "agent (snd (run_state (CosaSetSysCfgUlong E k v) s)) = agent s"
  by (rule quietD) (rule quiet_rules)

lemma start_adv_security_agent [simp]:
  "agent (snd (run_state (start_adv_security E a) s)) = agent s"
  by (rule quietD) (rule quiet_rules)

lemma switch_body_agent:
  "agent (snd (run_state (switch_body E key v f args) s)) =
     (if fst (run_state (switch_body E key v f args) s) = 0 then f (agent s) else agent s)"
  by (simp add: switch_body_def case_prod_beta)

lemma switch_body_cfg:
  assumes "syscfg_law E cfg" "sprintf_s_law E"
    and "fst (run_state (switch_body E key v f args) s) = 0"
  shows "cfg (world (snd (run_state (switch_body E key v f args) s)))
       = (cfg (world s))(key \<mapsto> nat_digits (unat v))"
  using assms(3) SetSysCfgUlong_cfg [OF assms(1,2)]
  by (auto simp: switch_body_def case_prod_beta start_adv_security_cfg [OF assms(1)] split: if_splits)

section \<open>One direction of a switch\<close>

locale setting_switch =
  fixes op :: "'w env \<Rightarrow> ('w, ANSC_STATUS) adv"
    and eff :: "COSA_DATAMODEL_AGENT \<Rightarrow> COSA_DATAMODEL_AGENT"
    and key :: string
    and v :: ULONG
  assumes op_agent: "agent (snd (run_state (op E) s)) =
      (if fst (run_state (op E) s) = 0 then eff (agent s) else agent s)"
    and op_cfg: "syscfg_law E cfg \<Longrightarrow> sprintf_s_law E \<Longrightarrow> fst (run_state (op E) s) = 0 \<Longrightarrow>
      cfg (world (snd (run_state (op E) s))) = (cfg (world s))(key \<mapsto> nat_digits (unat v))"
begin

lemma op_ok: "run_state (op E) s = (0, s') \<Longrightarrow> agent s' = eff (agent s)"
  using op_agent [of E s] by simp

lemma op_failed: "run_state (op E) s = (r, s') \<Longrightarrow> r \<noteq> 0 \<Longrightarrow> agent s' = agent s"
  using op_agent [of E s] by simp

text \<open>After a success, reading the setting back gives the value written.\<close>

lemma op_reads_back:
  assumes "syscfg_law E cfg" "sprintf_s_law E" "run_state (op E) s = (0, s')"
  shows "fst (run_state (CosaGetSysCfgUlong E key old) s') = (ANSC_STATUS_SUCCESS, v)"
  using op_cfg [OF assms(1,2), of s] assms(3)
  by (intro GetSysCfgUlong_reads [OF assms(1)]) simp

end

lemma switch_body_setting_switch:
  "(\<And>E. op E = switch_body E key v eff args) \<Longrightarrow> setting_switch op eff key v"
  by unfold_locales (simp_all only: switch_body_agent switch_body_cfg)

section \<open>A flag with its two switches\<close>

locale rfc_toggle =
  on: setting_switch init "upd TRUE" key 1 + off: setting_switch deinit "upd FALSE" key 0
  for init deinit :: "'w env \<Rightarrow> ('w, ANSC_STATUS) adv"
    and upd :: "BOOL \<Rightarrow> COSA_DATAMODEL_AGENT \<Rightarrow> COSA_DATAMODEL_AGENT"
    and key :: string +
  fixes flag :: "COSA_DATAMODEL_AGENT \<Rightarrow> BOOL"
  assumes flag_upd: "flag (upd b a) = b"
    and upd_upd: "upd b (upd c a) = upd b a"
    and upd_flag: "upd (flag a) a = a"
begin

definition toggle :: "'w env \<Rightarrow> BOOL \<Rightarrow> ('w, ANSC_STATUS) adv" where
  "toggle E b = (if b \<noteq> 0 then init E else deinit E)"

lemma toggle_agent:
  "agent (snd (run_state (toggle E b) s)) =
     (if fst (run_state (toggle E b) s) = 0 then upd (norm_bool b) (agent s) else agent s)"
  using on.op_agent off.op_agent by (simp add: toggle_def norm_bool_def)

lemma toggle_cfg:
  assumes "syscfg_law E cfg" "sprintf_s_law E" "fst (run_state (toggle E b) s) = 0"
  shows "cfg (world (snd (run_state (toggle E b) s))) =
     (cfg (world s))(key \<mapsto> nat_digits (if b \<noteq> 0 then 1 else 0))"
  using on.op_cfg [OF assms(1,2)] off.op_cfg [OF assms(1,2)] assms(3)
  by (auto simp: toggle_def split: if_splits)

end

section \<open>A data-model object over a switch\<close>

text \<open>\<open>avail\<close> is the build guard of the object, \<open>permit\<close> the run-time guard that may refuse a
  change.\<close>

locale rfc_object = rfc_toggle init deinit upd key flag
  for init deinit :: "'w env \<Rightarrow> ('w, ANSC_STATUS) adv"
    and upd :: "BOOL \<Rightarrow> COSA_DATAMODEL_AGENT \<Rightarrow> COSA_DATAMODEL_AGENT"
    and key :: string
    and flag :: "COSA_DATAMODEL_AGENT \<Rightarrow> BOOL" +
  fixes get :: "'w env \<Rightarrow> string \<Rightarrow> 'w advst \<Rightarrow> BOOL option"
    and set :: "'w env \<Rightarrow> string \<Rightarrow> BOOL \<Rightarrow> ('w, BOOL) adv"
    and avail :: "'w env \<Rightarrow> bool"
    and permit :: "COSA_DATAMODEL_AGENT \<Rightarrow> BOOL \<Rightarrow> bool"
  assumes get_law: "get E n s =
      (if avail E \<and> AnscEqualString E n ''Enable'' TRUE then Some (flag (agent s)) else None)"
    and set_law: "run_state (set E n b) s =
      (if \<not> (avail E \<and> AnscEqualString E n ''Enable'' TRUE) then (FALSE, s)
       else if b = flag (agent s) then (TRUE, s)
       else if \<not> permit (agent s) b then (FALSE, s)
       else (if fst (run_state (if b \<noteq> 0 then init E else deinit E) s) = 0 then TRUE else FALSE,
             snd (run_state (if b \<noteq> 0 then init E else deinit E) s)))"
begin

lemma set_run:
  "run_state (set E n b) s =
      (if \<not> (avail E \<and> AnscEqualString E n ''Enable'' TRUE) then (FALSE, s)
       else if b = flag (agent s) then (TRUE, s)
       else if \<not> permit (agent s) b then (FALSE, s)
       else (if fst (run_state (toggle E b) s) = 0 then TRUE else FALSE, snd (run_state (toggle E b) s)))"
  unfolding toggle_def by (rule set_law)

lemma set_answers: "fst (run_state (set E n b) s) \<in> {TRUE, FALSE}"
  by (simp add: set_run)

lemma set_refused: "run_state (set E n b) s = (FALSE, s') \<Longrightarrow> agent s' = agent s"
  using toggle_agent [of E b s] by (auto simp: set_run split: if_splits)

text \<open>The agent a set handler leaves behind, in one equation.\<close>

lemma set_effect: "agent (snd (run_state (set E n b) s)) =
    (if fst (run_state (set E n b) s) = TRUE \<and> b \<noteq> flag (agent s)
     then upd (norm_bool b) (agent s) else agent s)"
proof (cases "avail E \<and> AnscEqualString E n ''Enable'' TRUE \<and> b \<noteq> flag (agent s) \<and> permit (agent s) b")
  case True
  then have "run_state (set E n b) s =
      (if fst (run_state (toggle E b) s) = 0 then TRUE else FALSE, snd (run_state (toggle E b) s))"
    unfolding set_run by simp
  then show ?thesis using True by (simp add: toggle_agent)
next
  case False
  then have "snd (run_state (set E n b) s) = s \<and>
      (fst (run_state (set E n b) s) = TRUE \<longrightarrow> b = flag (agent s))"
    unfolding set_run by auto
  then show ?thesis by auto
qed

lemma set_accepted:
  assumes "run_state (set E n b) s = (TRUE, s')"
  shows "agent s' = agent s \<and> flag (agent s) = b \<or> agent s' = upd (norm_bool b) (agent s)"
  using assms toggle_agent [of E b s] by (auto simp: set_run split: if_splits)

text \<open>Whatever it answers, a set handler touches its own flag only.\<close>

lemma set_frame: "agent (snd (run_state (set E n b) s)) =
    upd (flag (agent (snd (run_state (set E n b) s)))) (agent s)"
  using toggle_agent [of E b s] by (auto simp: set_run upd_flag flag_upd)

lemma set_flag_bool:
  assumes "run_state (set E n b) s = (TRUE, s')"
  shows "flag (agent s') \<noteq> 0 \<longleftrightarrow> b \<noteq> 0"
  using set_accepted [OF assms] by (auto simp: flag_upd norm_bool_def split: if_splits)

lemma set_then_get:
  assumes "run_state (set E n b) s = (TRUE, s')"
  shows "\<exists>w. get E n s' = Some w \<and> (w \<noteq> 0 \<longleftrightarrow> b \<noteq> 0)"
  using set_flag_bool [OF assms] assms by (auto simp: get_law set_run split: if_splits)

lemma set_again:
  assumes "b \<in> {TRUE, FALSE}" "run_state (set E n b) s = (TRUE, s')"
  shows "run_state (set E n b) s' = (TRUE, s')"
proof -
  have "flag (agent s') = b"
    using set_accepted [OF assms(2)] assms(1) by (auto simp: flag_upd norm_bool_def)
  moreover have "avail E \<and> AnscEqualString E n ''Enable'' TRUE"
    using assms(2) by (auto simp: set_run split: if_splits)
  ultimately show ?thesis by (simp add: set_run)
qed

lemma set_persists:
  assumes "syscfg_law E cfg" "sprintf_s_law E" "run_state (set E n b) s = (TRUE, s')"
    and "flag (agent s) \<noteq> b"
  shows "cfg (world s') = (cfg (world s))(key \<mapsto> nat_digits (if b \<noteq> 0 then 1 else 0))"
proof -
  have "fst (run_state (toggle E b) s) = 0" "s' = snd (run_state (toggle E b) s)"
    using assms(3,4) by (auto simp: set_run split: if_splits)
  then show ?thesis using toggle_cfg [OF assms(1,2)] by simp
qed

lemma set_preserves:
  assumes "\<And>a. I a \<Longrightarrow> I (upd TRUE a)" "\<And>a. I a \<Longrightarrow> I (upd FALSE a)"
  shows "preserves (\<lambda>s. I (agent s)) (set E n b)"
proof (rule preservesI, goal_cases)
  case (1 s)
  then show ?case
    using assms toggle_agent [of E b s] by (auto simp: set_run norm_bool_def)
qed

end

end
