(* ===== verification/Adv_Features.thy ===== *)
theory Adv_Features
  imports Adv_Toggle
begin

text \<open>
  The feature switches of \<open>cosa_adv_security_internal.c\<close>: start and stop of parental control
  and privacy protection, and the \<open>Init\<close> and \<open>DeInit\<close> routine of every remote feature control
  (RFC). Each routine writes its setting to syscfg, returns early when that fails, sets its
  flag, and launches the start script, whose exit status is only logged. The interpretations
  show that every pair meets the contract \<open>rfc_toggle\<close>.
\<close>

section \<open>Parental control and privacy protection\<close>

definition CosaStartAdvParentalControl :: "'w env \<Rightarrow> BOOL \<Rightarrow> ('w, ANSC_STATUS) adv" where
  "CosaStartAdvParentalControl E update_status = do {
     completed \<leftarrow> Is_Agent_Initialization_Completed E;
     if \<not> completed then return ANSC_STATUS_FAILURE
     else if update_status \<noteq> 0
     then do {
       returnStatus \<leftarrow> CosaSetSysCfgUlong E g_AdvParentalControl 1;
       if returnStatus \<noteq> ANSC_STATUS_SUCCESS then return returnStatus
       else do {
         _ \<leftarrow> upd_agent (pAdvPC_update (set_flag TRUE));
         _ \<leftarrow> start_adv_security E ''-startAdvPC &'';
         return returnStatus
       }
     }
     else do {
       _ \<leftarrow> start_adv_security E ''-startAdvPC &'';
       return ANSC_STATUS_SUCCESS
     }
   }"

definition CosaStopAdvParentalControl :: "'w env \<Rightarrow> BOOL \<Rightarrow> ('w, ANSC_STATUS) adv" where
  "CosaStopAdvParentalControl E update_status = do {
     completed \<leftarrow> Is_Agent_Initialization_Completed E;
     if \<not> completed then return ANSC_STATUS_FAILURE
     else if update_status \<noteq> 0
     then do {
       returnStatus \<leftarrow> CosaSetSysCfgUlong E g_AdvParentalControl 0;
       if returnStatus \<noteq> ANSC_STATUS_SUCCESS then return returnStatus
       else do {
         _ \<leftarrow> upd_agent (pAdvPC_update (set_flag FALSE));
         _ \<leftarrow> start_adv_security E ''-stopAdvPC &'';
         return returnStatus
       }
     }
     else do {
       _ \<leftarrow> start_adv_security E ''-stopAdvPC &'';
       return ANSC_STATUS_SUCCESS
     }
   }"

definition CosaStartPrivacyProtection :: "'w env \<Rightarrow> BOOL \<Rightarrow> ('w, ANSC_STATUS) adv" where
  "CosaStartPrivacyProtection E update_status = do {
     completed \<leftarrow> Is_Agent_Initialization_Completed E;
     if \<not> completed then return ANSC_STATUS_FAILURE
     else if update_status \<noteq> 0
     then do {
       returnStatus \<leftarrow> CosaSetSysCfgUlong E g_PrivacyProtection 1;
       if returnStatus \<noteq> ANSC_STATUS_SUCCESS then return returnStatus
       else do {
         _ \<leftarrow> upd_agent (pPrivProt_update (set_flag TRUE));
         _ \<leftarrow> start_adv_security E ''-startPrivProt &'';
         return returnStatus
       }
     }
     else do {
       _ \<leftarrow> start_adv_security E ''-startPrivProt &'';
       return ANSC_STATUS_SUCCESS
     }
   }"

definition CosaStopPrivacyProtection :: "'w env \<Rightarrow> BOOL \<Rightarrow> ('w, ANSC_STATUS) adv" where
  "CosaStopPrivacyProtection E update_status = do {
     completed \<leftarrow> Is_Agent_Initialization_Completed E;
     if \<not> completed then return ANSC_STATUS_FAILURE
     else if update_status \<noteq> 0
     then do {
       returnStatus \<leftarrow> CosaSetSysCfgUlong E g_PrivacyProtection 0;
       if returnStatus \<noteq> ANSC_STATUS_SUCCESS then return returnStatus
       else do {
         _ \<leftarrow> upd_agent (pPrivProt_update (set_flag FALSE));
         _ \<leftarrow> start_adv_security E ''-stopPrivProt &'';
         return returnStatus
       }
     }
     else do {
       _ \<leftarrow> start_adv_security E ''-stopPrivProt &'';
       return ANSC_STATUS_SUCCESS
     }
   }"

definition CosaAdvPCInit :: "'w env \<Rightarrow> ('w, ANSC_STATUS) adv" where
  "CosaAdvPCInit E = do {
     rc \<leftarrow> CosaSetSysCfgUlong E g_AdvParentalControlEnabled 1;
     if rc \<noteq> 0 then return ANSC_STATUS_FAILURE
     else do {
       _ \<leftarrow> upd_agent (pAdvPC_RFC_update (set_flag TRUE));
       active \<leftarrow> gets (\<lambda>s. flag_bEnable (pAdvPC (agent s)));
       if active \<noteq> 0
       then do { _ \<leftarrow> CosaStartAdvParentalControl E FALSE; return ANSC_STATUS_SUCCESS }
       else return ANSC_STATUS_SUCCESS
     }
   }"

definition CosaAdvPCDeInit :: "'w env \<Rightarrow> ('w, ANSC_STATUS) adv" where
  "CosaAdvPCDeInit E = do {
     rc \<leftarrow> CosaSetSysCfgUlong E g_AdvParentalControlEnabled 0;
     if rc \<noteq> 0 then return ANSC_STATUS_FAILURE
     else do {
       _ \<leftarrow> upd_agent (pAdvPC_RFC_update (set_flag FALSE));
       active \<leftarrow> gets (\<lambda>s. flag_bEnable (pAdvPC (agent s)));
       if active \<noteq> 0
       then do { _ \<leftarrow> CosaStopAdvParentalControl E FALSE; return ANSC_STATUS_SUCCESS }
       else return ANSC_STATUS_SUCCESS
     }
   }"

definition CosaPrivacyProtectionInit :: "'w env \<Rightarrow> ('w, ANSC_STATUS) adv" where
  "CosaPrivacyProtectionInit E = do {
     rc \<leftarrow> CosaSetSysCfgUlong E g_PrivacyProtectionEnabled 1;
     if rc \<noteq> 0 then return ANSC_STATUS_FAILURE
     else do {
       _ \<leftarrow> upd_agent (pPrivProt_RFC_update (set_flag TRUE));
       active \<leftarrow> gets (\<lambda>s. flag_bEnable (pPrivProt (agent s)));
       if active \<noteq> 0
       then do { _ \<leftarrow> CosaStartPrivacyProtection E FALSE; return ANSC_STATUS_SUCCESS }
       else return ANSC_STATUS_SUCCESS
     }
   }"

definition CosaPrivacyProtectionDeInit :: "'w env \<Rightarrow> ('w, ANSC_STATUS) adv" where
  "CosaPrivacyProtectionDeInit E = do {
     rc \<leftarrow> CosaSetSysCfgUlong E g_PrivacyProtectionEnabled 0;
     if rc \<noteq> 0 then return ANSC_STATUS_FAILURE
     else do {
       _ \<leftarrow> upd_agent (pPrivProt_RFC_update (set_flag FALSE));
       active \<leftarrow> gets (\<lambda>s. flag_bEnable (pPrivProt (agent s)));
       if active \<noteq> 0
       then do { _ \<leftarrow> CosaStopPrivacyProtection E FALSE; return ANSC_STATUS_SUCCESS }
       else return ANSC_STATUS_SUCCESS
     }
   }"

section \<open>The RFC switches\<close>

definition CosaAdvDFIcmpv6Init :: "'w env \<Rightarrow> ('w, ANSC_STATUS) adv" where
  "CosaAdvDFIcmpv6Init E = do {
     returnStatus \<leftarrow> CosaSetSysCfgUlong E g_DeviceFingerPrintICMPv6Enabled 1;
     if returnStatus \<noteq> ANSC_STATUS_SUCCESS then return returnStatus
     else do {
       _ \<leftarrow> upd_agent (pDFIcmpv6_RFC_update (set_flag TRUE));
       _ \<leftarrow> start_adv_security E ''-enableICMP6 &'';
       return returnStatus
     }
   }"

definition CosaAdvDFIcmpv6DeInit :: "'w env \<Rightarrow> ('w, ANSC_STATUS) adv" where
  "CosaAdvDFIcmpv6DeInit E = do {
     returnStatus \<leftarrow> CosaSetSysCfgUlong E g_DeviceFingerPrintICMPv6Enabled 0;
     if returnStatus \<noteq> ANSC_STATUS_SUCCESS then return returnStatus
     else do {
       _ \<leftarrow> upd_agent (pDFIcmpv6_RFC_update (set_flag FALSE));
       _ \<leftarrow> start_adv_security E ''-disableICMP6 &'';
       return returnStatus
     }
   }"

definition CosaWSDisInit :: "'w env \<Rightarrow> ('w, ANSC_STATUS) adv" where
  "CosaWSDisInit E = do {
     returnStatus \<leftarrow> CosaSetSysCfgUlong E g_WSDiscoveryAnalysisEnabled 1;
     if returnStatus \<noteq> ANSC_STATUS_SUCCESS then return returnStatus
     else do {
       _ \<leftarrow> upd_agent (pWSDiscoveryAnalysis_RFC_update (set_flag TRUE));
       _ \<leftarrow> start_adv_security E ''-enableWSDiscovery &'';
       return returnStatus
     }
   }"

definition CosaWSDisDeInit :: "'w env \<Rightarrow> ('w, ANSC_STATUS) adv" where
  "CosaWSDisDeInit E = do {
     returnStatus \<leftarrow> CosaSetSysCfgUlong E g_WSDiscoveryAnalysisEnabled 0;
     if returnStatus \<noteq> ANSC_STATUS_SUCCESS then return returnStatus
     else do {
       _ \<leftarrow> upd_agent (pWSDiscoveryAnalysis_RFC_update (set_flag FALSE));
       _ \<leftarrow> start_adv_security E ''-disableWSDiscovery &'';
       return returnStatus
     }
   }"

definition CosaAdvSecOTMInit :: "'w env \<Rightarrow> ('w, ANSC_STATUS) adv" where
  "CosaAdvSecOTMInit E = do {
     returnStatus \<leftarrow> CosaSetSysCfgUlong E g_AdvSecOTMEnabled 1;
     if returnStatus \<noteq> ANSC_STATUS_SUCCESS then return returnStatus
     else do {
       _ \<leftarrow> upd_agent (pAdvSecOTM_RFC_update (set_flag TRUE));
       _ \<leftarrow> start_adv_security E ''-enableOTM &'';
       return returnStatus
     }
   }"

definition CosaAdvSecOTMDeInit :: "'w env \<Rightarrow> ('w, ANSC_STATUS) adv" where
  "CosaAdvSecOTMDeInit E = do {
     returnStatus \<leftarrow> CosaSetSysCfgUlong E g_AdvSecOTMEnabled 0;
     if returnStatus \<noteq> ANSC_STATUS_SUCCESS then return returnStatus
     else do {
       _ \<leftarrow> upd_agent (pAdvSecOTM_RFC_update (set_flag FALSE));
       _ \<leftarrow> start_adv_security E ''-disableOTM &'';
       return returnStatus
     }
   }"

definition CosaAdvSecAgentInit :: "'w env \<Rightarrow> ('w, ANSC_STATUS) adv" where
  "CosaAdvSecAgentInit E = do {
     returnStatus \<leftarrow> CosaSetSysCfgUlong E g_AdvSecAgentEnabled 1;
     if returnStatus \<noteq> ANSC_STATUS_SUCCESS then return returnStatus
     else do {
       _ \<leftarrow> upd_agent (pAdvSecAgent_RFC_update (set_flag TRUE));
       _ \<leftarrow> start_adv_security E ''-enableAGT &'';
       return returnStatus
     }
   }"

definition CosaAdvSecAgentDeInit :: "'w env \<Rightarrow> ('w, ANSC_STATUS) adv" where
  "CosaAdvSecAgentDeInit E = do {
     returnStatus \<leftarrow> CosaSetSysCfgUlong E g_AdvSecAgentEnabled 0;
     if returnStatus \<noteq> ANSC_STATUS_SUCCESS then return returnStatus
     else do {
       _ \<leftarrow> upd_agent (pAdvSecAgent_RFC_update (set_flag FALSE));
       _ \<leftarrow> start_adv_security E ''-disableAGT &'';
       return returnStatus
     }
   }"

definition CosaAdvSecSafeBrowsingInit :: "'w env \<Rightarrow> ('w, ANSC_STATUS) adv" where
  "CosaAdvSecSafeBrowsingInit E = do {
     returnStatus \<leftarrow> CosaSetSysCfgUlong E g_AdvSecSafeBrowsingEnabled 1;
     if returnStatus \<noteq> ANSC_STATUS_SUCCESS then return returnStatus
     else do {
       _ \<leftarrow> upd_agent (pAdvSecSafeBrowsing_RFC_update (set_flag TRUE));
       _ \<leftarrow> start_adv_security E ''-enableSBRule &'';
       return returnStatus
     }
   }"

definition CosaAdvSecSafeBrowsingDeInit :: "'w env \<Rightarrow> ('w, ANSC_STATUS) adv" where
  "CosaAdvSecSafeBrowsingDeInit E = do {
     returnStatus \<leftarrow> CosaSetSysCfgUlong E g_AdvSecSafeBrowsingEnabled 0;
     if returnStatus \<noteq> ANSC_STATUS_SUCCESS then return returnStatus
     else do {
       _ \<leftarrow> upd_agent (pAdvSecSafeBrowsing_RFC_update (set_flag FALSE));
       _ \<leftarrow> start_adv_security E ''-disableSBRule &'';
       return returnStatus
     }
   }"

definition CosaAdvSecCujoTelemetryWiFiFPInit :: "'w env \<Rightarrow> ('w, ANSC_STATUS) adv" where
  "CosaAdvSecCujoTelemetryWiFiFPInit E = do {
     returnStatus \<leftarrow> CosaSetSysCfgUlong E g_AdvSecCujoTelemetryWiFiFPEnabled 1;
     if returnStatus \<noteq> ANSC_STATUS_SUCCESS then return returnStatus
     else do {
       _ \<leftarrow> upd_agent (pAdvSecCujoTelemetryWiFiFP_RFC_update (set_flag TRUE));
       _ \<leftarrow> start_adv_security E ''-enableCTW &'';
       return returnStatus
     }
   }"

definition CosaAdvSecCujoTelemetryWiFiFPDeInit :: "'w env \<Rightarrow> ('w, ANSC_STATUS) adv" where
  "CosaAdvSecCujoTelemetryWiFiFPDeInit E = do {
     returnStatus \<leftarrow> CosaSetSysCfgUlong E g_AdvSecCujoTelemetryWiFiFPEnabled 0;
     if returnStatus \<noteq> ANSC_STATUS_SUCCESS then return returnStatus
     else do {
       _ \<leftarrow> upd_agent (pAdvSecCujoTelemetryWiFiFP_RFC_update (set_flag FALSE));
       _ \<leftarrow> start_adv_security E ''-disableCTW &'';
       return returnStatus
     }
   }"

definition CosaAdvSecCujoTracerInit :: "'w env \<Rightarrow> ('w, ANSC_STATUS) adv" where
  "CosaAdvSecCujoTracerInit E = do {
     returnStatus \<leftarrow> CosaSetSysCfgUlong E g_AdvSecCujoTracerEnabled 1;
     if returnStatus \<noteq> ANSC_STATUS_SUCCESS then return returnStatus
     else do {
       _ \<leftarrow> upd_agent (pAdvSecCujoTracer_RFC_update (set_flag TRUE));
       _ \<leftarrow> start_adv_security E ''-enableCT &'';
       return returnStatus
     }
   }"

definition CosaAdvSecCujoTracerDeInit :: "'w env \<Rightarrow> ('w, ANSC_STATUS) adv" where
  "CosaAdvSecCujoTracerDeInit E = do {
     returnStatus \<leftarrow> CosaSetSysCfgUlong E g_AdvSecCujoTracerEnabled 0;
     if returnStatus \<noteq> ANSC_STATUS_SUCCESS then return returnStatus
     else do {
       _ \<leftarrow> upd_agent (pAdvSecCujoTracer_RFC_update (set_flag FALSE));
       _ \<leftarrow> start_adv_security E ''-disableCT &'';
       return returnStatus
     }
   }"

definition CosaAdvSecCujoTelemetryInit :: "'w env \<Rightarrow> ('w, ANSC_STATUS) adv" where
  "CosaAdvSecCujoTelemetryInit E = do {
     returnStatus \<leftarrow> CosaSetSysCfgUlong E g_AdvSecCujoTelemetryEnabled 1;
     if returnStatus \<noteq> ANSC_STATUS_SUCCESS then return returnStatus
     else do {
       _ \<leftarrow> upd_agent (pAdvSecCujoTelemetry_RFC_update (set_flag TRUE));
       _ \<leftarrow> start_adv_security E ''-enableCTD &'';
       return returnStatus
     }
   }"

definition CosaAdvSecCujoTelemetryDeInit :: "'w env \<Rightarrow> ('w, ANSC_STATUS) adv" where
  "CosaAdvSecCujoTelemetryDeInit E = do {
     returnStatus \<leftarrow> CosaSetSysCfgUlong E g_AdvSecCujoTelemetryEnabled 0;
     if returnStatus \<noteq> ANSC_STATUS_SUCCESS then return returnStatus
     else do {
       _ \<leftarrow> upd_agent (pAdvSecCujoTelemetry_RFC_update (set_flag FALSE));
       _ \<leftarrow> start_adv_security E ''-disableCTD &'';
       return returnStatus
     }
   }"

definition CosaAdvSecSATEInit :: "'w env \<Rightarrow> ('w, ANSC_STATUS) adv" where
  "CosaAdvSecSATEInit E = do {
     returnStatus \<leftarrow> CosaSetSysCfgUlong E g_AdvSecSATEEnabled 1;
     if returnStatus \<noteq> ANSC_STATUS_SUCCESS then return returnStatus
     else do {
       _ \<leftarrow> upd_agent (pAdvSecSATE_RFC_update (set_flag TRUE));
       _ \<leftarrow> start_adv_security E ''-enableSATE &'';
       return returnStatus
     }
   }"

definition CosaAdvSecSATEDeInit :: "'w env \<Rightarrow> ('w, ANSC_STATUS) adv" where
  "CosaAdvSecSATEDeInit E = do {
     returnStatus \<leftarrow> CosaSetSysCfgUlong E g_AdvSecSATEEnabled 0;
     if returnStatus \<noteq> ANSC_STATUS_SUCCESS then return returnStatus
     else do {
       _ \<leftarrow> upd_agent (pAdvSecSATE_RFC_update (set_flag FALSE));
       _ \<leftarrow> start_adv_security E ''-disableSATE &'';
       return returnStatus
     }
   }"

definition CosaAdvSecTCPTrackerFilterDevicesInit :: "'w env \<Rightarrow> ('w, ANSC_STATUS) adv" where
  "CosaAdvSecTCPTrackerFilterDevicesInit E = do {
     returnStatus \<leftarrow> CosaSetSysCfgUlong E g_AdvSecTCPTrackerFilterDevicesEnabled 1;
     if returnStatus \<noteq> ANSC_STATUS_SUCCESS then return returnStatus
     else do {
       _ \<leftarrow> upd_agent (pAdvSecTCPTrackerFilterDevices_RFC_update (set_flag TRUE));
       _ \<leftarrow> start_adv_security E ''-enableTCPTrackerFilterDevices &'';
       return returnStatus
     }
   }"

definition CosaAdvSecTCPTrackerFilterDevicesDeInit :: "'w env \<Rightarrow> ('w, ANSC_STATUS) adv" where
  "CosaAdvSecTCPTrackerFilterDevicesDeInit E = do {
     returnStatus \<leftarrow> CosaSetSysCfgUlong E g_AdvSecTCPTrackerFilterDevicesEnabled 0;
     if returnStatus \<noteq> ANSC_STATUS_SUCCESS then return returnStatus
     else do {
       _ \<leftarrow> upd_agent (pAdvSecTCPTrackerFilterDevices_RFC_update (set_flag FALSE));
       _ \<leftarrow> start_adv_security E ''-disableTCPTrackerFilterDevices &'';
       return returnStatus
     }
   }"

definition CosaAdvSecDoHBlockingInit :: "'w env \<Rightarrow> ('w, ANSC_STATUS) adv" where
  "CosaAdvSecDoHBlockingInit E = do {
     returnStatus \<leftarrow> CosaSetSysCfgUlong E g_AdvSecDoHBlockingEnabled 1;
     if returnStatus \<noteq> ANSC_STATUS_SUCCESS then return returnStatus
     else do {
       _ \<leftarrow> upd_agent (pAdvSecDoHBlocking_RFC_update (set_flag TRUE));
       _ \<leftarrow> start_adv_security E ''-enableDoHBlocking &'';
       return returnStatus
     }
   }"

definition CosaAdvSecDoHBlockingDeInit :: "'w env \<Rightarrow> ('w, ANSC_STATUS) adv" where
  "CosaAdvSecDoHBlockingDeInit E = do {
     returnStatus \<leftarrow> CosaSetSysCfgUlong E g_AdvSecDoHBlockingEnabled 0;
     if returnStatus \<noteq> ANSC_STATUS_SUCCESS then return returnStatus
     else do {
       _ \<leftarrow> upd_agent (pAdvSecDoHBlocking_RFC_update (set_flag FALSE));
       _ \<leftarrow> start_adv_security E ''-disableDoHBlocking &'';
       return returnStatus
     }
   }"

definition CosaAdvSecDNSECHBlockingInit :: "'w env \<Rightarrow> ('w, ANSC_STATUS) adv" where
  "CosaAdvSecDNSECHBlockingInit E = do {
     returnStatus \<leftarrow> CosaSetSysCfgUlong E g_AdvSecDNSECHBlockingEnabled 1;
     if returnStatus \<noteq> ANSC_STATUS_SUCCESS then return returnStatus
     else do {
       _ \<leftarrow> upd_agent (pAdvSecDNSECHBlocking_RFC_update (set_flag TRUE));
       _ \<leftarrow> start_adv_security E ''-enableDNSECHBlocking &'';
       return returnStatus
     }
   }"

definition CosaAdvSecDNSECHBlockingDeInit :: "'w env \<Rightarrow> ('w, ANSC_STATUS) adv" where
  "CosaAdvSecDNSECHBlockingDeInit E = do {
     returnStatus \<leftarrow> CosaSetSysCfgUlong E g_AdvSecDNSECHBlockingEnabled 0;
     if returnStatus \<noteq> ANSC_STATUS_SUCCESS then return returnStatus
     else do {
       _ \<leftarrow> upd_agent (pAdvSecDNSECHBlocking_RFC_update (set_flag FALSE));
       _ \<leftarrow> start_adv_security E ''-disableDNSECHBlocking &'';
       return returnStatus
     }
   }"

definition CosaAdvSecAgentRaptrInit :: "'w env \<Rightarrow> ('w, ANSC_STATUS) adv" where
  "CosaAdvSecAgentRaptrInit E = do {
     returnStatus \<leftarrow> CosaSetSysCfgUlong E g_RaptrEnabled 1;
     if returnStatus \<noteq> ANSC_STATUS_SUCCESS then return returnStatus
     else do {
       _ \<leftarrow> upd_agent (pRaptr_RFC_update (set_flag TRUE));
       _ \<leftarrow> start_adv_security E ''-enableRaptr &'';
       return returnStatus
     }
   }"

definition CosaAdvSecAgentRaptrDeInit :: "'w env \<Rightarrow> ('w, ANSC_STATUS) adv" where
  "CosaAdvSecAgentRaptrDeInit E = do {
     returnStatus \<leftarrow> CosaSetSysCfgUlong E g_RaptrEnabled 0;
     if returnStatus \<noteq> ANSC_STATUS_SUCCESS then return returnStatus
     else do {
       _ \<leftarrow> upd_agent (pRaptr_RFC_update (set_flag FALSE));
       _ \<leftarrow> start_adv_security E ''-disableRaptr &'';
       return returnStatus
     }
   }"

definition CosaAdvSecUserSpaceInit :: "'w env \<Rightarrow> ('w, ANSC_STATUS) adv" where
  "CosaAdvSecUserSpaceInit E = do {
     returnStatus \<leftarrow> CosaSetSysCfgUlong E g_AdvSecUserSpaceEnabled 1;
     if returnStatus \<noteq> ANSC_STATUS_SUCCESS then return returnStatus
     else do {
       _ \<leftarrow> upd_agent (pAdvSecUserSpace_RFC_update (set_flag TRUE));
       _ \<leftarrow> start_adv_security E ''-enableUS &'';
       return returnStatus
     }
   }"

section \<open>The switches meet their contract\<close>

text \<open>Launching or stopping with \<open>update_status = FALSE\<close> writes neither agent nor settings.\<close>

lemma file_exists_cfg:
  "syscfg_law E cfg \<Longrightarrow> cfg (world (snd (run_state (file_exists E f) s))) = cfg (world s)"
  by (simp add: file_exists_def) (metis fread_cfg prod.collapse)

lemma completed_cfg:
  "syscfg_law E cfg \<Longrightarrow>
   cfg (world (snd (run_state (Is_Agent_Initialization_Completed E) s))) = cfg (world s)"
  by (simp add: Is_Agent_Initialization_Completed_def file_exists_cfg)

lemma completed_agent [simp]:
  "agent (snd (run_state (Is_Agent_Initialization_Completed E) s)) = agent s"
  by (rule quietD) (rule quiet_rules)

lemmas start_stop_defs = CosaStartAdvParentalControl_def CosaStopAdvParentalControl_def
  CosaStartPrivacyProtection_def CosaStopPrivacyProtection_def

lemma start_stop_silent:
  "quiet (CosaStartAdvParentalControl E FALSE)" "quiet (CosaStopAdvParentalControl E FALSE)"
  "quiet (CosaStartPrivacyProtection E FALSE)" "quiet (CosaStopPrivacyProtection E FALSE)"
  by (simp_all add: start_stop_defs) (intro quiet_rules)+

lemma start_stop_cfg:
  assumes "syscfg_law E cfg"
  shows "cfg (world (snd (run_state (CosaStartAdvParentalControl E FALSE) s))) = cfg (world s)"
    "cfg (world (snd (run_state (CosaStopAdvParentalControl E FALSE) s))) = cfg (world s)"
    "cfg (world (snd (run_state (CosaStartPrivacyProtection E FALSE) s))) = cfg (world s)"
    "cfg (world (snd (run_state (CosaStopPrivacyProtection E FALSE) s))) = cfg (world s)"
  by (simp_all add: start_stop_defs case_prod_beta start_adv_security_cfg [OF assms]
      completed_cfg [OF assms])

text \<open>The shape of the four routines that also start or stop the running service.\<close>

lemma service_switch:
  assumes def: "\<And>E. op E = do {
      rc \<leftarrow> CosaSetSysCfgUlong E key v;
      if rc \<noteq> 0 then return ANSC_STATUS_FAILURE
      else do {
        _ \<leftarrow> upd_agent eff;
        active \<leftarrow> gets (\<lambda>s. flag_bEnable (fld (agent s)));
        if active \<noteq> 0 then do { _ \<leftarrow> svc E; return ANSC_STATUS_SUCCESS }
        else return ANSC_STATUS_SUCCESS } }"
    and q: "\<And>E. quiet (svc E :: ('w, ANSC_STATUS) adv)"
    and c: "\<And>E cfg s. syscfg_law E cfg \<Longrightarrow> cfg (world (snd (run_state (svc E) s))) = cfg (world s)"
  shows "setting_switch op eff key v"
proof (unfold_locales, goal_cases)
  case (1 E s)
  show ?case by (simp add: def case_prod_beta quietD [OF q])
next
  case (2 E cfg s)
  then show ?case
    using SetSysCfgUlong_cfg [OF 2(1,2)]
    by (auto simp: def case_prod_beta c [OF 2(1)] split: if_splits)
qed

interpretation dficmpv6_sw: rfc_toggle CosaAdvDFIcmpv6Init CosaAdvDFIcmpv6DeInit
    "\<lambda>b. pDFIcmpv6_RFC_update (set_flag b)" g_DeviceFingerPrintICMPv6Enabled
    "\<lambda>a. flag_bEnable (pDFIcmpv6_RFC a)"
  by (intro rfc_toggle.intro rfc_toggle_axioms.intro switch_body_setting_switch)
    (simp_all add: CosaAdvDFIcmpv6Init_def CosaAdvDFIcmpv6DeInit_def switch_body_def set_flag_def)

interpretation wsdis_sw: rfc_toggle CosaWSDisInit CosaWSDisDeInit
    "\<lambda>b. pWSDiscoveryAnalysis_RFC_update (set_flag b)" g_WSDiscoveryAnalysisEnabled
    "\<lambda>a. flag_bEnable (pWSDiscoveryAnalysis_RFC a)"
  by (intro rfc_toggle.intro rfc_toggle_axioms.intro switch_body_setting_switch)
    (simp_all add: CosaWSDisInit_def CosaWSDisDeInit_def switch_body_def set_flag_def)

interpretation otm_sw: rfc_toggle CosaAdvSecOTMInit CosaAdvSecOTMDeInit
    "\<lambda>b. pAdvSecOTM_RFC_update (set_flag b)" g_AdvSecOTMEnabled
    "\<lambda>a. flag_bEnable (pAdvSecOTM_RFC a)"
  by (intro rfc_toggle.intro rfc_toggle_axioms.intro switch_body_setting_switch)
    (simp_all add: CosaAdvSecOTMInit_def CosaAdvSecOTMDeInit_def switch_body_def set_flag_def)

interpretation agt_sw: rfc_toggle CosaAdvSecAgentInit CosaAdvSecAgentDeInit
    "\<lambda>b. pAdvSecAgent_RFC_update (set_flag b)" g_AdvSecAgentEnabled
    "\<lambda>a. flag_bEnable (pAdvSecAgent_RFC a)"
  by (intro rfc_toggle.intro rfc_toggle_axioms.intro switch_body_setting_switch)
    (simp_all add: CosaAdvSecAgentInit_def CosaAdvSecAgentDeInit_def switch_body_def set_flag_def)

interpretation sbrule_sw: rfc_toggle CosaAdvSecSafeBrowsingInit CosaAdvSecSafeBrowsingDeInit
    "\<lambda>b. pAdvSecSafeBrowsing_RFC_update (set_flag b)" g_AdvSecSafeBrowsingEnabled
    "\<lambda>a. flag_bEnable (pAdvSecSafeBrowsing_RFC a)"
  by (intro rfc_toggle.intro rfc_toggle_axioms.intro switch_body_setting_switch)
    (simp_all add: CosaAdvSecSafeBrowsingInit_def CosaAdvSecSafeBrowsingDeInit_def switch_body_def set_flag_def)

interpretation ctw_sw: rfc_toggle CosaAdvSecCujoTelemetryWiFiFPInit CosaAdvSecCujoTelemetryWiFiFPDeInit
    "\<lambda>b. pAdvSecCujoTelemetryWiFiFP_RFC_update (set_flag b)" g_AdvSecCujoTelemetryWiFiFPEnabled
    "\<lambda>a. flag_bEnable (pAdvSecCujoTelemetryWiFiFP_RFC a)"
  by (intro rfc_toggle.intro rfc_toggle_axioms.intro switch_body_setting_switch)
    (simp_all add: CosaAdvSecCujoTelemetryWiFiFPInit_def CosaAdvSecCujoTelemetryWiFiFPDeInit_def switch_body_def set_flag_def)

interpretation ct_sw: rfc_toggle CosaAdvSecCujoTracerInit CosaAdvSecCujoTracerDeInit
    "\<lambda>b. pAdvSecCujoTracer_RFC_update (set_flag b)" g_AdvSecCujoTracerEnabled
    "\<lambda>a. flag_bEnable (pAdvSecCujoTracer_RFC a)"
  by (intro rfc_toggle.intro rfc_toggle_axioms.intro switch_body_setting_switch)
    (simp_all add: CosaAdvSecCujoTracerInit_def CosaAdvSecCujoTracerDeInit_def switch_body_def set_flag_def)

interpretation ctd_sw: rfc_toggle CosaAdvSecCujoTelemetryInit CosaAdvSecCujoTelemetryDeInit
    "\<lambda>b. pAdvSecCujoTelemetry_RFC_update (set_flag b)" g_AdvSecCujoTelemetryEnabled
    "\<lambda>a. flag_bEnable (pAdvSecCujoTelemetry_RFC a)"
  by (intro rfc_toggle.intro rfc_toggle_axioms.intro switch_body_setting_switch)
    (simp_all add: CosaAdvSecCujoTelemetryInit_def CosaAdvSecCujoTelemetryDeInit_def switch_body_def set_flag_def)

interpretation sate_sw: rfc_toggle CosaAdvSecSATEInit CosaAdvSecSATEDeInit
    "\<lambda>b. pAdvSecSATE_RFC_update (set_flag b)" g_AdvSecSATEEnabled
    "\<lambda>a. flag_bEnable (pAdvSecSATE_RFC a)"
  by (intro rfc_toggle.intro rfc_toggle_axioms.intro switch_body_setting_switch)
    (simp_all add: CosaAdvSecSATEInit_def CosaAdvSecSATEDeInit_def switch_body_def set_flag_def)

interpretation tcpt_sw: rfc_toggle CosaAdvSecTCPTrackerFilterDevicesInit CosaAdvSecTCPTrackerFilterDevicesDeInit
    "\<lambda>b. pAdvSecTCPTrackerFilterDevices_RFC_update (set_flag b)" g_AdvSecTCPTrackerFilterDevicesEnabled
    "\<lambda>a. flag_bEnable (pAdvSecTCPTrackerFilterDevices_RFC a)"
  by (intro rfc_toggle.intro rfc_toggle_axioms.intro switch_body_setting_switch)
    (simp_all add: CosaAdvSecTCPTrackerFilterDevicesInit_def CosaAdvSecTCPTrackerFilterDevicesDeInit_def switch_body_def set_flag_def)

interpretation doh_sw: rfc_toggle CosaAdvSecDoHBlockingInit CosaAdvSecDoHBlockingDeInit
    "\<lambda>b. pAdvSecDoHBlocking_RFC_update (set_flag b)" g_AdvSecDoHBlockingEnabled
    "\<lambda>a. flag_bEnable (pAdvSecDoHBlocking_RFC a)"
  by (intro rfc_toggle.intro rfc_toggle_axioms.intro switch_body_setting_switch)
    (simp_all add: CosaAdvSecDoHBlockingInit_def CosaAdvSecDoHBlockingDeInit_def switch_body_def set_flag_def)

interpretation dnsech_sw: rfc_toggle CosaAdvSecDNSECHBlockingInit CosaAdvSecDNSECHBlockingDeInit
    "\<lambda>b. pAdvSecDNSECHBlocking_RFC_update (set_flag b)" g_AdvSecDNSECHBlockingEnabled
    "\<lambda>a. flag_bEnable (pAdvSecDNSECHBlocking_RFC a)"
  by (intro rfc_toggle.intro rfc_toggle_axioms.intro switch_body_setting_switch)
    (simp_all add: CosaAdvSecDNSECHBlockingInit_def CosaAdvSecDNSECHBlockingDeInit_def switch_body_def set_flag_def)

interpretation raptr_sw: rfc_toggle CosaAdvSecAgentRaptrInit CosaAdvSecAgentRaptrDeInit
    "\<lambda>b. pRaptr_RFC_update (set_flag b)" g_RaptrEnabled
    "\<lambda>a. flag_bEnable (pRaptr_RFC a)"
  by (intro rfc_toggle.intro rfc_toggle_axioms.intro switch_body_setting_switch)
    (simp_all add: CosaAdvSecAgentRaptrInit_def CosaAdvSecAgentRaptrDeInit_def switch_body_def set_flag_def)

interpretation apc_sw: rfc_toggle CosaAdvPCInit CosaAdvPCDeInit
    "\<lambda>b. pAdvPC_RFC_update (set_flag b)" g_AdvParentalControlEnabled
    "\<lambda>a. flag_bEnable (pAdvPC_RFC a)"
  by (intro rfc_toggle.intro rfc_toggle_axioms.intro
      service_switch [OF CosaAdvPCInit_def] service_switch [OF CosaAdvPCDeInit_def])
    (simp_all add: start_stop_silent start_stop_cfg set_flag_def)

interpretation pp_sw: rfc_toggle CosaPrivacyProtectionInit CosaPrivacyProtectionDeInit
    "\<lambda>b. pPrivProt_RFC_update (set_flag b)" g_PrivacyProtectionEnabled
    "\<lambda>a. flag_bEnable (pPrivProt_RFC a)"
  by (intro rfc_toggle.intro rfc_toggle_axioms.intro
      service_switch [OF CosaPrivacyProtectionInit_def] service_switch [OF CosaPrivacyProtectionDeInit_def])
    (simp_all add: start_stop_silent start_stop_cfg set_flag_def)

interpretation us_sw: setting_switch CosaAdvSecUserSpaceInit
    "pAdvSecUserSpace_RFC_update (set_flag TRUE)" g_AdvSecUserSpaceEnabled 1
  by (intro switch_body_setting_switch) (simp_all add: CosaAdvSecUserSpaceInit_def switch_body_def)

end
