(* ===== verification/Adv_Control.thy ===== *)
theory Adv_Control
  imports Adv_Features
begin

text \<open>
  The operations of \<open>cosa_adv_security_internal.c\<close> on the agent as a whole: enabling and
  disabling device fingerprinting, starting and stopping safe browsing and softflowd, network
  intelligence, Wi-Fi data collection, Levl, the web-configuration blob, and the numeric and
  string settings. The lemmas give the agent each operation leaves behind, on success and on
  every failure.
\<close>

section \<open>Network intelligence\<close>

definition set_ni :: "BOOL \<Rightarrow> COSA_DATAMODEL_AGENT \<Rightarrow> COSA_DATAMODEL_AGENT" where
  "set_ni v = pAdvNetworkIntelligence_RFC_update (ni_bEnable_update (\<lambda>_. v))"

definition CosaAdvSecNetworkIntelligenceInit :: "'w env \<Rightarrow> ('w, ANSC_STATUS) adv" where
  "CosaAdvSecNetworkIntelligenceInit E = do {
     us \<leftarrow> gets (\<lambda>s. flag_bEnable (pAdvSecUserSpace_RFC (agent s)));
     if us = TRUE
     then do {
       returnStatus \<leftarrow> CosaSetSysCfgUlong E g_AdvSecNetworkIntelligenceEnabled 1;
       if returnStatus \<noteq> ANSC_STATUS_SUCCESS then return returnStatus
       else do {
         _ \<leftarrow> upd_agent (set_ni TRUE);
         _ \<leftarrow> start_adv_security E ''-enableNI &'';
         return returnStatus
       }
     }
     else return ANSC_STATUS_FAILURE
   }"

definition CosaAdvSecNetworkIntelligenceDeInit :: "'w env \<Rightarrow> ('w, ANSC_STATUS) adv" where
  "CosaAdvSecNetworkIntelligenceDeInit E = do {
     returnStatus \<leftarrow> CosaSetSysCfgUlong E g_AdvSecNetworkIntelligenceEnabled 0;
     if returnStatus \<noteq> ANSC_STATUS_SUCCESS then return returnStatus
     else do {
       _ \<leftarrow> upd_agent (set_ni FALSE);
       _ \<leftarrow> start_adv_security E ''-disableNI &'';
       return returnStatus
     }
   }"

section \<open>Wi-Fi data collection\<close>

definition CosaAdvWifiDataConsumerInit :: "'w env \<Rightarrow> ('w, ANSC_STATUS) adv" where
  "CosaAdvWifiDataConsumerInit E = call (x_dcl_init E)"

definition CosaAdvWifiDataConsumerDeInit :: "'w env \<Rightarrow> ('w, ANSC_STATUS) adv" where
  "CosaAdvWifiDataConsumerDeInit E = call (x_dcl_deinit E)"

text \<open>\<open>v_secure_system("touch " ...)\<close> and \<open>v_secure_system("rm " ...)\<close> on the marker file.\<close>

definition touch_wifidcl :: "'w env \<Rightarrow> ('w, int) adv" where
  "touch_wifidcl E = call (x_system E ''touch /tmp/advsec_wifidcl_init'')"

definition rm_wifidcl :: "'w env \<Rightarrow> ('w, int) adv" where
  "rm_wifidcl E = call (x_system E ''rm /tmp/advsec_wifidcl_init'')"

definition set_wdc :: "BOOL \<Rightarrow> COSA_DATAMODEL_AGENT \<Rightarrow> COSA_DATAMODEL_AGENT" where
  "set_wdc v = pAdvWifiDataCollection_RFC_update (set_flag v)"

text \<open>The guard is a conjunction: a later conjunct is evaluated only when the earlier hold.\<close>

definition CosaAdvWifiDataCollectionInit :: "'w env \<Rightarrow> ('w, ANSC_STATUS) adv" where
  "CosaAdvWifiDataCollectionInit E = do {
     levl \<leftarrow> Wifi_Get_Status E LEVL_DML;
     us \<leftarrow> gets (\<lambda>s. flag_bEnable (pAdvSecUserSpace_RFC (agent s)));
     if levl \<noteq> TRUE \<or> us \<noteq> TRUE then return ANSC_STATUS_FAILURE
     else do {
       pre \<leftarrow> wifidcl_init_precheck E;
       if pre \<noteq> RBUS_ERROR_SUCCESS then return ANSC_STATUS_FAILURE
       else do {
         returnStatus \<leftarrow> CosaAdvWifiDataConsumerInit E;
         if returnStatus \<noteq> ANSC_STATUS_SUCCESS then return returnStatus
         else do {
           _ \<leftarrow> touch_wifidcl E;
           returnStatus \<leftarrow> CosaSetSysCfgUlong E g_AdvWifiDataCollection 1;
           if returnStatus \<noteq> ANSC_STATUS_SUCCESS then return returnStatus
           else do {
             _ \<leftarrow> upd_agent (set_wdc TRUE);
             _ \<leftarrow> start_adv_security E ''-enableWifiDCL &'';
             return returnStatus
           }
         }
       }
     }
   }"

definition CosaAdvWifiDataCollectionDeInit :: "'w env \<Rightarrow> ('w, ANSC_STATUS) adv" where
  "CosaAdvWifiDataCollectionDeInit E = do {
     returnStatus \<leftarrow> CosaAdvWifiDataConsumerDeInit E;
     if returnStatus \<noteq> ANSC_STATUS_SUCCESS then return returnStatus
     else do {
       _ \<leftarrow> rm_wifidcl E;
       returnStatus \<leftarrow> CosaSetSysCfgUlong E g_AdvWifiDataCollection 0;
       if returnStatus \<noteq> ANSC_STATUS_SUCCESS then return returnStatus
       else do {
         _ \<leftarrow> upd_agent (set_wdc FALSE);
         _ \<leftarrow> start_adv_security E ''-disableWifiDCL &'';
         return returnStatus
       }
     }
   }"

text \<open>The rbus event: Levl switched off behind the component's back. \<open>newValue\<close> is None when
  the event carries no value.\<close>

definition wifiEventReceiveHandler :: "'w env \<Rightarrow> string \<Rightarrow> bool option \<Rightarrow> ('w, unit) adv" where
  "wifiEventReceiveHandler E eventName newValue = (case newValue of
      None \<Rightarrow> return ()
    | Some v \<Rightarrow>
        if eventName = LEVL_DML
        then do {
          wdc \<leftarrow> gets (\<lambda>s. flag_bEnable (pAdvWifiDataCollection_RFC (agent s)));
          if wdc \<noteq> 0 \<and> \<not> v
          then do { _ \<leftarrow> CosaAdvWifiDataCollectionDeInit E; return () }
          else return ()
        }
        else return ())"

section \<open>Device fingerprinting\<close>

definition CosaAdvSecInit :: "'w env \<Rightarrow> ('w, ANSC_STATUS) adv" where
  "CosaAdvSecInit E = do {
     _ \<leftarrow> (if WIFI_DATA_COLLECTION E then do {
         wdc \<leftarrow> gets (\<lambda>s. flag_bEnable (pAdvWifiDataCollection_RFC (agent s)));
         ok \<leftarrow> (if wdc \<noteq> 1 then return False
               else do {
                 levl \<leftarrow> Wifi_Get_Status E LEVL_DML;
                 if levl \<noteq> TRUE then return False
                 else do { pre \<leftarrow> wifidcl_init_precheck E; return (pre = RBUS_ERROR_SUCCESS) }
               });
         if ok
         then do {
           returnStatus \<leftarrow> CosaAdvWifiDataConsumerInit E;
           if returnStatus \<noteq> ANSC_STATUS_SUCCESS
           then upd_agent (set_wdc FALSE)
           else do { _ \<leftarrow> touch_wifidcl E; return () }
         }
         else upd_agent (set_wdc FALSE)
       } else return ());
     _ \<leftarrow> start_adv_security E ''-enable &'';
     _ \<leftarrow> upd_agent (bEnable_update (\<lambda>_. TRUE));
     CosaSetSysCfgUlong E g_DeviceFingerPrintEnabled 1
   }"

definition CosaAdvSecDeInit :: "'w env \<Rightarrow> ('w, ANSC_STATUS) adv" where
  "CosaAdvSecDeInit E = do {
     _ \<leftarrow> (if WIFI_DATA_COLLECTION E then do {
         wdc \<leftarrow> gets (\<lambda>s. flag_bEnable (pAdvWifiDataCollection_RFC (agent s)));
         if wdc = 1
         then do {
           returnStatus \<leftarrow> CosaAdvWifiDataConsumerDeInit E;
           if returnStatus \<noteq> ANSC_STATUS_SUCCESS then return ()
           else do { _ \<leftarrow> rm_wifidcl E; return () }
         }
         else return ()
       } else return ());
     _ \<leftarrow> start_adv_security E ''-disable &'';
     _ \<leftarrow> upd_agent (bEnable_update (\<lambda>_. FALSE));
     CosaSetSysCfgUlong E g_DeviceFingerPrintEnabled 0
   }"

section \<open>Safe browsing and softflowd\<close>

text \<open>\<open>ADVSEC_OTHER\<close> stands for an \<open>int\<close> that is none of the three enumerators.\<close>

datatype advsec_feature_type = ADVSEC_SAFEBROWSING | ADVSEC_SOFTFLOWD | ADVSEC_ALL | ADVSEC_OTHER

definition set_sb :: "BOOL \<Rightarrow> COSA_DATAMODEL_AGENT \<Rightarrow> COSA_DATAMODEL_AGENT" where
  "set_sb v = pAdvSec_update (pSafeBrows_update (sb_bEnable_update (\<lambda>_. v)))"

definition set_sf :: "BOOL \<Rightarrow> COSA_DATAMODEL_AGENT \<Rightarrow> COSA_DATAMODEL_AGENT" where
  "set_sf v = pAdvSec_update (pSoftFlowd_update (set_flag v))"

definition set_advsec :: "BOOL \<Rightarrow> COSA_DATAMODEL_AGENT \<Rightarrow> COSA_DATAMODEL_AGENT" where
  "set_advsec v = pAdvSec_update (advsec_bEnable_update (\<lambda>_. v))"

text \<open>Storing the settings a start or stop is about; the status of the first failing write.\<close>

definition store_sb :: "'w env \<Rightarrow> BOOL \<Rightarrow> ('w, ANSC_STATUS) adv" where
  "store_sb E v = do {
     returnStatus \<leftarrow> CosaSetSysCfgUlong E g_AdvSecuritySBEnabled (ucast v);
     if returnStatus \<noteq> ANSC_STATUS_SUCCESS then return returnStatus
     else do { _ \<leftarrow> upd_agent (set_sb v); return returnStatus }
   }"

definition store_sf :: "'w env \<Rightarrow> BOOL \<Rightarrow> ('w, ANSC_STATUS) adv" where
  "store_sf E v = do {
     returnStatus \<leftarrow> CosaSetSysCfgUlong E g_AdvSecuritySFEnabled (ucast v);
     if returnStatus \<noteq> ANSC_STATUS_SUCCESS then return returnStatus
     else do { _ \<leftarrow> upd_agent (set_sf v); return returnStatus }
   }"

definition store_features :: "'w env \<Rightarrow> advsec_feature_type \<Rightarrow> BOOL \<Rightarrow> ('w, ANSC_STATUS) adv" where
  "store_features E type v = (case type of
      ADVSEC_SAFEBROWSING \<Rightarrow> store_sb E v
    | ADVSEC_SOFTFLOWD \<Rightarrow> store_sf E v
    | ADVSEC_ALL \<Rightarrow> do {
        r1 \<leftarrow> store_sb E v;
        if r1 \<noteq> ANSC_STATUS_SUCCESS then return r1
        else do {
          r2 \<leftarrow> store_sf E v;
          if r2 \<noteq> ANSC_STATUS_SUCCESS then return r2
          else do { _ \<leftarrow> upd_agent (set_advsec v); return r2 }
        }
      }
    | ADVSEC_OTHER \<Rightarrow> return ANSC_STATUS_SUCCESS)"

definition CosaAdvSecStartFeatures :: "'w env \<Rightarrow> advsec_feature_type \<Rightarrow> ('w, ANSC_STATUS) adv" where
  "CosaAdvSecStartFeatures E type = do {
     en \<leftarrow> Is_Device_Finger_Print_Enabled;
     incomplete \<leftarrow> (if en \<noteq> 0 then do { c \<leftarrow> Is_Device_Finger_Print_Enabled_Completed E; return (\<not> c) }
                   else return False);
     if incomplete then return ANSC_STATUS_FAILURE
     else do {
       returnStatus \<leftarrow> store_features E type TRUE;
       if returnStatus \<noteq> ANSC_STATUS_SUCCESS then return returnStatus
       else do {
         _ \<leftarrow> upd_agent (bEnable_update (\<lambda>_. TRUE));
         en \<leftarrow> Is_Device_Finger_Print_Enabled;
         case type of
           ADVSEC_SAFEBROWSING \<Rightarrow> do {
             _ \<leftarrow> start_adv_security E (if en \<noteq> 0 then ''-start sb null &'' else ''-enable sb null &'');
             return returnStatus }
         | ADVSEC_SOFTFLOWD \<Rightarrow> do {
             _ \<leftarrow> start_adv_security E (if en \<noteq> 0 then ''-start null sf &'' else ''-enable null sf &'');
             return returnStatus }
         | ADVSEC_ALL \<Rightarrow> do {
             _ \<leftarrow> start_adv_security E (if en \<noteq> 0 then ''-start sb sf &'' else ''-enable sb sf &'');
             return returnStatus }
         | ADVSEC_OTHER \<Rightarrow> return ANSC_STATUS_FAILURE
       }
     }
   }"

definition CosaAdvSecStopFeatures :: "'w env \<Rightarrow> advsec_feature_type \<Rightarrow> ('w, ANSC_STATUS) adv" where
  "CosaAdvSecStopFeatures E type = do {
     returnStatus \<leftarrow> store_features E type FALSE;
     if returnStatus \<noteq> ANSC_STATUS_SUCCESS then return returnStatus
     else do {
       en \<leftarrow> Is_Device_Finger_Print_Enabled;
       case type of
         ADVSEC_SAFEBROWSING \<Rightarrow> do {
           _ \<leftarrow> start_adv_security E (if en \<noteq> 0 then ''-stop sb null &'' else ''-disable &'');
           return returnStatus }
       | ADVSEC_SOFTFLOWD \<Rightarrow> do {
           _ \<leftarrow> start_adv_security E (if en \<noteq> 0 then ''-stop null sf &'' else ''-disable &'');
           return returnStatus }
       | ADVSEC_ALL \<Rightarrow> do {
           _ \<leftarrow> start_adv_security E (if en \<noteq> 0 then ''-stop sb sf &'' else ''-disable &'');
           return returnStatus }
       | ADVSEC_OTHER \<Rightarrow> return returnStatus
     }
   }"

section \<open>The web-configuration blob\<close>

record advsecurityparam =
  fingerprint_enable :: bool
  softflowd_enable :: bool
  safebrowsing_enable :: bool
  parental_control_activate :: bool
  privacy_protection_activate :: bool

datatype blob_status = BLOB_EXEC_SUCCESS | ADVSEC_FAILURE | SYSCFG_FAILURE
  | SUBDOC_NOT_SUPPORTED | NULL_BLOB_EXEC_POINTER

text \<open>\<open>get\<close> reads and \<open>put\<close> writes the flag the pointer \<open>curr_val\<close> points to.\<close>

definition advsec_update_feature_status :: "'w env \<Rightarrow> string \<Rightarrow> BOOL \<Rightarrow>
    (COSA_DATAMODEL_AGENT \<Rightarrow> BOOL) \<Rightarrow> (BOOL \<Rightarrow> COSA_DATAMODEL_AGENT \<Rightarrow> COSA_DATAMODEL_AGENT) \<Rightarrow>
    ('w, ANSC_STATUS) adv" where
  "advsec_update_feature_status E syscfg new_val get put = do {
     curr \<leftarrow> gets (\<lambda>s. get (agent s));
     if new_val \<noteq> curr
     then do {
       returnStatus \<leftarrow> CosaSetSysCfgUlong E syscfg (ucast new_val);
       if returnStatus = ANSC_STATUS_SUCCESS
       then do { _ \<leftarrow> upd_agent (put new_val); return returnStatus }
       else return returnStatus
     }
     else return ANSC_STATUS_SUCCESS
   }"

abbreviation sb_of :: "COSA_DATAMODEL_AGENT \<Rightarrow> BOOL" where
  "sb_of a \<equiv> sb_bEnable (pSafeBrows (pAdvSec a))"
abbreviation sf_of :: "COSA_DATAMODEL_AGENT \<Rightarrow> BOOL" where
  "sf_of a \<equiv> flag_bEnable (pSoftFlowd (pAdvSec a))"
abbreviation apc_of :: "COSA_DATAMODEL_AGENT \<Rightarrow> BOOL" where
  "apc_of a \<equiv> flag_bEnable (pAdvPC a)"
abbreviation pp_of :: "COSA_DATAMODEL_AGENT \<Rightarrow> BOOL" where
  "pp_of a \<equiv> flag_bEnable (pPrivProt a)"
abbreviation us_of :: "COSA_DATAMODEL_AGENT \<Rightarrow> BOOL" where
  "us_of a \<equiv> flag_bEnable (pAdvSecUserSpace_RFC a)"
abbreviation wdc_of :: "COSA_DATAMODEL_AGENT \<Rightarrow> BOOL" where
  "wdc_of a \<equiv> flag_bEnable (pAdvWifiDataCollection_RFC a)"
abbreviation levl_of :: "COSA_DATAMODEL_AGENT \<Rightarrow> BOOL" where
  "levl_of a \<equiv> flag_bEnable (pLevl_RFC a)"
abbreviation ni_of :: "COSA_DATAMODEL_AGENT \<Rightarrow> BOOL" where
  "ni_of a \<equiv> ni_bEnable (pAdvNetworkIntelligence_RFC a)"

definition set_apc :: "BOOL \<Rightarrow> COSA_DATAMODEL_AGENT \<Rightarrow> COSA_DATAMODEL_AGENT" where
  "set_apc v = pAdvPC_update (set_flag v)"

definition set_pp :: "BOOL \<Rightarrow> COSA_DATAMODEL_AGENT \<Rightarrow> COSA_DATAMODEL_AGENT" where
  "set_pp v = pPrivProt_update (set_flag v)"

definition advsec_webconfig_handle_blob :: "'w env \<Rightarrow> advsecurityparam \<Rightarrow> ('w, blob_status) adv" where
  "advsec_webconfig_handle_blob E feature = do {
     en \<leftarrow> gets (\<lambda>s. bEnable (agent s));
     if of_bool8 (fingerprint_enable feature) = en \<and> en = 0 then return ADVSEC_FAILURE
     else do {
       r1 \<leftarrow> advsec_update_feature_status E g_AdvSecuritySBEnabled
              (of_bool8 (safebrowsing_enable feature)) sb_of set_sb;
       if r1 \<noteq> ANSC_STATUS_SUCCESS then return SYSCFG_FAILURE
       else do {
       r2 \<leftarrow> advsec_update_feature_status E g_AdvSecuritySFEnabled
              (of_bool8 (softflowd_enable feature)) sf_of set_sf;
       if r2 \<noteq> ANSC_STATUS_SUCCESS then return SYSCFG_FAILURE
       else do {
       r3 \<leftarrow> advsec_update_feature_status E g_AdvParentalControl
              (of_bool8 (parental_control_activate feature)) apc_of set_apc;
       if r3 \<noteq> ANSC_STATUS_SUCCESS then return SYSCFG_FAILURE
       else do {
       r4 \<leftarrow> advsec_update_feature_status E g_PrivacyProtection
              (of_bool8 (privacy_protection_activate feature)) pp_of set_pp;
       if r4 \<noteq> ANSC_STATUS_SUCCESS then return SYSCFG_FAILURE
       else do {
         en \<leftarrow> gets (\<lambda>s. bEnable (agent s));
         if of_bool8 (fingerprint_enable feature) \<noteq> en
         then do {
           r \<leftarrow> (if fingerprint_enable feature then CosaAdvSecInit E else CosaAdvSecDeInit E);
           if r \<noteq> ANSC_STATUS_SUCCESS then return SYSCFG_FAILURE else return BLOB_EXEC_SUCCESS
         }
         else do {
           _ \<leftarrow> start_adv_security E ''-configure_features &'';
           return BLOB_EXEC_SUCCESS
         }
       }}}}
     }
   }"

end
