(* ===== verification/Adv_Settings.thy ===== *)
theory Adv_Settings
  imports Adv_Control
begin

text \<open>
  Levl (\<open>CosaLevlInit\<close>, \<open>CosaLevlDeInit\<close>), the numeric settings (logging period, log level,
  lookup timeout, Rabid and network-intelligence limits), the endpoint URL, and the two
  read-outs of safe browsing: the lookup-exceeded counter and the fields of its JSON
  configuration.
\<close>

section \<open>Levl\<close>

text \<open>Poll until the Wi-Fi agent reports Levl on; \<open>n\<close> is 10 minus \<open>levl_init_count\<close>.\<close>

fun levl_wait :: "'w env \<Rightarrow> nat \<Rightarrow> ('w, bool) adv" where
  "levl_wait E 0 = return False"
| "levl_wait E (Suc n) = do {
     st \<leftarrow> Wifi_Get_Status E LEVL_DML;
     if st \<noteq> FALSE then return True
     else do {
       _ \<leftarrow> call (x_sleep E 1);
       if n = 0 then return False else levl_wait E n
     }
   }"

definition set_us :: "BOOL \<Rightarrow> COSA_DATAMODEL_AGENT \<Rightarrow> COSA_DATAMODEL_AGENT" where
  "set_us v = pAdvSecUserSpace_RFC_update (set_flag v)"

definition set_levl :: "BOOL \<Rightarrow> COSA_DATAMODEL_AGENT \<Rightarrow> COSA_DATAMODEL_AGENT" where
  "set_levl v = pLevl_RFC_update (set_flag v)"

text \<open>Enable user space if it is off: status and \<open>withUS\<close>.\<close>

definition levl_enable_us :: "'w env \<Rightarrow> ('w, ANSC_STATUS \<times> bool) adv" where
  "levl_enable_us E = do {
     us \<leftarrow> gets (\<lambda>s. us_of (agent s));
     if us = FALSE
     then do {
       returnStatus \<leftarrow> CosaSetSysCfgUlong E g_AdvSecUserSpaceEnabled 1;
       if returnStatus \<noteq> ANSC_STATUS_SUCCESS then return (returnStatus, False)
       else do { _ \<leftarrow> upd_agent (set_us TRUE); return (returnStatus, True) }
     }
     else return (ANSC_STATUS_SUCCESS, False)
   }"

text \<open>Enable Wi-Fi data collection if it is off: status and \<open>wifidcl_inited\<close>.\<close>

definition levl_enable_wdc :: "'w env \<Rightarrow> ('w, ANSC_STATUS \<times> bool) adv" where
  "levl_enable_wdc E = do {
     wdc \<leftarrow> gets (\<lambda>s. wdc_of (agent s));
     if wdc = FALSE
     then do {
       returnStatus \<leftarrow> CosaAdvWifiDataConsumerInit E;
       if returnStatus \<noteq> ANSC_STATUS_SUCCESS then return (returnStatus, False)
       else do {
         _ \<leftarrow> touch_wifidcl E;
         returnStatus \<leftarrow> CosaSetSysCfgUlong E g_AdvWifiDataCollection 1;
         if returnStatus \<noteq> ANSC_STATUS_SUCCESS then return (returnStatus, False)
         else do { _ \<leftarrow> upd_agent (set_wdc TRUE); return (returnStatus, True) }
       }
     }
     else return (ANSC_STATUS_SUCCESS, False)
   }"

definition CosaLevlInit :: "'w env \<Rightarrow> ('w, ANSC_STATUS) adv" where
  "CosaLevlInit E = do {
     ret \<leftarrow> wifidcl_init_precheck E;
     if ret \<noteq> RBUS_ERROR_SUCCESS then return ANSC_STATUS_FAILURE
     else do {
       st \<leftarrow> Wifi_Get_Status E LEVL_DML;
       returnStatus \<leftarrow> (if st = FALSE then do {
           r \<leftarrow> Wifi_SetParameterValue E LEVL_DML True;
           if r \<noteq> ANSC_STATUS_SUCCESS then return r
           else do { _ \<leftarrow> call (x_sleep E 1); return r }
         } else return ANSC_STATUS_SUCCESS);
       if returnStatus \<noteq> ANSC_STATUS_SUCCESS then return returnStatus
       else do {
         on \<leftarrow> levl_wait E 10;
         if \<not> on then return ANSC_STATUS_FAILURE
         else do {
           (r1, withUS) \<leftarrow> levl_enable_us E;
           if r1 \<noteq> ANSC_STATUS_SUCCESS then return r1
           else do {
             (r2, wifidcl_inited) \<leftarrow> levl_enable_wdc E;
             if r2 \<noteq> ANSC_STATUS_SUCCESS then return r2
             else do {
               r3 \<leftarrow> CosaSetSysCfgUlong E g_LevlEnabled 1;
               if r3 \<noteq> ANSC_STATUS_SUCCESS then return r3
               else do {
                 _ \<leftarrow> upd_agent (set_levl TRUE);
                 if withUS
                 then do { _ \<leftarrow> start_adv_security E ''-enableLEVLwithUS &''; return r3 }
                 else if wifidcl_inited
                 then do { _ \<leftarrow> start_adv_security E ''-enableLEVL &''; return r3 }
                 else return r3
               }
             }
           }
         }
       }
     }
   }"

definition CosaLevlDeInit :: "'w env \<Rightarrow> ('w, ANSC_STATUS) adv" where
  "CosaLevlDeInit E = do {
     wdc \<leftarrow> gets (\<lambda>s. wdc_of (agent s));
     r1 \<leftarrow> (if wdc = 1 then CosaAdvWifiDataCollectionDeInit E else return ANSC_STATUS_SUCCESS);
     if r1 \<noteq> ANSC_STATUS_SUCCESS then return r1
     else do {
       st \<leftarrow> Wifi_Get_Status E LEVL_DML;
       r2 \<leftarrow> (if st = TRUE then do {
           r \<leftarrow> Wifi_SetParameterValue E LEVL_DML False;
           if r \<noteq> ANSC_STATUS_SUCCESS then return r
           else do { _ \<leftarrow> call (x_sleep E 1); return r }
         } else return ANSC_STATUS_SUCCESS);
       if r2 \<noteq> ANSC_STATUS_SUCCESS then return r2
       else do {
         r3 \<leftarrow> CosaSetSysCfgUlong E g_LevlEnabled 0;
         if r3 \<noteq> ANSC_STATUS_SUCCESS then return r3
         else do {
           _ \<leftarrow> upd_agent (set_levl FALSE);
           if wdc = 1
           then do { _ \<leftarrow> start_adv_security E ''-disableLEVL &''; return r3 }
           else return r3
         }
       }
     }
   }"

section \<open>Numeric settings\<close>

abbreviation ADVSEC_MIN_LOG_TIMEOUT :: ULONG where "ADVSEC_MIN_LOG_TIMEOUT \<equiv> 60"
abbreviation ADVSEC_MAX_LOG_TIMEOUT :: ULONG where "ADVSEC_MAX_LOG_TIMEOUT \<equiv> 2880"
abbreviation ADVSEC_DEFAULT_LOG_TIMEOUT :: ULONG where "ADVSEC_DEFAULT_LOG_TIMEOUT \<equiv> 1440"
abbreviation ADVSEC_DEFAULT_LOOKUP_TIMEOUT :: ULONG where "ADVSEC_DEFAULT_LOOKUP_TIMEOUT \<equiv> 350"
abbreviation ADVSEC_MAX_LOOKUP_TIMEOUT :: ULONG where "ADVSEC_MAX_LOOKUP_TIMEOUT \<equiv> 6000"
abbreviation ADVSEC_LogLevel_ERROR :: ULONG where "ADVSEC_LogLevel_ERROR \<equiv> 1"
abbreviation ADVSEC_LogLevel_WARN :: ULONG where "ADVSEC_LogLevel_WARN \<equiv> 2"
abbreviation ADVSEC_LogLevel_VERBOSE :: ULONG where "ADVSEC_LogLevel_VERBOSE \<equiv> 4"

definition set_lookup :: "ULONG \<Rightarrow> COSA_DATAMODEL_AGENT \<Rightarrow> COSA_DATAMODEL_AGENT" where
  "set_lookup v = pAdvSec_update (pSafeBrows_update (ulLookupTimeout_update (\<lambda>_. v)))"

abbreviation lookup_of :: "COSA_DATAMODEL_AGENT \<Rightarrow> ULONG" where
  "lookup_of a \<equiv> ulLookupTimeout (pSafeBrows (pAdvSec a))"

definition CosaAdvSecGetLoggingPeriod :: "'w env \<Rightarrow> ('w, ANSC_STATUS) adv" where
  "CosaAdvSecGetLoggingPeriod E = do {
     (returnStatus, val) \<leftarrow> CosaGetSysCfgUlong E g_DeviceFingerPrintLogginPeriod ADVSEC_DEFAULT_LOG_TIMEOUT;
     if returnStatus = ANSC_STATUS_SUCCESS
     then do { _ \<leftarrow> upd_agent (ulLoggingPeriod_update (\<lambda>_. val)); return returnStatus }
     else return returnStatus
   }"

definition CosaAdvSecSetLoggingPeriod :: "'w env \<Rightarrow> ULONG \<Rightarrow> ('w, ANSC_STATUS) adv" where
  "CosaAdvSecSetLoggingPeriod E val = do {
     returnStatus \<leftarrow> CosaSetSysCfgUlong E g_DeviceFingerPrintLogginPeriod val;
     if returnStatus = ANSC_STATUS_SUCCESS
     then do {
       _ \<leftarrow> upd_agent (ulLoggingPeriod_update (\<lambda>_. val));
       _ \<leftarrow> modify (logReady_update (\<lambda>_. True));
       return returnStatus
     }
     else return returnStatus
   }"

definition CosaAdvSecGetLogLevel :: "'w env \<Rightarrow> ('w, ANSC_STATUS) adv" where
  "CosaAdvSecGetLogLevel E = do {
     (returnStatus, val) \<leftarrow> CosaGetSysCfgUlong E g_DeviceFingerPrintLogLevel ADVSEC_LogLevel_WARN;
     _ \<leftarrow> upd_agent (ulLogLevel_update (\<lambda>_. val));
     return returnStatus
   }"

definition CosaAdvSecSetLogLevel :: "'w env \<Rightarrow> ULONG \<Rightarrow> ('w, ANSC_STATUS) adv" where
  "CosaAdvSecSetLogLevel E val = do {
     returnStatus \<leftarrow> CosaSetSysCfgUlong E g_DeviceFingerPrintLogLevel val;
     if returnStatus = ANSC_STATUS_SUCCESS
     then do {
       _ \<leftarrow> upd_agent (ulLogLevel_update (\<lambda>_. val));
       _ \<leftarrow> start_adv_security E (''-agentloglevel '' @ nat_digits (unat val) @ '' &'');
       return returnStatus
     }
     else return returnStatus
   }"

definition CosaAdvSecGetLookupTimeout :: "'w env \<Rightarrow> ('w, ANSC_STATUS) adv" where
  "CosaAdvSecGetLookupTimeout E = do {
     (returnStatus, val) \<leftarrow> CosaGetSysCfgUlong E g_AdvSecurityLookupTimeout ADVSEC_DEFAULT_LOOKUP_TIMEOUT;
     _ \<leftarrow> upd_agent (set_lookup val);
     return returnStatus
   }"

definition CosaAdvSecSetLookupTimeout :: "'w env \<Rightarrow> ULONG \<Rightarrow> ('w, ANSC_STATUS) adv" where
  "CosaAdvSecSetLookupTimeout E val = do {
     returnStatus \<leftarrow> CosaSetSysCfgUlong E g_AdvSecurityLookupTimeout val;
     if returnStatus = ANSC_STATUS_SUCCESS
     then do {
       _ \<leftarrow> upd_agent (set_lookup val);
       sb \<leftarrow> gets (\<lambda>s. sb_of (agent s));
       if sb = TRUE
       then do { _ \<leftarrow> start_adv_security E ''-start sb null &''; return returnStatus }
       else return returnStatus
     }
     else return returnStatus
   }"

definition CosaAdvSecSetCustomURL :: "'w env \<Rightarrow> string \<Rightarrow> ('w, ANSC_STATUS) adv" where
  "CosaAdvSecSetCustomURL E pString = CosaSetSysCfgString E g_AdvSecCustomEndpointURL pString"

definition CosaAdvSecGetCustomURL ::
    "'w env \<Rightarrow> ULONG \<Rightarrow> ('w, ANSC_STATUS \<times> string option \<times> ULONG) adv" where
  "CosaAdvSecGetCustomURL E pUlSize = CosaGetSysCfgString E g_AdvSecCustomEndpointURL pUlSize"

definition CosaRabidSetMemoryLimit :: "'w env \<Rightarrow> ULONG \<Rightarrow> ('w, ANSC_STATUS) adv" where
  "CosaRabidSetMemoryLimit E uValue = do {
     returnStatus \<leftarrow> CosaSetSysCfgUlong E g_RabidMemoryLimit uValue;
     if returnStatus = ANSC_STATUS_SUCCESS
     then do { _ \<leftarrow> upd_agent (pRabid_update (uMemoryLimit_update (\<lambda>_. uValue))); return returnStatus }
     else return returnStatus
   }"

definition CosaRabidSetMacCacheSize :: "'w env \<Rightarrow> ULONG \<Rightarrow> ('w, ANSC_STATUS) adv" where
  "CosaRabidSetMacCacheSize E uValue = do {
     returnStatus \<leftarrow> CosaSetSysCfgUlong E g_RabidMacCacheSize uValue;
     if returnStatus = ANSC_STATUS_SUCCESS
     then do { _ \<leftarrow> upd_agent (pRabid_update (uMacCacheSize_update (\<lambda>_. uValue))); return returnStatus }
     else return returnStatus
   }"

definition CosaRabidSetDNSCacheSize :: "'w env \<Rightarrow> ULONG \<Rightarrow> ('w, ANSC_STATUS) adv" where
  "CosaRabidSetDNSCacheSize E uValue = do {
     returnStatus \<leftarrow> CosaSetSysCfgUlong E g_RabidDNSCacheSize uValue;
     if returnStatus = ANSC_STATUS_SUCCESS
     then do { _ \<leftarrow> upd_agent (pRabid_update (uDNSCacheSize_update (\<lambda>_. uValue))); return returnStatus }
     else return returnStatus
   }"

definition CosaNetworkIntelligenceSetMemoryLimit :: "'w env \<Rightarrow> ULONG \<Rightarrow> ('w, ANSC_STATUS) adv" where
  "CosaNetworkIntelligenceSetMemoryLimit E uValue =
     (if NETWORK_INTELLIGENCE E then do {
        returnStatus \<leftarrow> CosaSetSysCfgUlong E g_NetworkIntelligenceMemoryLimit uValue;
        if returnStatus = ANSC_STATUS_SUCCESS
        then do {
          _ \<leftarrow> upd_agent (pAdvNetworkIntelligence_RFC_update (ni_uMemoryLimit_update (\<lambda>_. uValue)));
          return returnStatus
        }
        else return returnStatus
      } else return ANSC_STATUS_SUCCESS)"

section \<open>The lookup-exceeded counter\<close>

text \<open>\<open>fgets\<close> into a buffer of \<open>n\<close> bytes: up to \<open>n - 1\<close> characters, through the first newline.\<close>

fun fgets :: "nat \<Rightarrow> string \<Rightarrow> string" where
  "fgets 0 cs = []"
| "fgets (Suc 0) cs = []"
| "fgets (Suc (Suc n)) [] = []"
| "fgets (Suc (Suc n)) (c # cs) = (if c = CHR 0x0A then [c] else c # fgets (Suc n) cs)"

text \<open>\<open>atol\<close>, i.e. \<open>strtol\<close> in base 10, which saturates at the bounds of \<open>long\<close>.\<close>

definition atol :: "string \<Rightarrow> 64 word" where
  "atol cs = (case strtoul_sign (dropWhile isspace cs) of (neg, r) \<Rightarrow>
     let n = dec_value (takeWhile isdigit r) in
     if neg then - word_of_nat (min n (2 ^ 63)) else word_of_nat (min n (2 ^ 63 - 1)))"

definition CosaAdvSecGetLookupTimeoutExceededCount :: "'w env \<Rightarrow> ('w, ULONG) adv" where
  "CosaAdvSecGetLookupTimeoutExceededCount E = do {
     fp \<leftarrow> call (x_fread_all E ''/tmp/advsec_lkup_exceed_cnt'');
     return (case fp of None \<Rightarrow> 0 | Some c \<Rightarrow> atol (fgets 256 c))
   }"

section \<open>Safe-browsing configuration\<close>

definition is_upper :: "char \<Rightarrow> bool" where
  "is_upper c \<longleftrightarrow> 65 \<le> (of_char c :: nat) \<and> (of_char c :: nat) \<le> 90"

definition to_lower :: "char \<Rightarrow> char" where
  "to_lower c = (if is_upper c then char_of (of_char c + (32 :: nat)) else c)"

text \<open>The loop that writes \<open>json_key\<close>: \<open>i\<close> is the index in the parameter name, \<open>j\<close> the one in
  the buffer of 30 bytes; the result is what has been written from \<open>j\<close> on.\<close>

fun snake_loop :: "nat \<Rightarrow> nat \<Rightarrow> string \<Rightarrow> string" where
  "snake_loop i j [] = []"
| "snake_loop i j (c # cs) =
     (if j < 28
      then (if is_upper c \<and> i \<noteq> 0
            then CHR ''_'' # to_lower c # snake_loop (Suc i) (j + 2) cs
            else c # snake_loop (Suc i) (j + 1) cs)
      else [])"

definition lower_first :: "string \<Rightarrow> string" where
  "lower_first k = (case k of [] \<Rightarrow> [] | c # cs \<Rightarrow> to_lower c # cs)"

text \<open>The key under which a parameter is looked up, None when it does not fit the buffer.\<close>

definition sb_json_key :: "'w env \<Rightarrow> string \<Rightarrow> string option" where
  "sb_json_key E paramName =
     (if strcmp_s_matches E ''WhitelistMaxEntries'' paramName \<or> strcmp_s_matches E ''OtmDedupFqdn'' paramName
      then Some (lower_first (snake_loop 0 0 paramName))
      else (case x_strcpy_s E 30 paramName of (rc, dst) \<Rightarrow>
              if rc \<noteq> EOK then None else Some (lower_first dst)))"

text \<open>The two kinds of caller: a string buffer with its size, or a pointer to a number. The
  result is the status with the string and its length, or the number, that were stored.\<close>

datatype sb_value = SB_string string ULONG | SB_ulong ULONG

definition CosaAdvSecFetchSbConfig ::
    "'w env \<Rightarrow> string option \<Rightarrow> ULONG option \<Rightarrow> bool \<Rightarrow> ('w, ANSC_STATUS \<times> sb_value option) adv" where
  "CosaAdvSecFetchSbConfig E paramName pUlSize want_ulong = (case paramName of
      None \<Rightarrow> return (ANSC_STATUS_FAILURE, None)
    | Some name \<Rightarrow> do {
        rc \<leftarrow> call (x_system E ''/usr/ccsp/advsec/start_adv_security.sh -getSafebroConfig'');
        if \<not> WIFEXITED rc \<or> WEXITSTATUS rc \<noteq> 0 then return (ANSC_STATUS_FAILURE, None)
        else do {
          f \<leftarrow> call (x_fread_all E ''/tmp/safebro.json'');
          case f of None \<Rightarrow> return (ANSC_STATUS_FAILURE, None)
          | Some c \<Rightarrow>
            if length c = 0 then return (ANSC_STATUS_FAILURE, None)
            else do {
              d \<leftarrow> advsec_read_from_file E (Some ''/tmp/safebro.json'') (int (length c) + 1);
              case d of None \<Rightarrow> return (ANSC_STATUS_FAILURE, None)
              | Some bytes \<Rightarrow>
                if length bytes = 0 then return (ANSC_STATUS_FAILURE, None)
                else (case sb_json_key E name of
                    None \<Rightarrow> return (ANSC_STATUS_FAILURE, None)
                  | Some key \<Rightarrow> (case x_cJSON_item E bytes key of
                        CJSON_PARSE_ERROR \<Rightarrow> return (ANSC_STATUS_FAILURE, None)
                      | CJSON_NO_ITEM \<Rightarrow> return (ANSC_STATUS_FAILURE, None)
                      | CJSON_STRING v \<Rightarrow> (case pUlSize of
                            None \<Rightarrow> return (ANSC_STATUS_FAILURE, None)
                          | Some n \<Rightarrow> (case x_strcpy_s E (unat n) v of (rc1, dst) \<Rightarrow>
                              if rc1 \<noteq> EOK then return (ANSC_STATUS_FAILURE, None)
                              else return (ANSC_STATUS_SUCCESS, Some (SB_string dst (of_nat (length dst))))))
                      | CJSON_INT n \<Rightarrow>
                          if \<not> want_ulong then return (ANSC_STATUS_FAILURE, None)
                          else return (ANSC_STATUS_SUCCESS, Some (SB_ulong (scast n)))))
            }
        }
      })"

text \<open>The buffer bound: a key of \<open>n\<close> written characters ends before index 30.\<close>

lemma snake_loop_bound: "j \<le> 29 \<Longrightarrow> j + length (snake_loop i j cs) \<le> 29"
proof (induction i j cs rule: snake_loop.induct)
  case (1 i j)
  then show ?case by simp
next
  case (2 i j c cs)
  show ?case
  proof (cases "j < 28")
    case True
    then have "j + 2 + length (snake_loop (Suc i) (j + 2) cs) \<le> 29" if "is_upper c \<and> i \<noteq> 0"
      using 2(1) that by simp
    moreover have "j + 1 + length (snake_loop (Suc i) (j + 1) cs) \<le> 29" if "\<not> (is_upper c \<and> i \<noteq> 0)"
      using 2(2) True that by simp
    ultimately show ?thesis using True by auto
  next
    case False
    then show ?thesis using 2(3) by simp
  qed
qed

end
