(* ===== verification/Adv_Dml.thy ===== *)
theory Adv_Dml
  imports Adv_Settings
begin

text \<open>
  The data-model handlers of \<open>cosa_adv_security_dml.c\<close> for fingerprinting, safe browsing,
  softflowd, parental control, privacy protection and the Rabid framework. A get handler is a
  function of the state whose result is the value stored through the out pointer when the
  handler returns TRUE, and None when it returns FALSE; a set handler runs in the state monad
  and returns the \<open>BOOL\<close> of the code. \<open>ParamName\<close> is an option where the code tests it for NULL.
\<close>

section \<open>URL check\<close>

definition urlStartsWith :: "string \<Rightarrow> string \<Rightarrow> int" where
  "urlStartsWith haystack needle = (if starts_with haystack needle then 0 else 1)"

definition isValidUrl :: "string \<Rightarrow> ANSC_STATUS" where
  "isValidUrl inputparam =
     (let returnStatus =
        (if urlStartsWith inputparam ''https://'' \<noteq> 0 then ANSC_STATUS_FAILURE else ANSC_STATUS_SUCCESS) in
      if contains_char (CHR '';'') inputparam then ANSC_STATUS_FAILURE
      else if contains_char (CHR ''&'') inputparam then ANSC_STATUS_FAILURE
      else if contains_char (CHR ''|'') inputparam then ANSC_STATUS_FAILURE
      else if contains_char (CHR 0x27) inputparam then ANSC_STATUS_FAILURE
      else returnStatus)"

section \<open>Device fingerprinting\<close>

definition DeviceFingerPrint_GetParamBoolValue :: "'w env \<Rightarrow> string option \<Rightarrow> 'w advst \<Rightarrow> BOOL option" where
  "DeviceFingerPrint_GetParamBoolValue E ParamName s = (case ParamName of
      None \<Rightarrow> None
    | Some name \<Rightarrow>
        if strcmp_s_matches E ''Enable'' name then Some (bEnable (agent s)) else None)"

definition DeviceFingerPrint_SetParamBoolValue :: "'w env \<Rightarrow> string option \<Rightarrow> BOOL \<Rightarrow> ('w, BOOL) adv" where
  "DeviceFingerPrint_SetParamBoolValue E ParamName bValue = (case ParamName of
      None \<Rightarrow> return FALSE
    | Some name \<Rightarrow>
        if strcmp_s_matches E ''Enable'' name
        then do {
          a \<leftarrow> gets agent;
          if bValue = bEnable a then return TRUE
          else do {
            returnStatus \<leftarrow> (if bValue \<noteq> 0 then CosaAdvSecInit E else CosaAdvSecDeInit E);
            if returnStatus \<noteq> ANSC_STATUS_SUCCESS then return FALSE else return TRUE
          }
        }
        else return FALSE)"

definition DeviceFingerPrint_GetParamUlongValue :: "'w env \<Rightarrow> string option \<Rightarrow> 'w advst \<Rightarrow> ULONG option" where
  "DeviceFingerPrint_GetParamUlongValue E ParamName s = (case ParamName of
      None \<Rightarrow> None
    | Some name \<Rightarrow>
        if strcmp_s_matches E ''LoggingPeriod'' name then Some (ulLoggingPeriod (agent s))
        else if strcmp_s_matches E ''LogLevel'' name
        then (if \<not> XB3_ARM_or_BCM_MIPS E then Some (ulLogLevel (agent s)) else None)
        else None)"

definition DeviceFingerPrint_SetParamUlongValue :: "'w env \<Rightarrow> string option \<Rightarrow> ULONG \<Rightarrow> ('w, BOOL) adv" where
  "DeviceFingerPrint_SetParamUlongValue E ParamName bValue = (case ParamName of
      None \<Rightarrow> return FALSE
    | Some name \<Rightarrow>
        if strcmp_s_matches E ''LoggingPeriod'' name
        then (if bValue < ADVSEC_MIN_LOG_TIMEOUT \<or> bValue > ADVSEC_MAX_LOG_TIMEOUT then return FALSE
              else do {
                a \<leftarrow> gets agent;
                if bValue = ulLoggingPeriod a then return TRUE
                else do {
                  returnStatus \<leftarrow> CosaAdvSecSetLoggingPeriod E bValue;
                  if returnStatus \<noteq> ANSC_STATUS_SUCCESS then return FALSE else return TRUE
                }
              })
        else if strcmp_s_matches E ''LogLevel'' name
        then (if \<not> XB3_ARM_or_BCM_MIPS E
              then (if bValue < ADVSEC_LogLevel_ERROR \<or> bValue > ADVSEC_LogLevel_VERBOSE then return FALSE
                    else do {
                      a \<leftarrow> gets agent;
                      if bValue = ulLogLevel a then return TRUE
                      else do {
                        returnStatus \<leftarrow> CosaAdvSecSetLogLevel E bValue;
                        if returnStatus \<noteq> ANSC_STATUS_SUCCESS then return FALSE else return TRUE
                      }
                    })
              else return FALSE)
        else return FALSE)"

text \<open>Return code, contents written to \<open>pValue\<close>, and \<open>*pUlSize\<close> afterwards.\<close>

definition DeviceFingerPrint_GetParamStringValue ::
    "'w env \<Rightarrow> string option \<Rightarrow> ULONG \<Rightarrow> ('w, ULONG \<times> string option \<times> ULONG) adv" where
  "DeviceFingerPrint_GetParamStringValue E ParamName pUlSize = (case ParamName of
      None \<Rightarrow> return (- 1, None, pUlSize)
    | Some name \<Rightarrow>
        if strcmp_s_matches E ''EndpointURL'' name
        then do {
          (returnStatus, pValue, n) \<leftarrow> CosaAdvSecGetCustomURL E pUlSize;
          if returnStatus \<noteq> ANSC_STATUS_SUCCESS then return (returnStatus, pValue, n)
          else return (0, pValue, n)
        }
        else return (- 1, None, pUlSize))"

definition DeviceFingerPrint_SetParamStringValue :: "'w env \<Rightarrow> string option \<Rightarrow> string \<Rightarrow> ('w, BOOL) adv" where
  "DeviceFingerPrint_SetParamStringValue E ParamName pString = (case ParamName of
      None \<Rightarrow> return FALSE
    | Some name \<Rightarrow>
        if strcmp_s_matches E ''EndpointURL'' name
        then (if isValidUrl pString = ANSC_STATUS_SUCCESS
              then do {
                returnStatus \<leftarrow> CosaAdvSecSetCustomURL E pString;
                if returnStatus \<noteq> ANSC_STATUS_SUCCESS then return FALSE else return TRUE
              }
              else return FALSE)
        else return FALSE)"

section \<open>Safe browsing, softflowd, parental control, privacy protection\<close>

text \<open>These objects answer only while device fingerprinting is enabled.\<close>

definition SafeBrowsing_GetParamBoolValue :: "'w env \<Rightarrow> string option \<Rightarrow> 'w advst \<Rightarrow> BOOL option" where
  "SafeBrowsing_GetParamBoolValue E ParamName s = (case ParamName of
      None \<Rightarrow> None
    | Some name \<Rightarrow>
        if strcmp_s_matches E ''Enable'' name
        then (if bEnable (agent s) = 0 then None else Some (sb_of (agent s)))
        else None)"

definition SafeBrowsing_SetParamBoolValue :: "'w env \<Rightarrow> string option \<Rightarrow> BOOL \<Rightarrow> ('w, BOOL) adv" where
  "SafeBrowsing_SetParamBoolValue E ParamName bValue = (case ParamName of
      None \<Rightarrow> return FALSE
    | Some name \<Rightarrow>
        if strcmp_s_matches E ''Enable'' name
        then do {
          a \<leftarrow> gets agent;
          if bEnable a = 0 then return FALSE
          else if bValue = sb_of a then return TRUE
          else do {
            returnStatus \<leftarrow> (if bValue \<noteq> 0 then CosaAdvSecStartFeatures E ADVSEC_SAFEBROWSING else CosaAdvSecStopFeatures E ADVSEC_SAFEBROWSING);
            if returnStatus \<noteq> ANSC_STATUS_SUCCESS then return FALSE else return TRUE
          }
        }
        else return FALSE)"

definition SafeBrowsing_GetParamUlongValue :: "'w env \<Rightarrow> string option \<Rightarrow> ('w, ULONG option) adv" where
  "SafeBrowsing_GetParamUlongValue E ParamName = (case ParamName of
      None \<Rightarrow> return None
    | Some name \<Rightarrow> do {
        a \<leftarrow> gets agent;
        if strcmp_s_matches E ''LookupTimeout'' name
        then (if bEnable a = 0 then return None else return (Some (lookup_of a)))
        else if strcmp_s_matches E ''LookupTimeoutExceededCount'' name
        then (if bEnable a = 0 then return None
              else do { n \<leftarrow> CosaAdvSecGetLookupTimeoutExceededCount E; return (Some n) })
        else if \<not> XB3_ARM_or_BCM_MIPS E \<and>
          (strcmp_s_matches E ''Threshold'' name \<or> strcmp_s_matches E ''Timeout'' name \<or>
           strcmp_s_matches E ''Cachettl'' name \<or> strcmp_s_matches E ''Ttl'' name \<or>
           strcmp_s_matches E ''WhitelistMaxEntries'' name)
        then (if bEnable a = 0 then return None
              else do {
                (returnStatus, v) \<leftarrow> CosaAdvSecFetchSbConfig E ParamName None True;
                if returnStatus \<noteq> ANSC_STATUS_SUCCESS then return None
                else (case v of Some (SB_ulong n) \<Rightarrow> return (Some n) | _ \<Rightarrow> return None)
              })
        else return None
      })"

definition SafeBrowsing_SetParamUlongValue :: "'w env \<Rightarrow> string option \<Rightarrow> ULONG \<Rightarrow> ('w, BOOL) adv" where
  "SafeBrowsing_SetParamUlongValue E ParamName bValue = (case ParamName of
      None \<Rightarrow> return FALSE
    | Some name \<Rightarrow>
        if strcmp_s_matches E ''LookupTimeout'' name
        then do {
          a \<leftarrow> gets agent;
          if bEnable a = 0 then return FALSE
          else if bValue < ADVSEC_DEFAULT_LOOKUP_TIMEOUT \<or> bValue > ADVSEC_MAX_LOOKUP_TIMEOUT then return FALSE
          else if bValue = lookup_of a then return TRUE
          else do {
            returnStatus \<leftarrow> CosaAdvSecSetLookupTimeout E bValue;
            if returnStatus \<noteq> ANSC_STATUS_SUCCESS then return FALSE else return TRUE
          }
        }
        else return FALSE)"

text \<open>Return code, and the string with its length when one was stored. The code does not
  test \<open>ParamName\<close> for NULL here.\<close>

definition SafeBrowsing_GetParamStringValue ::
    "'w env \<Rightarrow> string \<Rightarrow> ULONG \<Rightarrow> ('w, ULONG \<times> sb_value option) adv" where
  "SafeBrowsing_GetParamStringValue E ParamName pUlSize = do {
     a \<leftarrow> gets agent;
     if \<not> XB3_ARM_or_BCM_MIPS E \<and>
        (strcmp_s_matches E ''Endpoint'' ParamName \<or> strcmp_s_matches E ''Blockpage'' ParamName \<or>
         strcmp_s_matches E ''Warnpage'' ParamName \<or> strcmp_s_matches E ''Cacheurl'' ParamName \<or>
         strcmp_s_matches E ''OtmDedupFqdn'' ParamName)
     then (if bEnable a = 0 then return (- 1, None)
           else CosaAdvSecFetchSbConfig E (Some ParamName) (Some pUlSize) False)
     else return (- 1, None)
   }"

definition SafeBrowsing_Validate :: BOOL where "SafeBrowsing_Validate = TRUE"
definition SafeBrowsing_Commit :: ULONG where "SafeBrowsing_Commit = 0"
definition SafeBrowsing_Rollback :: ULONG where "SafeBrowsing_Rollback = 0"

definition Softflowd_GetParamBoolValue :: "'w env \<Rightarrow> string option \<Rightarrow> 'w advst \<Rightarrow> BOOL option" where
  "Softflowd_GetParamBoolValue E ParamName s = (case ParamName of
      None \<Rightarrow> None
    | Some name \<Rightarrow>
        if strcmp_s_matches E ''Enable'' name
        then (if bEnable (agent s) = 0 then None else Some (sf_of (agent s)))
        else None)"

definition Softflowd_SetParamBoolValue :: "'w env \<Rightarrow> string option \<Rightarrow> BOOL \<Rightarrow> ('w, BOOL) adv" where
  "Softflowd_SetParamBoolValue E ParamName bValue = (case ParamName of
      None \<Rightarrow> return FALSE
    | Some name \<Rightarrow>
        if strcmp_s_matches E ''Enable'' name
        then do {
          a \<leftarrow> gets agent;
          if bEnable a = 0 then return FALSE
          else if bValue = sf_of a then return TRUE
          else do {
            returnStatus \<leftarrow> (if bValue \<noteq> 0 then CosaAdvSecStartFeatures E ADVSEC_SOFTFLOWD else CosaAdvSecStopFeatures E ADVSEC_SOFTFLOWD);
            if returnStatus \<noteq> ANSC_STATUS_SUCCESS then return FALSE else return TRUE
          }
        }
        else return FALSE)"

definition Softflowd_Validate :: BOOL where "Softflowd_Validate = TRUE"
definition Softflowd_Commit :: ULONG where "Softflowd_Commit = 0"
definition Softflowd_Rollback :: ULONG where "Softflowd_Rollback = 0"

definition AdvancedParentalControl_GetParamBoolValue :: "'w env \<Rightarrow> string option \<Rightarrow> 'w advst \<Rightarrow> BOOL option" where
  "AdvancedParentalControl_GetParamBoolValue E ParamName s = (case ParamName of
      None \<Rightarrow> None
    | Some name \<Rightarrow>
        if strcmp_s_matches E ''Activate'' name
        then (if bEnable (agent s) = 0 then None else Some (apc_of (agent s)))
        else None)"

definition AdvancedParentalControl_SetParamBoolValue :: "'w env \<Rightarrow> string option \<Rightarrow> BOOL \<Rightarrow> ('w, BOOL) adv" where
  "AdvancedParentalControl_SetParamBoolValue E ParamName bValue = (case ParamName of
      None \<Rightarrow> return FALSE
    | Some name \<Rightarrow>
        if strcmp_s_matches E ''Activate'' name
        then do {
          a \<leftarrow> gets agent;
          if bEnable a = 0 then return FALSE
          else if bValue = apc_of a then return TRUE
          else do {
            returnStatus \<leftarrow> (if bValue \<noteq> 0 then CosaStartAdvParentalControl E TRUE else CosaStopAdvParentalControl E TRUE);
            if returnStatus \<noteq> ANSC_STATUS_SUCCESS then return FALSE else return TRUE
          }
        }
        else return FALSE)"

definition AdvancedParentalControl_Validate :: BOOL where "AdvancedParentalControl_Validate = TRUE"
definition AdvancedParentalControl_Commit :: ULONG where "AdvancedParentalControl_Commit = 0"
definition AdvancedParentalControl_Rollback :: ULONG where "AdvancedParentalControl_Rollback = 0"

definition PrivacyProtection_GetParamBoolValue :: "'w env \<Rightarrow> string option \<Rightarrow> 'w advst \<Rightarrow> BOOL option" where
  "PrivacyProtection_GetParamBoolValue E ParamName s = (case ParamName of
      None \<Rightarrow> None
    | Some name \<Rightarrow>
        if strcmp_s_matches E ''Activate'' name
        then (if bEnable (agent s) = 0 then None else Some (pp_of (agent s)))
        else None)"

definition PrivacyProtection_SetParamBoolValue :: "'w env \<Rightarrow> string option \<Rightarrow> BOOL \<Rightarrow> ('w, BOOL) adv" where
  "PrivacyProtection_SetParamBoolValue E ParamName bValue = (case ParamName of
      None \<Rightarrow> return FALSE
    | Some name \<Rightarrow>
        if strcmp_s_matches E ''Activate'' name
        then do {
          a \<leftarrow> gets agent;
          if bEnable a = 0 then return FALSE
          else if bValue = pp_of a then return TRUE
          else do {
            returnStatus \<leftarrow> (if bValue \<noteq> 0 then CosaStartPrivacyProtection E TRUE else CosaStopPrivacyProtection E TRUE);
            if returnStatus \<noteq> ANSC_STATUS_SUCCESS then return FALSE else return TRUE
          }
        }
        else return FALSE)"

definition PrivacyProtection_Validate :: BOOL where "PrivacyProtection_Validate = TRUE"
definition PrivacyProtection_Commit :: ULONG where "PrivacyProtection_Commit = 0"
definition PrivacyProtection_Rollback :: ULONG where "PrivacyProtection_Rollback = 0"

section \<open>Rabid framework\<close>

abbreviation MIN_AGENT_MEMORY_HARD_LIMIT :: ULONG where "MIN_AGENT_MEMORY_HARD_LIMIT \<equiv> 45"
abbreviation MAX_RABID_MACCACHE_SIZE :: ULONG where "MAX_RABID_MACCACHE_SIZE \<equiv> 32768"
abbreviation MAX_RABID_DNSCACHE_SIZE :: ULONG where "MAX_RABID_DNSCACHE_SIZE \<equiv> 32768"

definition RabidFramework_GetParamUlongValue :: "'w env \<Rightarrow> string \<Rightarrow> 'w advst \<Rightarrow> ULONG option" where
  "RabidFramework_GetParamUlongValue E ParamName s =
     (if AnscEqualString E ParamName ''MemoryLimit'' TRUE then Some (uMemoryLimit (pRabid (agent s)))
      else if AnscEqualString E ParamName ''MacCacheSize'' TRUE then Some (uMacCacheSize (pRabid (agent s)))
      else if AnscEqualString E ParamName ''DNSCacheSize'' TRUE then Some (uDNSCacheSize (pRabid (agent s)))
      else None)"

definition RabidFramework_SetParamUlongValue :: "'w env \<Rightarrow> string \<Rightarrow> ULONG \<Rightarrow> ('w, BOOL) adv" where
  "RabidFramework_SetParamUlongValue E ParamName uValue = do {
     a \<leftarrow> gets agent;
     if AnscEqualString E ParamName ''MemoryLimit'' TRUE
     then (if uValue = uMemoryLimit (pRabid a) then return TRUE
           else if uValue \<le> MIN_AGENT_MEMORY_HARD_LIMIT then return FALSE
           else do {
             returnStatus \<leftarrow> CosaRabidSetMemoryLimit E uValue;
             if returnStatus \<noteq> ANSC_STATUS_SUCCESS then return FALSE else return TRUE
           })
     else if AnscEqualString E ParamName ''MacCacheSize'' TRUE
     then (if uValue = uMacCacheSize (pRabid a) then return TRUE
           else if uValue > MAX_RABID_MACCACHE_SIZE then return FALSE
           else do {
             returnStatus \<leftarrow> CosaRabidSetMacCacheSize E uValue;
             if returnStatus \<noteq> ANSC_STATUS_SUCCESS then return FALSE else return TRUE
           })
     else if AnscEqualString E ParamName ''DNSCacheSize'' TRUE
     then (if uValue = uDNSCacheSize (pRabid a) then return TRUE
           else if uValue > MAX_RABID_DNSCACHE_SIZE then return FALSE
           else do {
             returnStatus \<leftarrow> CosaRabidSetDNSCacheSize E uValue;
             if returnStatus \<noteq> ANSC_STATUS_SUCCESS then return FALSE else return TRUE
           })
     else return FALSE
   }"

end
