(* ===== verification/Adv_Dml_Rfc.thy ===== *)
theory Adv_Dml_Rfc
  imports Adv_Dml
begin

text \<open>
  The data-model handlers of \<open>cosa_adv_security_dml.c\<close> for the remote feature controls. Fifteen
  objects are interpreted as \<open>rfc_object\<close>: their handlers answer for one flag, change nothing
  when they refuse, and store what they accept. User space, network intelligence, Wi-Fi data
  collection and Levl have handlers of their own shape.
\<close>

section \<open>Handlers\<close>

definition AdvancedParentalControl_RFC_GetParamBoolValue :: "'w env \<Rightarrow> string \<Rightarrow> 'w advst \<Rightarrow> BOOL option" where
  "AdvancedParentalControl_RFC_GetParamBoolValue E ParamName s =
     (if AnscEqualString E ParamName ''Enable'' TRUE then Some (flag_bEnable (pAdvPC_RFC (agent s))) else None)"

definition AdvancedParentalControl_RFC_SetParamBoolValue :: "'w env \<Rightarrow> string \<Rightarrow> BOOL \<Rightarrow> ('w, BOOL) adv" where
  "AdvancedParentalControl_RFC_SetParamBoolValue E ParamName bValue =
     (if AnscEqualString E ParamName ''Enable'' TRUE
      then do {
        a \<leftarrow> gets agent;
        if bValue = flag_bEnable (pAdvPC_RFC a) then return TRUE
        else do {
          returnStatus \<leftarrow> (if bValue \<noteq> 0 then CosaAdvPCInit E else CosaAdvPCDeInit E);
          if returnStatus \<noteq> ANSC_STATUS_SUCCESS then return FALSE else return TRUE
        }
      }
      else return FALSE)"

definition PrivacyProtection_RFC_GetParamBoolValue :: "'w env \<Rightarrow> string \<Rightarrow> 'w advst \<Rightarrow> BOOL option" where
  "PrivacyProtection_RFC_GetParamBoolValue E ParamName s =
     (if AnscEqualString E ParamName ''Enable'' TRUE then Some (flag_bEnable (pPrivProt_RFC (agent s))) else None)"

definition PrivacyProtection_RFC_SetParamBoolValue :: "'w env \<Rightarrow> string \<Rightarrow> BOOL \<Rightarrow> ('w, BOOL) adv" where
  "PrivacyProtection_RFC_SetParamBoolValue E ParamName bValue =
     (if AnscEqualString E ParamName ''Enable'' TRUE
      then do {
        a \<leftarrow> gets agent;
        if bValue = flag_bEnable (pPrivProt_RFC a) then return TRUE
        else do {
          returnStatus \<leftarrow> (if bValue \<noteq> 0 then CosaPrivacyProtectionInit E else CosaPrivacyProtectionDeInit E);
          if returnStatus \<noteq> ANSC_STATUS_SUCCESS then return FALSE else return TRUE
        }
      }
      else return FALSE)"

definition DeviceFingerPrintICMPv6_RFC_GetParamBoolValue :: "'w env \<Rightarrow> string \<Rightarrow> 'w advst \<Rightarrow> BOOL option" where
  "DeviceFingerPrintICMPv6_RFC_GetParamBoolValue E ParamName s =
     (if AnscEqualString E ParamName ''Enable'' TRUE
      then (if \<not> XB3_ARM_or_BCM_MIPS E then Some (flag_bEnable (pDFIcmpv6_RFC (agent s))) else None)
      else None)"

definition DeviceFingerPrintICMPv6_RFC_SetParamBoolValue :: "'w env \<Rightarrow> string \<Rightarrow> BOOL \<Rightarrow> ('w, BOOL) adv" where
  "DeviceFingerPrintICMPv6_RFC_SetParamBoolValue E ParamName bValue =
     (if AnscEqualString E ParamName ''Enable'' TRUE
      then (if \<not> XB3_ARM_or_BCM_MIPS E
      then do {
        a \<leftarrow> gets agent;
        if bValue = flag_bEnable (pDFIcmpv6_RFC a) then return TRUE
        else do {
          returnStatus \<leftarrow> (if bValue \<noteq> 0 then CosaAdvDFIcmpv6Init E else CosaAdvDFIcmpv6DeInit E);
          if returnStatus \<noteq> ANSC_STATUS_SUCCESS then return FALSE else return TRUE
        }
      }
      else return FALSE)
      else return FALSE)"

definition WS_Discovery_Analysis_RFC_GetParamBoolValue :: "'w env \<Rightarrow> string \<Rightarrow> 'w advst \<Rightarrow> BOOL option" where
  "WS_Discovery_Analysis_RFC_GetParamBoolValue E ParamName s =
     (if AnscEqualString E ParamName ''Enable'' TRUE then Some (flag_bEnable (pWSDiscoveryAnalysis_RFC (agent s))) else None)"

definition WS_Discovery_Analysis_RFC_SetParamBoolValue :: "'w env \<Rightarrow> string \<Rightarrow> BOOL \<Rightarrow> ('w, BOOL) adv" where
  "WS_Discovery_Analysis_RFC_SetParamBoolValue E ParamName bValue =
     (if AnscEqualString E ParamName ''Enable'' TRUE
      then do {
        a \<leftarrow> gets agent;
        if bValue = flag_bEnable (pWSDiscoveryAnalysis_RFC a) then return TRUE
        else do {
          returnStatus \<leftarrow> (if bValue \<noteq> 0 then CosaWSDisInit E else CosaWSDisDeInit E);
          if returnStatus \<noteq> ANSC_STATUS_SUCCESS then return FALSE else return TRUE
        }
      }
      else return FALSE)"

definition AdvancedSecurityOTM_RFC_GetParamBoolValue :: "'w env \<Rightarrow> string \<Rightarrow> 'w advst \<Rightarrow> BOOL option" where
  "AdvancedSecurityOTM_RFC_GetParamBoolValue E ParamName s =
     (if AnscEqualString E ParamName ''Enable'' TRUE then Some (flag_bEnable (pAdvSecOTM_RFC (agent s))) else None)"

definition AdvancedSecurityOTM_RFC_SetParamBoolValue :: "'w env \<Rightarrow> string \<Rightarrow> BOOL \<Rightarrow> ('w, BOOL) adv" where
  "AdvancedSecurityOTM_RFC_SetParamBoolValue E ParamName bValue =
     (if AnscEqualString E ParamName ''Enable'' TRUE
      then do {
        a \<leftarrow> gets agent;
        if bValue = flag_bEnable (pAdvSecOTM_RFC a) then return TRUE
        else do {
          returnStatus \<leftarrow> (if bValue \<noteq> 0 then CosaAdvSecOTMInit E else CosaAdvSecOTMDeInit E);
          if returnStatus \<noteq> ANSC_STATUS_SUCCESS then return FALSE else return TRUE
        }
      }
      else return FALSE)"

definition AdvSecAgentRaptr_RFC_GetParamBoolValue :: "'w env \<Rightarrow> string \<Rightarrow> 'w advst \<Rightarrow> BOOL option" where
  "AdvSecAgentRaptr_RFC_GetParamBoolValue E ParamName s =
     (if AnscEqualString E ParamName ''Enable'' TRUE then Some (flag_bEnable (pRaptr_RFC (agent s))) else None)"

definition AdvSecAgentRaptr_RFC_SetParamBoolValue :: "'w env \<Rightarrow> string \<Rightarrow> BOOL \<Rightarrow> ('w, BOOL) adv" where
  "AdvSecAgentRaptr_RFC_SetParamBoolValue E ParamName bValue =
     (if AnscEqualString E ParamName ''Enable'' TRUE
      then do {
        a \<leftarrow> gets agent;
        if bValue = flag_bEnable (pRaptr_RFC a) then return TRUE
        else if bValue \<noteq> 0
        then do {
          returnStatus \<leftarrow> CosaAdvSecAgentRaptrInit E;
          if returnStatus \<noteq> ANSC_STATUS_SUCCESS then return FALSE else return TRUE
        }
        else return FALSE
      }
      else return FALSE)"

definition AdvSecAgent_RFC_GetParamBoolValue :: "'w env \<Rightarrow> string \<Rightarrow> 'w advst \<Rightarrow> BOOL option" where
  "AdvSecAgent_RFC_GetParamBoolValue E ParamName s =
     (if AnscEqualString E ParamName ''Enable'' TRUE then Some (flag_bEnable (pAdvSecAgent_RFC (agent s))) else None)"

definition AdvSecAgent_RFC_SetParamBoolValue :: "'w env \<Rightarrow> string \<Rightarrow> BOOL \<Rightarrow> ('w, BOOL) adv" where
  "AdvSecAgent_RFC_SetParamBoolValue E ParamName bValue =
     (if AnscEqualString E ParamName ''Enable'' TRUE
      then do {
        a \<leftarrow> gets agent;
        if bValue = flag_bEnable (pAdvSecAgent_RFC a) then return TRUE
        else do {
          returnStatus \<leftarrow> (if bValue \<noteq> 0 then CosaAdvSecAgentInit E else CosaAdvSecAgentDeInit E);
          if returnStatus \<noteq> ANSC_STATUS_SUCCESS then return FALSE else return TRUE
        }
      }
      else return FALSE)"

definition AdvSecSafeBrowsing_RFC_GetParamBoolValue :: "'w env \<Rightarrow> string \<Rightarrow> 'w advst \<Rightarrow> BOOL option" where
  "AdvSecSafeBrowsing_RFC_GetParamBoolValue E ParamName s =
     (if AnscEqualString E ParamName ''Enable'' TRUE then Some (flag_bEnable (pAdvSecSafeBrowsing_RFC (agent s))) else None)"

definition AdvSecSafeBrowsing_RFC_SetParamBoolValue :: "'w env \<Rightarrow> string \<Rightarrow> BOOL \<Rightarrow> ('w, BOOL) adv" where
  "AdvSecSafeBrowsing_RFC_SetParamBoolValue E ParamName bValue =
     (if AnscEqualString E ParamName ''Enable'' TRUE
      then do {
        a \<leftarrow> gets agent;
        if bValue = flag_bEnable (pAdvSecSafeBrowsing_RFC a) then return TRUE
        else do {
          returnStatus \<leftarrow>
            (if us_of a \<noteq> 0
             then (if bValue \<noteq> 0 then CosaAdvSecSafeBrowsingInit E else CosaAdvSecSafeBrowsingDeInit E)
             else return ANSC_STATUS_FAILURE);
          if returnStatus \<noteq> ANSC_STATUS_SUCCESS then return FALSE else return TRUE
        }
      }
      else return FALSE)"

definition AdvSecCujoTelemetryWiFiFP_RFC_GetParamBoolValue :: "'w env \<Rightarrow> string \<Rightarrow> 'w advst \<Rightarrow> BOOL option" where
  "AdvSecCujoTelemetryWiFiFP_RFC_GetParamBoolValue E ParamName s =
     (if AnscEqualString E ParamName ''Enable'' TRUE then Some (flag_bEnable (pAdvSecCujoTelemetryWiFiFP_RFC (agent s))) else None)"

definition AdvSecCujoTelemetryWiFiFP_RFC_SetParamBoolValue :: "'w env \<Rightarrow> string \<Rightarrow> BOOL \<Rightarrow> ('w, BOOL) adv" where
  "AdvSecCujoTelemetryWiFiFP_RFC_SetParamBoolValue E ParamName bValue =
     (if AnscEqualString E ParamName ''Enable'' TRUE
      then do {
        a \<leftarrow> gets agent;
        if bValue = flag_bEnable (pAdvSecCujoTelemetryWiFiFP_RFC a) then return TRUE
        else do {
          returnStatus \<leftarrow>
            (if us_of a \<noteq> 0
             then (if bValue \<noteq> 0 then CosaAdvSecCujoTelemetryWiFiFPInit E else CosaAdvSecCujoTelemetryWiFiFPDeInit E)
             else return ANSC_STATUS_FAILURE);
          if returnStatus \<noteq> ANSC_STATUS_SUCCESS then return FALSE else return TRUE
        }
      }
      else return FALSE)"

definition AdvanceSecurityCujoTracer_RFC_GetParamBoolValue :: "'w env \<Rightarrow> string \<Rightarrow> 'w advst \<Rightarrow> BOOL option" where
  "AdvanceSecurityCujoTracer_RFC_GetParamBoolValue E ParamName s =
     (if AnscEqualString E ParamName ''Enable'' TRUE then Some (flag_bEnable (pAdvSecCujoTracer_RFC (agent s))) else None)"

definition AdvanceSecurityCujoTracer_RFC_SetParamBoolValue :: "'w env \<Rightarrow> string \<Rightarrow> BOOL \<Rightarrow> ('w, BOOL) adv" where
  "AdvanceSecurityCujoTracer_RFC_SetParamBoolValue E ParamName bValue =
     (if AnscEqualString E ParamName ''Enable'' TRUE
      then do {
        a \<leftarrow> gets agent;
        if bValue = flag_bEnable (pAdvSecCujoTracer_RFC a) then return TRUE
        else do {
          returnStatus \<leftarrow> (if bValue \<noteq> 0 then CosaAdvSecCujoTracerInit E else CosaAdvSecCujoTracerDeInit E);
          if returnStatus \<noteq> ANSC_STATUS_SUCCESS then return FALSE else return TRUE
        }
      }
      else return FALSE)"

definition AdvanceSecurityCujoTelemetry_RFC_GetParamBoolValue :: "'w env \<Rightarrow> string \<Rightarrow> 'w advst \<Rightarrow> BOOL option" where
  "AdvanceSecurityCujoTelemetry_RFC_GetParamBoolValue E ParamName s =
     (if AnscEqualString E ParamName ''Enable'' TRUE then Some (flag_bEnable (pAdvSecCujoTelemetry_RFC (agent s))) else None)"

definition AdvanceSecurityCujoTelemetry_RFC_SetParamBoolValue :: "'w env \<Rightarrow> string \<Rightarrow> BOOL \<Rightarrow> ('w, BOOL) adv" where
  "AdvanceSecurityCujoTelemetry_RFC_SetParamBoolValue E ParamName bValue =
     (if AnscEqualString E ParamName ''Enable'' TRUE
      then do {
        a \<leftarrow> gets agent;
        if bValue = flag_bEnable (pAdvSecCujoTelemetry_RFC a) then return TRUE
        else do {
          returnStatus \<leftarrow> (if bValue \<noteq> 0 then CosaAdvSecCujoTelemetryInit E else CosaAdvSecCujoTelemetryDeInit E);
          if returnStatus \<noteq> ANSC_STATUS_SUCCESS then return FALSE else return TRUE
        }
      }
      else return FALSE)"

definition AdvSecSentryAtTheEdge_RFC_GetParamBoolValue :: "'w env \<Rightarrow> string \<Rightarrow> 'w advst \<Rightarrow> BOOL option" where
  "AdvSecSentryAtTheEdge_RFC_GetParamBoolValue E ParamName s =
     (if AnscEqualString E ParamName ''Enable'' TRUE then Some (flag_bEnable (pAdvSecSATE_RFC (agent s))) else None)"

definition AdvSecSentryAtTheEdge_RFC_SetParamBoolValue :: "'w env \<Rightarrow> string \<Rightarrow> BOOL \<Rightarrow> ('w, BOOL) adv" where
  "AdvSecSentryAtTheEdge_RFC_SetParamBoolValue E ParamName bValue =
     (if AnscEqualString E ParamName ''Enable'' TRUE
      then do {
        a \<leftarrow> gets agent;
        if bValue = flag_bEnable (pAdvSecSATE_RFC a) then return TRUE
        else do {
          returnStatus \<leftarrow> (if bValue \<noteq> 0 then CosaAdvSecSATEInit E else CosaAdvSecSATEDeInit E);
          if returnStatus \<noteq> ANSC_STATUS_SUCCESS then return FALSE else return TRUE
        }
      }
      else return FALSE)"

definition AdvSecTCPTrackerFilterDevices_RFC_GetParamBoolValue :: "'w env \<Rightarrow> string \<Rightarrow> 'w advst \<Rightarrow> BOOL option" where
  "AdvSecTCPTrackerFilterDevices_RFC_GetParamBoolValue E ParamName s =
     (if AnscEqualString E ParamName ''Enable'' TRUE then Some (flag_bEnable (pAdvSecTCPTrackerFilterDevices_RFC (agent s))) else None)"

definition AdvSecTCPTrackerFilterDevices_RFC_SetParamBoolValue :: "'w env \<Rightarrow> string \<Rightarrow> BOOL \<Rightarrow> ('w, BOOL) adv" where
  "AdvSecTCPTrackerFilterDevices_RFC_SetParamBoolValue E ParamName bValue =
     (if AnscEqualString E ParamName ''Enable'' TRUE
      then do {
        a \<leftarrow> gets agent;
        if bValue = flag_bEnable (pAdvSecTCPTrackerFilterDevices_RFC a) then return TRUE
        else do {
          returnStatus \<leftarrow> (if bValue \<noteq> 0 then CosaAdvSecTCPTrackerFilterDevicesInit E else CosaAdvSecTCPTrackerFilterDevicesDeInit E);
          if returnStatus \<noteq> ANSC_STATUS_SUCCESS then return FALSE else return TRUE
        }
      }
      else return FALSE)"

definition AdvSecDoHBlocking_RFC_GetParamBoolValue :: "'w env \<Rightarrow> string \<Rightarrow> 'w advst \<Rightarrow> BOOL option" where
  "AdvSecDoHBlocking_RFC_GetParamBoolValue E ParamName s =
     (if AnscEqualString E ParamName ''Enable'' TRUE then Some (flag_bEnable (pAdvSecDoHBlocking_RFC (agent s))) else None)"

definition AdvSecDoHBlocking_RFC_SetParamBoolValue :: "'w env \<Rightarrow> string \<Rightarrow> BOOL \<Rightarrow> ('w, BOOL) adv" where
  "AdvSecDoHBlocking_RFC_SetParamBoolValue E ParamName bValue =
     (if AnscEqualString E ParamName ''Enable'' TRUE
      then do {
        a \<leftarrow> gets agent;
        if bValue = flag_bEnable (pAdvSecDoHBlocking_RFC a) then return TRUE
        else do {
          returnStatus \<leftarrow> (if bValue \<noteq> 0 then CosaAdvSecDoHBlockingInit E else CosaAdvSecDoHBlockingDeInit E);
          if returnStatus \<noteq> ANSC_STATUS_SUCCESS then return FALSE else return TRUE
        }
      }
      else return FALSE)"

definition AdvSecDNSECHBlocking_RFC_GetParamBoolValue :: "'w env \<Rightarrow> string \<Rightarrow> 'w advst \<Rightarrow> BOOL option" where
  "AdvSecDNSECHBlocking_RFC_GetParamBoolValue E ParamName s =
     (if AnscEqualString E ParamName ''Enable'' TRUE then Some (flag_bEnable (pAdvSecDNSECHBlocking_RFC (agent s))) else None)"

definition AdvSecDNSECHBlocking_RFC_SetParamBoolValue :: "'w env \<Rightarrow> string \<Rightarrow> BOOL \<Rightarrow> ('w, BOOL) adv" where
  "AdvSecDNSECHBlocking_RFC_SetParamBoolValue E ParamName bValue =
     (if AnscEqualString E ParamName ''Enable'' TRUE
      then do {
        a \<leftarrow> gets agent;
        if bValue = flag_bEnable (pAdvSecDNSECHBlocking_RFC a) then return TRUE
        else do {
          returnStatus \<leftarrow> (if bValue \<noteq> 0 then CosaAdvSecDNSECHBlockingInit E else CosaAdvSecDNSECHBlockingDeInit E);
          if returnStatus \<noteq> ANSC_STATUS_SUCCESS then return FALSE else return TRUE
        }
      }
      else return FALSE)"

definition AdvanceSecurityUserSpace_RFC_GetParamBoolValue :: "'w env \<Rightarrow> string \<Rightarrow> 'w advst \<Rightarrow> BOOL option" where
  "AdvanceSecurityUserSpace_RFC_GetParamBoolValue E ParamName s =
     (if AnscEqualString E ParamName ''Enable'' TRUE then Some (us_of (agent s)) else None)"

definition AdvanceSecurityUserSpace_RFC_SetParamBoolValue :: "'w env \<Rightarrow> string \<Rightarrow> BOOL \<Rightarrow> ('w, BOOL) adv" where
  "AdvanceSecurityUserSpace_RFC_SetParamBoolValue E ParamName bValue =
     (if AnscEqualString E ParamName ''Enable'' TRUE
      then do {
        a \<leftarrow> gets agent;
        if us_of a = TRUE \<and> wdc_of a = TRUE \<and> bValue = FALSE then return FALSE
        else if us_of a = TRUE \<and> ni_of a = TRUE \<and> bValue = FALSE then return FALSE
        else if bValue = us_of a then return TRUE
        else if bValue \<noteq> 0
        then do {
          returnStatus \<leftarrow> CosaAdvSecUserSpaceInit E;
          if returnStatus \<noteq> ANSC_STATUS_SUCCESS then return FALSE else return TRUE
        }
        else return FALSE
      }
      else return FALSE)"

definition Levl_RFC_GetParamBoolValue :: "'w env \<Rightarrow> string \<Rightarrow> 'w advst \<Rightarrow> BOOL option" where
  "Levl_RFC_GetParamBoolValue E ParamName s =
     (if WIFI_DATA_COLLECTION E
      then (if AnscEqualString E ParamName ''Enable'' TRUE then Some (levl_of (agent s)) else None)
      else None)"

definition Levl_RFC_SetParamBoolValue :: "'w env \<Rightarrow> string \<Rightarrow> BOOL \<Rightarrow> ('w, BOOL) adv" where
  "Levl_RFC_SetParamBoolValue E ParamName bValue =
     (if WIFI_DATA_COLLECTION E
      then (if AnscEqualString E ParamName ''Enable'' TRUE
            then do {
              a \<leftarrow> gets agent;
              if bValue = levl_of a then return TRUE
              else do {
                returnStatus \<leftarrow> (if bValue \<noteq> 0 then CosaLevlInit E else CosaLevlDeInit E);
                if returnStatus \<noteq> ANSC_STATUS_SUCCESS then return FALSE else return TRUE
              }
            }
            else return FALSE)
      else return FALSE)"

definition NetworkIntelligence_RFC_GetParamBoolValue :: "'w env \<Rightarrow> string \<Rightarrow> 'w advst \<Rightarrow> BOOL option" where
  "NetworkIntelligence_RFC_GetParamBoolValue E ParamName s =
     (if NETWORK_INTELLIGENCE E
      then (if AnscEqualString E ParamName ''Enable'' TRUE then Some (ni_of (agent s)) else None)
      else None)"

definition NetworkIntelligence_RFC_SetParamBoolValue :: "'w env \<Rightarrow> string \<Rightarrow> BOOL \<Rightarrow> ('w, BOOL) adv" where
  "NetworkIntelligence_RFC_SetParamBoolValue E ParamName bValue =
     (if NETWORK_INTELLIGENCE E
      then (if AnscEqualString E ParamName ''Enable'' TRUE
            then do {
              a \<leftarrow> gets agent;
              if us_of a = FALSE \<and> ni_of a = FALSE \<and> bValue = TRUE then return FALSE
              else do {
                (ret, SysCfg_ASNI_RFC) \<leftarrow> CosaGetSysCfgUlong E g_AdvSecNetworkIntelligenceEnabled 0;
                if bValue = ni_of a \<and> ucast bValue = SysCfg_ASNI_RFC then return TRUE
                else do {
                  returnStatus \<leftarrow> (if bValue \<noteq> 0 then CosaAdvSecNetworkIntelligenceInit E
                                  else CosaAdvSecNetworkIntelligenceDeInit E);
                  if returnStatus \<noteq> ANSC_STATUS_SUCCESS then return FALSE else return TRUE
                }
              }
            }
            else return FALSE)
      else return FALSE)"

definition NetworkIntelligence_RFC_GetParamUlongValue :: "'w env \<Rightarrow> string \<Rightarrow> 'w advst \<Rightarrow> ULONG option" where
  "NetworkIntelligence_RFC_GetParamUlongValue E ParamName s =
     (if NETWORK_INTELLIGENCE E
      then (if AnscEqualString E ParamName ''MemoryLimit'' TRUE
            then Some (ni_uMemoryLimit (pAdvNetworkIntelligence_RFC (agent s))) else None)
      else None)"

abbreviation MIN_NI_MEMORY_HARD_LIMIT :: ULONG where "MIN_NI_MEMORY_HARD_LIMIT \<equiv> 30"

definition NetworkIntelligence_RFC_SetParamUlongValue :: "'w env \<Rightarrow> string \<Rightarrow> ULONG \<Rightarrow> ('w, BOOL) adv" where
  "NetworkIntelligence_RFC_SetParamUlongValue E ParamName uValue =
     (if NETWORK_INTELLIGENCE E
      then (if AnscEqualString E ParamName ''MemoryLimit'' TRUE
            then do {
              a \<leftarrow> gets agent;
              if uValue = ni_uMemoryLimit (pAdvNetworkIntelligence_RFC a) then return TRUE
              else if uValue < MIN_NI_MEMORY_HARD_LIMIT then return FALSE
              else do {
                returnStatus \<leftarrow> CosaNetworkIntelligenceSetMemoryLimit E uValue;
                if returnStatus \<noteq> ANSC_STATUS_SUCCESS then return FALSE else return TRUE
              }
            }
            else return FALSE)
      else return FALSE)"

definition WifiDataCollection_RFC_GetParamBoolValue :: "'w env \<Rightarrow> string \<Rightarrow> 'w advst \<Rightarrow> BOOL option" where
  "WifiDataCollection_RFC_GetParamBoolValue E ParamName s =
     (if WIFI_DATA_COLLECTION E
      then (if AnscEqualString E ParamName ''Enable'' TRUE then Some (wdc_of (agent s)) else None)
      else None)"

definition WifiDataCollection_RFC_SetParamBoolValue :: "'w env \<Rightarrow> string \<Rightarrow> BOOL \<Rightarrow> ('w, BOOL) adv" where
  "WifiDataCollection_RFC_SetParamBoolValue E ParamName bValue =
     (if WIFI_DATA_COLLECTION E
      then (if AnscEqualString E ParamName ''Enable'' TRUE
            then do {
              a \<leftarrow> gets agent;
              if us_of a = FALSE \<and> wdc_of a = FALSE \<and> bValue = TRUE then return FALSE
              else do {
                (ret, SysCfg_ASWIFIDCL_RFC) \<leftarrow> CosaGetSysCfgUlong E g_AdvWifiDataCollection 0;
                if bValue = wdc_of a \<and> ucast bValue = SysCfg_ASWIFIDCL_RFC then return TRUE
                else do {
                  returnStatus \<leftarrow> (if bValue \<noteq> 0 then CosaAdvWifiDataCollectionInit E
                                  else CosaAdvWifiDataCollectionDeInit E);
                  if returnStatus \<noteq> ANSC_STATUS_SUCCESS then return FALSE else return TRUE
                }
              }
            }
            else return FALSE)
      else return FALSE)"

section \<open>The objects meet their contract\<close>

interpretation apc: rfc_object CosaAdvPCInit CosaAdvPCDeInit
    "\<lambda>b. pAdvPC_RFC_update (set_flag b)" g_AdvParentalControlEnabled
    "\<lambda>a. flag_bEnable (pAdvPC_RFC a)"
    AdvancedParentalControl_RFC_GetParamBoolValue AdvancedParentalControl_RFC_SetParamBoolValue
    "\<lambda>_. True" "\<lambda>_ _. True"
  by unfold_locales
    (simp_all add: AdvancedParentalControl_RFC_GetParamBoolValue_def AdvancedParentalControl_RFC_SetParamBoolValue_def case_prod_beta)

interpretation pp: rfc_object CosaPrivacyProtectionInit CosaPrivacyProtectionDeInit
    "\<lambda>b. pPrivProt_RFC_update (set_flag b)" g_PrivacyProtectionEnabled
    "\<lambda>a. flag_bEnable (pPrivProt_RFC a)"
    PrivacyProtection_RFC_GetParamBoolValue PrivacyProtection_RFC_SetParamBoolValue
    "\<lambda>_. True" "\<lambda>_ _. True"
  by unfold_locales
    (simp_all add: PrivacyProtection_RFC_GetParamBoolValue_def PrivacyProtection_RFC_SetParamBoolValue_def case_prod_beta)

interpretation dficmpv6: rfc_object CosaAdvDFIcmpv6Init CosaAdvDFIcmpv6DeInit
    "\<lambda>b. pDFIcmpv6_RFC_update (set_flag b)" g_DeviceFingerPrintICMPv6Enabled
    "\<lambda>a. flag_bEnable (pDFIcmpv6_RFC a)"
    DeviceFingerPrintICMPv6_RFC_GetParamBoolValue DeviceFingerPrintICMPv6_RFC_SetParamBoolValue
    "\<lambda>E. \<not> XB3_ARM_or_BCM_MIPS E" "\<lambda>_ _. True"
  by unfold_locales
    (simp_all add: DeviceFingerPrintICMPv6_RFC_GetParamBoolValue_def DeviceFingerPrintICMPv6_RFC_SetParamBoolValue_def case_prod_beta)

interpretation wsdis: rfc_object CosaWSDisInit CosaWSDisDeInit
    "\<lambda>b. pWSDiscoveryAnalysis_RFC_update (set_flag b)" g_WSDiscoveryAnalysisEnabled
    "\<lambda>a. flag_bEnable (pWSDiscoveryAnalysis_RFC a)"
    WS_Discovery_Analysis_RFC_GetParamBoolValue WS_Discovery_Analysis_RFC_SetParamBoolValue
    "\<lambda>_. True" "\<lambda>_ _. True"
  by unfold_locales
    (simp_all add: WS_Discovery_Analysis_RFC_GetParamBoolValue_def WS_Discovery_Analysis_RFC_SetParamBoolValue_def case_prod_beta)

interpretation otm: rfc_object CosaAdvSecOTMInit CosaAdvSecOTMDeInit
    "\<lambda>b. pAdvSecOTM_RFC_update (set_flag b)" g_AdvSecOTMEnabled
    "\<lambda>a. flag_bEnable (pAdvSecOTM_RFC a)"
    AdvancedSecurityOTM_RFC_GetParamBoolValue AdvancedSecurityOTM_RFC_SetParamBoolValue
    "\<lambda>_. True" "\<lambda>_ _. True"
  by unfold_locales
    (simp_all add: AdvancedSecurityOTM_RFC_GetParamBoolValue_def AdvancedSecurityOTM_RFC_SetParamBoolValue_def case_prod_beta)

interpretation raptr: rfc_object CosaAdvSecAgentRaptrInit CosaAdvSecAgentRaptrDeInit
    "\<lambda>b. pRaptr_RFC_update (set_flag b)" g_RaptrEnabled
    "\<lambda>a. flag_bEnable (pRaptr_RFC a)"
    AdvSecAgentRaptr_RFC_GetParamBoolValue AdvSecAgentRaptr_RFC_SetParamBoolValue
    "\<lambda>_. True" "\<lambda>_ b. b \<noteq> 0"
  by unfold_locales
    (simp_all add: AdvSecAgentRaptr_RFC_GetParamBoolValue_def AdvSecAgentRaptr_RFC_SetParamBoolValue_def case_prod_beta)

interpretation agt: rfc_object CosaAdvSecAgentInit CosaAdvSecAgentDeInit
    "\<lambda>b. pAdvSecAgent_RFC_update (set_flag b)" g_AdvSecAgentEnabled
    "\<lambda>a. flag_bEnable (pAdvSecAgent_RFC a)"
    AdvSecAgent_RFC_GetParamBoolValue AdvSecAgent_RFC_SetParamBoolValue
    "\<lambda>_. True" "\<lambda>_ _. True"
  by unfold_locales
    (simp_all add: AdvSecAgent_RFC_GetParamBoolValue_def AdvSecAgent_RFC_SetParamBoolValue_def case_prod_beta)

interpretation sbrule: rfc_object CosaAdvSecSafeBrowsingInit CosaAdvSecSafeBrowsingDeInit
    "\<lambda>b. pAdvSecSafeBrowsing_RFC_update (set_flag b)" g_AdvSecSafeBrowsingEnabled
    "\<lambda>a. flag_bEnable (pAdvSecSafeBrowsing_RFC a)"
    AdvSecSafeBrowsing_RFC_GetParamBoolValue AdvSecSafeBrowsing_RFC_SetParamBoolValue
    "\<lambda>_. True" "\<lambda>a _. us_of a \<noteq> 0"
  by unfold_locales
    (simp_all add: AdvSecSafeBrowsing_RFC_GetParamBoolValue_def AdvSecSafeBrowsing_RFC_SetParamBoolValue_def case_prod_beta)

interpretation ctw: rfc_object CosaAdvSecCujoTelemetryWiFiFPInit CosaAdvSecCujoTelemetryWiFiFPDeInit
    "\<lambda>b. pAdvSecCujoTelemetryWiFiFP_RFC_update (set_flag b)" g_AdvSecCujoTelemetryWiFiFPEnabled
    "\<lambda>a. flag_bEnable (pAdvSecCujoTelemetryWiFiFP_RFC a)"
    AdvSecCujoTelemetryWiFiFP_RFC_GetParamBoolValue AdvSecCujoTelemetryWiFiFP_RFC_SetParamBoolValue
    "\<lambda>_. True" "\<lambda>a _. us_of a \<noteq> 0"
  by unfold_locales
    (simp_all add: AdvSecCujoTelemetryWiFiFP_RFC_GetParamBoolValue_def AdvSecCujoTelemetryWiFiFP_RFC_SetParamBoolValue_def case_prod_beta)

interpretation ct: rfc_object CosaAdvSecCujoTracerInit CosaAdvSecCujoTracerDeInit
    "\<lambda>b. pAdvSecCujoTracer_RFC_update (set_flag b)" g_AdvSecCujoTracerEnabled
    "\<lambda>a. flag_bEnable (pAdvSecCujoTracer_RFC a)"
    AdvanceSecurityCujoTracer_RFC_GetParamBoolValue AdvanceSecurityCujoTracer_RFC_SetParamBoolValue
    "\<lambda>_. True" "\<lambda>_ _. True"
  by unfold_locales
    (simp_all add: AdvanceSecurityCujoTracer_RFC_GetParamBoolValue_def AdvanceSecurityCujoTracer_RFC_SetParamBoolValue_def case_prod_beta)

interpretation ctd: rfc_object CosaAdvSecCujoTelemetryInit CosaAdvSecCujoTelemetryDeInit
    "\<lambda>b. pAdvSecCujoTelemetry_RFC_update (set_flag b)" g_AdvSecCujoTelemetryEnabled
    "\<lambda>a. flag_bEnable (pAdvSecCujoTelemetry_RFC a)"
    AdvanceSecurityCujoTelemetry_RFC_GetParamBoolValue AdvanceSecurityCujoTelemetry_RFC_SetParamBoolValue
    "\<lambda>_. True" "\<lambda>_ _. True"
  by unfold_locales
    (simp_all add: AdvanceSecurityCujoTelemetry_RFC_GetParamBoolValue_def AdvanceSecurityCujoTelemetry_RFC_SetParamBoolValue_def case_prod_beta)

interpretation sate: rfc_object CosaAdvSecSATEInit CosaAdvSecSATEDeInit
    "\<lambda>b. pAdvSecSATE_RFC_update (set_flag b)" g_AdvSecSATEEnabled
    "\<lambda>a. flag_bEnable (pAdvSecSATE_RFC a)"
    AdvSecSentryAtTheEdge_RFC_GetParamBoolValue AdvSecSentryAtTheEdge_RFC_SetParamBoolValue
    "\<lambda>_. True" "\<lambda>_ _. True"
  by unfold_locales
    (simp_all add: AdvSecSentryAtTheEdge_RFC_GetParamBoolValue_def AdvSecSentryAtTheEdge_RFC_SetParamBoolValue_def case_prod_beta)

interpretation tcpt: rfc_object CosaAdvSecTCPTrackerFilterDevicesInit CosaAdvSecTCPTrackerFilterDevicesDeInit
    "\<lambda>b. pAdvSecTCPTrackerFilterDevices_RFC_update (set_flag b)" g_AdvSecTCPTrackerFilterDevicesEnabled
    "\<lambda>a. flag_bEnable (pAdvSecTCPTrackerFilterDevices_RFC a)"
    AdvSecTCPTrackerFilterDevices_RFC_GetParamBoolValue AdvSecTCPTrackerFilterDevices_RFC_SetParamBoolValue
    "\<lambda>_. True" "\<lambda>_ _. True"
  by unfold_locales
    (simp_all add: AdvSecTCPTrackerFilterDevices_RFC_GetParamBoolValue_def AdvSecTCPTrackerFilterDevices_RFC_SetParamBoolValue_def case_prod_beta)

interpretation doh: rfc_object CosaAdvSecDoHBlockingInit CosaAdvSecDoHBlockingDeInit
    "\<lambda>b. pAdvSecDoHBlocking_RFC_update (set_flag b)" g_AdvSecDoHBlockingEnabled
    "\<lambda>a. flag_bEnable (pAdvSecDoHBlocking_RFC a)"
    AdvSecDoHBlocking_RFC_GetParamBoolValue AdvSecDoHBlocking_RFC_SetParamBoolValue
    "\<lambda>_. True" "\<lambda>_ _. True"
  by unfold_locales
    (simp_all add: AdvSecDoHBlocking_RFC_GetParamBoolValue_def AdvSecDoHBlocking_RFC_SetParamBoolValue_def case_prod_beta)

interpretation dnsech: rfc_object CosaAdvSecDNSECHBlockingInit CosaAdvSecDNSECHBlockingDeInit
    "\<lambda>b. pAdvSecDNSECHBlocking_RFC_update (set_flag b)" g_AdvSecDNSECHBlockingEnabled
    "\<lambda>a. flag_bEnable (pAdvSecDNSECHBlocking_RFC a)"
    AdvSecDNSECHBlocking_RFC_GetParamBoolValue AdvSecDNSECHBlocking_RFC_SetParamBoolValue
    "\<lambda>_. True" "\<lambda>_ _. True"
  by unfold_locales
    (simp_all add: AdvSecDNSECHBlocking_RFC_GetParamBoolValue_def AdvSecDNSECHBlocking_RFC_SetParamBoolValue_def case_prod_beta)

end
