(* ===== verification/Adv_Registry.thy ===== *)
theory Adv_Registry
  imports Adv_Dml_Rfc
begin

text \<open>
  The data model as the plug-in publishes it: the table of handlers \<open>COSA_Init\<close> registers
  (\<open>plugin_main.c\<close>) against the handlers \<open>config/TR181-AdvSecurity.xml\<close> names, and the remote
  feature controls as one family, indexed by the object. The family refines an abstract
  switchboard: a map from objects to on/off positions.
\<close>

section \<open>The family of feature controls\<close>

datatype rfc_id =
    RFC_AdvancedParentalControl
  | RFC_PrivacyProtection
  | RFC_DeviceFingerPrintICMPv6
  | RFC_WS_Discovery_Analysis
  | RFC_AdvancedSecurityOTM
  | RFC_AdvSecAgentRaptr
  | RFC_AdvSecAgent
  | RFC_AdvSecSafeBrowsing
  | RFC_AdvSecCujoTelemetryWiFiFP
  | RFC_AdvanceSecurityCujoTracer
  | RFC_AdvanceSecurityCujoTelemetry
  | RFC_AdvSecSentryAtTheEdge
  | RFC_AdvSecTCPTrackerFilterDevices
  | RFC_AdvSecDoHBlocking
  | RFC_AdvSecDNSECHBlocking

fun rfc_get :: "rfc_id \<Rightarrow> 'w env \<Rightarrow> string \<Rightarrow> 'w advst \<Rightarrow> BOOL option" where
  "rfc_get RFC_AdvancedParentalControl = AdvancedParentalControl_RFC_GetParamBoolValue"
| "rfc_get RFC_PrivacyProtection = PrivacyProtection_RFC_GetParamBoolValue"
| "rfc_get RFC_DeviceFingerPrintICMPv6 = DeviceFingerPrintICMPv6_RFC_GetParamBoolValue"
| "rfc_get RFC_WS_Discovery_Analysis = WS_Discovery_Analysis_RFC_GetParamBoolValue"
| "rfc_get RFC_AdvancedSecurityOTM = AdvancedSecurityOTM_RFC_GetParamBoolValue"
| "rfc_get RFC_AdvSecAgentRaptr = AdvSecAgentRaptr_RFC_GetParamBoolValue"
| "rfc_get RFC_AdvSecAgent = AdvSecAgent_RFC_GetParamBoolValue"
| "rfc_get RFC_AdvSecSafeBrowsing = AdvSecSafeBrowsing_RFC_GetParamBoolValue"
| "rfc_get RFC_AdvSecCujoTelemetryWiFiFP = AdvSecCujoTelemetryWiFiFP_RFC_GetParamBoolValue"
| "rfc_get RFC_AdvanceSecurityCujoTracer = AdvanceSecurityCujoTracer_RFC_GetParamBoolValue"
| "rfc_get RFC_AdvanceSecurityCujoTelemetry = AdvanceSecurityCujoTelemetry_RFC_GetParamBoolValue"
| "rfc_get RFC_AdvSecSentryAtTheEdge = AdvSecSentryAtTheEdge_RFC_GetParamBoolValue"
| "rfc_get RFC_AdvSecTCPTrackerFilterDevices = AdvSecTCPTrackerFilterDevices_RFC_GetParamBoolValue"
| "rfc_get RFC_AdvSecDoHBlocking = AdvSecDoHBlocking_RFC_GetParamBoolValue"
| "rfc_get RFC_AdvSecDNSECHBlocking = AdvSecDNSECHBlocking_RFC_GetParamBoolValue"

fun rfc_set :: "rfc_id \<Rightarrow> 'w env \<Rightarrow> string \<Rightarrow> BOOL \<Rightarrow> ('w, BOOL) adv" where
  "rfc_set RFC_AdvancedParentalControl = AdvancedParentalControl_RFC_SetParamBoolValue"
| "rfc_set RFC_PrivacyProtection = PrivacyProtection_RFC_SetParamBoolValue"
| "rfc_set RFC_DeviceFingerPrintICMPv6 = DeviceFingerPrintICMPv6_RFC_SetParamBoolValue"
| "rfc_set RFC_WS_Discovery_Analysis = WS_Discovery_Analysis_RFC_SetParamBoolValue"
| "rfc_set RFC_AdvancedSecurityOTM = AdvancedSecurityOTM_RFC_SetParamBoolValue"
| "rfc_set RFC_AdvSecAgentRaptr = AdvSecAgentRaptr_RFC_SetParamBoolValue"
| "rfc_set RFC_AdvSecAgent = AdvSecAgent_RFC_SetParamBoolValue"
| "rfc_set RFC_AdvSecSafeBrowsing = AdvSecSafeBrowsing_RFC_SetParamBoolValue"
| "rfc_set RFC_AdvSecCujoTelemetryWiFiFP = AdvSecCujoTelemetryWiFiFP_RFC_SetParamBoolValue"
| "rfc_set RFC_AdvanceSecurityCujoTracer = AdvanceSecurityCujoTracer_RFC_SetParamBoolValue"
| "rfc_set RFC_AdvanceSecurityCujoTelemetry = AdvanceSecurityCujoTelemetry_RFC_SetParamBoolValue"
| "rfc_set RFC_AdvSecSentryAtTheEdge = AdvSecSentryAtTheEdge_RFC_SetParamBoolValue"
| "rfc_set RFC_AdvSecTCPTrackerFilterDevices = AdvSecTCPTrackerFilterDevices_RFC_SetParamBoolValue"
| "rfc_set RFC_AdvSecDoHBlocking = AdvSecDoHBlocking_RFC_SetParamBoolValue"
| "rfc_set RFC_AdvSecDNSECHBlocking = AdvSecDNSECHBlocking_RFC_SetParamBoolValue"

text \<open>The flag an object stands for, how it is written, and the setting it is stored under.\<close>

fun rfc_flag :: "rfc_id \<Rightarrow> COSA_DATAMODEL_AGENT \<Rightarrow> BOOL" where
  "rfc_flag RFC_AdvancedParentalControl = (\<lambda>a. flag_bEnable (pAdvPC_RFC a))"
| "rfc_flag RFC_PrivacyProtection = (\<lambda>a. flag_bEnable (pPrivProt_RFC a))"
| "rfc_flag RFC_DeviceFingerPrintICMPv6 = (\<lambda>a. flag_bEnable (pDFIcmpv6_RFC a))"
| "rfc_flag RFC_WS_Discovery_Analysis = (\<lambda>a. flag_bEnable (pWSDiscoveryAnalysis_RFC a))"
| "rfc_flag RFC_AdvancedSecurityOTM = (\<lambda>a. flag_bEnable (pAdvSecOTM_RFC a))"
| "rfc_flag RFC_AdvSecAgentRaptr = (\<lambda>a. flag_bEnable (pRaptr_RFC a))"
| "rfc_flag RFC_AdvSecAgent = (\<lambda>a. flag_bEnable (pAdvSecAgent_RFC a))"
| "rfc_flag RFC_AdvSecSafeBrowsing = (\<lambda>a. flag_bEnable (pAdvSecSafeBrowsing_RFC a))"
| "rfc_flag RFC_AdvSecCujoTelemetryWiFiFP = (\<lambda>a. flag_bEnable (pAdvSecCujoTelemetryWiFiFP_RFC a))"
| "rfc_flag RFC_AdvanceSecurityCujoTracer = (\<lambda>a. flag_bEnable (pAdvSecCujoTracer_RFC a))"
| "rfc_flag RFC_AdvanceSecurityCujoTelemetry = (\<lambda>a. flag_bEnable (pAdvSecCujoTelemetry_RFC a))"
| "rfc_flag RFC_AdvSecSentryAtTheEdge = (\<lambda>a. flag_bEnable (pAdvSecSATE_RFC a))"
| "rfc_flag RFC_AdvSecTCPTrackerFilterDevices = (\<lambda>a. flag_bEnable (pAdvSecTCPTrackerFilterDevices_RFC a))"
| "rfc_flag RFC_AdvSecDoHBlocking = (\<lambda>a. flag_bEnable (pAdvSecDoHBlocking_RFC a))"
| "rfc_flag RFC_AdvSecDNSECHBlocking = (\<lambda>a. flag_bEnable (pAdvSecDNSECHBlocking_RFC a))"

fun rfc_upd :: "rfc_id \<Rightarrow> BOOL \<Rightarrow> COSA_DATAMODEL_AGENT \<Rightarrow> COSA_DATAMODEL_AGENT" where
  "rfc_upd RFC_AdvancedParentalControl = (\<lambda>b. pAdvPC_RFC_update (set_flag b))"
| "rfc_upd RFC_PrivacyProtection = (\<lambda>b. pPrivProt_RFC_update (set_flag b))"
| "rfc_upd RFC_DeviceFingerPrintICMPv6 = (\<lambda>b. pDFIcmpv6_RFC_update (set_flag b))"
| "rfc_upd RFC_WS_Discovery_Analysis = (\<lambda>b. pWSDiscoveryAnalysis_RFC_update (set_flag b))"
| "rfc_upd RFC_AdvancedSecurityOTM = (\<lambda>b. pAdvSecOTM_RFC_update (set_flag b))"
| "rfc_upd RFC_AdvSecAgentRaptr = (\<lambda>b. pRaptr_RFC_update (set_flag b))"
| "rfc_upd RFC_AdvSecAgent = (\<lambda>b. pAdvSecAgent_RFC_update (set_flag b))"
| "rfc_upd RFC_AdvSecSafeBrowsing = (\<lambda>b. pAdvSecSafeBrowsing_RFC_update (set_flag b))"
| "rfc_upd RFC_AdvSecCujoTelemetryWiFiFP = (\<lambda>b. pAdvSecCujoTelemetryWiFiFP_RFC_update (set_flag b))"
| "rfc_upd RFC_AdvanceSecurityCujoTracer = (\<lambda>b. pAdvSecCujoTracer_RFC_update (set_flag b))"
| "rfc_upd RFC_AdvanceSecurityCujoTelemetry = (\<lambda>b. pAdvSecCujoTelemetry_RFC_update (set_flag b))"
| "rfc_upd RFC_AdvSecSentryAtTheEdge = (\<lambda>b. pAdvSecSATE_RFC_update (set_flag b))"
| "rfc_upd RFC_AdvSecTCPTrackerFilterDevices = (\<lambda>b. pAdvSecTCPTrackerFilterDevices_RFC_update (set_flag b))"
| "rfc_upd RFC_AdvSecDoHBlocking = (\<lambda>b. pAdvSecDoHBlocking_RFC_update (set_flag b))"
| "rfc_upd RFC_AdvSecDNSECHBlocking = (\<lambda>b. pAdvSecDNSECHBlocking_RFC_update (set_flag b))"

fun rfc_key :: "rfc_id \<Rightarrow> string" where
  "rfc_key RFC_AdvancedParentalControl = g_AdvParentalControlEnabled"
| "rfc_key RFC_PrivacyProtection = g_PrivacyProtectionEnabled"
| "rfc_key RFC_DeviceFingerPrintICMPv6 = g_DeviceFingerPrintICMPv6Enabled"
| "rfc_key RFC_WS_Discovery_Analysis = g_WSDiscoveryAnalysisEnabled"
| "rfc_key RFC_AdvancedSecurityOTM = g_AdvSecOTMEnabled"
| "rfc_key RFC_AdvSecAgentRaptr = g_RaptrEnabled"
| "rfc_key RFC_AdvSecAgent = g_AdvSecAgentEnabled"
| "rfc_key RFC_AdvSecSafeBrowsing = g_AdvSecSafeBrowsingEnabled"
| "rfc_key RFC_AdvSecCujoTelemetryWiFiFP = g_AdvSecCujoTelemetryWiFiFPEnabled"
| "rfc_key RFC_AdvanceSecurityCujoTracer = g_AdvSecCujoTracerEnabled"
| "rfc_key RFC_AdvanceSecurityCujoTelemetry = g_AdvSecCujoTelemetryEnabled"
| "rfc_key RFC_AdvSecSentryAtTheEdge = g_AdvSecSATEEnabled"
| "rfc_key RFC_AdvSecTCPTrackerFilterDevices = g_AdvSecTCPTrackerFilterDevicesEnabled"
| "rfc_key RFC_AdvSecDoHBlocking = g_AdvSecDoHBlockingEnabled"
| "rfc_key RFC_AdvSecDNSECHBlocking = g_AdvSecDNSECHBlockingEnabled"

section \<open>The family inherits the laws of its members\<close>

lemma rfc_flag_upd [simp]: "rfc_flag i (rfc_upd j b a) = (if i = j then b else rfc_flag i a)"
  by (cases i; cases j) simp_all

lemma rfc_us_upd [simp]: "us_of (rfc_upd i b a) = us_of a"
  by (cases i) simp_all

lemma rfc_wdc_upd [simp]: "wdc_of (rfc_upd i b a) = wdc_of a"
  by (cases i) simp_all

lemma rfc_ni_upd [simp]: "pAdvNetworkIntelligence_RFC (rfc_upd i b a) = pAdvNetworkIntelligence_RFC a"
  by (cases i) simp_all

lemma rfc_num_upd [simp]:
  "ulLoggingPeriod (rfc_upd i b a) = ulLoggingPeriod a" "ulLogLevel (rfc_upd i b a) = ulLogLevel a"
  "pAdvSec (rfc_upd i b a) = pAdvSec a" "pRabid (rfc_upd i b a) = pRabid a"
  "bEnable (rfc_upd i b a) = bEnable a"
  by (cases i; simp)+

lemmas rfc_set_answers =
  apc.set_answers pp.set_answers dficmpv6.set_answers wsdis.set_answers otm.set_answers
  raptr.set_answers agt.set_answers sbrule.set_answers ctw.set_answers ct.set_answers
  ctd.set_answers sate.set_answers tcpt.set_answers doh.set_answers dnsech.set_answers

lemmas rfc_set_effect =
  apc.set_effect pp.set_effect dficmpv6.set_effect wsdis.set_effect otm.set_effect
  raptr.set_effect agt.set_effect sbrule.set_effect ctw.set_effect ct.set_effect
  ctd.set_effect sate.set_effect tcpt.set_effect doh.set_effect dnsech.set_effect

lemmas rfc_set_refused =
  apc.set_refused pp.set_refused dficmpv6.set_refused wsdis.set_refused otm.set_refused
  raptr.set_refused agt.set_refused sbrule.set_refused ctw.set_refused ct.set_refused
  ctd.set_refused sate.set_refused tcpt.set_refused doh.set_refused dnsech.set_refused

lemmas rfc_set_accepted =
  apc.set_accepted pp.set_accepted dficmpv6.set_accepted wsdis.set_accepted otm.set_accepted
  raptr.set_accepted agt.set_accepted sbrule.set_accepted ctw.set_accepted ct.set_accepted
  ctd.set_accepted sate.set_accepted tcpt.set_accepted doh.set_accepted dnsech.set_accepted

lemmas rfc_set_again =
  apc.set_again pp.set_again dficmpv6.set_again wsdis.set_again otm.set_again
  raptr.set_again agt.set_again sbrule.set_again ctw.set_again ct.set_again
  ctd.set_again sate.set_again tcpt.set_again doh.set_again dnsech.set_again

lemmas rfc_set_persists_all =
  apc.set_persists pp.set_persists dficmpv6.set_persists wsdis.set_persists otm.set_persists
  raptr.set_persists agt.set_persists sbrule.set_persists ctw.set_persists ct.set_persists
  ctd.set_persists sate.set_persists tcpt.set_persists doh.set_persists dnsech.set_persists

lemmas rfc_set_preserves =
  apc.set_preserves pp.set_preserves dficmpv6.set_preserves wsdis.set_preserves otm.set_preserves
  raptr.set_preserves agt.set_preserves sbrule.set_preserves ctw.set_preserves ct.set_preserves
  ctd.set_preserves sate.set_preserves tcpt.set_preserves doh.set_preserves dnsech.set_preserves

lemmas rfc_set_then_get =
  apc.set_then_get pp.set_then_get dficmpv6.set_then_get wsdis.set_then_get otm.set_then_get
  raptr.set_then_get agt.set_then_get sbrule.set_then_get ctw.set_then_get ct.set_then_get
  ctd.set_then_get sate.set_then_get tcpt.set_then_get doh.set_then_get dnsech.set_then_get

lemmas rfc_set_run =
  apc.set_run pp.set_run dficmpv6.set_run wsdis.set_run otm.set_run
  raptr.set_run agt.set_run sbrule.set_run ctw.set_run ct.set_run
  ctd.set_run sate.set_run tcpt.set_run doh.set_run dnsech.set_run

lemmas rfc_get_law =
  apc.get_law pp.get_law dficmpv6.get_law wsdis.get_law otm.get_law
  raptr.get_law agt.get_law sbrule.get_law ctw.get_law ct.get_law
  ctd.get_law sate.get_law tcpt.get_law doh.get_law dnsech.get_law

section \<open>Registration\<close>

definition registered_functions :: "string list" where
  "registered_functions = [
     ''DeviceFingerPrint_GetParamBoolValue'', ''DeviceFingerPrint_SetParamBoolValue'',
     ''DeviceFingerPrint_GetParamUlongValue'', ''DeviceFingerPrint_SetParamUlongValue'',
     ''DeviceFingerPrint_GetParamStringValue'', ''DeviceFingerPrint_SetParamStringValue'',
     ''AdvancedSecurity_SetParamStringValue'', ''SafeBrowsing_GetParamBoolValue'',
     ''SafeBrowsing_SetParamBoolValue'', ''SafeBrowsing_GetParamUlongValue'',
     ''SafeBrowsing_SetParamUlongValue'', ''SafeBrowsing_GetParamStringValue'',
     ''SafeBrowsing_Validate'', ''SafeBrowsing_Commit'', ''SafeBrowsing_Rollback'',
     ''Softflowd_GetParamBoolValue'', ''Softflowd_SetParamBoolValue'', ''Softflowd_Validate'',
     ''Softflowd_Commit'', ''Softflowd_Rollback'', ''RabidFramework_GetParamUlongValue'',
     ''RabidFramework_SetParamUlongValue'', ''AdvancedParentalControl_RFC_GetParamBoolValue'',
     ''AdvancedParentalControl_RFC_SetParamBoolValue'', ''PrivacyProtection_RFC_GetParamBoolValue'',
     ''PrivacyProtection_RFC_SetParamBoolValue'', ''DeviceFingerPrintICMPv6_RFC_GetParamBoolValue'',
     ''DeviceFingerPrintICMPv6_RFC_SetParamBoolValue'', ''WS_Discovery_Analysis_RFC_GetParamBoolValue'',
     ''WS_Discovery_Analysis_RFC_SetParamBoolValue'', ''AdvancedSecurityOTM_RFC_GetParamBoolValue'',
     ''AdvancedSecurityOTM_RFC_SetParamBoolValue'', ''AdvSecAgentRaptr_RFC_GetParamBoolValue'',
     ''AdvSecAgentRaptr_RFC_SetParamBoolValue'', ''AdvanceSecurityUserSpace_RFC_GetParamBoolValue'',
     ''AdvanceSecurityUserSpace_RFC_SetParamBoolValue'', ''NetworkIntelligence_RFC_GetParamBoolValue'',
     ''NetworkIntelligence_RFC_SetParamBoolValue'', ''NetworkIntelligence_RFC_GetParamUlongValue'',
     ''NetworkIntelligence_RFC_SetParamUlongValue'', ''WifiDataCollection_RFC_GetParamBoolValue'',
     ''WifiDataCollection_RFC_SetParamBoolValue'', ''AdvSecAgent_RFC_GetParamBoolValue'',
     ''AdvSecAgent_RFC_SetParamBoolValue'', ''AdvSecSafeBrowsing_RFC_GetParamBoolValue'',
     ''AdvSecSafeBrowsing_RFC_SetParamBoolValue'', ''AdvSecCujoTelemetryWiFiFP_RFC_GetParamBoolValue'',
     ''AdvSecCujoTelemetryWiFiFP_RFC_SetParamBoolValue'',
     ''AdvanceSecurityCujoTracer_RFC_GetParamBoolValue'',
     ''AdvanceSecurityCujoTracer_RFC_SetParamBoolValue'',
     ''AdvanceSecurityCujoTelemetry_RFC_GetParamBoolValue'',
     ''AdvanceSecurityCujoTelemetry_RFC_SetParamBoolValue'',
     ''AdvSecSentryAtTheEdge_RFC_GetParamBoolValue'', ''AdvSecSentryAtTheEdge_RFC_SetParamBoolValue'',
     ''AdvSecTCPTrackerFilterDevices_RFC_GetParamBoolValue'',
     ''AdvSecTCPTrackerFilterDevices_RFC_SetParamBoolValue'',
     ''AdvSecDoHBlocking_RFC_GetParamBoolValue'', ''AdvSecDoHBlocking_RFC_SetParamBoolValue'',
     ''AdvSecDNSECHBlocking_RFC_GetParamBoolValue'', ''AdvSecDNSECHBlocking_RFC_SetParamBoolValue''
  ]"

text \<open>The get and set handlers the data-model file names, in its order.\<close>

definition dm_xml_functions :: "string list" where
  "dm_xml_functions = [
     ''DeviceFingerPrint_GetParamBoolValue'', ''DeviceFingerPrint_SetParamBoolValue'',
     ''DeviceFingerPrint_GetParamUlongValue'', ''DeviceFingerPrint_SetParamUlongValue'',
     ''DeviceFingerPrint_GetParamStringValue'', ''DeviceFingerPrint_SetParamStringValue'',
     ''AdvancedSecurity_SetParamStringValue'', ''SafeBrowsing_GetParamBoolValue'',
     ''SafeBrowsing_SetParamBoolValue'', ''SafeBrowsing_GetParamUlongValue'',
     ''SafeBrowsing_SetParamUlongValue'', ''SafeBrowsing_GetParamStringValue'',
     ''Softflowd_GetParamBoolValue'', ''Softflowd_SetParamBoolValue'',
     ''AdvancedParentalControl_GetParamBoolValue'', ''AdvancedParentalControl_SetParamBoolValue'',
     ''PrivacyProtection_GetParamBoolValue'', ''PrivacyProtection_SetParamBoolValue'',
     ''RabidFramework_GetParamUlongValue'', ''RabidFramework_SetParamUlongValue'',
     ''AdvancedParentalControl_RFC_GetParamBoolValue'',
     ''AdvancedParentalControl_RFC_SetParamBoolValue'', ''PrivacyProtection_RFC_GetParamBoolValue'',
     ''PrivacyProtection_RFC_SetParamBoolValue'', ''DeviceFingerPrintICMPv6_RFC_GetParamBoolValue'',
     ''DeviceFingerPrintICMPv6_RFC_SetParamBoolValue'', ''WS_Discovery_Analysis_RFC_GetParamBoolValue'',
     ''WS_Discovery_Analysis_RFC_SetParamBoolValue'', ''AdvancedSecurityOTM_RFC_GetParamBoolValue'',
     ''AdvancedSecurityOTM_RFC_SetParamBoolValue'', ''AdvanceSecurityUserSpace_RFC_GetParamBoolValue'',
     ''AdvanceSecurityUserSpace_RFC_SetParamBoolValue'',
     ''AdvanceSecurityCujoTracer_RFC_GetParamBoolValue'',
     ''AdvanceSecurityCujoTracer_RFC_SetParamBoolValue'',
     ''AdvanceSecurityCujoTelemetry_RFC_GetParamBoolValue'',
     ''AdvanceSecurityCujoTelemetry_RFC_SetParamBoolValue'',
     ''AdvSecSentryAtTheEdge_RFC_GetParamBoolValue'', ''AdvSecSentryAtTheEdge_RFC_SetParamBoolValue'',
     ''AdvSecTCPTrackerFilterDevices_RFC_GetParamBoolValue'',
     ''AdvSecTCPTrackerFilterDevices_RFC_SetParamBoolValue'',
     ''AdvSecDoHBlocking_RFC_GetParamBoolValue'', ''AdvSecDoHBlocking_RFC_SetParamBoolValue'',
     ''AdvSecDNSECHBlocking_RFC_GetParamBoolValue'', ''AdvSecDNSECHBlocking_RFC_SetParamBoolValue'',
     ''NetworkIntelligence_RFC_GetParamBoolValue'', ''NetworkIntelligence_RFC_SetParamBoolValue'',
     ''NetworkIntelligence_RFC_GetParamUlongValue'', ''NetworkIntelligence_RFC_SetParamUlongValue'',
     ''WifiDataCollection_RFC_GetParamBoolValue'', ''WifiDataCollection_RFC_SetParamBoolValue'',
     ''Levl_RFC_GetParamBoolValue'', ''Levl_RFC_SetParamBoolValue'',
     ''AdvSecAgent_RFC_GetParamBoolValue'', ''AdvSecAgent_RFC_SetParamBoolValue'',
     ''AdvSecSafeBrowsing_RFC_GetParamBoolValue'', ''AdvSecSafeBrowsing_RFC_SetParamBoolValue'',
     ''AdvSecCujoTelemetryWiFiFP_RFC_GetParamBoolValue'',
     ''AdvSecCujoTelemetryWiFiFP_RFC_SetParamBoolValue'', ''AdvSecAgentRaptr_RFC_GetParamBoolValue'',
     ''AdvSecAgentRaptr_RFC_SetParamBoolValue''
  ]"

section \<open>Properties of the feature controls\<close>

definition abs_switchboard :: "COSA_DATAMODEL_AGENT \<Rightarrow> rfc_id \<Rightarrow> bool" where
  "abs_switchboard a = (\<lambda>i. rfc_flag i a \<noteq> 0)"

text \<open>Objects whose build or run-time guard refuses a change.\<close>

fun rfc_refuses :: "'w env \<Rightarrow> COSA_DATAMODEL_AGENT \<Rightarrow> rfc_id \<Rightarrow> BOOL \<Rightarrow> bool" where
  "rfc_refuses E a RFC_DeviceFingerPrintICMPv6 b = XB3_ARM_or_BCM_MIPS E"
| "rfc_refuses E a RFC_AdvSecSafeBrowsing b = (us_of a = 0)"
| "rfc_refuses E a RFC_AdvSecCujoTelemetryWiFiFP b = (us_of a = 0)"
| "rfc_refuses E a RFC_AdvSecAgentRaptr b = (b = 0)"
| "rfc_refuses E a _ b = False"

lemma rfc_effect: "agent (snd (run_state (rfc_set i E n b) s)) =
    (if fst (run_state (rfc_set i E n b) s) = TRUE \<and> b \<noteq> rfc_flag i (agent s)
     then rfc_upd i (norm_bool b) (agent s) else agent s)"
  by (cases i) (simp_all only: rfc_set.simps rfc_flag.simps rfc_upd.simps rfc_set_effect)

lemma rfc_preserves:
  assumes "\<And>a. I a \<Longrightarrow> I (rfc_upd i TRUE a)" "\<And>a. I a \<Longrightarrow> I (rfc_upd i FALSE a)"
  shows "preserves (\<lambda>s. I (agent s)) (rfc_set i E n b)"
  using assms by (intro preservesI) (simp add: rfc_effect norm_bool_def)

text \<open>A set handler of a feature control answers TRUE or FALSE, and the agent object it
  leaves is the old one with exactly its own flag switched when it answered TRUE to a change,
  and the old one, untouched, otherwise.\<close>

lemma rfc_set_touches_one_flag:
  "fst (run_state (rfc_set i E n b) s) \<in> {TRUE, FALSE} \<and>
   agent (snd (run_state (rfc_set i E n b) s)) =
    (if fst (run_state (rfc_set i E n b) s) = TRUE \<and> b \<noteq> rfc_flag i (agent s)
     then rfc_upd i (norm_bool b) (agent s) else agent s)"
proof
  show "fst (run_state (rfc_set i E n b) s) \<in> {TRUE, FALSE}"
    by (cases i) (simp_all only: rfc_set.simps rfc_set_answers)
qed (rule rfc_effect)

text \<open>C14: The fifteen feature controls refine a switchboard: through the abstraction that reads
  each flag as on or off, an accepted set moves one switch to the requested position and a
  refused set moves none.\<close>

theorem rfc_refines_switchboard:
  "abs_switchboard (agent (snd (run_state (rfc_set i E n b) s))) =
    (if fst (run_state (rfc_set i E n b) s) = TRUE
     then (abs_switchboard (agent s))(i := (b \<noteq> 0)) else abs_switchboard (agent s))"
  by (rule ext) (auto simp: rfc_effect abs_switchboard_def)

text \<open>C15: A value accepted by a feature control is the value its get handler then answers, up to
  the normalisation of a non-zero byte to TRUE.\<close>

theorem rfc_read_back:
  assumes "run_state (rfc_set i E n b) s = (TRUE, s')"
  shows "\<exists>w. rfc_get i E n s' = Some w \<and> (w \<noteq> 0 \<longleftrightarrow> b \<noteq> 0)"
  using assms
  by (cases i) (simp_all only: rfc_set.simps rfc_get.simps, (drule rfc_set_then_get, assumption)+)

lemma demo_otm_on:
  "fst (run_state (rfc_set RFC_AdvancedSecurityOTM demo_env ''Enable'' TRUE) (demo_state agent_zero)) = TRUE"
  by code_simp

lemma demo_otm_run:
  "run_state (rfc_set RFC_AdvancedSecurityOTM demo_env ''Enable'' TRUE) (demo_state agent_zero)
   = (TRUE, snd (run_state (rfc_set RFC_AdvancedSecurityOTM demo_env ''Enable'' TRUE) (demo_state agent_zero)))"
  using demo_otm_on by (simp add: prod_eq_iff)

theorem rfc_read_back_witness:
  "\<exists>s' w. run_state (rfc_set RFC_AdvancedSecurityOTM demo_env ''Enable'' TRUE) (demo_state agent_zero)
      = (TRUE, s') \<and> rfc_get RFC_AdvancedSecurityOTM demo_env ''Enable'' s' = Some w \<and> w \<noteq> 0"
  using rfc_read_back [OF demo_otm_run] demo_otm_run by auto

lemma rfc_persists:
  assumes "syscfg_law E cfg" "sprintf_s_law E"
    and "run_state (rfc_set i E n b) s = (TRUE, s')" "rfc_flag i (agent s) \<noteq> b"
  shows "cfg (world s') = (cfg (world s))(rfc_key i \<mapsto> nat_digits (if b \<noteq> 0 then 1 else 0))"
  using assms
  by (cases i) (simp_all only: rfc_set.simps rfc_key.simps rfc_flag.simps,
      (drule (3) rfc_set_persists_all, assumption)+)

text \<open>An accepted change is persistent: with a syscfg that stores what it is given, the
  setting of the object afterwards holds the text 1 or 0, and no other setting has changed.\<close>

lemma rfc_set_persists:
  assumes "syscfg_law E cfg" "sprintf_s_law E"
    and "run_state (rfc_set i E n b) s = (TRUE, s')" "rfc_flag i (agent s) \<noteq> b"
  shows "cfg (world s') = (cfg (world s))(rfc_key i \<mapsto> nat_digits (if b \<noteq> 0 then 1 else 0))"
  by (rule rfc_persists [OF assms])

theorem rfc_set_persists_witness:
  "map_of (dw_cfg (world (snd (run_state (rfc_set RFC_AdvancedSecurityOTM demo_env ''Enable'' TRUE)
      (demo_state agent_zero))))) = [''Adv_AdvSecOTMRFCEnable'' \<mapsto> ''1'']"
proof -
  have "rfc_flag RFC_AdvancedSecurityOTM (agent (demo_state agent_zero)) \<noteq> TRUE" by code_simp
  moreover have "nat_digits 1 = ''1''" "map_of (dw_cfg (world (demo_state agent_zero))) = Map.empty"
    by (code_simp, simp add: demo_state_def demo_world0_def)
  ultimately show ?thesis
    using rfc_set_persists [OF demo_syscfg_law demo_sprintf_law demo_otm_run] by simp
qed

text \<open>Setting a feature control again to the position it was just set to is accepted, and
  neither the agent nor the outside is touched: no setting is written, no script launched.\<close>

lemma rfc_set_idempotent:
  assumes "b \<in> {TRUE, FALSE}" "run_state (rfc_set i E n b) s = (TRUE, s')"
  shows "run_state (rfc_set i E n b) s' = (TRUE, s')"
  using assms
  by (cases i) (simp_all only: rfc_set.simps, (drule (1) rfc_set_again, assumption)+)

theorem rfc_set_idempotent_witness:
  "\<exists>s'. run_state (rfc_set RFC_AdvancedSecurityOTM demo_env ''Enable'' TRUE) (demo_state agent_zero) = (TRUE, s')
     \<and> run_state (rfc_set RFC_AdvancedSecurityOTM demo_env ''Enable'' TRUE) s' = (TRUE, s')"
proof (intro exI conjI)
  show "run_state (rfc_set RFC_AdvancedSecurityOTM demo_env ''Enable'' TRUE) (demo_state agent_zero)
      = (TRUE, snd (run_state (rfc_set RFC_AdvancedSecurityOTM demo_env ''Enable'' TRUE) (demo_state agent_zero)))"
    by (rule demo_otm_run)
  have "TRUE \<in> {TRUE, FALSE}" by simp
  then show "run_state (rfc_set RFC_AdvancedSecurityOTM demo_env ''Enable'' TRUE)
       (snd (run_state (rfc_set RFC_AdvancedSecurityOTM demo_env ''Enable'' TRUE) (demo_state agent_zero)))
      = (TRUE, snd (run_state (rfc_set RFC_AdvancedSecurityOTM demo_env ''Enable'' TRUE) (demo_state agent_zero)))"
    by (rule rfc_set_idempotent [OF _ demo_otm_run])
qed

text \<open>A change that the guard of an object refuses (its build lacks it, user space is off for
  safe browsing and telemetry, Raptr is to be disabled) answers FALSE and leaves the whole
  state as it was.\<close>

lemma rfc_guard_refuses:
  assumes "rfc_refuses E (agent s) i b" "rfc_flag i (agent s) \<noteq> b"
  shows "run_state (rfc_set i E n b) s = (FALSE, s)"
  using assms by (cases i) (simp_all add: rfc_set_run)

theorem rfc_guard_refuses_witness:
  "run_state (rfc_set RFC_AdvSecSafeBrowsing demo_env ''Enable'' TRUE) (demo_state agent_zero)
   = (FALSE, demo_state agent_zero)"
proof -
  have "rfc_refuses demo_env (agent (demo_state agent_zero)) RFC_AdvSecSafeBrowsing TRUE" by code_simp
  moreover have "rfc_flag RFC_AdvSecSafeBrowsing (agent (demo_state agent_zero)) \<noteq> TRUE" by code_simp
  ultimately show ?thesis by (rule rfc_guard_refuses)
qed

text \<open>Six handlers that the data-model description names are not in the table the plug-in
  registers, and these six only: the get and set handlers of parental control, of privacy
  protection and of Levl.\<close>

lemma dm_handlers_not_registered:
  "filter (\<lambda>f. f \<notin> set registered_functions) dm_xml_functions =
     [''AdvancedParentalControl_GetParamBoolValue'', ''AdvancedParentalControl_SetParamBoolValue'',
      ''PrivacyProtection_GetParamBoolValue'', ''PrivacyProtection_SetParamBoolValue'',
      ''Levl_RFC_GetParamBoolValue'', ''Levl_RFC_SetParamBoolValue'']"
  by code_simp

end
