(* ===== verification/Adv_Param.thy ===== *)
theory Adv_Param
  imports Adv_Control
begin

text \<open>
  The web-configuration document: decoding of an unpacked msgpack map into the five switches
  (\<open>advsecurity_helpers.c\<close>, \<open>advsecurity_param.c\<close>). The unpacker itself is a routine of the
  environment record \<open>wenv\<close>, and so is what a union gives when it is read under another tag than its
  own. A read through a NULL pointer, or through one such a union gives that is bad, is the outcome
  \<open>Crash\<close>.
\<close>

section \<open>Unpacked messages\<close>

datatype 'a outcome = Done 'a | Crash

text \<open>A string key is the memory it points to, up to the end of the message, and its size: the
  bytes after the key are readable, and \<open>strncmp\<close> is given bounds other than the size.\<close>

datatype mp_key = KEY_STR string nat | KEY_OTHER

datatype mp_val =
    MP_BOOLEAN bool
  | MP_STR string
  | MP_BIN string
  | MP_UINT "64 word"
  | MP_ARRAY "mp_val list"
  | MP_MAP "(mp_key \<times> mp_val) list"
  | MP_OTHER

datatype mp_type = T_BOOLEAN | T_STR | T_BIN | T_UINT | T_ARRAY | T_MAP | T_OTHER

fun mp_type_of :: "mp_val \<Rightarrow> mp_type" where
  "mp_type_of (MP_BOOLEAN b) = T_BOOLEAN"
| "mp_type_of (MP_STR s) = T_STR"
| "mp_type_of (MP_BIN s) = T_BIN"
| "mp_type_of (MP_UINT n) = T_UINT"
| "mp_type_of (MP_ARRAY xs) = T_ARRAY"
| "mp_type_of (MP_MAP m) = T_MAP"
| "mp_type_of MP_OTHER = T_OTHER"

datatype unpack_return =
  MSGPACK_UNPACK_SUCCESS | MSGPACK_UNPACK_EXTRA_BYTES | MSGPACK_UNPACK_CONTINUE
  | MSGPACK_UNPACK_PARSE_ERROR | MSGPACK_UNPACK_NOMEM_ERROR

text \<open>\<open>strncmp(a, b, n) == 0\<close>; the end of a list is a NUL.\<close>

fun strncmp_eq :: "nat \<Rightarrow> string \<Rightarrow> string \<Rightarrow> bool" where
  "strncmp_eq 0 a b = True"
| "strncmp_eq (Suc n) [] [] = True"
| "strncmp_eq (Suc n) [] (d # ds) = (d = CHR 0x00)"
| "strncmp_eq (Suc n) (c # cs) [] = (c = CHR 0x00)"
| "strncmp_eq (Suc n) (c # cs) (d # ds) = (c = d \<and> (c = CHR 0x00 \<or> strncmp_eq n cs ds))"

text \<open>\<open>match(p, s) == 0\<close> for a string key.\<close>

fun key_match :: "mp_key \<Rightarrow> string \<Rightarrow> bool" where
  "key_match (KEY_STR mem n) s = strncmp_eq n mem s"
| "key_match KEY_OTHER s = False"

section \<open>The switches\<close>

definition clear_bit8 :: "nat \<Rightarrow> 8 word \<Rightarrow> 8 word" where
  "clear_bit8 n w = and w (not (push_bit n 1))"

text \<open>The five tests of one key-value pair, in the order of the code.\<close>

definition process_pair :: "mp_key \<times> mp_val \<Rightarrow> advsecurityparam \<times> 8 word \<Rightarrow> advsecurityparam \<times> 8 word" where
  "process_pair p eo = (case p of
      (KEY_STR mem n, MP_BOOLEAN b) \<Rightarrow>
        let k = KEY_STR mem n; (e, left) = eo;
            (e, left) = (if key_match k ''FingerPrintEnable''
                         then (e\<lparr>fingerprint_enable := b\<rparr>, clear_bit8 0 left) else (e, left));
            (e, left) = (if key_match k ''SoftflowdEnable''
                         then (e\<lparr>softflowd_enable := b\<rparr>, clear_bit8 3 left) else (e, left));
            (e, left) = (if key_match k ''SafeBrowsingEnable''
                         then (e\<lparr>safebrowsing_enable := b\<rparr>, clear_bit8 4 left) else (e, left));
            (e, left) = (if key_match k ''ParentalControlActivate''
                         then (e\<lparr>parental_control_activate := b\<rparr>, clear_bit8 1 left) else (e, left));
            (e, left) = (if key_match k ''PrivacyProtectionActivate''
                         then (e\<lparr>privacy_protection_activate := b\<rparr>, clear_bit8 2 left) else (e, left))
        in (e, left)
    | _ \<Rightarrow> eo)"

fun process_params_loop :: "(mp_key \<times> mp_val) list \<Rightarrow> advsecurityparam \<times> 8 word \<Rightarrow> advsecurityparam \<times> 8 word" where
  "process_params_loop [] eo = eo"
| "process_params_loop (p # ps) eo =
     (if 0 < snd eo then process_params_loop ps (process_pair p eo) else eo)"

text \<open>Return value and the structure as the loop leaves it.\<close>

definition process_advsecurityparams ::
    "advsecurityparam \<Rightarrow> (mp_key \<times> mp_val) list \<Rightarrow> int \<times> advsecurityparam" where
  "process_advsecurityparams e m =
     (case process_params_loop m (e, 5) of
        (e', objects_left) \<Rightarrow> (if objects_left = 0 then 0 else - 1, e'))"

definition param_zero :: advsecurityparam where
  "param_zero = \<lparr> fingerprint_enable = False, softflowd_enable = False, safebrowsing_enable = False,
     parental_control_activate = False, privacy_protection_activate = False \<rparr>"

section \<open>The document\<close>

record advsecuritydoc =
  param :: "advsecurityparam option"
  subdoc_name :: "string option"
  version :: "32 word"
  transaction_id :: "16 word"

definition doc_zero :: advsecuritydoc where
  "doc_zero = \<lparr> param = None, subdoc_name = None, version = 0, transaction_id = 0 \<rparr>"

record execData =
  txid :: "16 word"
  exec_version :: "32 word"
  numOfEntries :: nat
  exec_subdoc_name :: string
  user_data :: advsecuritydoc

text \<open>Routines of the web-configuration path. \<open>x_via_u64\<close>, \<open>x_via_str\<close> and \<open>x_via_map\<close> read the union of a
  value as a number, as a string (None when its pointer cannot be read up to its size) and as a
  map, whatever its tag: the entries that can be read, and whether they are as many as its size
  says.\<close>

record 'w wenv =
  x_alloc :: "string \<Rightarrow> 'w \<Rightarrow> bool \<times> 'w"          \<comment> \<open>an allocation, named by what it is for\<close>
  x_b64_decode :: "string \<Rightarrow> string"
  x_msgpack_unpack :: "string \<Rightarrow> unpack_return"
  x_msgpack_unpack_next :: "string \<Rightarrow> (unpack_return \<times> nat) \<times> mp_val"
  x_via_u64 :: "mp_val \<Rightarrow> 64 word"
  x_via_str :: "mp_val \<Rightarrow> string option"
  x_via_map :: "mp_val \<Rightarrow> (mp_key \<times> mp_val) list \<times> bool"
  x_sprintf_s_u :: "nat \<Rightarrow> 32 word \<Rightarrow> int \<times> string"     \<comment> \<open>\<open>"%u"\<close>\<close>
  x_sprintf_s_version :: "nat \<Rightarrow> string \<Rightarrow> int \<times> string"   \<comment> \<open>\<open>"%s_version"\<close>\<close>
  x_PushBlobRequest :: "execData \<Rightarrow> 'w \<Rightarrow> unit \<times> 'w"
  SUBDOC_NAME_SIZE :: nat                          \<comment> \<open>\<open>sizeof(execData.subdoc_name)\<close>\<close>

text \<open>The varargs are passed as a list; a missing object is a NULL pointer. The loop over the switches
  reads on until it has seen the two it waits for, so it leaves the readable entries exactly when they do
  not contain them.\<close>

definition process_advsecuritydoc ::
    "'w wenv \<Rightarrow> advsecuritydoc \<Rightarrow> mp_val option list \<Rightarrow> ('w, (int \<times> advsecuritydoc) outcome) adv" where
  "process_advsecuritydoc W ad args = (case args of
      [Some obj, Some obj1, Some obj2, Some obj3] \<Rightarrow>
        (case x_via_str W obj1 of None \<Rightarrow> return Crash
         | Some name \<Rightarrow> do {
             dup \<leftarrow> call (x_alloc W ''subdoc_name'');
             let ad1 = ad\<lparr>subdoc_name := (if dup then Some (takeWhile (\<lambda>c. c \<noteq> CHR 0x00) name) else None),
                         version := ucast (x_via_u64 W obj2),
                         transaction_id := ucast (x_via_u64 W obj3)\<rparr>;
             ok \<leftarrow> call (x_alloc W ''param'');
             if \<not> ok then return (Done (- 1, ad1))
             else (case x_via_map W obj of (mapobj, complete) \<Rightarrow>
                     (case process_advsecurityparams param_zero mapobj of (r, e) \<Rightarrow>
                        return (if r \<noteq> 0 \<and> \<not> complete then Crash
                          else Done (if r \<noteq> 0 then - 1 else 0, ad1\<lparr>param := Some e\<rparr>))))
           })
    | _ \<Rightarrow> return Crash)"

text \<open>A pair whose value has the expected type is found by \<open>match\<close>, any other by the length of
  the name looked for.\<close>

fun finder_comp :: "string \<Rightarrow> mp_type \<Rightarrow> (mp_key \<times> mp_val) list \<Rightarrow> mp_val option" where
  "finder_comp name t [] = None"
| "finder_comp name t ((k, v) # ps) = (case k of
      KEY_OTHER \<Rightarrow> finder_comp name t ps
    | KEY_STR mem n \<Rightarrow>
        if mp_type_of v = t
        then (if key_match k name then Some v else finder_comp name t ps)
        else (if strncmp_eq (length name) mem name then Some v else finder_comp name t ps))"

text \<open>The structure returned (None for NULL). \<open>wrapper\<close> is not NULL at any call.\<close>

definition comp_helper_convert :: "'w env \<Rightarrow> 'w wenv \<Rightarrow> string \<Rightarrow> string \<Rightarrow> mp_type \<Rightarrow> bool \<Rightarrow>
    (advsecuritydoc \<Rightarrow> mp_val option list \<Rightarrow> ('w, (int \<times> advsecuritydoc) outcome) adv) \<Rightarrow>
    ('w, advsecuritydoc option outcome) adv" where
  "comp_helper_convert E W buf wrapper expect_type optional process = do {
     ok \<leftarrow> call (x_alloc W ''struct'');
     if \<not> ok then return (Done None)
     else if length buf = 0 then return (Done (Some doc_zero))
     else (case x_msgpack_unpack_next W buf of ((mp_rv, offset), data) \<Rightarrow>
       (case data of
          MP_MAP m \<Rightarrow>
            if mp_rv \<noteq> MSGPACK_UNPACK_SUCCESS \<or> offset = 0 then return (Done None)
            else if fst (x_strcmp_s E ''parameters'' (length ''parameters'') wrapper) \<noteq> EOK then return (Done None)
            else (let inner = finder_comp wrapper expect_type m;
                      args = (if strcmp_s_matches E ''parameters'' wrapper then [inner]
                              else [inner, finder_comp ''subdoc_name'' expect_type m,
                                    finder_comp ''version'' expect_type m,
                                    finder_comp ''transaction_id'' expect_type m])
                  in if inner = None
                     then return (Done (if optional then Some doc_zero else None))
                     else do {
                       res \<leftarrow> process doc_zero args;
                       return (case res of
                           Crash \<Rightarrow> Crash
                         | Done (r, ad) \<Rightarrow> Done (if r = 0 then Some ad else None))
                     })
        | _ \<Rightarrow> return (Done None)))
   }"

abbreviation "ADVSEC_WEBCONFIG_SUBDOC_NAME \<equiv> ''advsecurity''"

definition advsecuritydoc_convert :: "'w env \<Rightarrow> 'w wenv \<Rightarrow> string \<Rightarrow> ('w, advsecuritydoc option outcome) adv" where
  "advsecuritydoc_convert E W buf =
     comp_helper_convert E W buf ADVSEC_WEBCONFIG_SUBDOC_NAME T_MAP True (process_advsecuritydoc W)"

text \<open>Error numbers \<open>OK\<close> to \<open>INVALID_VERSION\<close> are 0 to 5.\<close>

definition error_map :: "(int \<times> string option) list" where
  "error_map = [(0, Some ''No errors.''), (1, Some ''Out of memory.''),
     (2, Some ''Invalid first element.''), (5, Some ''Invalid 'version' value.''),
     (4, Some ''Invalid 'value' array.''), (0, None)]"

fun strerror_loop :: "(int \<times> string option) list \<Rightarrow> int \<Rightarrow> string" where
  "strerror_loop [] errnum = ''Unknown error.''"
| "strerror_loop ((v, txt) # ms) errnum = (case txt of
      None \<Rightarrow> ''Unknown error.''
    | Some t \<Rightarrow> if v = errnum then t else strerror_loop ms errnum)"

definition advsecuritydoc_strerror :: "int \<Rightarrow> string" where
  "advsecuritydoc_strerror errnum = strerror_loop error_map errnum"

end
