(* ===== verification/Adv_Webconfig.thy ===== *)
theory Adv_Webconfig
  imports Adv_Param
begin

text \<open>
  The web-configuration entry points: the data-model handler that decodes a blob and queues it,
  the callback that executes a queued blob, and the stored version of the sub-document
  (\<open>cosa_adv_security_webconfig.c\<close>, and \<open>AdvancedSecurity_SetParamStringValue\<close> of
  \<open>cosa_adv_security_dml.c\<close>).
\<close>

section \<open>The version of the sub-document\<close>

definition advsec_webconfig_get_blobversion :: "'w env \<Rightarrow> 'w wenv \<Rightarrow> string \<Rightarrow> ('w, 32 word) adv" where
  "advsec_webconfig_get_blobversion E W subdoc =
     (case x_sprintf_s_version W 72 subdoc of (rc, buf) \<Rightarrow>
        if rc < EOK then return 0
        else do {
          (r, subdoc_ver) \<leftarrow> call (x_syscfg_get E buf 64);
          if r = 0
          then (case strtoul subdoc_ver of (v, err, none) \<Rightarrow>
                  if err \<or> none then return 0 else return (ucast v))
          else return 0
        })"

definition advsec_webconfig_set_blobversion :: "'w env \<Rightarrow> 'w wenv \<Rightarrow> string \<Rightarrow> 32 word \<Rightarrow> ('w, int) adv" where
  "advsec_webconfig_set_blobversion E W subdoc ver =
     (case x_sprintf_s_u W 64 ver of (rc, subdoc_ver) \<Rightarrow>
        if rc < EOK then return (- 1)
        else (case x_sprintf_s_version W 72 subdoc of (rc2, buf) \<Rightarrow>
          if rc2 < EOK then return (- 1)
          else do {
            r \<leftarrow> call (x_syscfg_set E buf subdoc_ver);
            if r \<noteq> 0 then return (- 1)
            else do {
              c \<leftarrow> call (x_syscfg_commit E);
              if c \<noteq> 0 then return (- 1) else return 0
            }
          }))"

section \<open>Executing a queued blob\<close>

text \<open>Error code and message; None when the result could not be allocated.\<close>

definition advsec_webconfig_process_request ::
    "'w env \<Rightarrow> 'w wenv \<Rightarrow> advsecuritydoc option \<Rightarrow> ('w, (blob_status \<times> string) option) adv" where
  "advsec_webconfig_process_request E W Data = do {
     ok \<leftarrow> call (x_alloc W ''Err'');
     if \<not> ok then return None
     else (case Data of
         None \<Rightarrow> return (Some (NULL_BLOB_EXEC_POINTER, []))
       | Some advsec \<Rightarrow> (case (subdoc_name advsec, param advsec) of
             (Some name, Some p) \<Rightarrow>
               if strcmp_s_matches E ADVSEC_WEBCONFIG_SUBDOC_NAME name
               then do {
                 ret \<leftarrow> advsec_webconfig_handle_blob E p;
                 return (Some (if ret = BLOB_EXEC_SUCCESS
                               then (BLOB_EXEC_SUCCESS,
                                     if fingerprint_enable p then ''enabled'' else ''disabled'')
                               else (ret, [])))
               }
               else return (Some (SUBDOC_NOT_SUPPORTED, []))
           | _ \<Rightarrow> return (Some (NULL_BLOB_EXEC_POINTER, []))))
   }"

text \<open>The rollback callback reports success and undoes nothing.\<close>

definition advsec_webconfig_rollback :: "('w, int) adv" where
  "advsec_webconfig_rollback = return 0"

section \<open>Receiving a blob\<close>

definition AdvancedSecurity_SetParamStringValue ::
    "'w env \<Rightarrow> 'w wenv \<Rightarrow> string option \<Rightarrow> string \<Rightarrow> ('w, BOOL outcome) adv" where
  "AdvancedSecurity_SetParamStringValue E W ParamName pString = (case ParamName of
      None \<Rightarrow> return (Done FALSE)
    | Some name \<Rightarrow>
        if strcmp_s_matches E ''Data'' name
        then do {
          buf \<leftarrow> call (x_alloc W ''decodeMsg'');
          if \<not> buf then return Crash
          else (let decodeMsg = x_b64_decode W pString in
            if x_msgpack_unpack W decodeMsg = MSGPACK_UNPACK_SUCCESS
            then do {
              res \<leftarrow> advsecuritydoc_convert E W decodeMsg;
              case res of
                Crash \<Rightarrow> return Crash
              | Done None \<Rightarrow> return (Done TRUE)
              | Done (Some ad) \<Rightarrow> (case param ad of
                  None \<Rightarrow> return Crash
                | Some p \<Rightarrow> do {
                    ok \<leftarrow> call (x_alloc W ''execData'');
                    if \<not> ok then return (Done FALSE)
                    else (case subdoc_name ad of
                        None \<Rightarrow> return (Done FALSE)
                      | Some sd \<Rightarrow> (case x_strcpy_s E (SUBDOC_NAME_SIZE W) sd of (rc, dst) \<Rightarrow>
                          if rc \<noteq> EOK then return (Done FALSE)
                          else do {
                            _ \<leftarrow> call (x_PushBlobRequest W
                                   \<lparr> txid = transaction_id ad, exec_version = version ad, numOfEntries = 1,
                                     exec_subdoc_name = dst, user_data = ad \<rparr>);
                            return (Done TRUE)
                          }))
                  })
            }
            else return (Done FALSE))
        }
        else return (Done FALSE))"

end
