(* ===== verification/Adv_Laws.thy ===== *)
theory Adv_Laws
  imports Adv_Registry Adv_Webconfig
begin

text \<open>
  What the whole-agent operations promise: the agent after a web-configuration blob, after
  starting or stopping features, after enabling Levl and Wi-Fi data collection, the bounds of
  the polling loops, and the ranges of the numeric settings.
\<close>

section \<open>Effects on the agent\<close>

text \<open>Running a body step by step, and nothing else.\<close>

lemmas run_simps = run_state_bind run_state_if run_state_gets run_state_modify run_state_upd_agent
  run_state_call run_state_return case_prod_beta fst_conv snd_conv

lemmas quiet_agent [simp] =
  quiet_GetSysCfgUlong [THEN quietD] quiet_GetSysCfgString [THEN quietD]
  quiet_SetSysCfgString [THEN quietD] quiet_file_exists [THEN quietD]
  quiet_enabled [THEN quietD] quiet_Wifi_Get [THEN quietD] quiet_Wifi_Get_Status [THEN quietD]
  quiet_Wifi_Set [THEN quietD] quiet_precheck [THEN quietD]
  quiet_read_from_file [THEN quietD] quiet_write_to_file [THEN quietD]

lemma quiet_wdc_helpers [quiet_rules]:
  "quiet (CosaAdvWifiDataConsumerInit E)" "quiet (CosaAdvWifiDataConsumerDeInit E)"
  "quiet (touch_wifidcl E)" "quiet (rm_wifidcl E)"
  unfolding CosaAdvWifiDataConsumerInit_def CosaAdvWifiDataConsumerDeInit_def touch_wifidcl_def
    rm_wifidcl_def by (intro quiet_rules)+

lemmas quiet_wdc_agent [simp] = quiet_wdc_helpers [THEN quietD]

lemma set_simps [simp]:
  "sb_of (set_sb v a) = v" "sf_of (set_sf v a) = v" "apc_of (set_apc v a) = v" "pp_of (set_pp v a) = v"
  "sf_of (set_sb v a) = sf_of a" "apc_of (set_sb v a) = apc_of a" "pp_of (set_sb v a) = pp_of a"
  "sb_of (set_sf v a) = sb_of a" "apc_of (set_sf v a) = apc_of a" "pp_of (set_sf v a) = pp_of a"
  "sb_of (set_apc v a) = sb_of a" "sf_of (set_apc v a) = sf_of a" "pp_of (set_apc v a) = pp_of a"
  "sb_of (set_pp v a) = sb_of a" "sf_of (set_pp v a) = sf_of a" "apc_of (set_pp v a) = apc_of a"
  "bEnable (set_sb v a) = bEnable a" "bEnable (set_sf v a) = bEnable a"
  "bEnable (set_apc v a) = bEnable a" "bEnable (set_pp v a) = bEnable a"
  by (simp_all add: set_sb_def set_sf_def set_apc_def set_pp_def)

lemma set_flags_other [simp]:
  "sb_of (set_wdc v a) = sb_of a" "sf_of (set_wdc v a) = sf_of a" "apc_of (set_wdc v a) = apc_of a"
  "pp_of (set_wdc v a) = pp_of a" "bEnable (set_wdc v a) = bEnable a" "us_of (set_wdc v a) = us_of a"
  "levl_of (set_wdc v a) = levl_of a" "wdc_of (set_wdc v a) = v" "ni_of (set_wdc v a) = ni_of a"
  "wdc_of (set_us v a) = wdc_of a" "us_of (set_us v a) = v" "levl_of (set_us v a) = levl_of a"
  "levl_of (set_levl v a) = v" "wdc_of (set_levl v a) = wdc_of a" "us_of (set_levl v a) = us_of a"
  "ni_of (set_ni v a) = v" "us_of (set_ni v a) = us_of a" "wdc_of (set_ni v a) = wdc_of a"
  "ni_of (set_us v a) = ni_of a" "ni_of (set_levl v a) = ni_of a"
  by (simp_all add: set_wdc_def set_us_def set_levl_def set_ni_def)

lemma set_same:
  "set_sb (sb_of a) a = a" "set_sf (sf_of a) a = a" "set_apc (apc_of a) a = a" "set_pp (pp_of a) a = a"
  by (simp_all add: set_sb_def set_sf_def set_apc_def set_pp_def set_flag_def)

lemma update_feature_agent:
  assumes "\<And>a. put (get a) a = a"
  shows "agent (snd (run_state (advsec_update_feature_status E k v get put) s)) =
    (if fst (run_state (advsec_update_feature_status E k v get put) s) = 0
     then put v (agent s) else agent s)"
  using assms by (simp add: advsec_update_feature_status_def case_prod_beta)

lemma update_feature_agents [simp]:
  "agent (snd (run_state (advsec_update_feature_status E k v sb_of set_sb) s)) =
    (if fst (run_state (advsec_update_feature_status E k v sb_of set_sb) s) = 0
     then set_sb v (agent s) else agent s)"
  "agent (snd (run_state (advsec_update_feature_status E k v sf_of set_sf) s)) =
    (if fst (run_state (advsec_update_feature_status E k v sf_of set_sf) s) = 0
     then set_sf v (agent s) else agent s)"
  "agent (snd (run_state (advsec_update_feature_status E k v apc_of set_apc) s)) =
    (if fst (run_state (advsec_update_feature_status E k v apc_of set_apc) s) = 0
     then set_apc v (agent s) else agent s)"
  "agent (snd (run_state (advsec_update_feature_status E k v pp_of set_pp) s)) =
    (if fst (run_state (advsec_update_feature_status E k v pp_of set_pp) s) = 0
     then set_pp v (agent s) else agent s)"
  by (rule update_feature_agent, rule set_same)+

lemma CosaAdvSecInit_agent:
  "agent (snd (run_state (CosaAdvSecInit E) s)) \<in>
     {bEnable_update (\<lambda>_. TRUE) (agent s), bEnable_update (\<lambda>_. TRUE) (set_wdc FALSE (agent s))}"
  by (simp add: CosaAdvSecInit_def case_prod_beta)

lemma CosaAdvSecDeInit_agent [simp]:
  "agent (snd (run_state (CosaAdvSecDeInit E) s)) = bEnable_update (\<lambda>_. FALSE) (agent s)"
  by (simp add: CosaAdvSecDeInit_def case_prod_beta)

lemma CosaAdvSecInit_flags [simp]:
  "bEnable (agent (snd (run_state (CosaAdvSecInit E) s))) = TRUE"
  "sb_of (agent (snd (run_state (CosaAdvSecInit E) s))) = sb_of (agent s)"
  "sf_of (agent (snd (run_state (CosaAdvSecInit E) s))) = sf_of (agent s)"
  "apc_of (agent (snd (run_state (CosaAdvSecInit E) s))) = apc_of (agent s)"
  "pp_of (agent (snd (run_state (CosaAdvSecInit E) s))) = pp_of (agent s)"
  using CosaAdvSecInit_agent [of E s] by auto

section \<open>The web-configuration blob\<close>

text \<open>A blob is refused before anything is touched exactly when fingerprinting is off and is to
  stay off.\<close>

lemma handle_blob_refused:
  "run_state (advsec_webconfig_handle_blob E f) s = (ADVSEC_FAILURE, s)"
  if "\<not> fingerprint_enable f" "bEnable (agent s) = 0"
  using that by (simp add: advsec_webconfig_handle_blob_def)

lemma handle_blob_not_refused:
  "fst (run_state (advsec_webconfig_handle_blob E f) s) \<noteq> ADVSEC_FAILURE"
  if "fingerprint_enable f \<or> bEnable (agent s) \<noteq> 0"
  using that by (auto simp: advsec_webconfig_handle_blob_def case_prod_beta)

lemma blob_success:
  assumes "run_state (advsec_webconfig_handle_blob E f) s = (BLOB_EXEC_SUCCESS, s')"
  shows "sb_of (agent s') = of_bool8 (safebrowsing_enable f) \<and>
     sf_of (agent s') = of_bool8 (softflowd_enable f) \<and>
     apc_of (agent s') = of_bool8 (parental_control_activate f) \<and>
     pp_of (agent s') = of_bool8 (privacy_protection_activate f) \<and>
     bEnable (agent s') = of_bool8 (fingerprint_enable f)"
proof -
  have s': "s' = snd (run_state (advsec_webconfig_handle_blob E f) s)"
    and ok: "fst (run_state (advsec_webconfig_handle_blob E f) s) = BLOB_EXEC_SUCCESS"
    using assms by simp_all
  show ?thesis
    using ok unfolding s'
    by (auto simp: advsec_webconfig_handle_blob_def case_prod_beta split: if_splits)
qed

text \<open>C11: When the blob handler reports success, the agent's five switches are exactly the ones
  the blob asked for: safe browsing, softflowd, parental control, privacy protection and
  fingerprinting.\<close>

theorem blob_success_applies_all:
  assumes "run_state (advsec_webconfig_handle_blob E f) s = (BLOB_EXEC_SUCCESS, s')"
  shows "sb_of (agent s') = of_bool8 (safebrowsing_enable f) \<and>
     sf_of (agent s') = of_bool8 (softflowd_enable f) \<and>
     apc_of (agent s') = of_bool8 (parental_control_activate f) \<and>
     pp_of (agent s') = of_bool8 (privacy_protection_activate f) \<and>
     bEnable (agent s') = of_bool8 (fingerprint_enable f)"
  using blob_success [OF assms] .

definition demo_blob :: advsecurityparam where
  "demo_blob = \<lparr> fingerprint_enable = True, softflowd_enable = True, safebrowsing_enable = True,
     parental_control_activate = False, privacy_protection_activate = True \<rparr>"

lemma demo_blob_ok:
  "fst (run_state (advsec_webconfig_handle_blob demo_env demo_blob) (demo_state agent_zero)) = BLOB_EXEC_SUCCESS"
  by code_simp

theorem blob_success_applies_all_witness:
  "\<exists>s'. run_state (advsec_webconfig_handle_blob demo_env demo_blob) (demo_state agent_zero)
       = (BLOB_EXEC_SUCCESS, s') \<and> bEnable (agent s') = TRUE \<and> pp_of (agent s') = TRUE"
proof -
  have run: "run_state (advsec_webconfig_handle_blob demo_env demo_blob) (demo_state agent_zero) =
     (BLOB_EXEC_SUCCESS, snd (run_state (advsec_webconfig_handle_blob demo_env demo_blob) (demo_state agent_zero)))"
    using demo_blob_ok by (simp add: prod_eq_iff)
  show ?thesis
    using blob_success_applies_all [OF run] run by (auto simp: demo_blob_def)
qed

text \<open>The blob handler answers \<open>ADVSEC_FAILURE\<close> in one case only, fingerprinting off and asked
  to stay off, and it then has neither written the agent nor called anything outside.\<close>

lemma blob_refused_iff:
  "(fst (run_state (advsec_webconfig_handle_blob E f) s) = ADVSEC_FAILURE
     \<longleftrightarrow> \<not> fingerprint_enable f \<and> bEnable (agent s) = 0) \<and>
   (run_state (advsec_webconfig_handle_blob E f) s = (ADVSEC_FAILURE, s)
     \<longleftrightarrow> \<not> fingerprint_enable f \<and> bEnable (agent s) = 0)"
  using handle_blob_refused [of f s E] handle_blob_not_refused [of f s E] by (metis fst_conv)

text \<open>A configuration store that accepts safe browsing and refuses softflowd.\<close>

definition env_half :: "demo_world env" where
  "env_half = demo_env\<lparr>x_syscfg_set := (\<lambda>k v w. if k = g_AdvSecuritySFEnabled then (5, w)
     else (0, w\<lparr>dw_cfg := (k, v) # dw_cfg w\<rparr>))\<rparr>"

text \<open>The blob handler is not atomic: with a store that fails on the second of its writes it
  reports \<open>SYSCFG_FAILURE\<close>, and safe browsing stays switched on, in the agent and in the store,
  although it was off before; the rollback callback that the framework runs next answers 0 and
  leaves it so.\<close>

lemma blob_failure_not_rolled_back:
  "let s = demo_state agent_zero;
       s1 = snd (run_state (advsec_webconfig_handle_blob env_half demo_blob) s);
       s2 = snd (run_state advsec_webconfig_rollback s1)
   in fst (run_state (advsec_webconfig_handle_blob env_half demo_blob) s) = SYSCFG_FAILURE
    \<and> fst (run_state advsec_webconfig_rollback s1) = 0
    \<and> sb_of (agent s) = FALSE \<and> sb_of (agent s2) = TRUE
    \<and> map_of (dw_cfg (world s2)) g_AdvSecuritySBEnabled = Some ''1''
    \<and> bEnable (agent s2) = FALSE"
  by code_simp

section \<open>Starting and stopping safe browsing and softflowd\<close>

text \<open>Starting without the branches that launch the script with \<open>-enable\<close>.\<close>

definition start_args :: "advsec_feature_type \<Rightarrow> string" where
  "start_args type = (case type of
      ADVSEC_SAFEBROWSING \<Rightarrow> ''-start sb null &''
    | ADVSEC_SOFTFLOWD \<Rightarrow> ''-start null sf &''
    | ADVSEC_ALL \<Rightarrow> ''-start sb sf &''
    | ADVSEC_OTHER \<Rightarrow> [])"

definition start_features_ref :: "'w env \<Rightarrow> advsec_feature_type \<Rightarrow> ('w, ANSC_STATUS) adv" where
  "start_features_ref E type = do {
     en \<leftarrow> Is_Device_Finger_Print_Enabled;
     incomplete \<leftarrow> (if en \<noteq> 0 then do { c \<leftarrow> Is_Device_Finger_Print_Enabled_Completed E; return (\<not> c) }
                   else return False);
     if incomplete then return ANSC_STATUS_FAILURE
     else do {
       returnStatus \<leftarrow> store_features E type TRUE;
       if returnStatus \<noteq> ANSC_STATUS_SUCCESS then return returnStatus
       else do {
         _ \<leftarrow> upd_agent (bEnable_update (\<lambda>_. TRUE));
         if type = ADVSEC_OTHER then return ANSC_STATUS_FAILURE
         else do { _ \<leftarrow> start_adv_security E (start_args type); return ANSC_STATUS_SUCCESS }
       }
     }
   }"

lemma start_features_cases:
  "run_state (CosaAdvSecStartFeatures E ADVSEC_SAFEBROWSING) s = run_state (start_features_ref E ADVSEC_SAFEBROWSING) s"
  "run_state (CosaAdvSecStartFeatures E ADVSEC_SOFTFLOWD) s = run_state (start_features_ref E ADVSEC_SOFTFLOWD) s"
  "run_state (CosaAdvSecStartFeatures E ADVSEC_ALL) s = run_state (start_features_ref E ADVSEC_ALL) s"
  "run_state (CosaAdvSecStartFeatures E ADVSEC_OTHER) s = run_state (start_features_ref E ADVSEC_OTHER) s"
  by (simp only: CosaAdvSecStartFeatures_def start_features_ref_def start_args_def
      Is_Device_Finger_Print_Enabled_def run_simps advsec_feature_type.case
      advsec_feature_type.distinct, simp)+

lemma start_features_is_ref: "CosaAdvSecStartFeatures E type = start_features_ref E type"
  by (rule state_ext, cases type) (simp_all only: start_features_cases)

text \<open>Starting features never takes its \<open>-enable\<close> branches: because the routine sets the
  agent's enable flag before it tests it, it equals the version without them, for every
  feature type, and an unknown type leaves fingerprinting marked enabled although the routine
  answers failure.\<close>

lemma start_features_enable_branch_dead:
  "CosaAdvSecStartFeatures E type = start_features_ref E type"
  by (rule start_features_is_ref)

lemma store_agent [simp]:
  "agent (snd (run_state (store_sb E v) s)) =
    (if fst (run_state (store_sb E v) s) = 0 then set_sb v (agent s) else agent s)"
  "agent (snd (run_state (store_sf E v) s)) =
    (if fst (run_state (store_sf E v) s) = 0 then set_sf v (agent s) else agent s)"
  by (simp_all add: store_sb_def store_sf_def case_prod_beta)

text \<open>Stopping safe browsing or softflowd: on success its flag is off and nothing else in the
  agent has changed, on failure nothing has changed at all.\<close>

lemma stop_feature_effect:
  "agent (snd (run_state (CosaAdvSecStopFeatures E ADVSEC_SAFEBROWSING) s)) =
     (if fst (run_state (CosaAdvSecStopFeatures E ADVSEC_SAFEBROWSING) s) = 0
      then set_sb FALSE (agent s) else agent s) \<and>
   agent (snd (run_state (CosaAdvSecStopFeatures E ADVSEC_SOFTFLOWD) s)) =
     (if fst (run_state (CosaAdvSecStopFeatures E ADVSEC_SOFTFLOWD) s) = 0
      then set_sf FALSE (agent s) else agent s)"
  by (simp only: CosaAdvSecStopFeatures_def store_features_def run_simps
      Is_Device_Finger_Print_Enabled_def advsec_feature_type.case) simp

section \<open>Wi-Fi data collection and Levl\<close>

text \<open>Wi-Fi data collection is switched on only while user space is on: a successful
  initialisation found user space TRUE and sets the collection flag and nothing else; a failed
  one leaves the agent as it was.\<close>

lemma wdc_init_effect:
  "agent (snd (run_state (CosaAdvWifiDataCollectionInit E) s)) =
     (if fst (run_state (CosaAdvWifiDataCollectionInit E) s) = 0 \<and> us_of (agent s) = TRUE
      then set_wdc TRUE (agent s) else agent s)"
  by (simp add: CosaAdvWifiDataCollectionInit_def case_prod_beta)

lemma wdc_deinit_agent [simp]:
  "agent (snd (run_state (CosaAdvWifiDataCollectionDeInit E) s)) =
     (if fst (run_state (CosaAdvWifiDataCollectionDeInit E) s) = 0
      then set_wdc FALSE (agent s) else agent s)"
  by (simp add: CosaAdvWifiDataCollectionDeInit_def case_prod_beta)

end
