(* ===== verification/Adv_Wp.thy ===== *)
theory Adv_Wp
  imports Adv_Syscfg
begin

text \<open>
  A weakest-precondition calculus for the operations: \<open>wp m Q s\<close> says that running \<open>m\<close> from \<open>s\<close>
  ends with an answer and a state that satisfy \<open>Q\<close>. The rules follow the shape of a body; a
  call that leaves the agent alone is passed over with a fresh state that has the same agent,
  so a long body with many early returns stays linear.
\<close>

definition wp :: "('s, 'a) state \<Rightarrow> ('a \<Rightarrow> 's \<Rightarrow> bool) \<Rightarrow> 's \<Rightarrow> bool" where
  "wp m Q s \<longleftrightarrow> Q (fst (run_state m s)) (snd (run_state m s))"

named_theorems wp_rules

lemma wpI: "Q (fst (run_state m s)) (snd (run_state m s)) \<Longrightarrow> wp m Q s"
  by (simp add: wp_def)

lemma wpD: "wp m Q s \<Longrightarrow> Q (fst (run_state m s)) (snd (run_state m s))"
  by (simp add: wp_def)

lemma wp_run: "wp m Q s \<Longrightarrow> run_state m s = (r, s') \<Longrightarrow> Q r s'"
  by (simp add: wp_def)

lemma wp_mono: "wp m P s \<Longrightarrow> (\<And>r s'. P r s' \<Longrightarrow> Q r s') \<Longrightarrow> wp m Q s"
  by (simp add: wp_def)

lemma wp_return [wp_rules]: "Q x s \<Longrightarrow> wp (return x) Q s"
  by (simp add: wp_def)

lemma wp_bind [wp_rules]: "wp m (\<lambda>x. wp (f x) Q) s \<Longrightarrow> wp (m \<bind> f) Q s"
  by (simp add: wp_def case_prod_beta)

lemma wp_if [wp_rules]:
  "(b \<Longrightarrow> wp m Q s) \<Longrightarrow> (\<not> b \<Longrightarrow> wp n Q s) \<Longrightarrow> wp (if b then m else n) Q s"
  by simp

lemma wp_gets [wp_rules]: "Q (f s) s \<Longrightarrow> wp (gets f) Q s"
  by (simp add: wp_def)

lemma wp_modify [wp_rules]: "Q () (f s) \<Longrightarrow> wp (modify f) Q s"
  by (simp add: wp_def)

lemma wp_upd_agent [wp_rules]: "Q () (s\<lparr>agent := f (agent s)\<rparr>) \<Longrightarrow> wp (upd_agent f) Q s"
  by (simp add: wp_def)

lemma wp_case_prod [wp_rules]:
  "(\<And>x y. p = (x, y) \<Longrightarrow> wp (f x y) Q s) \<Longrightarrow> wp (case p of (x, y) \<Rightarrow> f x y) Q s"
  by (simp split: prod.splits)

lemma wp_case_option [wp_rules]:
  "(v = None \<Longrightarrow> wp f Q s) \<Longrightarrow> (\<And>x. v = Some x \<Longrightarrow> wp (g x) Q s) \<Longrightarrow>
   wp (case v of None \<Rightarrow> f | Some x \<Rightarrow> g x) Q s"
  by (simp split: option.splits)

lemma wp_quiet: "quiet m \<Longrightarrow> (\<And>r s'. agent s' = agent s \<Longrightarrow> Q r s') \<Longrightarrow> wp m Q s"
  by (simp add: wp_def quiet_def)

text \<open>An operation whose effect on the agent is a function of its answer.\<close>

lemma wp_effect:
  assumes "\<And>s. agent (snd (run_state m s)) = F (fst (run_state m s)) (agent s)"
    and "\<And>r s'. agent s' = F r (agent s) \<Longrightarrow> Q r s'"
  shows "wp m Q s"
  using assms by (simp add: wp_def)

lemma wp_preserves: "(\<And>s. I s \<Longrightarrow> wp m (\<lambda>_. I) s) \<Longrightarrow> preserves I m"
  by (simp add: wp_def preserves_def)

lemmas wp_helpers [wp_rules] =
  wp_quiet [OF quiet_call] wp_quiet [OF quiet_GetSysCfgUlong] wp_quiet [OF quiet_SetSysCfgUlong]
  wp_quiet [OF quiet_GetSysCfgString] wp_quiet [OF quiet_SetSysCfgString]
  wp_quiet [OF quiet_start_adv_security] wp_quiet [OF quiet_write_to_file]
  wp_quiet [OF quiet_read_from_file] wp_quiet [OF quiet_file_exists]
  wp_quiet [OF quiet_enabled(2)] wp_quiet [OF quiet_enabled(3)]
  wp_quiet [OF quiet_Wifi_Get] wp_quiet [OF quiet_Wifi_Get_Status] wp_quiet [OF quiet_Wifi_Set]
  wp_quiet [OF quiet_precheck]

lemma wp_enabled [wp_rules]: "Q (bEnable (agent s)) s \<Longrightarrow> wp Is_Device_Finger_Print_Enabled Q s"
  by (simp add: wp_def Is_Device_Finger_Print_Enabled_def)

end
