(* ===== verification/Adv_Levl.thy ===== *)
theory Adv_Levl
  imports Adv_Laws Adv_Wp
begin

text \<open>
  Levl and the polling loops: what a successful and a failed \<open>CosaLevlInit\<close> leave behind, and
  how often the loops ask the Wi-Fi agent before they give up.
\<close>

section \<open>Effect on the agent\<close>

lemma quiet_levl_wait [quiet_rules]: "quiet (levl_wait E n)"
  by (induction n) (auto intro!: quiet_rules)

lemmas levl_wait_agent [simp] = quiet_levl_wait [THEN quietD]

lemma levl_enable_us_agent [simp]:
  "agent (snd (run_state (levl_enable_us E) s)) =
    (if us_of (agent s) = 0 \<and> fst (fst (run_state (levl_enable_us E) s)) = 0
     then set_us TRUE (agent s) else agent s)"
  by (simp add: levl_enable_us_def case_prod_beta)

lemma levl_enable_wdc_agent [simp]:
  "agent (snd (run_state (levl_enable_wdc E) s)) =
    (if wdc_of (agent s) = 0 \<and> fst (fst (run_state (levl_enable_wdc E) s)) = 0
     then set_wdc TRUE (agent s) else agent s)"
  by (simp add: levl_enable_wdc_def case_prod_beta)

text \<open>The agents \<open>CosaLevlInit\<close> can leave behind after enabling what Levl needs.\<close>

definition levl_needs_us :: "COSA_DATAMODEL_AGENT \<Rightarrow> COSA_DATAMODEL_AGENT" where
  "levl_needs_us a = (if us_of a = 0 then set_us TRUE a else a)"

definition levl_needs :: "COSA_DATAMODEL_AGENT \<Rightarrow> COSA_DATAMODEL_AGENT" where
  "levl_needs a = (if wdc_of a = 0 then set_wdc TRUE (levl_needs_us a) else levl_needs_us a)"

lemmas wp_levl [wp_rules] =
  wp_quiet [OF quiet_levl_wait] wp_effect [OF levl_enable_us_agent] wp_effect [OF levl_enable_wdc_agent]

lemma CosaLevlInit_cases:
  "wp (CosaLevlInit E) (\<lambda>r s'. (r = 0 \<longrightarrow> agent s' = set_levl TRUE (levl_needs (agent s))) \<and>
      (r \<noteq> 0 \<longrightarrow> agent s' \<in> {agent s, levl_needs_us (agent s), levl_needs (agent s)})) s"
  unfolding CosaLevlInit_def
  by (intro wp_rules) (auto simp: levl_needs_def levl_needs_us_def)

text \<open>Enabling Levl: on success Levl, Wi-Fi data collection and user space are all on and
  nothing else in the agent has changed; on failure Levl itself is untouched, but user space,
  or user space and Wi-Fi data collection, may already have been switched on.\<close>

lemma levl_init_effect:
  "agent (snd (run_state (CosaLevlInit E) s)) \<in>
     (if fst (run_state (CosaLevlInit E) s) = 0 then {set_levl TRUE (levl_needs (agent s))}
      else {agent s, levl_needs_us (agent s), levl_needs (agent s)})
   \<and> levl_of (levl_needs (agent s)) = levl_of (agent s)
   \<and> us_of (levl_needs (agent s)) \<noteq> 0 \<and> wdc_of (levl_needs (agent s)) \<noteq> 0"
  using wpD [OF CosaLevlInit_cases [of E s]]
  by (auto simp: levl_needs_def levl_needs_us_def)

text \<open>A Wi-Fi data-collection library that cannot be started.\<close>

definition env_no_dcl :: "demo_world env" where
  "env_no_dcl = demo_env\<lparr>x_dcl_init := (\<lambda>w. (1, w))\<rparr>"

text \<open>A failed attempt to enable Levl is not undone: when the data-collection library cannot
  be started the set handler answers FALSE, Levl stays off, and user space stays switched on in
  the agent and in the store although it was off before.\<close>

lemma levl_failure_keeps_user_space:
  "let s = demo_state agent_zero;
       s' = snd (run_state (Levl_RFC_SetParamBoolValue env_no_dcl ''Enable'' TRUE) s)
   in fst (run_state (Levl_RFC_SetParamBoolValue env_no_dcl ''Enable'' TRUE) s) = FALSE
    \<and> levl_of (agent s') = FALSE \<and> us_of (agent s) = FALSE \<and> us_of (agent s') = TRUE
    \<and> map_of (dw_cfg (world s')) g_AdvSecUserSpaceEnabled = Some ''1''"
  by code_simp

lemma CosaLevlDeInit_cases:
  "wp (CosaLevlDeInit E) (\<lambda>r s'. agent s' \<in>
     (let off = (if wdc_of (agent s) = 1 then set_wdc FALSE (agent s) else agent s) in
      if r = 0 then {set_levl FALSE off} else {agent s, off})) s"
  unfolding CosaLevlDeInit_def
  by (intro wp_rules wp_effect [OF wdc_deinit_agent]) (auto split: if_splits)

section \<open>The polling loops\<close>

text \<open>One round of waiting for Levl: ask, then sleep one second.\<close>

definition levl_round :: "'w env \<Rightarrow> 'w advst \<Rightarrow> 'w advst" where
  "levl_round E s = snd (run_state (call (x_sleep E 1)) (snd (run_state (Wifi_Get_Status E LEVL_DML) s)))"

definition levl_on :: "'w env \<Rightarrow> 'w advst \<Rightarrow> bool" where
  "levl_on E s \<longleftrightarrow> fst (run_state (Wifi_Get_Status E LEVL_DML) s) \<noteq> FALSE"

lemma levl_wait_Suc: "fst (run_state (levl_wait E (Suc n)) s) =
    (levl_on E s \<or> (n \<noteq> 0 \<and> fst (run_state (levl_wait E n) (levl_round E s))))"
  by (simp add: levl_on_def levl_round_def case_prod_beta)

lemma ex_less_Suc_shift: "(\<exists>k < Suc n. P ((f ^^ k) x)) \<longleftrightarrow> P x \<or> (\<exists>k < n. P ((f ^^ k) (f x)))"
  by (simp add: Ex_less_Suc2 funpow_Suc_right del: funpow.simps(2))

lemma levl_wait_iff:
  "fst (run_state (levl_wait E n) s) \<longleftrightarrow> (\<exists>k < n. levl_on E ((levl_round E ^^ k) s))"
proof (induction n arbitrary: s)
  case 0
  then show ?case by simp
next
  case (Suc n)
  then show ?case
    unfolding levl_wait_Suc ex_less_Suc_shift [of n "levl_on E"] by auto
qed

text \<open>One round of the precheck: ask for the initial Wi-Fi configuration, then sleep.\<close>

definition precheck_round :: "'w env \<Rightarrow> nat \<Rightarrow> 'w advst \<Rightarrow> 'w advst" where
  "precheck_round E d s = snd (run_state (call (x_sleep E d))
     (snd (run_state (call (x_rbus_getStr E (WIFI_WEBCONFIG_INIT_DATA_NAMESPACE E))) s)))"

definition precheck_ok :: "'w env \<Rightarrow> 'w advst \<Rightarrow> bool" where
  "precheck_ok E s \<longleftrightarrow> (case fst (x_rbus_getStr E (WIFI_WEBCONFIG_INIT_DATA_NAMESPACE E) (world s)) of
     (r, t) \<Rightarrow> r = RBUS_ERROR_SUCCESS \<and> t \<noteq> [])"

lemma precheck_loop_Suc:
  assumes "fst (x_rbus_getStr E (WIFI_WEBCONFIG_INIT_DATA_NAMESPACE E) (world s)) = (r, t)"
  shows "fst (run_state (wifidcl_precheck_loop E d (Suc n) r0) s) =
    (if r = 0 \<and> t \<noteq> [] then 0
     else fst (run_state (wifidcl_precheck_loop E d n (if r \<noteq> 0 then r else - 1)) (precheck_round E d s)))"
  unfolding wifidcl_precheck_loop.simps precheck_round_def
  by (simp only: run_simps assms length_0_conv prod.case) simp

lemma precheck_loop_iff:
  "r0 \<noteq> 0 \<Longrightarrow> fst (run_state (wifidcl_precheck_loop E d n r0) s) = 0 \<longleftrightarrow>
     (\<exists>k < n. precheck_ok E ((precheck_round E d ^^ k) s))"
proof (induction n arbitrary: r0 s)
  case 0
  then show ?case by simp
next
  case (Suc n)
  obtain r t where rt: "fst (x_rbus_getStr E (WIFI_WEBCONFIG_INIT_DATA_NAMESPACE E) (world s)) = (r, t)"
    by fastforce
  have ok: "precheck_ok E s \<longleftrightarrow> r = 0 \<and> t \<noteq> []" by (simp add: precheck_ok_def rt)
  have nz: "(if r \<noteq> 0 then r else - 1) \<noteq> 0" by simp
  show ?case
    unfolding precheck_loop_Suc [OF rt] ex_less_Suc_shift [of n "precheck_ok E"] ok
    using Suc.IH [OF nz, of "precheck_round E d s"] by (cases "r = 0 \<and> t \<noteq> []") auto
qed

text \<open>The wait for Levl ends: it answers yes exactly when the Wi-Fi agent reports Levl on in
  one of at most ten questions, each of the earlier ones followed by one second of sleep.\<close>

lemma levl_wait_ten_rounds:
  "fst (run_state (levl_wait E 10) s) \<longleftrightarrow> (\<exists>k < 10. levl_on E ((levl_round E ^^ k) s))"
  by (rule levl_wait_iff)

text \<open>The Wi-Fi precheck succeeds exactly when the bus is open, the uptime is known and a
  non-empty configuration is obtained: at the first question when the box has been up for more
  than ten minutes, within five questions fifteen seconds apart otherwise.\<close>

lemma precheck_attempts:
  "fst (run_state (wifidcl_init_precheck E) s) = RBUS_ERROR_SUCCESS \<longleftrightarrow>
     rbus_handle_open s \<and>
     (case x_sysinfo_uptime E (world s) of
        (None, w) \<Rightarrow> False
      | (Some up, w) \<Rightarrow>
          if up > 600 then precheck_ok E (s\<lparr>world := w\<rparr>)
          else (\<exists>k < 5. precheck_ok E ((precheck_round E 15 ^^ k) (s\<lparr>world := w\<rparr>))))"
proof (cases "rbus_handle_open s")
  case False
  then show ?thesis by (simp add: wifidcl_init_precheck_def)
next
  case True
  obtain u w where uw: "x_sysinfo_uptime E (world s) = (u, w)" by fastforce
  have one: "(\<exists>k < (1::nat). P ((f ^^ k) x)) = P x" for P :: "'b \<Rightarrow> bool" and f x by simp
  have run: "run_state (wifidcl_init_precheck E) s =
      (case u of None \<Rightarrow> (- 1, s\<lparr>world := w\<rparr>)
       | Some up \<Rightarrow> if up > 600 then run_state (wifidcl_precheck_loop E 0 1 (- 1)) (s\<lparr>world := w\<rparr>)
                    else run_state (wifidcl_precheck_loop E 15 5 (- 1)) (s\<lparr>world := w\<rparr>))"
    using True by (cases u) (simp_all add: wifidcl_init_precheck_def uw del: wifidcl_precheck_loop.simps)
  have nz: "(- 1 :: int) \<noteq> 0" by simp
  show ?thesis
  proof (cases u)
    case None
    then show ?thesis unfolding run uw by simp
  next
    case (Some up)
    show ?thesis
    proof (cases "up > 600")
      case True
      with Some \<open>rbus_handle_open s\<close> show ?thesis
        unfolding run uw by (simp only: option.case prod.case if_True precheck_loop_iff [OF nz] one simp_thms)
    next
      case False
      with Some \<open>rbus_handle_open s\<close> show ?thesis
        unfolding run uw by (simp only: option.case prod.case if_False precheck_loop_iff [OF nz] simp_thms)
    qed
  qed
qed

end
