(* ===== verification/Adv_Ranges.thy ===== *)
theory Adv_Ranges
  imports Adv_Levl
begin

text \<open>
  The settings: their round trip through syscfg, the ranges the handlers enforce, the defaults
  the readers apply, the check of the endpoint URL, and the keys under which the safe-browsing
  parameters are looked up.
\<close>

section \<open>Effects of the setters\<close>

lemma setter_agents:
  "agent (snd (run_state (CosaAdvSecSetLoggingPeriod E v) s)) =
    (if fst (run_state (CosaAdvSecSetLoggingPeriod E v) s) = 0
     then ulLoggingPeriod_update (\<lambda>_. v) (agent s) else agent s)"
  "agent (snd (run_state (CosaAdvSecSetLogLevel E v) s)) =
    (if fst (run_state (CosaAdvSecSetLogLevel E v) s) = 0
     then ulLogLevel_update (\<lambda>_. v) (agent s) else agent s)"
  "agent (snd (run_state (CosaAdvSecSetLookupTimeout E v) s)) =
    (if fst (run_state (CosaAdvSecSetLookupTimeout E v) s) = 0
     then set_lookup v (agent s) else agent s)"
  "agent (snd (run_state (CosaRabidSetMemoryLimit E v) s)) =
    (if fst (run_state (CosaRabidSetMemoryLimit E v) s) = 0
     then pRabid_update (uMemoryLimit_update (\<lambda>_. v)) (agent s) else agent s)"
  "agent (snd (run_state (CosaRabidSetMacCacheSize E v) s)) =
    (if fst (run_state (CosaRabidSetMacCacheSize E v) s) = 0
     then pRabid_update (uMacCacheSize_update (\<lambda>_. v)) (agent s) else agent s)"
  "agent (snd (run_state (CosaRabidSetDNSCacheSize E v) s)) =
    (if fst (run_state (CosaRabidSetDNSCacheSize E v) s) = 0
     then pRabid_update (uDNSCacheSize_update (\<lambda>_. v)) (agent s) else agent s)"
  by (simp_all add: CosaAdvSecSetLoggingPeriod_def CosaAdvSecSetLogLevel_def
      CosaAdvSecSetLookupTimeout_def CosaRabidSetMemoryLimit_def CosaRabidSetMacCacheSize_def
      CosaRabidSetDNSCacheSize_def case_prod_beta)

lemmas wp_setters [wp_rules] =
  wp_effect [OF setter_agents(1)] wp_effect [OF setter_agents(2)] wp_effect [OF setter_agents(3)]
  wp_effect [OF setter_agents(4)] wp_effect [OF setter_agents(5)] wp_effect [OF setter_agents(6)]

section \<open>Round trip of a number\<close>

text \<open>Any 64-bit number written to a setting is read back unchanged: printing it in decimal
  fits the 32-byte buffer, and parsing the text gives the number again.\<close>

lemma syscfg_ulong_roundtrip:
  assumes "syscfg_law E cfg" "sprintf_s_law E"
    and "run_state (CosaSetSysCfgUlong E k v) s = (ANSC_STATUS_SUCCESS, s')"
  shows "fst (run_state (CosaGetSysCfgUlong E k old) s') = (ANSC_STATUS_SUCCESS, v)"
  using SetSysCfgUlong_stores [OF assms]
  by (intro GetSysCfgUlong_reads [OF assms(1)]) simp

theorem syscfg_ulong_roundtrip_witness:
  "\<exists>s'. run_state (CosaSetSysCfgUlong demo_env g_RabidMemoryLimit 100) (demo_state agent_zero) = (0, s')
     \<and> fst (run_state (CosaGetSysCfgUlong demo_env g_RabidMemoryLimit 7) s') = (0, 100)"
proof -
  have "fst (run_state (CosaSetSysCfgUlong demo_env g_RabidMemoryLimit 100) (demo_state agent_zero)) = 0"
    by code_simp
  then have run: "run_state (CosaSetSysCfgUlong demo_env g_RabidMemoryLimit 100) (demo_state agent_zero)
     = (0, snd (run_state (CosaSetSysCfgUlong demo_env g_RabidMemoryLimit 100) (demo_state agent_zero)))"
    by (simp add: prod_eq_iff)
  show ?thesis
    by (intro exI conjI, rule run) (rule syscfg_ulong_roundtrip [OF demo_syscfg_law demo_sprintf_law run])
qed

section \<open>Defaults\<close>

text \<open>When a setting cannot be read, the log level becomes 2 and the lookup timeout 350, but
  the logging period is left as it is: its default of 1440 minutes is computed and never stored.\<close>

lemma defaults_when_unset:
  assumes "\<forall>k w. fst (fst (x_syscfg_get E k 32 w)) \<noteq> 0"
  shows "ulLogLevel (agent (snd (run_state (CosaAdvSecGetLogLevel E) s))) = ADVSEC_LogLevel_WARN \<and>
    lookup_of (agent (snd (run_state (CosaAdvSecGetLookupTimeout E) s))) = ADVSEC_DEFAULT_LOOKUP_TIMEOUT \<and>
    agent (snd (run_state (CosaAdvSecGetLoggingPeriod E) s)) = agent s"
  using assms
  by (simp add: CosaAdvSecGetLogLevel_def CosaAdvSecGetLookupTimeout_def CosaAdvSecGetLoggingPeriod_def
      CosaGetSysCfgUlong_def set_lookup_def case_prod_beta)

theorem defaults_when_unset_witness:
  "ulLoggingPeriod (agent (snd (run_state (CosaAdvSecGetLoggingPeriod
      (demo_env\<lparr>x_syscfg_get := (\<lambda>k n w. ((1, []), w))\<rparr>)) (demo_state agent_zero)))) = 0"
proof -
  have "\<forall>k w. fst (fst (x_syscfg_get (demo_env\<lparr>x_syscfg_get := (\<lambda>k n w. ((1, []), w))\<rparr>) k 32 w)) \<noteq> 0"
    by simp
  from defaults_when_unset [OF this, of "demo_state agent_zero"] show ?thesis
    by (simp add: demo_state_def agent_zero_def Let_def)
qed

section \<open>Ranges\<close>

lemma one_le_ulong: "(1 :: ULONG) \<le> v \<longleftrightarrow> v \<noteq> 0"
  by (metis linorder_not_less word_less_1)

text \<open>The logging period is changed through the data model only within one hour and two days,
  and the log level only within 1 to 4: an accepted number lies in the range and is the new
  value, a refused one leaves the agent as it was.\<close>

lemma fingerprint_ulong_ranges:
  assumes "strcmp_s_law E"
  shows "(fst (run_state (DeviceFingerPrint_SetParamUlongValue E (Some ''LoggingPeriod'') v) s) = TRUE \<longrightarrow>
      60 \<le> v \<and> v \<le> 2880 \<and>
      ulLoggingPeriod (agent (snd (run_state (DeviceFingerPrint_SetParamUlongValue E (Some ''LoggingPeriod'') v) s))) = v)
   \<and> (fst (run_state (DeviceFingerPrint_SetParamUlongValue E (Some ''LogLevel'') v) s) = TRUE \<longrightarrow>
      1 \<le> v \<and> v \<le> 4 \<and> \<not> XB3_ARM_or_BCM_MIPS E \<and>
      ulLogLevel (agent (snd (run_state (DeviceFingerPrint_SetParamUlongValue E (Some ''LogLevel'') v) s))) = v)
   \<and> (fst (run_state (DeviceFingerPrint_SetParamUlongValue E p v) s) \<noteq> TRUE \<longrightarrow>
      agent (snd (run_state (DeviceFingerPrint_SetParamUlongValue E p v) s)) = agent s)"
proof (intro conjI)
  have m: "\<And>l n. l \<noteq> [] \<Longrightarrow> strcmp_s_matches E l n \<longleftrightarrow> l = n"
    using strcmp_s_matches_iff [OF assms] by blast
  have 1: "wp (DeviceFingerPrint_SetParamUlongValue E (Some ''LoggingPeriod'') v) (\<lambda>r s'. r = TRUE \<longrightarrow>
      60 \<le> v \<and> v \<le> 2880 \<and> ulLoggingPeriod (agent s') = v) s"
    unfolding DeviceFingerPrint_SetParamUlongValue_def option.case
    by (intro wp_rules) (auto simp: m)
  have 2: "wp (DeviceFingerPrint_SetParamUlongValue E (Some ''LogLevel'') v) (\<lambda>r s'. r = TRUE \<longrightarrow>
      1 \<le> v \<and> v \<le> 4 \<and> \<not> XB3_ARM_or_BCM_MIPS E \<and> ulLogLevel (agent s') = v) s"
    unfolding DeviceFingerPrint_SetParamUlongValue_def option.case
    by (intro wp_rules) (auto simp: m one_le_ulong)
  have 3: "wp (DeviceFingerPrint_SetParamUlongValue E p v) (\<lambda>r s'. r \<noteq> TRUE \<longrightarrow> agent s' = agent s) s"
    unfolding DeviceFingerPrint_SetParamUlongValue_def by (intro wp_rules) auto
  show "fst (run_state (DeviceFingerPrint_SetParamUlongValue E (Some ''LoggingPeriod'') v) s) = TRUE \<longrightarrow>
      60 \<le> v \<and> v \<le> 2880 \<and>
      ulLoggingPeriod (agent (snd (run_state (DeviceFingerPrint_SetParamUlongValue E (Some ''LoggingPeriod'') v) s))) = v"
    by (rule wpD [OF 1])
  show "fst (run_state (DeviceFingerPrint_SetParamUlongValue E (Some ''LogLevel'') v) s) = TRUE \<longrightarrow>
      1 \<le> v \<and> v \<le> 4 \<and> \<not> XB3_ARM_or_BCM_MIPS E \<and>
      ulLogLevel (agent (snd (run_state (DeviceFingerPrint_SetParamUlongValue E (Some ''LogLevel'') v) s))) = v"
    by (rule wpD [OF 2])
  show "fst (run_state (DeviceFingerPrint_SetParamUlongValue E p v) s) \<noteq> TRUE \<longrightarrow>
      agent (snd (run_state (DeviceFingerPrint_SetParamUlongValue E p v) s)) = agent s"
    by (rule wpD [OF 3])
qed

theorem fingerprint_ulong_ranges_witness:
  "ulLoggingPeriod (agent (snd (run_state (DeviceFingerPrint_SetParamUlongValue demo_env
      (Some ''LoggingPeriod'') 90) (demo_state agent_zero)))) = 90"
proof -
  have "fst (run_state (DeviceFingerPrint_SetParamUlongValue demo_env (Some ''LoggingPeriod'') 90)
      (demo_state agent_zero)) = TRUE" by code_simp
  with fingerprint_ulong_ranges [OF demo_strcmp_law, where v = 90 and s = "demo_state agent_zero"]
  show ?thesis by blast
qed

section \<open>The endpoint URL\<close>

lemma isValidUrl_iff:
  "isValidUrl u = ANSC_STATUS_SUCCESS \<longleftrightarrow>
     starts_with u ''https://'' \<and> (\<forall>c \<in> {CHR '';'', CHR ''&'', CHR ''|'', CHR 0x27}. c \<notin> set u)"
  by (auto simp: isValidUrl_def urlStartsWith_def contains_char_def Let_def)

text \<open>The endpoint URL is stored only when it starts with https:// and contains none of the four
  shell characters tested for; otherwise the handler answers FALSE without touching the state.\<close>

lemma endpoint_url_is_checked:
  "run_state (DeviceFingerPrint_SetParamStringValue E p u) s =
     (if (\<exists>n. p = Some n \<and> strcmp_s_matches E ''EndpointURL'' n) \<and> starts_with u ''https://''
         \<and> CHR '';'' \<notin> set u \<and> CHR ''&'' \<notin> set u \<and> CHR ''|'' \<notin> set u \<and> CHR 0x27 \<notin> set u
      then (if fst (run_state (CosaSetSysCfgString E g_AdvSecCustomEndpointURL u) s) = 0 then TRUE else FALSE,
            snd (run_state (CosaSetSysCfgString E g_AdvSecCustomEndpointURL u) s))
      else (FALSE, s))"
proof (cases p)
  case None
  then show ?thesis by (simp add: DeviceFingerPrint_SetParamStringValue_def)
next
  case (Some n)
  show ?thesis
  proof (cases "strcmp_s_matches E ''EndpointURL'' n \<and> isValidUrl u = ANSC_STATUS_SUCCESS")
    case True
    with Some show ?thesis
      unfolding DeviceFingerPrint_SetParamStringValue_def CosaAdvSecSetCustomURL_def isValidUrl_iff
      by (simp add: case_prod_beta isValidUrl_iff)
  next
    case False
    with Some show ?thesis
      unfolding DeviceFingerPrint_SetParamStringValue_def
      by (auto simp: isValidUrl_iff)
  qed
qed

section \<open>The keys of the safe-browsing configuration\<close>

text \<open>Each of the ten safe-browsing parameters is looked up under its name in snake case.\<close>

lemma safebrowsing_json_keys:
  assumes "strcmp_s_law E" "strcpy_s_law E"
  shows "map (sb_json_key E) [''Threshold'', ''Timeout'', ''Cachettl'', ''Ttl'', ''WhitelistMaxEntries'',
      ''Endpoint'', ''Blockpage'', ''Warnpage'', ''Cacheurl'', ''OtmDedupFqdn''] =
    map Some [''threshold'', ''timeout'', ''cachettl'', ''ttl'', ''whitelist_max_entries'',
      ''endpoint'', ''blockpage'', ''warnpage'', ''cacheurl'', ''otm_dedup_fqdn'']"
proof -
  have cpy: "\<And>u. length u < 30 \<Longrightarrow> x_strcpy_s E 30 u = (EOK, u)"
    using assms(2) by (simp add: strcpy_s_law_def)
  have low: "lower_first ''Threshold'' = ''threshold''" "lower_first ''Timeout'' = ''timeout''"
    "lower_first ''Cachettl'' = ''cachettl''" "lower_first ''Ttl'' = ''ttl''"
    "lower_first ''Endpoint'' = ''endpoint''" "lower_first ''Blockpage'' = ''blockpage''"
    "lower_first ''Warnpage'' = ''warnpage''" "lower_first ''Cacheurl'' = ''cacheurl''"
    "lower_first (snake_loop 0 0 ''WhitelistMaxEntries'') = ''whitelist_max_entries''"
    "lower_first (snake_loop 0 0 ''OtmDedupFqdn'') = ''otm_dedup_fqdn''"
    by code_simp+
  show ?thesis
    by (simp add: sb_json_key_def strcmp_s_matches_iff [OF assms(1)] cpy low del: snake_loop.simps)
qed

theorem safebrowsing_json_keys_witness:
  "sb_json_key demo_env ''WhitelistMaxEntries'' = Some ''whitelist_max_entries''"
  using safebrowsing_json_keys [OF demo_strcmp_law demo_strcpy_law] by simp

text \<open>Whatever the parameter name, the key fits its buffer of 30 bytes with the terminator.\<close>

lemma safebrowsing_key_fits_buffer:
  assumes "strcpy_s_law E" "sb_json_key E p = Some k"
  shows "length k < 30"
proof (cases "strcmp_s_matches E ''WhitelistMaxEntries'' p \<or> strcmp_s_matches E ''OtmDedupFqdn'' p")
  case True
  then have "k = lower_first (snake_loop 0 0 p)" using assms(2) by (auto simp: sb_json_key_def)
  then have "length k = length (snake_loop 0 0 p)" by (simp add: lower_first_def split: list.split)
  then show ?thesis using snake_loop_bound [of 0 0 p] by simp
next
  case False
  then have "fst (x_strcpy_s E 30 p) = EOK" "k = lower_first (snd (x_strcpy_s E 30 p))"
    using assms(2) by (auto simp: sb_json_key_def case_prod_beta split: if_splits)
  moreover from this have "length p < 30" "x_strcpy_s E 30 p = (EOK, p)"
    using assms(1) unfolding strcpy_s_law_def by (metis not_le)+
  ultimately show ?thesis by (cases p) (simp_all add: lower_first_def)
qed

theorem safebrowsing_key_fits_buffer_witness: "length ''whitelist_max_entries'' < 30"
  by (rule safebrowsing_key_fits_buffer [OF demo_strcpy_law, of "''WhitelistMaxEntries''"]) code_simp

end
