(* ===== verification/Adv_System.thy ===== *)
theory Adv_System
  imports Adv_Ranges
begin

text \<open>
  The component as a state machine. A step is one call the framework makes, a set handler of the
  data model, a web-configuration blob, or the Levl event of the Wi-Fi agent; between steps the
  outside world may change at will. \<open>agent_step\<close> is the abstract machine of the agent object:
  its transitions are the field changes the component may make, each under its guard. Every
  operation is shown to be a run of the abstract machine, and the invariants are proved there.
\<close>

section \<open>The abstract machine of the agent\<close>

inductive agent_step :: "COSA_DATAMODEL_AGENT \<Rightarrow> COSA_DATAMODEL_AGENT \<Rightarrow> bool" where
  step_enable: "agent_step a (bEnable_update (\<lambda>_. v) a)"
| step_sb: "agent_step a (set_sb v a)"
| step_sf: "agent_step a (set_sf v a)"
| step_apc: "agent_step a (set_apc v a)"
| step_pp: "agent_step a (set_pp v a)"
| step_rfc: "agent_step a (rfc_upd i v a)"
| step_us_on: "agent_step a (set_us TRUE a)"
| step_levl_off: "agent_step a (set_levl FALSE a)"
| step_levl_on: "us_of a \<noteq> 0 \<Longrightarrow> wdc_of a \<noteq> 0 \<Longrightarrow> agent_step a (set_levl TRUE a)"
| step_wdc_off: "agent_step a (set_wdc FALSE a)"
| step_wdc_on: "us_of a \<noteq> 0 \<Longrightarrow> agent_step a (set_wdc TRUE a)"
| step_ni_off: "agent_step a (set_ni FALSE a)"
| step_ni_on: "us_of a \<noteq> 0 \<Longrightarrow> agent_step a (set_ni TRUE a)"
| step_period: "60 \<le> v \<Longrightarrow> v \<le> 2880 \<Longrightarrow> agent_step a (ulLoggingPeriod_update (\<lambda>_. v) a)"
| step_level: "1 \<le> v \<Longrightarrow> v \<le> 4 \<Longrightarrow> agent_step a (ulLogLevel_update (\<lambda>_. v) a)"
| step_lookup: "350 \<le> v \<Longrightarrow> v \<le> 6000 \<Longrightarrow> agent_step a (set_lookup v a)"
| step_rabid_mem: "45 < v \<Longrightarrow> agent_step a (pRabid_update (uMemoryLimit_update (\<lambda>_. v)) a)"
| step_rabid_mac: "v \<le> 32768 \<Longrightarrow> agent_step a (pRabid_update (uMacCacheSize_update (\<lambda>_. v)) a)"
| step_rabid_dns: "v \<le> 32768 \<Longrightarrow> agent_step a (pRabid_update (uDNSCacheSize_update (\<lambda>_. v)) a)"
| step_ni_mem: "30 \<le> v \<Longrightarrow>
    agent_step a (pAdvNetworkIntelligence_RFC_update (ni_uMemoryLimit_update (\<lambda>_. v)) a)"

text \<open>A run from \<open>a0\<close>, extended by one transition: the rules the operations are proved with.\<close>

abbreviation agent_run :: "COSA_DATAMODEL_AGENT \<Rightarrow> COSA_DATAMODEL_AGENT \<Rightarrow> bool" where
  "agent_run \<equiv> agent_step\<^sup>*\<^sup>*"

lemma run_trans: "agent_run a b \<Longrightarrow> agent_step b c \<Longrightarrow> agent_run a c"
  by (rule rtranclp.rtrancl_into_rtrancl)

lemmas run_rules =
  run_trans [OF _ step_enable] run_trans [OF _ step_sb] run_trans [OF _ step_sf]
  run_trans [OF _ step_apc] run_trans [OF _ step_pp] run_trans [OF _ step_rfc]
  run_trans [OF _ step_us_on] run_trans [OF _ step_levl_off] run_trans [OF _ step_levl_on] run_trans [OF _ step_wdc_off]
  run_trans [OF _ step_wdc_on] run_trans [OF _ step_ni_off] run_trans [OF _ step_ni_on]
  run_trans [OF _ step_period] run_trans [OF _ step_level] run_trans [OF _ step_lookup]
  run_trans [OF _ step_rabid_mem] run_trans [OF _ step_rabid_mac] run_trans [OF _ step_rabid_dns]
  run_trans [OF _ step_ni_mem]

lemma run_refl: "agent_run a a"
  by simp

section \<open>Operations\<close>

datatype op =
    Op_Rfc rfc_id string BOOL
  | Op_Fingerprint "string option" BOOL
  | Op_FingerprintUlong "string option" ULONG
  | Op_EndpointURL "string option" string
  | Op_SafeBrowsing "string option" BOOL
  | Op_SafeBrowsingUlong "string option" ULONG
  | Op_Softflowd "string option" BOOL
  | Op_ParentalControl "string option" BOOL
  | Op_PrivacyProtection "string option" BOOL
  | Op_Rabid string ULONG
  | Op_UserSpace string BOOL
  | Op_Levl string BOOL
  | Op_NetworkIntelligence string BOOL
  | Op_NetworkIntelligenceUlong string ULONG
  | Op_WifiDataCollection string BOOL
  | Op_Blob advsecurityparam
  | Op_LevlEvent string "bool option"

definition ignore :: "('s, 'a) state \<Rightarrow> ('s, unit) state" where
  "ignore m = do { _ \<leftarrow> m; return () }"

fun exec_op :: "'w env \<Rightarrow> op \<Rightarrow> ('w, unit) adv" where
  "exec_op E (Op_Rfc i n b) = ignore (rfc_set i E n b)"
| "exec_op E (Op_Fingerprint n b) = ignore (DeviceFingerPrint_SetParamBoolValue E n b)"
| "exec_op E (Op_FingerprintUlong n v) = ignore (DeviceFingerPrint_SetParamUlongValue E n v)"
| "exec_op E (Op_EndpointURL n u) = ignore (DeviceFingerPrint_SetParamStringValue E n u)"
| "exec_op E (Op_SafeBrowsing n b) = ignore (SafeBrowsing_SetParamBoolValue E n b)"
| "exec_op E (Op_SafeBrowsingUlong n v) = ignore (SafeBrowsing_SetParamUlongValue E n v)"
| "exec_op E (Op_Softflowd n b) = ignore (Softflowd_SetParamBoolValue E n b)"
| "exec_op E (Op_ParentalControl n b) = ignore (AdvancedParentalControl_SetParamBoolValue E n b)"
| "exec_op E (Op_PrivacyProtection n b) = ignore (PrivacyProtection_SetParamBoolValue E n b)"
| "exec_op E (Op_Rabid n v) = ignore (RabidFramework_SetParamUlongValue E n v)"
| "exec_op E (Op_UserSpace n b) = ignore (AdvanceSecurityUserSpace_RFC_SetParamBoolValue E n b)"
| "exec_op E (Op_Levl n b) = ignore (Levl_RFC_SetParamBoolValue E n b)"
| "exec_op E (Op_NetworkIntelligence n b) = ignore (NetworkIntelligence_RFC_SetParamBoolValue E n b)"
| "exec_op E (Op_NetworkIntelligenceUlong n v) = ignore (NetworkIntelligence_RFC_SetParamUlongValue E n v)"
| "exec_op E (Op_WifiDataCollection n b) = ignore (WifiDataCollection_RFC_SetParamBoolValue E n b)"
| "exec_op E (Op_Blob f) = ignore (advsec_webconfig_handle_blob E f)"
| "exec_op E (Op_LevlEvent n v) = ignore (wifiEventReceiveHandler E n v)"

inductive reach :: "'w env \<Rightarrow> 'w advst \<Rightarrow> 'w advst \<Rightarrow> bool" for E s0 where
  reach_start: "reach E s0 s0"
| reach_op: "reach E s0 s \<Longrightarrow> reach E s0 (snd (run_state (exec_op E p) s))"
| reach_outside: "reach E s0 s \<Longrightarrow> reach E s0 (s\<lparr>world := w\<rparr>)"

section \<open>Every operation is a run of the abstract machine\<close>

definition simulates :: "('w, 'a) adv \<Rightarrow> bool" where
  "simulates m \<longleftrightarrow> (\<forall>a0. preserves (\<lambda>s. agent_run a0 (agent s)) m)"

lemma simulatesI:
  "(\<And>a0 s. agent_run a0 (agent s) \<Longrightarrow> wp m (\<lambda>_ s'. agent_run a0 (agent s')) s) \<Longrightarrow> simulates m"
  by (simp add: simulates_def preserves_def wp_def)

lemma simulatesD: "simulates m \<Longrightarrow> agent_run (agent s) (agent (snd (run_state m s)))"
  unfolding simulates_def preserves_def by blast

lemma sim_ignore: "simulates m \<Longrightarrow> simulates (ignore m)"
  by (simp add: simulates_def ignore_def preserves_def case_prod_beta)

lemma wp_sim:
  assumes "simulates m" "agent_run a0 (agent s)" "\<And>r s'. agent_run a0 (agent s') \<Longrightarrow> Q r s'"
  shows "wp m Q s"
  using assms unfolding wp_def simulates_def preserves_def by blast

text \<open>The updates written out in the switches, as the named updates.\<close>

lemma upd_names:
  "pAdvPC_update (set_flag v) = set_apc v" "pPrivProt_update (set_flag v) = set_pp v"
  "pAdvSecUserSpace_RFC_update (set_flag v) = set_us v"
  by (simp_all add: set_apc_def set_pp_def set_us_def)

lemma sim_start_stop:
  "simulates (CosaStartAdvParentalControl E u)" "simulates (CosaStopAdvParentalControl E u)"
  "simulates (CosaStartPrivacyProtection E u)" "simulates (CosaStopPrivacyProtection E u)"
  unfolding start_stop_defs upd_names
  by (rule simulatesI, intro wp_rules, auto intro: run_rules)+

lemmas wp_wdc [wp_rules] =
  wp_quiet [OF quiet_wdc_helpers(1)] wp_quiet [OF quiet_wdc_helpers(2)]
  wp_quiet [OF quiet_wdc_helpers(3)] wp_quiet [OF quiet_wdc_helpers(4)]
  wp_effect [OF store_agent(1)] wp_effect [OF store_agent(2)]

lemma sim_fingerprint: "simulates (CosaAdvSecInit E)" "simulates (CosaAdvSecDeInit E)"
  unfolding CosaAdvSecInit_def CosaAdvSecDeInit_def
  by (rule simulatesI, intro wp_rules, auto intro: run_rules)+

lemma sim_features:
  assumes "t = ADVSEC_SAFEBROWSING \<or> t = ADVSEC_SOFTFLOWD"
  shows "simulates (CosaAdvSecStartFeatures E t)" "simulates (CosaAdvSecStopFeatures E t)"
proof -
  show "simulates (CosaAdvSecStartFeatures E t)"
    using assms unfolding start_features_is_ref start_features_ref_def store_features_def
    by (elim disjE; simp only: advsec_feature_type.case; intro simulatesI wp_rules; auto intro: run_rules)
  show "simulates (CosaAdvSecStopFeatures E t)"
    using assms unfolding CosaAdvSecStopFeatures_def store_features_def
    by (elim disjE; simp only: advsec_feature_type.case; intro simulatesI wp_rules; auto intro: run_rules)
qed

lemma sim_wdc: "simulates (CosaAdvWifiDataCollectionInit E)" "simulates (CosaAdvWifiDataCollectionDeInit E)"
  unfolding CosaAdvWifiDataCollectionInit_def CosaAdvWifiDataCollectionDeInit_def
  by (rule simulatesI, intro wp_rules, auto intro: run_rules)+

lemma sim_ni: "simulates (CosaAdvSecNetworkIntelligenceInit E)" "simulates (CosaAdvSecNetworkIntelligenceDeInit E)"
  unfolding CosaAdvSecNetworkIntelligenceInit_def CosaAdvSecNetworkIntelligenceDeInit_def
  by (rule simulatesI, intro wp_rules, auto intro: run_rules)+

lemma sim_us: "simulates (CosaAdvSecUserSpaceInit E)"
  unfolding CosaAdvSecUserSpaceInit_def upd_names
  by (rule simulatesI, intro wp_rules, auto intro: run_rules)

lemma us_needs: "us_of (levl_needs_us a) \<noteq> 0"
  by (simp add: levl_needs_us_def)

lemma wdc_needs: "us_of (levl_needs a) \<noteq> 0" "wdc_of (levl_needs a) \<noteq> 0"
  using us_needs [of a] by (auto simp: levl_needs_def levl_needs_us_def)

lemma sim_levl: "simulates (CosaLevlInit E)" "simulates (CosaLevlDeInit E)"
proof -
  show "simulates (CosaLevlInit E)"
  proof (rule simulatesI, goal_cases)
    case run: (1 a0 s)
    have 1: "agent_run a0 (levl_needs_us (agent s))"
      using run by (auto simp: levl_needs_us_def intro: run_rules)
    have 2: "agent_run a0 (levl_needs (agent s))"
      using 1 us_needs [of "agent s"] by (auto simp: levl_needs_def intro: run_rules)
    show ?case
      by (rule wp_mono [OF CosaLevlInit_cases]) (use run 1 2 run_trans [OF 2 step_levl_on [OF wdc_needs]] in \<open>auto intro: run_rules\<close>)
  qed
  show "simulates (CosaLevlDeInit E)"
    by (rule simulatesI, rule wp_mono [OF CosaLevlDeInit_cases])
      (auto simp: Let_def intro: run_rules split: if_splits)
qed

lemma sim_rfc: "simulates (rfc_set i E n b)"
  by (rule simulatesI, rule wp_effect [where F = "\<lambda>r a. if r = TRUE \<and> b \<noteq> rfc_flag i a
        then rfc_upd i (norm_bool b) a else a", OF rfc_effect]) (auto intro: run_rules split: if_splits)

lemma sim_update_feature:
  "simulates (advsec_update_feature_status E k v sb_of set_sb)"
  "simulates (advsec_update_feature_status E k v sf_of set_sf)"
  "simulates (advsec_update_feature_status E k v apc_of set_apc)"
  "simulates (advsec_update_feature_status E k v pp_of set_pp)"
  unfolding advsec_update_feature_status_def
  by (rule simulatesI, intro wp_rules, auto intro: run_rules)+

lemma sim_blob: "simulates (advsec_webconfig_handle_blob E f)"
  unfolding advsec_webconfig_handle_blob_def
  by (rule simulatesI, intro wp_rules wp_sim [OF sim_update_feature(1)] wp_sim [OF sim_update_feature(2)]
      wp_sim [OF sim_update_feature(3)] wp_sim [OF sim_update_feature(4)]
      wp_sim [OF sim_fingerprint(1)] wp_sim [OF sim_fingerprint(2)]) simp_all

lemma sim_levl_event: "simulates (wifiEventReceiveHandler E n v)"
  unfolding wifiEventReceiveHandler_def
  by (rule simulatesI, intro wp_rules wp_sim [OF sim_wdc(2)]) simp_all

lemma sim_bool_handlers:
  "simulates (DeviceFingerPrint_SetParamBoolValue E p b)"
  "simulates (SafeBrowsing_SetParamBoolValue E p b)"
  "simulates (Softflowd_SetParamBoolValue E p b)"
  "simulates (AdvancedParentalControl_SetParamBoolValue E p b)"
  "simulates (PrivacyProtection_SetParamBoolValue E p b)"
  unfolding DeviceFingerPrint_SetParamBoolValue_def SafeBrowsing_SetParamBoolValue_def
    Softflowd_SetParamBoolValue_def AdvancedParentalControl_SetParamBoolValue_def
    PrivacyProtection_SetParamBoolValue_def
  by (rule simulatesI; intro wp_rules wp_sim [OF sim_fingerprint(1)] wp_sim [OF sim_fingerprint(2)]
      wp_sim [OF sim_features(1) [OF disjI1 [OF refl]]] wp_sim [OF sim_features(2) [OF disjI1 [OF refl]]]
      wp_sim [OF sim_features(1) [OF disjI2 [OF refl]]] wp_sim [OF sim_features(2) [OF disjI2 [OF refl]]]
      wp_sim [OF sim_start_stop(1)] wp_sim [OF sim_start_stop(2)]
      wp_sim [OF sim_start_stop(3)] wp_sim [OF sim_start_stop(4)]; simp)+

lemma sim_rfc_handlers:
  "simulates (AdvanceSecurityUserSpace_RFC_SetParamBoolValue E n b)"
  "simulates (Levl_RFC_SetParamBoolValue E n b)"
  "simulates (NetworkIntelligence_RFC_SetParamBoolValue E n b)"
  "simulates (WifiDataCollection_RFC_SetParamBoolValue E n b)"
  unfolding AdvanceSecurityUserSpace_RFC_SetParamBoolValue_def Levl_RFC_SetParamBoolValue_def
    NetworkIntelligence_RFC_SetParamBoolValue_def WifiDataCollection_RFC_SetParamBoolValue_def
  by (rule simulatesI; intro wp_rules wp_sim [OF sim_us] wp_sim [OF sim_levl(1)] wp_sim [OF sim_levl(2)]
      wp_sim [OF sim_ni(1)] wp_sim [OF sim_ni(2)] wp_sim [OF sim_wdc(1)] wp_sim [OF sim_wdc(2)]; simp)+

lemma sim_numeric_handlers:
  "simulates (DeviceFingerPrint_SetParamUlongValue E p v)"
  "simulates (SafeBrowsing_SetParamUlongValue E p v)"
  "simulates (RabidFramework_SetParamUlongValue E n v)"
  "simulates (NetworkIntelligence_RFC_SetParamUlongValue E n v)"
  unfolding DeviceFingerPrint_SetParamUlongValue_def SafeBrowsing_SetParamUlongValue_def
    RabidFramework_SetParamUlongValue_def NetworkIntelligence_RFC_SetParamUlongValue_def
    CosaNetworkIntelligenceSetMemoryLimit_def
  by (rule simulatesI; intro wp_rules; (auto simp: not_less not_le one_le_ulong intro: run_rules split: if_splits))+

lemma sim_url: "simulates (DeviceFingerPrint_SetParamStringValue E p u)"
  unfolding DeviceFingerPrint_SetParamStringValue_def CosaAdvSecSetCustomURL_def
  by (rule simulatesI, intro wp_rules) simp_all

text \<open>C1: Every operation of the component refines the abstract machine of its agent object: the
  agent after any set handler, web-configuration blob or Levl event is reached from the agent
  before by transitions whose guards hold, whatever the environment answers.\<close>

theorem operations_refine_agent_machine:
  "agent_step\<^sup>*\<^sup>* (agent s) (agent (snd (run_state (exec_op E p) s)))"
proof (rule simulatesD)
  show "simulates (exec_op E p)"
    by (cases p) (simp_all add: sim_ignore sim_rfc sim_bool_handlers sim_rfc_handlers
        sim_numeric_handlers sim_url sim_blob sim_levl_event)
qed

lemma reach_run: "reach E s0 s \<Longrightarrow> agent_run (agent s0) (agent s)"
proof (induction rule: reach.induct)
  case (reach_op s p)
  have "agent_run (agent s) (agent (snd (run_state (exec_op E p) s)))"
    by (rule simulatesD, cases p)
      (simp_all add: sim_ignore sim_rfc sim_bool_handlers sim_rfc_handlers
        sim_numeric_handlers sim_url sim_blob sim_levl_event)
  with reach_op.IH show ?case by (rule rtranclp_trans)
qed simp_all

section \<open>Invariants\<close>

text \<open>The agent object is changed only by the operations, so what every transition keeps is kept
  in every reachable state.\<close>

lemma run_invariant:
  "agent_run a b \<Longrightarrow> I a \<Longrightarrow> (\<And>a b. agent_step a b \<Longrightarrow> I a \<Longrightarrow> I b) \<Longrightarrow> I b"
  by (induction rule: rtranclp_induct) auto

lemma reach_invariant:
  assumes "reach E s0 s" "I (agent s0)" "\<And>a b. agent_step a b \<Longrightarrow> I a \<Longrightarrow> I b"
  shows "I (agent s)"
  using run_invariant [OF reach_run [OF assms(1)]] assms(2, 3) by blast

definition needs_user_space :: "COSA_DATAMODEL_AGENT \<Rightarrow> bool" where
  "needs_user_space a \<longleftrightarrow> (wdc_of a \<noteq> 0 \<or> ni_of a \<noteq> 0 \<or> levl_of a \<noteq> 0 \<longrightarrow> us_of a \<noteq> 0)"

definition settings_in_range :: "COSA_DATAMODEL_AGENT \<Rightarrow> bool" where
  "settings_in_range a \<longleftrightarrow>
     60 \<le> ulLoggingPeriod a \<and> ulLoggingPeriod a \<le> 2880 \<and>
     1 \<le> ulLogLevel a \<and> ulLogLevel a \<le> 4 \<and>
     350 \<le> ulLookupTimeout (pSafeBrows (pAdvSec a)) \<and> ulLookupTimeout (pSafeBrows (pAdvSec a)) \<le> 6000 \<and>
     45 < uMemoryLimit (pRabid a) \<and> uMacCacheSize (pRabid a) \<le> 32768 \<and>
     uDNSCacheSize (pRabid a) \<le> 32768 \<and> 30 \<le> ni_uMemoryLimit (pAdvNetworkIntelligence_RFC a)"

lemmas agent_updates = set_sb_def set_sf_def set_apc_def set_pp_def set_us_def set_levl_def
  set_wdc_def set_ni_def set_lookup_def

lemma rfc_levl_upd [simp]: "levl_of (rfc_upd i v a) = levl_of a"
  by (cases i) simp_all

lemma step_us: "agent_step a b \<Longrightarrow> us_of a \<noteq> 0 \<Longrightarrow> us_of b \<noteq> 0"
  by (erule agent_step.cases) (simp_all add: agent_updates)

lemma step_needs: "agent_step a b \<Longrightarrow> needs_user_space a \<Longrightarrow> needs_user_space b"
  by (erule agent_step.cases) (auto simp: agent_updates needs_user_space_def)

lemma step_settings: "agent_step a b \<Longrightarrow> settings_in_range a \<Longrightarrow> settings_in_range b"
  by (erule agent_step.cases) (simp_all add: agent_updates settings_in_range_def)

text \<open>C4: The user-space component is never switched off while the process runs: once its flag is
  set it is set in every state reachable by handlers, blobs and events.\<close>

theorem user_space_stays_on:
  assumes "reach E s0 s" "us_of (agent s0) \<noteq> 0"
  shows "us_of (agent s) \<noteq> 0"
  by (rule reach_invariant [where I = "\<lambda>a. us_of a \<noteq> 0", OF assms]) (rule step_us)

theorem user_space_stays_on_witness:
  "us_of (agent (snd (run_state (exec_op demo_env (Op_UserSpace ''Enable'' 0))
     (demo_state (set_us TRUE agent_zero))))) \<noteq> 0"
  by (rule user_space_stays_on [OF reach_op [OF reach_start]])
    (simp add: demo_state_def agent_updates)

text \<open>C2: Wi-Fi data collection, network intelligence and Levl run only on top of the user-space
  component: in every reachable state one of their flags being set implies that of user space.\<close>

theorem dependents_need_user_space:
  assumes "reach E s0 s" "needs_user_space (agent s0)"
  shows "needs_user_space (agent s)"
  by (rule reach_invariant [where I = needs_user_space, OF assms]) (rule step_needs)

theorem dependents_need_user_space_witness:
  "needs_user_space (agent (snd (run_state (exec_op demo_env (Op_Levl ''Enable'' 1))
     (demo_state agent_zero))))"
  by (rule dependents_need_user_space [OF reach_op [OF reach_start]])
    (simp add: demo_state_def agent_zero_def Let_def needs_user_space_def)

text \<open>C3: The numeric settings never leave their ranges: starting from settings in range, no
  sequence of handler calls, blobs and events produces a logging period outside 60 to 2880
  minutes, a log level outside 1 to 4, a lookup timeout outside 350 to 6000 or a memory or cache
  limit beyond its bound, whatever numbers are sent.\<close>

theorem settings_stay_in_range:
  assumes "reach E s0 s" "settings_in_range (agent s0)"
  shows "settings_in_range (agent s)"
  by (rule reach_invariant [where I = settings_in_range, OF assms]) (rule step_settings)

definition demo_settings :: COSA_DATAMODEL_AGENT where
  "demo_settings = agent_zero\<lparr>ulLoggingPeriod := 60, ulLogLevel := 1,
     pAdvSec := \<lparr>advsec_bEnable = FALSE, pSafeBrows = \<lparr>sb_bEnable = FALSE, ulLookupTimeout = 350\<rparr>,
                pSoftFlowd = \<lparr>flag_bEnable = FALSE\<rparr>\<rparr>,
     pRabid := \<lparr>uMemoryLimit = 50, uMacCacheSize = 0, uDNSCacheSize = 0\<rparr>,
     pAdvNetworkIntelligence_RFC := \<lparr>ni_bEnable = FALSE, ni_uMemoryLimit = 30\<rparr>\<rparr>"

theorem settings_stay_in_range_witness:
  "settings_in_range (agent (snd (run_state (exec_op demo_env (Op_FingerprintUlong (Some ''LoggingPeriod'') 5))
     (demo_state demo_settings))))"
  by (rule settings_stay_in_range [OF reach_op [OF reach_start]])
    (simp add: demo_state_def demo_settings_def settings_in_range_def)

end
