(* ===== verification/Adv_Sysevent.thy ===== *)
theory Adv_Sysevent
  imports Adv_Laws
begin

text \<open>
  System events and the periodic logger (\<open>cosa_adv_security_internal.c\<close>): the notification
  handler with its memory of the bridge mode and of the WAN interface, the listener thread, and
  the logger thread with its countdown. Threads are modelled by what one round does; the services
  they call (syseventd, pthreads, \<open>strcat_s\<close>) are the record \<open>senv\<close>.
\<close>

section \<open>Services\<close>

record 'w senv =
  x_strcat_s :: "nat \<Rightarrow> string \<Rightarrow> string \<Rightarrow> int \<times> string"
  x_sysevent_open :: "'w \<Rightarrow> int \<times> 'w"
  x_sysevent_set_options :: "string \<Rightarrow> 'w \<Rightarrow> int \<times> 'w"
  x_sysevent_setnotification :: "string \<Rightarrow> 'w \<Rightarrow> int \<times> 'w"
  x_sysevent_getnotification :: "'w \<Rightarrow> (int \<times> string \<times> string) \<times> 'w"
  x_sysevent_rmnotification :: "nat \<Rightarrow> 'w \<Rightarrow> int \<times> 'w"     \<comment> \<open>by index of the stored id\<close>
  x_sysevent_close :: "'w \<Rightarrow> int \<times> 'w"
  x_pthread_create :: "string \<Rightarrow> 'w \<Rightarrow> int \<times> 'w"           \<comment> \<open>by the routine the thread runs\<close>
  x_stat_size :: "string \<Rightarrow> 'w \<Rightarrow> int option \<times> 'w"        \<comment> \<open>\<open>st_size\<close>, None when \<open>stat\<close> fails\<close>

section \<open>Event names\<close>

datatype advSysEvent_e =
    SYSEVENT_BRIDGE_MODE_EVENT
  | SYSEVENT_CLOUD_HOST_IP
  | SYSEVENT_MAP_T_CONFIG_CHANGED_EVENT
  | SYSEVENT_CURRENT_WAN_IFNAME_EVENT

definition advSysEvent_type_table :: "(string \<times> advSysEvent_e) list" where
  "advSysEvent_type_table = [
     (''bridge_mode'', SYSEVENT_BRIDGE_MODE_EVENT),
     (''advsec_host_ip'', SYSEVENT_CLOUD_HOST_IP),
     (''mapt_config_flag'', SYSEVENT_MAP_T_CONFIG_CHANGED_EVENT),
     (''current_wan_ifname'', SYSEVENT_CURRENT_WAN_IFNAME_EVENT)]"

fun event_type_loop :: "'w env \<Rightarrow> string \<Rightarrow> (string \<times> advSysEvent_e) list \<Rightarrow> advSysEvent_e option" where
  "event_type_loop E name [] = None"
| "event_type_loop E name ((n, e) # r) =
     (if strcmp_s_matches E name n then Some e else event_type_loop E name r)"

definition get_advSysEvent_type_from_name :: "'w env \<Rightarrow> string option \<Rightarrow> advSysEvent_e option" where
  "get_advSysEvent_type_from_name E name =
     (case name of None \<Rightarrow> None | Some n \<Rightarrow> event_type_loop E n advSysEvent_type_table)"

section \<open>Notifications\<close>

definition set_prevBridgeMode :: "string \<Rightarrow> ('w, unit) adv" where
  "set_prevBridgeMode v = modify (\<lambda>s. s\<lparr>prevBridgeMode := v\<rparr>)"

definition set_prevWanIfname :: "string \<Rightarrow> ('w, unit) adv" where
  "set_prevWanIfname v = modify (\<lambda>s. s\<lparr>prevWanIfname := v\<rparr>)"

text \<open>A value of any length but one is refused; the buffer of the previous mode holds one character.\<close>

definition handle_bridge_mode :: "'w env \<Rightarrow> string \<Rightarrow> ('w, unit) adv" where
  "handle_bridge_mode E val =
     (if length val \<noteq> 1 then return ()
      else do {
        prev \<leftarrow> gets prevBridgeMode;
        case x_strcmp_s E prev 2 val of (rc, ind) \<Rightarrow>
          if rc = EOK \<and> ind = 0 then return ()
          else do {
            updatePrevMode \<leftarrow>
              (if val = ''0'' then do { ret \<leftarrow> start_adv_security E ''-enable &''; return (ret = 0) }
               else if val = (if XF3_PRODUCT_REQ E then ''3'' else ''2'')
               then do { ret \<leftarrow> start_adv_security E ''-disable &''; return (ret = 0) }
               else return True);
            if updatePrevMode then set_prevBridgeMode (snd (x_strcpy_s E 2 val)) else return ()
          }
      })"

text \<open>\<open>strtok\<close> with the delimiter colon: the token, and where the next call goes on.\<close>

definition strtok_colon :: "string \<Rightarrow> (string \<times> string) option" where
  "strtok_colon s = (case dropWhile (\<lambda>c. c = CHR '':'') s of
      [] \<Rightarrow> None
    | r \<Rightarrow> Some (takeWhile (\<lambda>c. c \<noteq> CHR '':'') r, drop 1 (dropWhile (\<lambda>c. c \<noteq> CHR '':'') r)))"

definition c_string :: "string \<Rightarrow> string" where
  "c_string = takeWhile (\<lambda>c. c \<noteq> CHR 0x00)"

text \<open>The text written when the host of the event is the host of the file.\<close>

definition cloud_ip_port :: "'w env \<Rightarrow> 'w senv \<Rightarrow> string \<Rightarrow> string \<Rightarrow> string option" where
  "cloud_ip_port E S url val = (case strtok_colon url of
      None \<Rightarrow> None
    | Some (host1, url') \<Rightarrow>
        (case (map_option fst (strtok_colon url'), strtok_colon val) of
           (Some port, Some (host2, val')) \<Rightarrow>
             (case map_option fst (strtok_colon val') of
                Some ip \<Rightarrow>
                  if host1 = host2
                  then (let a = snd (x_strcpy_s E 256 ip);
                            b = snd (x_strcat_s S 256 a '':'')
                        in Some (snd (x_strcat_s S 256 b port)))
                  else None
              | None \<Rightarrow> None)
         | _ \<Rightarrow> None))"

definition handle_cloud_host :: "'w env \<Rightarrow> 'w senv \<Rightarrow> string \<Rightarrow> ('w, unit) adv" where
  "handle_cloud_host E S val = do {
     url \<leftarrow> advsec_read_from_file E (Some ''/tmp/advsec_cloud_host'') 256;
     case url of
       None \<Rightarrow> return ()
     | Some u \<Rightarrow> (case cloud_ip_port E S (c_string u) val of
           None \<Rightarrow> return ()
         | Some ip_port \<Rightarrow> do {
             _ \<leftarrow> advsec_write_to_file E (Some ''/tmp/advsec_cloud_ipv4'') (Some ip_port);
             return ()
           })
   }"

text \<open>The comparison with the previous interface is bounded by \<open>sizeof(MAX_INTERFACE_SIZE)\<close>, the
  size of the integer constant, 4.\<close>

definition handle_wan_ifname :: "'w env \<Rightarrow> string \<Rightarrow> ('w, unit) adv" where
  "handle_wan_ifname E val =
     (if val = [] then return ()
      else do {
        prev \<leftarrow> gets prevWanIfname;
        _ \<leftarrow> (case x_strcmp_s E val 4 prev of (rc, ind) \<Rightarrow>
               if rc = EOK \<and> ind \<noteq> 0
               then do { _ \<leftarrow> start_adv_security E ''-restartAgent WANIfnameChanged &''; return () }
               else return ());
        set_prevWanIfname (snd (x_strcpy_s E 16 val))
      })"

definition advsec_handle_sysevent_notification ::
    "'w env \<Rightarrow> 'w senv \<Rightarrow> string option \<Rightarrow> string option \<Rightarrow> ('w, unit) adv" where
  "advsec_handle_sysevent_notification E S event val = (case (event, val) of
      (Some e, Some v) \<Rightarrow> (case get_advSysEvent_type_from_name E (Some e) of
          None \<Rightarrow> return ()
        | Some SYSEVENT_BRIDGE_MODE_EVENT \<Rightarrow> handle_bridge_mode E v
        | Some SYSEVENT_CLOUD_HOST_IP \<Rightarrow> handle_cloud_host E S v
        | Some SYSEVENT_MAP_T_CONFIG_CHANGED_EVENT \<Rightarrow>
            do { _ \<leftarrow> start_adv_security E ''-restartAgent MAPTConfigChanged &''; return () }
        | Some SYSEVENT_CURRENT_WAN_IFNAME_EVENT \<Rightarrow> handle_wan_ifname E v)
    | _ \<Rightarrow> return ())"

section \<open>The listener thread\<close>

abbreviation "SYS_EVENT_ERROR \<equiv> - 1 :: int"
abbreviation "SYS_EVENT_OK \<equiv> 0 :: int"
abbreviation "SYS_EVENT_TIMEOUT \<equiv> 1 :: int"
abbreviation "SYS_EVENT_HANDLE_EXIT \<equiv> 2 :: int"
abbreviation "SYS_EVENT_RECEIVED \<equiv> 16 :: int"

fun register_events :: "'w senv \<Rightarrow> string list \<Rightarrow> ('w, int) adv" where
  "register_events S [] = return SYS_EVENT_OK"
| "register_events S (n # ns) = do {
     _ \<leftarrow> call (x_sysevent_set_options S n);
     rc \<leftarrow> call (x_sysevent_setnotification S n);
     if rc \<noteq> 0 then return SYS_EVENT_ERROR else register_events S ns
   }"

definition advsec_sysevent_init :: "'w senv \<Rightarrow> ('w, int) adv" where
  "advsec_sysevent_init S = do {
     sysevent_fd \<leftarrow> call (x_sysevent_open S);
     if sysevent_fd = 0 then return SYS_EVENT_ERROR
     else register_events S [''bridge_mode'', ''advsec_host_ip'', ''mapt_config_flag'', ''current_wan_ifname'']
   }"

definition advsec_sysvent_listener :: "'w env \<Rightarrow> 'w senv \<Rightarrow> ('w, int) adv" where
  "advsec_sysvent_listener E S = do {
     (err, name, val) \<leftarrow> call (x_sysevent_getnotification S);
     if err \<noteq> 0 then return SYS_EVENT_TIMEOUT
     else do {
       _ \<leftarrow> advsec_handle_sysevent_notification E S (Some name) (Some val);
       return SYS_EVENT_RECEIVED
     }
   }"

definition advsec_sysvent_close :: "'w senv \<Rightarrow> ('w, int) adv" where
  "advsec_sysvent_close S = do {
     _ \<leftarrow> call (x_sysevent_rmnotification S 0);
     _ \<leftarrow> call (x_sysevent_rmnotification S 1);
     _ \<leftarrow> call (x_sysevent_rmnotification S 2);
     _ \<leftarrow> call (x_sysevent_rmnotification S 3);
     _ \<leftarrow> call (x_sysevent_close S);
     return SYS_EVENT_OK
   }"

definition advsec_check_sysevent_status :: "('w, int) adv" where
  "advsec_check_sysevent_status = return 0"

text \<open>The two loops of the thread may run for ever: the fuel is the number of rounds followed,
  and the answer None says that the thread is still running when it is used up.\<close>

fun sysevent_init_loop :: "nat \<Rightarrow> 'w env \<Rightarrow> 'w senv \<Rightarrow> ('w, bool) adv" where
  "sysevent_init_loop 0 E S = return False"
| "sysevent_init_loop (Suc n) E S = do {
     r \<leftarrow> advsec_sysevent_init S;
     if r = SYS_EVENT_ERROR then do { _ \<leftarrow> call (x_sleep E 1); sysevent_init_loop n E S }
     else return True
   }"

fun sysevent_loop :: "nat \<Rightarrow> 'w env \<Rightarrow> 'w senv \<Rightarrow> ('w, unit option) adv" where
  "sysevent_loop 0 E S = return None"
| "sysevent_loop (Suc n) E S = do {
     ret \<leftarrow> advsec_sysvent_listener E S;
     if ret = SYS_EVENT_HANDLE_EXIT then do { _ \<leftarrow> advsec_sysvent_close S; return (Some ()) }
     else do { _ \<leftarrow> call (x_sleep E 2); sysevent_loop n E S }
   }"

definition advsec_sysevent_handler_th :: "nat \<Rightarrow> 'w env \<Rightarrow> 'w senv \<Rightarrow> ('w, unit option) adv" where
  "advsec_sysevent_handler_th fuel E S = do {
     ok \<leftarrow> sysevent_init_loop fuel E S;
     if ok
     then do { _ \<leftarrow> advsec_check_sysevent_status; sysevent_loop fuel E S }
     else return None
   }"

definition advsec_handle_sysevent_async :: "'w senv \<Rightarrow> ('w, unit) adv" where
  "advsec_handle_sysevent_async S = do {
     started \<leftarrow> gets AdvsecSysEventHandlerStarted;
     if started then return ()
     else do {
       _ \<leftarrow> modify (\<lambda>s. s\<lparr>AdvsecSysEventHandlerStarted := True\<rparr>);
       _ \<leftarrow> call (x_pthread_create S ''advsec_sysevent_handler_th'');
       return ()
     }
   }"

section \<open>The logger thread\<close>

text \<open>One wake-up of the waiting thread: whether the wait timed out, and whether another thread
  has set \<open>logReady\<close> meanwhile. The answer None says that the thread still waits.\<close>

fun logger_wait_loop :: "bool \<Rightarrow> (bool \<times> bool) list \<Rightarrow> (bool \<times> bool) option" where
  "logger_wait_loop True wakes = Some (True, True)"
| "logger_wait_loop False [] = None"
| "logger_wait_loop False ((timedout, isset) # r) =
     (if timedout then Some (True, isset) else logger_wait_loop isset r)"

text \<open>The answer, and \<open>logReady\<close> afterwards.\<close>

definition WaitForLoggerTimeout :: "bool \<Rightarrow> (bool \<times> bool) list \<Rightarrow> (bool \<times> bool) option" where
  "WaitForLoggerTimeout ready wakes = (case logger_wait_loop ready wakes of
      None \<Rightarrow> None
    | Some (ret, ready') \<Rightarrow> Some (if ready' then (False, False) else (ret, ready')))"

text \<open>One round of the thread: the answers of the first and, if there is one, the second wait,
  and the logging period at the moment it is read. The result is the remaining time, the lengths
  of the waits in seconds, and the scripts launched.\<close>

definition logger_round :: "'w env \<Rightarrow> bool \<Rightarrow> bool \<Rightarrow> ULONG \<Rightarrow> ULONG \<Rightarrow> ULONG \<times> ULONG list \<times> string list" where
  "logger_round E w1 w2 period remaining_time =
     (if w1
      then (let rem1 = remaining_time - 60;
                short = rem1 < 60 \<and> rem1 \<noteq> 0;
                rem2 = (if short then if w2 then 0 else period else rem1);
                rem3 = (if rem2 = 0 then period else rem2)
            in (rem3, 3600 # (if short then [60 * rem1] else []),
                [TEMP_DOWNLOAD_LOCATION E @ ''/usr/ccsp/advsec/advsec_log_fp_status.sh check_status &'',
                 TEMP_DOWNLOAD_LOCATION E @ ''/usr/ccsp/advsec/advsec_cpu_mem_recovery.sh &'']))
      else (period, [3600], []))"

fun logger_rounds :: "'w env \<Rightarrow> (bool \<times> bool \<times> ULONG) list \<Rightarrow> ULONG \<Rightarrow> ULONG" where
  "logger_rounds E [] r = r"
| "logger_rounds E ((w1, w2, p) # xs) r = logger_rounds E xs (fst (logger_round E w1 w2 p r))"

text \<open>The thread starts from the period it first reads.\<close>

definition advsec_logger_th :: "'w env \<Rightarrow> ULONG \<Rightarrow> (bool \<times> bool \<times> ULONG) list \<Rightarrow> ULONG" where
  "advsec_logger_th E period xs = logger_rounds E xs period"

definition advsec_start_logger_thread :: "'w senv \<Rightarrow> ('w, unit) adv" where
  "advsec_start_logger_thread S = do {
     en \<leftarrow> Is_Device_Finger_Print_Enabled;
     if en = 0 then return ()
     else do { _ \<leftarrow> call (x_pthread_create S ''advsec_logger_th''); return () }
   }"

section \<open>Log rotation\<close>

definition rotate_log_file :: "'w env \<Rightarrow> 'w senv \<Rightarrow> string \<Rightarrow> string \<Rightarrow> ('w, unit) adv" where
  "rotate_log_file E S log_file config_file = do {
     st \<leftarrow> call (x_stat_size S log_file);
     case st of
       None \<Rightarrow> return ()
     | Some size_of \<Rightarrow>
         if size_of < 2097152 then return ()
         else do { _ \<leftarrow> call (x_system E (''/usr/sbin/logrotate '' @ config_file)); return () }
   }"

definition rotate_agent_log :: "'w env \<Rightarrow> 'w senv \<Rightarrow> ('w, unit) adv" where
  "rotate_agent_log E S = rotate_log_file E S ''/rdklogs/logs/agent.txt'' ''/etc/logrotate.d/advsec-agent''"

definition rotate_ni_log :: "'w env \<Rightarrow> 'w senv \<Rightarrow> ('w, unit) adv" where
  "rotate_ni_log E S = rotate_log_file E S ''/rdklogs/logs/cujo-ni.txt'' ''/etc/logrotate.d/advsec-ni''"

text \<open>The callbacks of the file watchers; \<open>st_nlink\<close> is zero when the file does not exist.\<close>

definition agent_log_stat_cb :: "'w env \<Rightarrow> 'w senv \<Rightarrow> nat \<Rightarrow> ('w, unit) adv" where
  "agent_log_stat_cb E S st_nlink = (if st_nlink \<noteq> 0 then rotate_agent_log E S else return ())"

definition ni_log_stat_cb :: "'w env \<Rightarrow> 'w senv \<Rightarrow> nat \<Rightarrow> ('w, unit) adv" where
  "ni_log_stat_cb E S st_nlink = (if st_nlink \<noteq> 0 then rotate_ni_log E S else return ())"

definition advsec_start_log_monitor_thread :: "'w senv \<Rightarrow> ('w, unit) adv" where
  "advsec_start_log_monitor_thread S = do {
     _ \<leftarrow> call (x_pthread_create S ''advsec_log_monitor_thread'');
     return ()
   }"

end
