(* ===== verification/Adv_Lifecycle.thy ===== *)
theory Adv_Lifecycle
  imports Adv_Sysevent
begin

text \<open>
  Creation, initialisation and removal of the agent (\<open>CosaSecurityCreate\<close>, \<open>FreeCosaDmAgent\<close>,
  \<open>CosaSecurityInitialize\<close>, \<open>CosaSecurityRemove\<close>). Initialisation identifies the device, reads the
  stored settings into the agent object and starts the threads. The services of this phase (the
  hardware layers, rbus, memory) are the record \<open>lenv\<close>; a call of \<open>exit\<close> is an outcome.
\<close>

section \<open>Services\<close>

record 'w lenv =
  \<comment> \<open>build flags\<close>
  COSA_BCM_MIPS :: bool
  PON_GATEWAY :: bool
  NO_CM_HAL :: bool      \<comment> \<open>\<open>_XER5_PRODUCT_REQ_ || _SCER11BEL_PRODUCT_REQ_ || _PLATFORM_BANANAPI_R4_\<close>\<close>
  CONFIG_VENDOR_NAME :: string
  CCSP_Message_Bus_OK :: ANSC_STATUS
  SUBDOC_REG_SIZE :: nat \<comment> \<open>\<open>sizeof(blobRegInfo.subdoc_name)\<close>\<close>
  \<comment> \<open>routines; a buffer argument is the text it holds afterwards\<close>
  x_AnscAllocateMemory :: "string \<Rightarrow> 'w \<Rightarrow> bool \<times> 'w"
  x_AnscFreeMemory :: "string \<Rightarrow> 'w \<Rightarrow> unit \<times> 'w"
  x_syscfg_init :: "'w \<Rightarrow> int \<times> 'w"
  x_rbus_open :: "'w \<Rightarrow> int \<times> 'w"
  x_rbus_close :: "'w \<Rightarrow> unit \<times> 'w"
  x_rbusEvent_Subscribe :: "string \<Rightarrow> 'w \<Rightarrow> int \<times> 'w"
  x_platform_hal_PandMDBInit :: "'w \<Rightarrow> int \<times> 'w"
  x_cm_hal_InitDB :: "'w \<Rightarrow> int \<times> 'w"
  x_platform_hal_GetModelName :: "'w \<Rightarrow> (int \<times> string) \<times> 'w"
  x_platform_hal_GetFirmwareName :: "'w \<Rightarrow> (int \<times> string) \<times> 'w"
  x_platform_hal_GetHardwareVersion :: "'w \<Rightarrow> (int \<times> string) \<times> 'w"
  x_platform_hal_GetBaseMacAddress :: "'w \<Rightarrow> (int \<times> string) \<times> 'w"
  x_dpoe_getOnuId :: "'w \<Rightarrow> (int \<times> 8 word list) \<times> 'w"
  x_sprintf_s_mac :: "nat \<Rightarrow> 8 word list \<Rightarrow> int \<times> string"
  x_cm_hal_GetDHCPInfo :: "'w \<Rightarrow> (int \<times> string) \<times> 'w"   \<comment> \<open>the field \<open>MACAddress\<close>\<close>
  MACAddress_SIZE :: nat                                       \<comment> \<open>and its size\<close>
  x_sysevent_get :: "string \<Rightarrow> nat \<Rightarrow> 'w \<Rightarrow> (int \<times> string) \<times> 'w"
  x_mkdir :: "string \<Rightarrow> 'w \<Rightarrow> int \<times> 'w"
  x_register_sub_docs :: "string list \<Rightarrow> 'w \<Rightarrow> unit \<times> 'w"
  x_CcspBaseIf_getParameterValue :: "string \<Rightarrow> 'w \<Rightarrow> (ANSC_STATUS \<times> string) \<times> 'w"

section \<open>Creation and removal\<close>

text \<open>The blocks of the object in the order they are allocated, named by the pointer that holds
  them, and the blocks that \<open>FreeCosaDmAgent\<close> frees, each when its pointer is set.\<close>

definition agent_blocks :: "string list" where
  "agent_blocks = [
     ''pMyObject'', ''pAdvSec'', ''pSafeBrows'', ''pSoftFlowd'', ''pAdvPC'', ''pPrivProt'',
     ''pRabid'', ''pAdvPC_RFC'', ''pPrivProt_RFC'', ''pDFIcmpv6_RFC'',
     ''pWSDiscoveryAnalysis_RFC'', ''pAdvSecOTM_RFC'', ''pAdvSecUserSpace_RFC'',
     ''pLevl_RFC'', ''pAdvSecAgent_RFC'', ''pAdvSecSafeBrowsing_RFC'',
     ''pAdvSecCujoTelemetryWiFiFP_RFC'', ''pAdvSecCujoTracer_RFC'',
     ''pAdvSecCujoTelemetry_RFC'', ''pAdvSecSATE_RFC'',
     ''pAdvSecTCPTrackerFilterDevices_RFC'', ''pAdvSecDoHBlocking_RFC'',
     ''pAdvSecDNSECHBlocking_RFC'', ''pAdvNetworkIntelligence_RFC'',
     ''pAdvWifiDataCollection_RFC'', ''pRaptr_RFC'']"

definition freed_after_pAdvSec :: "string list" where
  "freed_after_pAdvSec = [
     ''pAdvPC'', ''pPrivProt'', ''pRabid'', ''pAdvPC_RFC'', ''pPrivProt_RFC'',
     ''pDFIcmpv6_RFC'', ''pWSDiscoveryAnalysis_RFC'', ''pAdvSecOTM_RFC'',
     ''pAdvSecUserSpace_RFC'', ''pLevl_RFC'', ''pAdvSecAgent_RFC'',
     ''pAdvSecSafeBrowsing_RFC'', ''pAdvSecCujoTelemetryWiFiFP_RFC'',
     ''pAdvSecCujoTracer_RFC'', ''pAdvSecCujoTelemetry_RFC'', ''pAdvSecSATE_RFC'',
     ''pAdvSecTCPTrackerFilterDevices_RFC'', ''pAdvSecDoHBlocking_RFC'',
     ''pAdvSecDNSECHBlocking_RFC'', ''pAdvNetworkIntelligence_RFC'',
     ''pAdvWifiDataCollection_RFC'', ''pRaptr_RFC'']"

definition freed_blocks :: "string list \<Rightarrow> string list" where
  "freed_blocks live =
     (if ''pMyObject'' \<in> set live
      then (if ''pAdvSec'' \<in> set live
            then (if ''pSafeBrows'' \<in> set live then [''pSafeBrows''] else []) @
                 (if ''pSoftFlowd'' \<in> set live then [''pSoftFlowd''] else []) @ [''pAdvSec'']
            else []) @
           filter (\<lambda>b. b \<in> set live) freed_after_pAdvSec @ [''pMyObject'']
      else [])"

fun free_all :: "'w lenv \<Rightarrow> string list \<Rightarrow> ('w, unit) adv" where
  "free_all L [] = return ()"
| "free_all L (b # bs) = do { _ \<leftarrow> call (x_AnscFreeMemory L b); free_all L bs }"

definition FreeCosaDmAgent :: "'w lenv \<Rightarrow> string list \<Rightarrow> ('w, unit) adv" where
  "FreeCosaDmAgent L live = free_all L (freed_blocks live)"

text \<open>The blocks allocated until the first failure, and whether all were.\<close>

fun allocate_all :: "'w lenv \<Rightarrow> string list \<Rightarrow> ('w, string list \<times> bool) adv" where
  "allocate_all L [] = return ([], True)"
| "allocate_all L (b # bs) = do {
     ok \<leftarrow> call (x_AnscAllocateMemory L b);
     if \<not> ok then return ([], False)
     else do { (got, all) \<leftarrow> allocate_all L bs; return (b # got, all) }
   }"

definition CosaSecurityCreate :: "'w lenv \<Rightarrow> ('w, COSA_DATAMODEL_AGENT option) adv" where
  "CosaSecurityCreate L = do {
     (live, all) \<leftarrow> allocate_all L agent_blocks;
     if all
     then do { _ \<leftarrow> call (x_syscfg_init L); return (Some agent_zero) }
     else do { _ \<leftarrow> FreeCosaDmAgent L live; return None }
   }"

definition CosaSecurityRemove :: "'w lenv \<Rightarrow> string list \<Rightarrow> ('w, ANSC_STATUS) adv" where
  "CosaSecurityRemove L live = do {
     _ \<leftarrow> FreeCosaDmAgent L live;
     _ \<leftarrow> call (x_rbus_close L);
     return ANSC_STATUS_SUCCESS
   }"

section \<open>Identity of the device\<close>

text \<open>The address, None when the process has exited.\<close>

definition exit_after :: "'w env \<Rightarrow> 'w senv \<Rightarrow> 'w lenv \<Rightarrow> bool \<Rightarrow> ('w, string option) adv" where
  "exit_after E S L sysevent = do {
     _ \<leftarrow> (if sysevent then do { _ \<leftarrow> call (x_sysevent_close S); return () } else return ());
     _ \<leftarrow> call (x_rbus_close L);
     _ \<leftarrow> call (x_sleep E 30);
     return None
   }"

definition device_mac_mips :: "'w env \<Rightarrow> 'w senv \<Rightarrow> 'w lenv \<Rightarrow> ('w, string option) adv" where
  "device_mac_mips E S L = do {
     (r, mac) \<leftarrow> call (x_dpoe_getOnuId L);
     if r = 0
     then (case x_sprintf_s_mac L 64 mac of (rc, deviceMac) \<Rightarrow>
             if rc < EOK then exit_after E S L False else return (Some deviceMac))
     else exit_after E S L False
   }"

definition device_mac_pon :: "'w env \<Rightarrow> 'w senv \<Rightarrow> 'w lenv \<Rightarrow> ('w, string option) adv" where
  "device_mac_pon E S L = do {
     (rc, deviceMACStr) \<leftarrow> call (x_platform_hal_GetBaseMacAddress L);
     if rc = 0 \<and> deviceMACStr \<noteq> []
     then return (Some (snd (x_strcpy_s E 64 deviceMACStr)))
     else exit_after E S L False
   }"

text \<open>The address of an Ethernet WAN, when the setting says so and syseventd has one.\<close>

definition eth_wan_mac :: "'w env \<Rightarrow> 'w lenv \<Rightarrow> ('w, string option) adv" where
  "eth_wan_mac E L = do {
     (r, isEthEnabled) \<leftarrow> call (x_syscfg_get E ''eth_wan_enabled'' 64);
     if r = 0 \<and> isEthEnabled \<noteq> []
     then (case x_strcmp_s E isEthEnabled 64 ''true'' of (rc, ind) \<Rightarrow>
             if rc = EOK \<and> ind = 0
             then do {
               (g, mac) \<leftarrow> call (x_sysevent_get L ''eth_wan_mac'' 32);
               return (if g = 0 \<and> mac \<noteq> [] then Some mac else None)
             }
             else return None)
     else return None
   }"

definition copy_mac :: "'w env \<Rightarrow> 'w senv \<Rightarrow> 'w lenv \<Rightarrow> string \<Rightarrow> ('w, string option) adv" where
  "copy_mac E S L mac = (case x_strcpy_s E 64 mac of (rc, deviceMac) \<Rightarrow>
     if rc \<noteq> EOK then exit_after E S L True
     else do { _ \<leftarrow> call (x_sysevent_close S); return (Some deviceMac) })"

definition device_mac_cable :: "'w env \<Rightarrow> 'w senv \<Rightarrow> 'w lenv \<Rightarrow> ('w, string option) adv" where
  "device_mac_cable E S L = do {
     fd \<leftarrow> call (x_sysevent_open S);
     if fd < 0 then do { _ \<leftarrow> call (x_rbus_close L); return None }
     else do {
       found \<leftarrow> eth_wan_mac E L;
       case found of
         Some deviceMACValue \<Rightarrow> copy_mac E S L deviceMACValue
       | None \<Rightarrow>
           if NO_CM_HAL L then exit_after E S L True
           else do {
             (r, mac) \<leftarrow> call (x_cm_hal_GetDHCPInfo L);
             if r = 0
             then (case x_strcmp_s E mac (MACAddress_SIZE L) ''00:1A:2B:11:22:33'' of (rc, ind) \<Rightarrow>
                     if rc = EOK \<and> ind \<noteq> 0 then copy_mac E S L mac else exit_after E S L True)
             else exit_after E S L True
           }
     }
   }"

definition device_mac :: "'w env \<Rightarrow> 'w senv \<Rightarrow> 'w lenv \<Rightarrow> ('w, string option) adv" where
  "device_mac E S L =
     (if COSA_BCM_MIPS L then device_mac_mips E S L
      else if PON_GATEWAY L then device_mac_pon E S L else device_mac_cable E S L)"

definition advsec_create_dir :: "'w lenv \<Rightarrow> string \<Rightarrow> ('w, unit) adv" where
  "advsec_create_dir L path = do { _ \<leftarrow> call (x_mkdir L path); return () }"

text \<open>The files are written one after the other until one fails.\<close>

fun write_files :: "'w env \<Rightarrow> (string \<times> string) list \<Rightarrow> ('w, bool) adv" where
  "write_files E [] = return True"
| "write_files E ((f, c) # r) = do {
     ok \<leftarrow> advsec_write_to_file E (Some f) (Some c);
     if ok then write_files E r else return False
   }"

definition advsec_webconfig_init :: "'w env \<Rightarrow> 'w lenv \<Rightarrow> ('w, unit) adv" where
  "advsec_webconfig_init E L = do {
     ok \<leftarrow> call (x_AnscAllocateMemory L ''blobData'');
     if \<not> ok then return ()
     else (case x_strcpy_s E (SUBDOC_REG_SIZE L) ADVSEC_WEBCONFIG_SUBDOC_NAME of (rc, dst) \<Rightarrow>
             if rc \<noteq> EOK then do { _ \<leftarrow> call (x_AnscFreeMemory L ''blobData''); return () }
             else do { _ \<leftarrow> call (x_register_sub_docs L [dst]); return () })
   }"

definition publish_identity :: "'w env \<Rightarrow> 'w lenv \<Rightarrow> string \<Rightarrow> string \<Rightarrow> string \<Rightarrow> string \<Rightarrow> string \<Rightarrow> ('w, unit) adv" where
  "publish_identity E L modelName manufacturer firmwareVersion hardwareVersion deviceMac = do {
     _ \<leftarrow> advsec_create_dir L ''/tmp/advsec_config_params'';
     _ \<leftarrow> write_files E
       [(''/tmp/advsec_config_params/MODEL'', modelName),
        (''/tmp/advsec_config_params/MANUFACTURER'', manufacturer),
        (''/tmp/advsec_config_params/FWVER'', firmwareVersion),
        (''/tmp/advsec_config_params/HWVER'', hardwareVersion),
        (''/tmp/advsec_config_params/CMMAC'', deviceMac)];
     _ \<leftarrow> advsec_webconfig_init E L;
     return ()
   }"

text \<open>False when the process has exited.\<close>

definition identify_device :: "'w env \<Rightarrow> 'w senv \<Rightarrow> 'w lenv \<Rightarrow> ('w, bool) adv" where
  "identify_device E S L = do {
     _ \<leftarrow> call (x_platform_hal_PandMDBInit L);
     _ \<leftarrow> (if \<not> COSA_BCM_MIPS L \<and> \<not> NO_CM_HAL L \<and> \<not> PON_GATEWAY L
          then do { _ \<leftarrow> call (x_cm_hal_InitDB L); return () } else return ());
     (_, modelName) \<leftarrow> call (x_platform_hal_GetModelName L);
     (_, firmwareVersion) \<leftarrow> call (x_platform_hal_GetFirmwareName L);
     (_, hardwareVersion) \<leftarrow> call (x_platform_hal_GetHardwareVersion L);
     let manufacturer = (if CONFIG_VENDOR_NAME L \<noteq> [] then snd (x_strcpy_s E 64 (CONFIG_VENDOR_NAME L)) else []);
     mac \<leftarrow> device_mac E S L;
     case mac of
       None \<Rightarrow> return False
     | Some deviceMac \<Rightarrow> do {
         _ \<leftarrow> publish_identity E L modelName manufacturer firmwareVersion hardwareVersion deviceMac;
         return True
       }
   }"

section \<open>The stored settings\<close>

text \<open>Every number is zero before it is read; a setting that cannot be read leaves it so.\<close>

fun read_settings :: "'w env \<Rightarrow> string list \<Rightarrow> ('w, (string \<times> ULONG) list) adv" where
  "read_settings E [] = return []"
| "read_settings E (k # ks) = do {
     (_, v) \<leftarrow> CosaGetSysCfgUlong E k 0;
     vs \<leftarrow> read_settings E ks;
     return ((k, v) # vs)
   }"

definition stored :: "(string \<times> ULONG) list \<Rightarrow> string \<Rightarrow> ULONG" where
  "stored vs k = (case map_of vs k of None \<Rightarrow> 0 | Some v \<Rightarrow> v)"

definition init_keys :: "'w env \<Rightarrow> string list" where
  "init_keys E =
     [g_DeviceFingerPrintEnabled, g_AdvSecuritySBEnabled, g_AdvSecuritySFEnabled, g_AdvParentalControl,
      g_PrivacyProtection, g_AdvParentalControlEnabled, g_PrivacyProtectionEnabled,
      g_DeviceFingerPrintICMPv6Enabled, g_WSDiscoveryAnalysisEnabled, g_AdvSecOTMEnabled,
      g_AdvSecUserSpaceEnabled] @
     (if NETWORK_INTELLIGENCE E then [g_AdvSecNetworkIntelligenceEnabled, g_NetworkIntelligenceMemoryLimit] else []) @
     (if WIFI_DATA_COLLECTION E then [g_AdvWifiDataCollection, g_LevlEnabled] else []) @
     [g_AdvSecAgentEnabled, g_AdvSecSafeBrowsingEnabled, g_AdvSecCujoTelemetryWiFiFPEnabled,
      g_AdvSecCujoTracerEnabled, g_AdvSecCujoTelemetryEnabled, g_AdvSecSATEEnabled,
      g_AdvSecTCPTrackerFilterDevicesEnabled, g_AdvSecDoHBlockingEnabled, g_AdvSecDNSECHBlockingEnabled,
      g_RaptrEnabled, g_RabidMemoryLimit, g_RabidMacCacheSize, g_RabidDNSCacheSize]"

text \<open>The assignments before and after the special cases; a \<open>BOOL\<close> takes the low byte.\<close>

definition init_flags1 :: "(string \<times> ULONG) list \<Rightarrow> COSA_DATAMODEL_AGENT \<Rightarrow> COSA_DATAMODEL_AGENT" where
  "init_flags1 vs a =
     (let b = (\<lambda>k. ucast (stored vs k) :: BOOL) in
      set_pp (b g_PrivacyProtection)
       (set_apc (b g_AdvParentalControl)
         (set_sf (b g_AdvSecuritySFEnabled)
           (set_sb (b g_AdvSecuritySBEnabled) a)))
      \<lparr> bEnable := b g_DeviceFingerPrintEnabled,
        pAdvPC_RFC := set_flag (b g_AdvParentalControlEnabled) (pAdvPC_RFC a),
        pPrivProt_RFC := set_flag (b g_PrivacyProtectionEnabled) (pPrivProt_RFC a),
        pDFIcmpv6_RFC := set_flag (b g_DeviceFingerPrintICMPv6Enabled) (pDFIcmpv6_RFC a),
        pWSDiscoveryAnalysis_RFC := set_flag (b g_WSDiscoveryAnalysisEnabled) (pWSDiscoveryAnalysis_RFC a),
        pAdvSecOTM_RFC := set_flag (b g_AdvSecOTMEnabled) (pAdvSecOTM_RFC a) \<rparr>)"

definition init_flags2 :: "(string \<times> ULONG) list \<Rightarrow> COSA_DATAMODEL_AGENT \<Rightarrow> COSA_DATAMODEL_AGENT" where
  "init_flags2 vs a =
     (let b = (\<lambda>k. ucast (stored vs k) :: BOOL) in
      a\<lparr> pAdvSecAgent_RFC := set_flag (b g_AdvSecAgentEnabled) (pAdvSecAgent_RFC a),
         pAdvSecSafeBrowsing_RFC := set_flag (b g_AdvSecSafeBrowsingEnabled) (pAdvSecSafeBrowsing_RFC a),
         pAdvSecCujoTelemetryWiFiFP_RFC :=
           set_flag (b g_AdvSecCujoTelemetryWiFiFPEnabled) (pAdvSecCujoTelemetryWiFiFP_RFC a),
         pAdvSecCujoTracer_RFC := set_flag (b g_AdvSecCujoTracerEnabled) (pAdvSecCujoTracer_RFC a),
         pAdvSecCujoTelemetry_RFC := set_flag (b g_AdvSecCujoTelemetryEnabled) (pAdvSecCujoTelemetry_RFC a),
         pAdvSecSATE_RFC := set_flag (b g_AdvSecSATEEnabled) (pAdvSecSATE_RFC a),
         pAdvSecTCPTrackerFilterDevices_RFC :=
           set_flag (b g_AdvSecTCPTrackerFilterDevicesEnabled) (pAdvSecTCPTrackerFilterDevices_RFC a),
         pAdvSecDoHBlocking_RFC := set_flag (b g_AdvSecDoHBlockingEnabled) (pAdvSecDoHBlocking_RFC a),
         pAdvSecDNSECHBlocking_RFC := set_flag (b g_AdvSecDNSECHBlockingEnabled) (pAdvSecDNSECHBlocking_RFC a),
         pRaptr_RFC := set_flag (b g_RaptrEnabled) (pRaptr_RFC a),
         pRabid := \<lparr> uMemoryLimit = stored vs g_RabidMemoryLimit,
                     uMacCacheSize = stored vs g_RabidMacCacheSize,
                     uDNSCacheSize = stored vs g_RabidDNSCacheSize \<rparr> \<rparr>)"

text \<open>The user-space component is switched on when its setting is zero. The answer is
  \<open>returnStatus\<close>.\<close>

definition init_user_space :: "'w env \<Rightarrow> (string \<times> ULONG) list \<Rightarrow> ANSC_STATUS \<Rightarrow> ('w, ANSC_STATUS) adv" where
  "init_user_space E vs returnStatus =
     (if stored vs g_AdvSecUserSpaceEnabled = 0
      then do {
        r \<leftarrow> CosaSetSysCfgUlong E g_AdvSecUserSpaceEnabled 1;
        _ \<leftarrow> upd_agent (set_us TRUE);
        return r
      }
      else do {
        _ \<leftarrow> upd_agent (set_us (ucast (stored vs g_AdvSecUserSpaceEnabled)));
        return returnStatus
      })"

definition init_network_intelligence :: "'w env \<Rightarrow> (string \<times> ULONG) list \<Rightarrow> ('w, unit) adv" where
  "init_network_intelligence E vs =
     (if NETWORK_INTELLIGENCE E
      then upd_agent (\<lambda>a. pAdvNetworkIntelligence_RFC_update
             (ni_uMemoryLimit_update (\<lambda>_. stored vs g_NetworkIntelligenceMemoryLimit))
             (set_ni (ucast (stored vs g_AdvSecNetworkIntelligenceEnabled)) a))
      else upd_agent (set_ni FALSE))"

text \<open>Levl, when its flag is set: \<open>returnStatus\<close> and the number Wi-Fi data collection is set to.\<close>

definition init_levl_on :: "'w env \<Rightarrow> ULONG \<Rightarrow> ANSC_STATUS \<Rightarrow> ('w, ANSC_STATUS \<times> ULONG) adv" where
  "init_levl_on E wdc returnStatus = do {
     st \<leftarrow> Wifi_Get_Status E LEVL_DML;
     r1 \<leftarrow> (if st = FALSE
            then do {
              r \<leftarrow> Wifi_SetParameterValue E LEVL_DML True;
              if r \<noteq> ANSC_STATUS_SUCCESS then return r
              else do { _ \<leftarrow> call (x_sleep E 1); return r }
            }
            else return returnStatus);
     st2 \<leftarrow> Wifi_Get_Status E LEVL_DML;
     if st2 = TRUE
     then do {
       r2 \<leftarrow> CosaSetSysCfgUlong E g_AdvWifiDataCollection 1;
       return (r2, 1)
     }
     else return (r1, wdc)
   }"

definition init_levl_wdc :: "'w env \<Rightarrow> (string \<times> ULONG) list \<Rightarrow> ANSC_STATUS \<Rightarrow> ('w, ANSC_STATUS) adv" where
  "init_levl_wdc E vs returnStatus =
     (if WIFI_DATA_COLLECTION E
      then do {
        _ \<leftarrow> upd_agent (set_levl (ucast (stored vs g_LevlEnabled)));
        levl \<leftarrow> gets (\<lambda>s. levl_of (agent s));
        (r, wdc) \<leftarrow> (if levl = TRUE then init_levl_on E (stored vs g_AdvWifiDataCollection) returnStatus
                    else return (returnStatus, stored vs g_AdvWifiDataCollection));
        us \<leftarrow> gets (\<lambda>s. us_of (agent s));
        ok \<leftarrow> (if us = TRUE then do { st \<leftarrow> Wifi_Get_Status E LEVL_DML; return (st = TRUE) } else return False);
        _ \<leftarrow> upd_agent (set_wdc (if ok then ucast wdc else FALSE));
        return r
      }
      else do {
        _ \<leftarrow> upd_agent (set_wdc FALSE);
        _ \<leftarrow> upd_agent (set_levl FALSE);
        return returnStatus
      })"

definition Advsec_getPartnerBasedURL :: "'w env \<Rightarrow> 'w lenv \<Rightarrow> ('w, string option) adv" where
  "Advsec_getPartnerBasedURL E L = do {
     (ret, parameterValue) \<leftarrow> call (x_CcspBaseIf_getParameterValue L
        ''Device.DeviceInfo.X_RDKCENTRAL-COM_Syndication.AdvsecRedirectorURL'');
     return (if ret \<noteq> CCSP_Message_Bus_OK L then None
             else if parameterValue \<noteq> [] then Some (snd (x_strcpy_s E 256 parameterValue)) else None)
   }"

definition Advsec_SetDefaultsUrl :: "'w env \<Rightarrow> 'w lenv \<Rightarrow> ('w, unit) adv" where
  "Advsec_SetDefaultsUrl E L = do {
     url \<leftarrow> Advsec_getPartnerBasedURL E L;
     case url of
       None \<Rightarrow> return ()
     | Some out_val \<Rightarrow> do { _ \<leftarrow> CosaSetSysCfgString E g_AdvSecDefaultEndpointURL out_val; return () }
   }"

definition load_settings :: "'w env \<Rightarrow> ('w, (string \<times> ULONG) list \<times> ANSC_STATUS) adv" where
  "load_settings E = do {
     vs \<leftarrow> read_settings E (init_keys E);
     _ \<leftarrow> upd_agent (init_flags1 vs);
     r1 \<leftarrow> init_user_space E vs ANSC_STATUS_SUCCESS;
     _ \<leftarrow> init_network_intelligence E vs;
     r2 \<leftarrow> init_levl_wdc E vs r1;
     _ \<leftarrow> upd_agent (init_flags2 vs);
     return (vs, r2)
   }"

section \<open>Initialisation\<close>

datatype init_end = INIT_RETURN ANSC_STATUS | INIT_EXIT int

definition start_threads :: "'w env \<Rightarrow> 'w senv \<Rightarrow> ('w, unit) adv" where
  "start_threads E S = do {
     _ \<leftarrow> set_prevWanIfname (snd (x_strcpy_s E 16 ''erouter0''));
     _ \<leftarrow> advsec_start_logger_thread S;
     _ \<leftarrow> advsec_start_log_monitor_thread S;
     advsec_handle_sysevent_async S
   }"

definition subscribe_events :: "'w env \<Rightarrow> 'w lenv \<Rightarrow> ('w, bool) adv" where
  "subscribe_events E L = do {
     wan \<leftarrow> (if WAN_FAILOVER_SUPPORTED E
             then call (x_rbusEvent_Subscribe L ''Device.X_RDK_WanManager.CurrentActiveInterface'')
             else return RBUS_ERROR_SUCCESS);
     if wan \<noteq> RBUS_ERROR_SUCCESS then return False
     else if WIFI_DATA_COLLECTION E
     then do { ret \<leftarrow> call (x_rbusEvent_Subscribe L LEVL_DML); return (ret = RBUS_ERROR_SUCCESS) }
     else return True
   }"

definition CosaSecurityInitialize :: "'w env \<Rightarrow> 'w senv \<Rightarrow> 'w lenv \<Rightarrow> ('w, init_end) adv" where
  "CosaSecurityInitialize E S L = do {
     ret \<leftarrow> call (x_rbus_open L);
     if ret \<noteq> RBUS_ERROR_SUCCESS then return (INIT_RETURN ANSC_STATUS_FAILURE)
     else do {
       _ \<leftarrow> modify (\<lambda>s. s\<lparr>rbus_handle_open := True\<rparr>);
       running \<leftarrow> identify_device E S L;
       if \<not> running then return (INIT_EXIT 1)
       else do {
         (vs, r1) \<leftarrow> load_settings E;
         _ \<leftarrow> Advsec_SetDefaultsUrl E L;
         r2 \<leftarrow> (if stored vs g_DeviceFingerPrintEnabled = 1 then CosaAdvSecInit E else return r1);
         _ \<leftarrow> CosaAdvSecGetLoggingPeriod E;
         _ \<leftarrow> CosaAdvSecGetLogLevel E;
         _ \<leftarrow> CosaAdvSecGetLookupTimeout E;
         _ \<leftarrow> start_threads E S;
         ok \<leftarrow> subscribe_events E L;
         return (INIT_RETURN (if ok then r2 else ANSC_STATUS_FAILURE))
       }
     }
   }"

end
