(* ===== verification/Adv_Events.thy ===== *)
theory Adv_Events
  imports Adv_Sysevent
begin

text \<open>
  What the event and logger threads promise: the bridge mode is followed edge by edge and retried
  after a failure, the listener never ends, the countdown of the logger stays in range when the
  period does, and a wait tells a time-out from a signal.
\<close>

section \<open>Bridge mode\<close>

text \<open>\<open>strcmp_s\<close> with a bound above the length of its first argument.\<close>

definition strcmp_s_bound_law :: "'w env \<Rightarrow> bool" where
  "strcmp_s_bound_law E \<longleftrightarrow> (\<forall>s n t. length s < n \<longrightarrow>
     fst (x_strcmp_s E s n t) = EOK \<and> (snd (x_strcmp_s E s n t) = 0 \<longleftrightarrow> s = t))"

fun deliver :: "'w env \<Rightarrow> 'w senv \<Rightarrow> (string \<times> string) list \<Rightarrow> ('w, unit) adv" where
  "deliver E S [] = return ()"
| "deliver E S ((e, v) # es) = do {
     _ \<leftarrow> advsec_handle_sysevent_notification E S (Some e) (Some v);
     deliver E S es
   }"

text \<open>The script runs a mode calls for.\<close>

definition script :: "'w env \<Rightarrow> string \<Rightarrow> string" where
  "script E args = TEMP_DOWNLOAD_LOCATION E @ ''/usr/ccsp/advsec/start_adv_security.sh '' @ args"

definition mode_scripts :: "'w env \<Rightarrow> string \<Rightarrow> string list" where
  "mode_scripts E v = (if v = ''0'' then [script E ''-enable &'']
     else if v = (if XF3_PRODUCT_REQ E then ''3'' else ''2'') then [script E ''-disable &''] else [])"

lemma event_names:
  assumes "strcmp_s_law E"
  shows "get_advSysEvent_type_from_name E (Some ''bridge_mode'') = Some SYSEVENT_BRIDGE_MODE_EVENT"
    "get_advSysEvent_type_from_name E (Some ''current_wan_ifname'') = Some SYSEVENT_CURRENT_WAN_IFNAME_EVENT"
  using strcmp_s_matches_iff [OF assms]
  by (simp_all add: get_advSysEvent_type_from_name_def advSysEvent_type_table_def)

lemma bridge_mode_step:
  assumes "strcmp_s_bound_law E" "strcpy_s_law E" "\<forall>c w. x_system E c w = (0, log c w)"
    and "length (prevBridgeMode s) \<le> 1" "length v = 1"
  shows "run_state (handle_bridge_mode E v) s =
    ((), if prevBridgeMode s = v then s
         else s\<lparr>prevBridgeMode := v, world := fold log (mode_scripts E v) (world s)\<rparr>)"
proof -
  obtain rc ind where c: "x_strcmp_s E (prevBridgeMode s) 2 v = (rc, ind)" by fastforce
  then have "rc = EOK" "ind = 0 \<longleftrightarrow> prevBridgeMode s = v"
    using assms(1,4) unfolding strcmp_s_bound_law_def
    by (metis fst_conv le_imp_less_Suc one_add_one plus_1_eq_Suc, metis snd_conv le_imp_less_Suc one_add_one plus_1_eq_Suc)
  moreover have "x_strcpy_s E 2 v = (EOK, v)"
    using assms(2,5) by (simp add: strcpy_s_law_def)
  ultimately show ?thesis
    using assms(3,5)
    by (auto simp: handle_bridge_mode_def c set_prevBridgeMode_def start_adv_security_def
        mode_scripts_def script_def)
qed

lemma fold_edges:
  "fold log (concat (map f (remdups_adj (v # vs)))) w =
     fold log (concat (map f (tl (remdups_adj (v # vs))))) (fold log (f v) w)"
proof -
  have "remdups_adj (v # vs) = v # tl (remdups_adj (v # vs))"
    by (induction vs) auto
  then have "concat (map f (remdups_adj (v # vs))) = f v @ concat (map f (tl (remdups_adj (v # vs))))"
    by (metis concat.simps(2) list.simps(9))
  then show ?thesis by simp
qed

text \<open>C30: The bridge mode is followed on its edges: however often a mode is reported, when the
  script succeeds each change of mode launches the script of the new mode once, in order, and a
  repetition launches nothing; the last reported mode is remembered.\<close>

theorem bridge_mode_edge_triggered:
  assumes "strcmp_s_law E" "strcmp_s_bound_law E" "strcpy_s_law E" "\<forall>c w. x_system E c w = (0, log c w)"
    and "length (prevBridgeMode s) \<le> 1" "\<forall>v \<in> set vs. length v = 1"
  shows "run_state (deliver E S (map (\<lambda>v. (''bridge_mode'', v)) vs)) s =
    ((), s\<lparr>prevBridgeMode := last (prevBridgeMode s # vs),
           world := fold log (concat (map (mode_scripts E) (tl (remdups_adj (prevBridgeMode s # vs))))) (world s)\<rparr>)"
  using assms(5,6)
proof (induction vs arbitrary: s)
  case Nil
  then show ?case by simp
next
  case (Cons v vs)
  let ?s = "snd (run_state (handle_bridge_mode E v) s)"
  have step: "run_state (handle_bridge_mode E v) s =
    ((), if prevBridgeMode s = v then s
         else s\<lparr>prevBridgeMode := v, world := fold log (mode_scripts E v) (world s)\<rparr>)"
    using Cons.prems by (intro bridge_mode_step [OF assms(2,3,4)]) simp_all
  have p: "prevBridgeMode ?s = v" by (simp add: step)
  have "run_state (deliver E S (map (\<lambda>v. (''bridge_mode'', v)) (v # vs))) s
      = run_state (deliver E S (map (\<lambda>v. (''bridge_mode'', v)) vs)) ?s"
    by (simp add: advsec_handle_sysevent_notification_def event_names [OF assms(1)] case_prod_beta)
  also have "\<dots> = ((), ?s\<lparr>prevBridgeMode := last (v # vs),
       world := fold log (concat (map (mode_scripts E) (tl (remdups_adj (v # vs))))) (world ?s)\<rparr>)"
    using Cons.IH [of ?s] Cons.prems by (simp add: p)
  finally show ?case
    by (cases "prevBridgeMode s = v") (simp_all add: step fold_edges)
qed

text \<open>A mode whose script failed is not remembered: when the script for a new mode fails, the
  previous mode is kept, so that the next report of the same mode launches the script again.\<close>

lemma bridge_mode_failure_is_retried:
  assumes "strcmp_s_law E" "strcmp_s_bound_law E" "\<forall>c w. x_system E c w = (1, log c w)"
    and "v = ''0'' \<or> v = (if XF3_PRODUCT_REQ E then ''3'' else ''2'')"
    and "length (prevBridgeMode s) \<le> 1" "prevBridgeMode s \<noteq> v"
  shows "run_state (deliver E S (replicate n (''bridge_mode'', v))) s =
    ((), s\<lparr>world := fold log (concat (replicate n (mode_scripts E v))) (world s)\<rparr>)"
  using assms(5,6)
proof (induction n arbitrary: s)
  case 0
  then show ?case by simp
next
  case (Suc n)
  obtain rc ind where c: "x_strcmp_s E (prevBridgeMode s) 2 v = (rc, ind)" by fastforce
  then have "rc = EOK" "ind \<noteq> 0"
    using assms(2) Suc.prems unfolding strcmp_s_bound_law_def
    by (metis fst_conv le_imp_less_Suc one_add_one plus_1_eq_Suc, metis snd_conv le_imp_less_Suc one_add_one plus_1_eq_Suc)
  then have "run_state (handle_bridge_mode E v) s = ((), s\<lparr>world := fold log (mode_scripts E v) (world s)\<rparr>)"
    using assms(3,4)
    by (auto simp: handle_bridge_mode_def c start_adv_security_def mode_scripts_def script_def)
  then show ?case
    using Suc.IH [of "s\<lparr>world := fold log (mode_scripts E v) (world s)\<rparr>"] Suc.prems
    by (simp add: advsec_handle_sysevent_notification_def event_names [OF assms(1)])
qed

text \<open>The services on the concrete world, with a \<open>strcmp_s\<close> that compares at most as many characters
  as it is told and then takes the difference of the next two.\<close>

fun strcmp_bounded :: "string \<Rightarrow> nat \<Rightarrow> string \<Rightarrow> int" where
  "strcmp_bounded (c # cs) (Suc n) (d # ds) =
     (if c = d then strcmp_bounded cs n ds else int (of_char c) - int (of_char d))"
| "strcmp_bounded cs n ds =
     (case cs of [] \<Rightarrow> 0 | c # _ \<Rightarrow> int (of_char c)) - (case ds of [] \<Rightarrow> 0 | d # _ \<Rightarrow> int (of_char d))"

definition env_safec :: "demo_world env" where
  "env_safec = demo_env\<lparr>x_strcmp_s := (\<lambda>s n t. (0, strcmp_bounded s n t))\<rparr>"

definition demo_senv :: "demo_world senv" where
  "demo_senv = \<lparr>
     x_strcat_s = (\<lambda>n a b. if length a + length b < n then (0, a @ b) else (406, [])),
     x_sysevent_open = (\<lambda>w. (3, w)), x_sysevent_set_options = (\<lambda>e w. (0, w)),
     x_sysevent_setnotification = (\<lambda>e w. (0, w)),
     x_sysevent_getnotification = (\<lambda>w. ((0, ''bridge_mode'', ''0''), w)),
     x_sysevent_rmnotification = (\<lambda>i w. (0, w)), x_sysevent_close = (\<lambda>w. (0, w)),
     x_pthread_create = (\<lambda>r w. (0, w\<lparr>dw_cmds := r # dw_cmds w\<rparr>)),
     x_stat_size = (\<lambda>f w. (None, w)) \<rparr>"

lemma demo_bound_law: "strcmp_s_bound_law demo_env"
  by (simp add: strcmp_s_bound_law_def demo_env_def)

theorem bridge_mode_edge_triggered_witness:
  "dw_cmds (world (snd (run_state (deliver demo_env demo_senv
      (map (\<lambda>v. (''bridge_mode'', v)) [''0'', ''0'', ''2'', ''2'', ''0'']))
      (demo_state agent_zero)))) =
   [script demo_env ''-enable &'', script demo_env ''-disable &'', script demo_env ''-enable &'']"
proof -
  have "\<forall>c w. x_system demo_env c w = (0, w\<lparr>dw_cmds := c # dw_cmds w\<rparr>)"
    by (simp add: demo_env_def)
  from bridge_mode_edge_triggered [OF demo_strcmp_law demo_bound_law demo_strcpy_law this,
      of "demo_state agent_zero" "[''0'', ''0'', ''2'', ''2'', ''0'']" demo_senv]
  show ?thesis
    by (simp add: demo_state_def mode_scripts_def demo_world0_def) (simp add: demo_env_def)
qed

theorem bridge_mode_failure_is_retried_witness:
  "dw_cmds (world (snd (run_state (deliver (demo_env\<lparr>x_system := (\<lambda>c w. (1, w\<lparr>dw_cmds := c # dw_cmds w\<rparr>))\<rparr>)
      demo_senv (replicate 2 (''bridge_mode'', ''0''))) (demo_state agent_zero)))) =
   [script demo_env ''-enable &'', script demo_env ''-enable &'']"
proof -
  let ?E = "demo_env\<lparr>x_system := (\<lambda>c w. (1, w\<lparr>dw_cmds := c # dw_cmds w\<rparr>))\<rparr>"
  have E: "strcmp_s_law ?E" "strcmp_s_bound_law ?E"
      "\<forall>c w. x_system ?E c w = (1, w\<lparr>dw_cmds := c # dw_cmds w\<rparr>)"
    by (simp_all add: strcmp_s_law_def strcmp_s_bound_law_def demo_env_def)
  from bridge_mode_failure_is_retried [OF E, of "''0''" "demo_state agent_zero" demo_senv 2]
  show ?thesis
    by (simp add: demo_state_def mode_scripts_def demo_world0_def script_def numeral_2_eq_2 TEMP_DOWNLOAD_LOCATION_def)
qed

section \<open>The WAN interface\<close>

text \<open>A change of the WAN interface can be missed: the comparison with the previous name is bounded
  by four characters, so with a \<open>strcmp_s\<close> that stops at its bound the change from erouter0 to
  erouter1 is remembered and the agent not restarted, while a change to brrwan restarts it.\<close>

lemma wan_change_missed:
  "let run = (\<lambda>v. snd (run_state (advsec_handle_sysevent_notification env_safec demo_senv
        (Some ''current_wan_ifname'') (Some v)) (demo_state agent_zero)))
   in dw_cmds (world (run ''erouter1'')) = [] \<and> prevWanIfname (run ''erouter1'') = ''erouter1''
    \<and> dw_cmds (world (run ''brrwan'')) = [script env_safec ''-restartAgent WANIfnameChanged &'']
    \<and> prevWanIfname (run ''brrwan'') = ''brrwan''"
  by code_simp

section \<open>The listener\<close>

lemma listener_answers:
  "fst (run_state (advsec_sysvent_listener E S) s) \<in> {SYS_EVENT_TIMEOUT, SYS_EVENT_RECEIVED}"
  by (auto simp: advsec_sysvent_listener_def case_prod_beta)

lemma sysevent_loop_runs: "fst (run_state (sysevent_loop n E S) s) = None"
proof (induction n arbitrary: s)
  case (Suc n)
  then show ?case
    using listener_answers [of E S s] by (auto simp: case_prod_beta)
qed simp

text \<open>The listener thread never ends: whatever events arrive and for however many rounds it is
  followed, it does not reach the code that unregisters the notifications, because the listener
  never answers the exit code its loop waits for.\<close>

lemma sysevent_thread_never_ends:
  "fst (run_state (advsec_sysevent_handler_th n E S) s) = None"
  by (simp add: advsec_sysevent_handler_th_def advsec_check_sysevent_status_def case_prod_beta sysevent_loop_runs)

section \<open>The logger\<close>

lemma logger_round_range:
  fixes r p :: ULONG
  assumes "60 \<le> r" "r \<le> 2880" "60 \<le> p" "p \<le> 2880"
  shows "60 \<le> fst (logger_round E w1 w2 p r) \<and> fst (logger_round E w1 w2 p r) \<le> 2880"
proof -
  have "r - 60 \<le> 2880"
    using assms(1,2) by (metis order_trans word_sub_le)
  then show ?thesis
    using assms by (auto simp: logger_round_def Let_def not_less)
qed

text \<open>The countdown of the logger never wraps while the period is in its range: started with a
  period of 60 to 2880 minutes, and with every period read later in that range, the remaining
  time is between 60 and 2880 at the start of every round, whatever the waits answer.\<close>

lemma logger_countdown_in_range:
  assumes "60 \<le> period" "period \<le> 2880" "\<forall>(w1, w2, p) \<in> set xs. 60 \<le> p \<and> p \<le> 2880"
  shows "60 \<le> advsec_logger_th E period xs \<and> advsec_logger_th E period xs \<le> 2880"
  unfolding advsec_logger_th_def using assms
proof (induction xs arbitrary: period)
  case Nil
  then show ?case by simp
next
  case (Cons x xs)
  obtain w1 w2 p where x: "x = (w1, w2, p)" by (cases x)
  have "60 \<le> fst (logger_round E w1 w2 p period) \<and> fst (logger_round E w1 w2 p period) \<le> 2880"
    using Cons.prems by (intro logger_round_range) (auto simp: x)
  then show ?case
    using Cons.IH Cons.prems(3) by (simp add: x)
qed

theorem logger_countdown_in_range_witness:
  "60 \<le> advsec_logger_th demo_env 90 [(True, True, 90), (False, True, 1440), (True, False, 60)]"
  using logger_countdown_in_range [of 90 "[(True, True, 90), (False, True, 1440), (True, False, 60)]" demo_env]
  by simp

text \<open>With a period of 0, which is what the agent holds while the setting was never stored, the
  first round makes the countdown wrap to 60 below \<open>2 ^ 64\<close>; and in every round whose wait timed
  out both scripts are launched, however much time remains.\<close>

lemma logger_unset_period_wraps:
  "advsec_logger_th E 0 [(True, w2, 0)] = - 60
   \<and> length (snd (snd (logger_round E True w2 p r))) = 2 \<and> snd (snd (logger_round E False w2 p r)) = []"
  by (simp add: advsec_logger_th_def logger_round_def Let_def)

lemma wait_simps [simp]:
  "WaitForLoggerTimeout True wakes = Some (False, False)"
  "WaitForLoggerTimeout False [] = None"
  "WaitForLoggerTimeout False ((True, i) # r) = Some (if i then (False, False) else (True, False))"
  "WaitForLoggerTimeout False ((False, i) # r) = WaitForLoggerTimeout i r"
  by (simp_all add: WaitForLoggerTimeout_def)

text \<open>A wait of the logger consumes its signal and tells a time-out from one: it answers TRUE
  exactly when, after any number of spurious wake-ups, the time runs out with no signal set, and
  \<open>logReady\<close> is FALSE whenever it has answered.\<close>

lemma logger_wait_answers:
  assumes "WaitForLoggerTimeout ready wakes = Some (ret, ready')"
  shows "\<not> ready' \<and> (ret \<longleftrightarrow> \<not> ready \<and>
     take 1 (dropWhile (\<lambda>u. u = (False, False)) wakes) = [(True, False)])"
  using assms
proof (induction wakes arbitrary: ready)
  case Nil
  then show ?case by (cases ready) auto
next
  case (Cons u wakes)
  obtain t i where u: "u = (t, i)" by (cases u)
  show ?case
    using Cons by (cases ready; cases t; cases i) (auto simp: u)
qed

theorem logger_wait_answers_witness:
  "WaitForLoggerTimeout False [(False, False), (True, False)] = Some (True, False)
   \<and> take 1 (dropWhile (\<lambda>u. u = (False, False)) [(False, False), (True, False)]) = [(True, False)]"
  using logger_wait_answers [of False "[(False, False), (True, False)]" True False] by simp

end
