(* ===== verification/Adv_Startup.thy ===== *)
theory Adv_Startup
  imports Adv_System Adv_Lifecycle Adv_Events "HOL-Library.Multiset"
begin

text \<open>
  What start-up promises: a failed creation frees every block it allocated, a feature control that
  was accepted before a restart is in force after it, and start-up establishes the invariants that
  every later operation keeps.
\<close>

section \<open>No block is lost\<close>

text \<open>The blocks in use, as seen through the allocator.\<close>

definition heap_law :: "'w lenv \<Rightarrow> ('w \<Rightarrow> string multiset) \<Rightarrow> bool" where
  "heap_law L heap \<longleftrightarrow>
     (\<forall>b w. heap (snd (x_AnscAllocateMemory L b w)) =
        (if fst (x_AnscAllocateMemory L b w) then add_mset b (heap w) else heap w)
      \<and> heap (snd (x_AnscFreeMemory L b w)) = heap w - {#b#}
      \<and> heap (snd (x_syscfg_init L w)) = heap w)"

lemma heap_laws:
  assumes "heap_law L heap"
  shows "fst (x_AnscAllocateMemory L b w) \<Longrightarrow> heap (snd (x_AnscAllocateMemory L b w)) = add_mset b (heap w)"
    "\<not> fst (x_AnscAllocateMemory L b w) \<Longrightarrow> heap (snd (x_AnscAllocateMemory L b w)) = heap w"
    "heap (snd (x_AnscFreeMemory L b w)) = heap w - {#b#}" "heap (snd (x_syscfg_init L w)) = heap w"
  using assms unfolding heap_law_def by presburger+

lemma free_all_heap:
  "heap_law L heap \<Longrightarrow> heap (world (snd (run_state (free_all L bs) s))) = heap (world s) - mset bs"
  by (induction bs arbitrary: s) (simp_all add: heap_laws case_prod_beta)

lemma allocate_all_heap:
  assumes "heap_law L heap" "run_state (allocate_all L bs) s = ((live, all), s')"
  shows "heap (world s') = heap (world s) + mset live \<and> live = take (length live) bs \<and>
    length live \<le> length bs \<and> (all \<longrightarrow> live = bs)"
  using assms(2)
proof (induction bs arbitrary: s live all)
  case Nil
  then show ?case by simp
next
  case (Cons b bs)
  show ?case
  proof (cases "fst (x_AnscAllocateMemory L b (world s))")
    case True
    let ?s = "s\<lparr>world := snd (x_AnscAllocateMemory L b (world s))\<rparr>"
    obtain got ok where r: "run_state (allocate_all L bs) ?s = ((got, ok), s')"
      and "live = b # got" "all = ok"
      using Cons.prems True by (auto simp: case_prod_beta prod_eq_iff)
    then show ?thesis
      using Cons.IH [OF r] heap_laws(1) [OF assms(1) True] by auto
  next
    case False
    then show ?thesis
      using Cons.prems heap_laws(2) [OF assms(1) False] by auto
  qed
qed

lemma filter_in_take: "distinct xs \<Longrightarrow> filter (\<lambda>x. x \<in> set (take k xs)) xs = take k xs"
proof (induction xs arbitrary: k)
  case Nil
  then show ?case by simp
next
  case (Cons x xs)
  show ?case
  proof (cases k)
    case 0
    then show ?thesis by simp
  next
    case (Suc j)
    have "filter (\<lambda>y. y = x \<or> y \<in> set (take j xs)) xs = filter (\<lambda>y. y \<in> set (take j xs)) xs"
      using Cons.prems by (intro filter_cong) auto
    then show ?thesis using Cons Suc by simp
  qed
qed

lemma agent_blocks_split:
  "agent_blocks = [''pMyObject'', ''pAdvSec'', ''pSafeBrows'', ''pSoftFlowd''] @ freed_after_pAdvSec"
  by (simp add: agent_blocks_def freed_after_pAdvSec_def)

lemma agent_blocks_distinct: "distinct agent_blocks"
  by (simp add: agent_blocks_def)

lemma freed_prefix: "mset (freed_blocks (take k agent_blocks)) = mset (take k agent_blocks)"
proof -
  let ?live = "take k agent_blocks"
  consider "k = 0" | "k = 1" | j where "k = Suc (Suc j)" by (cases k; cases "k - 1") auto
  then have "mset (freed_blocks ?live) = mset (filter (\<lambda>b. b \<in> set ?live) agent_blocks)"
  proof cases
    case 3
    have "''pMyObject'' \<in> set ?live" "''pAdvSec'' \<in> set ?live"
      by (simp_all add: 3 agent_blocks_def)
    then show ?thesis
      unfolding arg_cong [OF agent_blocks_split, of "filter (\<lambda>b. b \<in> set ?live)"]
      by (simp add: freed_blocks_def)
  qed (simp_all add: freed_blocks_def agent_blocks_def freed_after_pAdvSec_def)
  then show ?thesis
    by (simp only: filter_in_take [OF agent_blocks_distinct])
qed

lemma create_heap:
  assumes "heap_law L heap" "run_state (CosaSecurityCreate L) s = (obj, s')"
  shows "heap (world s') = (if obj = None then heap (world s) else heap (world s) + mset agent_blocks)
    \<and> (obj \<noteq> None \<longrightarrow> obj = Some agent_zero)"
proof -
  obtain live all s1 where r: "run_state (allocate_all L agent_blocks) s = ((live, all), s1)"
    by (metis prod.collapse)
  note h = allocate_all_heap [OF assms(1) r]
  have "mset (freed_blocks live) = mset live"
    using freed_prefix [of "length live"] h by metis
  then show ?thesis
    using assms h free_all_heap [OF assms(1), of "freed_blocks live" s1]
    by (auto simp: CosaSecurityCreate_def FreeCosaDmAgent_def r case_prod_beta heap_laws [OF assms(1)] split: if_splits)
qed

text \<open>C27: Creation of the agent is all or nothing: when an allocation fails, at whichever of the 26
  blocks, exactly the blocks allocated so far are freed and no other, and when none fails they are
  all in use.\<close>

theorem create_all_or_nothing:
  assumes "heap_law L heap" "run_state (CosaSecurityCreate L) s = (obj, s')"
  shows "heap (world s') = (if obj = None then heap (world s) else heap (world s) + mset agent_blocks)
    \<and> (obj \<noteq> None \<longrightarrow> obj = Some agent_zero)"
  using assms by (rule create_heap)

text \<open>Services over the concrete world; an allocation is recorded in the list of commands.\<close>

definition demo_lenv :: "(string \<Rightarrow> bool) \<Rightarrow> demo_world lenv" where
  "demo_lenv ok = \<lparr>
     COSA_BCM_MIPS = False, PON_GATEWAY = False, NO_CM_HAL = False, CONFIG_VENDOR_NAME = ''vendor'',
     CCSP_Message_Bus_OK = 100, SUBDOC_REG_SIZE = 64,
     x_AnscAllocateMemory = (\<lambda>b w. (ok b, if ok b then w\<lparr>dw_cmds := b # dw_cmds w\<rparr> else w)),
     x_AnscFreeMemory = (\<lambda>b w. ((), w\<lparr>dw_cmds := remove1 b (dw_cmds w)\<rparr>)),
     x_syscfg_init = (\<lambda>w. (0, w)), x_rbus_open = (\<lambda>w. (0, w)), x_rbus_close = (\<lambda>w. ((), w)),
     x_rbusEvent_Subscribe = (\<lambda>e w. (0, w)), x_platform_hal_PandMDBInit = (\<lambda>w. (0, w)),
     x_cm_hal_InitDB = (\<lambda>w. (0, w)), x_platform_hal_GetModelName = (\<lambda>w. ((0, ''model''), w)),
     x_platform_hal_GetFirmwareName = (\<lambda>w. ((0, ''fw''), w)),
     x_platform_hal_GetHardwareVersion = (\<lambda>w. ((0, ''hw''), w)),
     x_platform_hal_GetBaseMacAddress = (\<lambda>w. ((0, ''00:00:00:00:00:01''), w)),
     x_dpoe_getOnuId = (\<lambda>w. ((0, []), w)), x_sprintf_s_mac = (\<lambda>n m. (0, [])),
     x_cm_hal_GetDHCPInfo = (\<lambda>w. ((0, ''00:00:00:00:00:01''), w)), MACAddress_SIZE = 18,
     x_sysevent_get = (\<lambda>k n w. ((0, []), w)), x_mkdir = (\<lambda>d w. (0, w)),
     x_register_sub_docs = (\<lambda>ds w. ((), w)),
     x_CcspBaseIf_getParameterValue = (\<lambda>p w. ((100, []), w)) \<rparr>"

lemma demo_heap_law: "heap_law (demo_lenv ok) (\<lambda>w. mset (dw_cmds w))"
  by (simp add: heap_law_def demo_lenv_def)

theorem create_all_or_nothing_witness:
  "mset (dw_cmds (world (snd (run_state (CosaSecurityCreate (demo_lenv (\<lambda>b. b = ''pMyObject'')))
      (demo_state agent_zero))))) = {#}"
proof -
  let ?r = "run_state (CosaSecurityCreate (demo_lenv (\<lambda>b. b = ''pMyObject''))) (demo_state agent_zero)"
  have "fst ?r = None"
    by (simp add: CosaSecurityCreate_def agent_blocks_def demo_lenv_def case_prod_beta)
  with create_all_or_nothing [OF demo_heap_law, where s = "demo_state agent_zero" and obj = "fst ?r" and s' = "snd ?r"]
  show ?thesis by (simp add: demo_state_def demo_world0_def)
qed

section \<open>What start-up leaves alone\<close>

text \<open>Before the settings are read nothing changes a stored setting.\<close>

definition startup_law :: "'w env \<Rightarrow> 'w senv \<Rightarrow> 'w lenv \<Rightarrow> ('w \<Rightarrow> string \<Rightarrow> string option) \<Rightarrow> bool" where
  "startup_law E S L cfg \<longleftrightarrow> (\<forall>w.
     cfg (snd (x_rbus_open L w)) = cfg w \<and> cfg (snd (x_rbus_close L w)) = cfg w \<and>
     cfg (snd (x_platform_hal_PandMDBInit L w)) = cfg w \<and> cfg (snd (x_cm_hal_InitDB L w)) = cfg w \<and>
     cfg (snd (x_platform_hal_GetModelName L w)) = cfg w \<and>
     cfg (snd (x_platform_hal_GetFirmwareName L w)) = cfg w \<and>
     cfg (snd (x_platform_hal_GetHardwareVersion L w)) = cfg w \<and>
     cfg (snd (x_platform_hal_GetBaseMacAddress L w)) = cfg w \<and>
     cfg (snd (x_dpoe_getOnuId L w)) = cfg w \<and> cfg (snd (x_cm_hal_GetDHCPInfo L w)) = cfg w \<and>
     cfg (snd (x_sysevent_open S w)) = cfg w \<and> cfg (snd (x_sysevent_close S w)) = cfg w \<and>
     (\<forall>b. cfg (snd (x_AnscAllocateMemory L b w)) = cfg w) \<and>
     (\<forall>b. cfg (snd (x_AnscFreeMemory L b w)) = cfg w) \<and>
     (\<forall>k n. cfg (snd (x_sysevent_get L k n w)) = cfg w) \<and>
     (\<forall>d. cfg (snd (x_mkdir L d w)) = cfg w) \<and> (\<forall>ds. cfg (snd (x_register_sub_docs L ds w)) = cfg w) \<and>
     (\<forall>f c. cfg (snd (x_fwrite_all E f c w)) = cfg w) \<and> (\<forall>n. cfg (snd (x_sleep E n w)) = cfg w))"

lemma startup_laws:
  assumes "startup_law E S L cfg"
  shows "cfg (snd (x_rbus_open L w)) = cfg w" "cfg (snd (x_rbus_close L w)) = cfg w"
    "cfg (snd (x_platform_hal_PandMDBInit L w)) = cfg w" "cfg (snd (x_cm_hal_InitDB L w)) = cfg w"
    "cfg (snd (x_platform_hal_GetModelName L w)) = cfg w"
    "cfg (snd (x_platform_hal_GetFirmwareName L w)) = cfg w"
    "cfg (snd (x_platform_hal_GetHardwareVersion L w)) = cfg w"
    "cfg (snd (x_platform_hal_GetBaseMacAddress L w)) = cfg w"
    "cfg (snd (x_dpoe_getOnuId L w)) = cfg w" "cfg (snd (x_cm_hal_GetDHCPInfo L w)) = cfg w"
    "cfg (snd (x_sysevent_open S w)) = cfg w" "cfg (snd (x_sysevent_close S w)) = cfg w"
    "cfg (snd (x_AnscAllocateMemory L b w)) = cfg w" "cfg (snd (x_AnscFreeMemory L b w)) = cfg w"
    "cfg (snd (x_sysevent_get L k n w)) = cfg w" "cfg (snd (x_mkdir L d w)) = cfg w"
    "cfg (snd (x_register_sub_docs L ds w)) = cfg w" "cfg (snd (x_fwrite_all E f c w)) = cfg w"
    "cfg (snd (x_sleep E j w)) = cfg w"
  using assms unfolding startup_law_def by blast+

text \<open>\<open>idle cfg m\<close>: the call changes neither the agent nor a stored setting.\<close>

definition idle :: "('w \<Rightarrow> string \<Rightarrow> string option) \<Rightarrow> ('w, 'a) adv \<Rightarrow> bool" where
  "idle cfg m \<longleftrightarrow> (\<forall>s. agent (snd (run_state m s)) = agent s \<and> cfg (world (snd (run_state m s))) = cfg (world s))"

named_theorems idle_rules

lemma idle_respects: "idle cfg m = steps_in (\<lambda>s t. (agent t, cfg (world t)) = (agent s, cfg (world s))) m"
  by (simp add: idle_def steps_in_def)

lemmas idle_structure [idle_rules] =
  steps_in_structure [OF step_order_eq [of "\<lambda>s :: 'w advst. (agent s, cfg (world s))"], folded idle_respects]
  for cfg :: "'w \<Rightarrow> string \<Rightarrow> string option"

lemma idle_call: "(\<And>w. cfg (snd (f w)) = cfg w) \<Longrightarrow> idle cfg (call f)"
  by (simp add: idle_def)

lemma idle_syscfg_get: "syscfg_law E cfg \<Longrightarrow> idle cfg (call (x_syscfg_get E k n))"
  by (rule idle_call) (metis prod.collapse syscfg_get_cfg)

lemma idle_write_files:
  assumes "startup_law E S L cfg"
  shows "idle cfg (write_files E fs)"
  by (induction fs) (auto simp: advsec_write_to_file_def split_paired_all
      intro!: idle_rules idle_call startup_laws [OF assms])

lemma idle_identify:
  assumes "startup_law E S L cfg" "syscfg_law E cfg"
  shows "idle cfg (identify_device E S L)"
  unfolding identify_device_def publish_identity_def device_mac_def device_mac_mips_def device_mac_pon_def
    device_mac_cable_def eth_wan_mac_def copy_mac_def exit_after_def advsec_create_dir_def
    advsec_webconfig_init_def Let_def
  by (intro idle_rules idle_call startup_laws [OF assms(1)] idle_write_files [OF assms(1)]
      idle_syscfg_get [OF assms(2)])

section \<open>Reading the settings\<close>

lemma wp_idle: "idle cfg m \<Longrightarrow>
    (\<And>r s'. agent s' = agent s \<Longrightarrow> cfg (world s') = cfg (world s) \<Longrightarrow> Q r s') \<Longrightarrow> wp m Q s"
  by (simp add: wp_def idle_def)

lemma idle_GetSysCfgUlong: "syscfg_law E cfg \<Longrightarrow> idle cfg (CosaGetSysCfgUlong E k d)"
  unfolding CosaGetSysCfgUlong_def by (intro idle_rules idle_syscfg_get)

lemma idle_read_settings: "syscfg_law E cfg \<Longrightarrow> idle cfg (read_settings E ks)"
  by (induction ks) (auto intro!: idle_rules idle_GetSysCfgUlong split: prod.splits)

text \<open>The number a setting stands for when it is absent or was stored as a number.\<close>

definition stores :: "('w \<Rightarrow> string \<Rightarrow> string option) \<Rightarrow> 'w \<Rightarrow> string \<Rightarrow> ULONG \<Rightarrow> bool" where
  "stores cfg w k v \<longleftrightarrow> cfg w k = Some (nat_digits (unat v)) \<or> cfg w k = None \<and> v = 0"

lemma GetSysCfgUlong_stores:
  assumes "syscfg_law E cfg" "stores cfg (world s) k v"
  shows "snd (fst (run_state (CosaGetSysCfgUlong E k 0) s)) = v"
proof (cases "cfg (world s) k")
  case None
  then show ?thesis
    using assms(2) syscfg_get_None [OF assms(1) None, of 32]
    by (auto simp: stores_def CosaGetSysCfgUlong_def case_prod_beta)
next
  case (Some t)
  then show ?thesis
    using assms GetSysCfgUlong_reads [OF assms(1), of s k v 0] by (simp add: stores_def)
qed

lemma read_settings_stores:
  assumes "syscfg_law E cfg" "stores cfg (world s) k v" "k \<in> set ks"
  shows "stored (fst (run_state (read_settings E ks) s)) k = v"
  using assms(2,3)
proof (induction ks arbitrary: s)
  case (Cons j ks)
  let ?s = "snd (run_state (CosaGetSysCfgUlong E j 0) s)"
  have "cfg (world ?s) = cfg (world s)"
    using idle_GetSysCfgUlong [OF assms(1)] by (simp add: idle_def)
  then have st: "stores cfg (world ?s) k v" using Cons.prems(1) by (simp add: stores_def)
  show ?case
  proof (cases "k = j")
    case True
    then show ?thesis
      using GetSysCfgUlong_stores [OF assms(1) Cons.prems(1)] by (simp add: stored_def case_prod_beta)
  next
    case False
    then show ?thesis
      using Cons.IH [OF st] Cons.prems(2) by (simp add: stored_def case_prod_beta)
  qed
qed simp

lemma wp_read_settings:
  assumes "syscfg_law E cfg" "stores cfg (world s) k v" "k \<in> set ks"
    and "\<And>vs s'. stored vs k = v \<Longrightarrow> agent s' = agent s \<Longrightarrow> Q vs s'"
  shows "wp (read_settings E ks) Q s"
  using assms(4) read_settings_stores [OF assms(1-3)] idle_read_settings [OF assms(1)]
  by (simp add: wp_def idle_def)

section \<open>The agent after the settings are applied\<close>

lemma init_flags_rfc:
  "rfc_flag i (init_flags2 vs a) = (if i \<in> {RFC_AdvancedParentalControl, RFC_PrivacyProtection,
      RFC_DeviceFingerPrintICMPv6, RFC_WS_Discovery_Analysis, RFC_AdvancedSecurityOTM}
     then rfc_flag i a else ucast (stored vs (rfc_key i)))"
  "i \<in> {RFC_AdvancedParentalControl, RFC_PrivacyProtection, RFC_DeviceFingerPrintICMPv6,
      RFC_WS_Discovery_Analysis, RFC_AdvancedSecurityOTM} \<Longrightarrow>
     rfc_flag i (init_flags1 vs a) = ucast (stored vs (rfc_key i))"
  by (cases i; simp add: init_flags2_def init_flags1_def Let_def)+

lemma rfc_flag_other [simp]:
  "rfc_flag i (set_us v a) = rfc_flag i a" "rfc_flag i (set_ni v a) = rfc_flag i a"
  "rfc_flag i (set_levl v a) = rfc_flag i a" "rfc_flag i (set_wdc v a) = rfc_flag i a"
  "rfc_flag i (bEnable_update f a) = rfc_flag i a"
  "rfc_flag i (pAdvNetworkIntelligence_RFC_update g a) = rfc_flag i a"
  "rfc_flag i (ulLoggingPeriod_update h a) = rfc_flag i a" "rfc_flag i (ulLogLevel_update h a) = rfc_flag i a"
  "rfc_flag i (set_lookup u a) = rfc_flag i a"
  by (cases i; simp add: agent_updates)+

lemma quiet_init_levl_on: "quiet (init_levl_on E v r)"
  unfolding init_levl_on_def by (intro quiet_rules quiet_Wifi_Get_Status quiet_Wifi_Set quiet_SetSysCfgUlong)

lemma quiet_defaults: "quiet (Advsec_SetDefaultsUrl E L)"
  unfolding Advsec_SetDefaultsUrl_def Advsec_getPartnerBasedURL_def
  by (intro quiet_rules quiet_SetSysCfgString)

lemma quiet_modify_prev: "quiet (set_prevWanIfname v)"
  by (simp add: quiet_def set_prevWanIfname_def)

lemma quiet_start_threads: "quiet (start_threads E S)"
  unfolding start_threads_def advsec_start_logger_thread_def advsec_start_log_monitor_thread_def
    advsec_handle_sysevent_async_def
  by (intro quiet_rules quiet_modify_prev quiet_enabled) (simp add: quiet_def)

lemma quiet_subscribe: "quiet (subscribe_events E L)"
  unfolding subscribe_events_def by (intro quiet_rules)

lemmas wp_startup =
  wp_quiet [OF quiet_init_levl_on] wp_quiet [OF quiet_defaults] wp_quiet [OF quiet_start_threads]
  wp_quiet [OF quiet_subscribe]

lemma getters_agent:
  "agent (snd (run_state (CosaAdvSecGetLoggingPeriod E) s)) \<in> {agent s} \<union> {ulLoggingPeriod_update (\<lambda>_. v) (agent s) |v. True}"
  "agent (snd (run_state (CosaAdvSecGetLogLevel E) s)) \<in> {ulLogLevel_update (\<lambda>_. v) (agent s) |v. True}"
  "agent (snd (run_state (CosaAdvSecGetLookupTimeout E) s)) \<in> {set_lookup v (agent s) |v. True}"
  by (auto simp: CosaAdvSecGetLoggingPeriod_def CosaAdvSecGetLogLevel_def
      CosaAdvSecGetLookupTimeout_def case_prod_beta)

text \<open>What the later steps of initialisation keep.\<close>

definition late_safe :: "(COSA_DATAMODEL_AGENT \<Rightarrow> bool) \<Rightarrow> bool" where
  "late_safe I \<longleftrightarrow> (\<forall>a v b. I a \<longrightarrow> I (bEnable_update (\<lambda>_. b) a) \<and> I (set_wdc FALSE a) \<and>
     I (ulLoggingPeriod_update (\<lambda>_. v) a) \<and> I (ulLogLevel_update (\<lambda>_. v) a) \<and> I (set_lookup v a))"

lemma late_steps:
  assumes "late_safe I" "I (agent s)"
  shows "wp (CosaAdvSecInit E) (\<lambda>_ s'. I (agent s')) s"
    "wp (CosaAdvSecGetLoggingPeriod E) (\<lambda>_ s'. I (agent s')) s"
    "wp (CosaAdvSecGetLogLevel E) (\<lambda>_ s'. I (agent s')) s"
    "wp (CosaAdvSecGetLookupTimeout E) (\<lambda>_ s'. I (agent s')) s"
  using assms CosaAdvSecInit_agent [of E s] getters_agent [of E s]
  unfolding wp_def late_safe_def by auto

lemma wp_late:
  assumes "late_safe I" "I (agent s)" "\<And>r s'. I (agent s') \<Longrightarrow> Q r s'"
  shows "wp (CosaAdvSecInit E) Q s" "wp (CosaAdvSecGetLoggingPeriod E) Q s"
    "wp (CosaAdvSecGetLogLevel E) Q s" "wp (CosaAdvSecGetLookupTimeout E) Q s"
  by (rule wp_mono [OF late_steps(1) [OF assms(1,2)]], erule assms(3),
      rule wp_mono [OF late_steps(2) [OF assms(1,2)]], erule assms(3),
      rule wp_mono [OF late_steps(3) [OF assms(1,2)]], erule assms(3),
      rule wp_mono [OF late_steps(4) [OF assms(1,2)]], erule assms(3))

text \<open>An initialisation that returns with the bus open has applied the settings and then taken
  only late steps.\<close>

lemma initialize_reaches:
  assumes "syscfg_law E cfg" "startup_law E S L cfg" "late_safe I"
    and "fst (x_rbus_open L (world s)) = RBUS_ERROR_SUCCESS"
    and load: "\<And>s'. cfg (world s') = cfg (world s) \<Longrightarrow> wp (load_settings E) (\<lambda>_ s''. I (agent s'')) s'"
  shows "wp (CosaSecurityInitialize E S L) (\<lambda>r s'. (\<exists>c. r = INIT_EXIT c) \<or> I (agent s')) s"
proof -
  have o: "cfg (snd (x_rbus_open L (world s))) = cfg (world s)"
    by (rule startup_laws(1) [OF assms(2)])
  have tail: "wp (load_settings E \<bind> (\<lambda>(vs, r1). do {
       _ \<leftarrow> Advsec_SetDefaultsUrl E L;
       r2 \<leftarrow> (if stored vs g_DeviceFingerPrintEnabled = 1 then CosaAdvSecInit E else return r1);
       _ \<leftarrow> CosaAdvSecGetLoggingPeriod E;
       _ \<leftarrow> CosaAdvSecGetLogLevel E;
       _ \<leftarrow> CosaAdvSecGetLookupTimeout E;
       _ \<leftarrow> start_threads E S;
       ok \<leftarrow> subscribe_events E L;
       return (INIT_RETURN (if ok then r2 else ANSC_STATUS_FAILURE))
     })) (\<lambda>r s'. (\<exists>c. r = INIT_EXIT c) \<or> I (agent s')) s'"
    if "cfg (world s') = cfg (world s)" for s'
    by (rule wp_bind, rule wp_mono [OF load [OF that]])
      (auto simp: split_paired_all intro!: wp_rules wp_startup wp_late [OF assms(3)])
  show ?thesis
    unfolding CosaSecurityInitialize_def
    by (rule wp_bind, rule wpI)
      (auto simp: assms(4) o split_def intro!: wp_rules wp_idle [OF idle_identify [OF assms(2,1)]] tail
        simp del: run_state_bind)
qed

section \<open>A feature control survives a restart\<close>

lemma rfc_key_read: "rfc_key i \<in> set (init_keys E)"
  by (cases i) (simp_all add: init_keys_def)

lemma load_rfc:
  assumes "syscfg_law E cfg" "stores cfg (world s) (rfc_key i) v"
  shows "wp (load_settings E) (\<lambda>_ s'. rfc_flag i (agent s') = ucast v) s"
proof -
  have "wp (load_settings E) (\<lambda>r s'. stored (fst r) (rfc_key i) = v \<and>
      rfc_flag i (agent s') = ucast (stored (fst r) (rfc_key i))) s"
    unfolding load_settings_def init_user_space_def init_network_intelligence_def init_levl_wdc_def
    by (intro wp_rules wp_read_settings [OF assms rfc_key_read] wp_startup)
      (simp_all add: init_flags_rfc)
  then show ?thesis
    by (rule wp_mono) simp
qed

lemma initialize_restores_rfc:
  assumes "syscfg_law E cfg" "startup_law E S L cfg" "stores cfg (world s) (rfc_key i) v"
    and "fst (x_rbus_open L (world s)) = RBUS_ERROR_SUCCESS"
  shows "wp (CosaSecurityInitialize E S L)
    (\<lambda>r s'. (\<exists>c. r = INIT_EXIT c) \<or> rfc_flag i (agent s') = ucast v) s"
proof -
  have "late_safe (\<lambda>a. rfc_flag i a = ucast v)"
    by (simp add: late_safe_def)
  from initialize_reaches [OF assms(1,2) this assms(4)]
  show ?thesis
    using load_rfc [OF assms(1)] assms(3) by (simp add: stores_def)
qed

text \<open>C21: Start-up puts the stored feature controls in force: when initialisation has opened the bus
  and the process has not exited, the flag of each of the fifteen controls is the low byte of
  its stored number, and zero when it was never stored.\<close>

theorem startup_restores_rfc:
  assumes "syscfg_law E cfg" "startup_law E S L cfg" "stores cfg (world s) (rfc_key i) v"
    and "fst (x_rbus_open L (world s)) = RBUS_ERROR_SUCCESS"
    and "run_state (CosaSecurityInitialize E S L) s = (INIT_RETURN c, s')"
  shows "rfc_flag i (agent s') = ucast v"
  using wp_run [OF initialize_restores_rfc [OF assms(1-4)] assms(5)] by simp

section \<open>Start-up establishes the invariants\<close>

lemma needs_init_flags [simp]:
  "us_of (init_flags1 vs a) = us_of a" "us_of (init_flags2 vs a) = us_of a"
  "wdc_of (init_flags2 vs a) = wdc_of a" "ni_of (init_flags2 vs a) = ni_of a"
  "levl_of (init_flags2 vs a) = levl_of a"
  by (simp_all add: init_flags1_def init_flags2_def Let_def agent_updates)

lemma load_user_space:
  assumes "syscfg_law E cfg" "stores cfg (world s) g_AdvSecUserSpaceEnabled v"
    and "v = 0 \<or> ucast v \<noteq> (0 :: BOOL)"
  shows "wp (load_settings E) (\<lambda>_ s'. us_of (agent s') \<noteq> 0 \<and> needs_user_space (agent s')) s"
  unfolding load_settings_def init_user_space_def init_network_intelligence_def init_levl_wdc_def
  by (intro wp_rules wp_read_settings [OF assms(1,2)] wp_startup)
    (use assms(3) in \<open>simp_all add: init_keys_def needs_user_space_def agent_updates\<close>)

lemma late_user_space: "late_safe (\<lambda>a. us_of a \<noteq> 0 \<and> needs_user_space a)"
  by (simp add: late_safe_def needs_user_space_def agent_updates)

text \<open>C26: From start-up on the user-space component is on, in every reachable state: when
  initialisation has opened the bus and has not exited, and the stored number of user space is
  absent, zero, or has a non-zero low byte, then after any sequence of handler calls, blobs and
  events user space is on and what depends on it is sound.\<close>

theorem startup_establishes_user_space:
  assumes "syscfg_law E cfg" "startup_law E S L cfg" "stores cfg (world s0) g_AdvSecUserSpaceEnabled v"
    and "v = 0 \<or> ucast v \<noteq> (0 :: BOOL)" "fst (x_rbus_open L (world s0)) = RBUS_ERROR_SUCCESS"
    and "run_state (CosaSecurityInitialize E S L) s0 = (INIT_RETURN c, s1)" "reach E s1 s"
  shows "us_of (agent s) \<noteq> 0 \<and> needs_user_space (agent s)"
proof -
  have "wp (CosaSecurityInitialize E S L)
      (\<lambda>r s'. (\<exists>c. r = INIT_EXIT c) \<or> us_of (agent s') \<noteq> 0 \<and> needs_user_space (agent s')) s0"
    using initialize_reaches [OF assms(1,2) late_user_space assms(5)]
      load_user_space [OF assms(1) _ assms(4)] assms(3) by (simp add: stores_def)
  from wp_run [OF this assms(6)] have "us_of (agent s1) \<noteq> 0" "needs_user_space (agent s1)" by simp_all
  then show ?thesis
    using reach_invariant [where I = "\<lambda>a. us_of a \<noteq> 0", OF assms(7)]
      reach_invariant [where I = needs_user_space, OF assms(7)] step_us step_needs by blast
qed

section \<open>Instances\<close>

lemma demo_startup_law: "startup_law demo_env demo_senv (demo_lenv ok) (\<lambda>w. map_of (dw_cfg w))"
  by (simp add: startup_law_def demo_env_def demo_senv_def demo_lenv_def)

abbreviation demo_boot :: "(string \<times> string) list \<Rightarrow> demo_world advst" where
  "demo_boot cfg \<equiv> (demo_state agent_zero)\<lparr>world := demo_world0\<lparr>dw_cfg := cfg\<rparr>\<rparr>"

lemma initialize_returns:
  assumes "fst (x_rbus_open L (world s)) = RBUS_ERROR_SUCCESS"
    and "fst (run_state (identify_device E S L)
      (s\<lparr>world := snd (x_rbus_open L (world s)), rbus_handle_open := True\<rparr>))"
  shows "\<exists>c s'. run_state (CosaSecurityInitialize E S L) s = (INIT_RETURN c, s')"
proof -
  have "wp (CosaSecurityInitialize E S L) (\<lambda>r s'. \<exists>c. r = INIT_RETURN c) s"
    using assms unfolding wp_def CosaSecurityInitialize_def
    by (simp only: run_simps) simp
  then show ?thesis
    unfolding wp_def by (metis prod.collapse)
qed

lemma demo_identify:
  assumes "map_of c ''eth_wan_enabled'' = None"
  shows "fst (run_state (identify_device demo_env demo_senv (demo_lenv (\<lambda>_. False)))
    ((demo_boot c)\<lparr>world := world (demo_boot c), rbus_handle_open := True\<rparr>))"
  using assms
  by (simp add: identify_device_def publish_identity_def device_mac_def device_mac_cable_def eth_wan_mac_def copy_mac_def
      demo_lenv_def demo_senv_def demo_env_def Let_def case_prod_beta)

lemma digits_one: "nat_digits (Suc 0) = ''1''"
  by code_simp

lemma demo_boot_runs:
  assumes "map_of c ''eth_wan_enabled'' = None"
  obtains r s' where "run_state (CosaSecurityInitialize demo_env demo_senv (demo_lenv (\<lambda>_. False))) (demo_boot c)
    = (INIT_RETURN r, s')"
  using initialize_returns [of "demo_lenv (\<lambda>_. False)" "demo_boot c" demo_env demo_senv] demo_identify [OF assms]
  by (auto simp: demo_lenv_def)

theorem startup_restores_rfc_witness:
  "\<exists>r s'. run_state (CosaSecurityInitialize demo_env demo_senv (demo_lenv (\<lambda>_. False)))
      (demo_boot [(g_AdvSecOTMEnabled, ''1'')]) = (INIT_RETURN r, s')
    \<and> flag_bEnable (pAdvSecOTM_RFC (agent s')) = 1"
proof -
  obtain r s' where run: "run_state (CosaSecurityInitialize demo_env demo_senv (demo_lenv (\<lambda>_. False)))
      (demo_boot [(g_AdvSecOTMEnabled, ''1'')]) = (INIT_RETURN r, s')"
    by (rule demo_boot_runs [of "[(g_AdvSecOTMEnabled, ''1'')]"]) simp_all
  have "stores (\<lambda>w. map_of (dw_cfg w)) (world (demo_boot [(g_AdvSecOTMEnabled, ''1'')]))
      (rfc_key RFC_AdvancedSecurityOTM) 1"
    by (simp add: stores_def digits_one)
  from startup_restores_rfc [OF demo_syscfg_law demo_startup_law this _ run]
  show ?thesis using run by (auto simp: demo_lenv_def)
qed

theorem startup_establishes_user_space_witness:
  "\<exists>r s'. run_state (CosaSecurityInitialize demo_env demo_senv (demo_lenv (\<lambda>_. False))) (demo_boot [])
      = (INIT_RETURN r, s') \<and> us_of (agent s') \<noteq> 0"
proof -
  obtain r s' where run: "run_state (CosaSecurityInitialize demo_env demo_senv (demo_lenv (\<lambda>_. False)))
      (demo_boot []) = (INIT_RETURN r, s')"
    by (rule demo_boot_runs [of "[]"]) simp_all
  have st: "stores (\<lambda>w. map_of (dw_cfg w)) (world (demo_boot [])) g_AdvSecUserSpaceEnabled 0"
    by (simp add: stores_def)
  have "0 = (0 :: ULONG) \<or> ucast (0 :: ULONG) \<noteq> (0 :: BOOL)" by simp
  from startup_establishes_user_space [OF demo_syscfg_law demo_startup_law st this _ run reach_start]
  show ?thesis using run by (auto simp: demo_lenv_def)
qed

section \<open>Restart\<close>

text \<open>C25: A feature control survives a restart: when a change was accepted and the process starts
  again on the same stored settings, its flag afterwards is on exactly when the change asked for
  on, whatever the agent object held in between.\<close>

theorem rfc_survives_restart:
  assumes "syscfg_law E cfg" "sprintf_s_law E" "startup_law E S L cfg"
    and "run_state (rfc_set i E n b) s = (TRUE, s1)" "rfc_flag i (agent s) \<noteq> b"
    and "cfg (world s2) = cfg (world s1)" "fst (x_rbus_open L (world s2)) = RBUS_ERROR_SUCCESS"
    and "run_state (CosaSecurityInitialize E S L) s2 = (INIT_RETURN c, s3)"
  shows "rfc_flag i (agent s3) \<noteq> 0 \<longleftrightarrow> b \<noteq> 0"
proof -
  let ?v = "if b \<noteq> 0 then 1 else 0 :: ULONG"
  have "stores cfg (world s2) (rfc_key i) ?v"
    using rfc_persists [OF assms(1,2,4,5)] assms(6) by (simp add: stores_def)
  then have "wp (CosaSecurityInitialize E S L) (\<lambda>r s'. (\<exists>c. r = INIT_EXIT c) \<or> rfc_flag i (agent s') = ucast ?v) s2"
    using initialize_restores_rfc [OF assms(1,3) _ assms(7)] by blast
  from wp_run [OF this assms(8)] show ?thesis by (auto split: if_splits)
qed

theorem rfc_survives_restart_witness:
  "\<exists>r s'. run_state (CosaSecurityInitialize demo_env demo_senv (demo_lenv (\<lambda>_. False)))
      (demo_boot [(g_AdvSecOTMEnabled, ''1'')]) = (INIT_RETURN r, s')
    \<and> rfc_flag RFC_AdvancedSecurityOTM (agent s') \<noteq> 0"
proof -
  obtain r s' where run: "run_state (CosaSecurityInitialize demo_env demo_senv (demo_lenv (\<lambda>_. False)))
      (demo_boot [(g_AdvSecOTMEnabled, ''1'')]) = (INIT_RETURN r, s')"
    by (rule demo_boot_runs [of "[(g_AdvSecOTMEnabled, ''1'')]"]) simp_all
  have off: "rfc_flag RFC_AdvancedSecurityOTM (agent (demo_state agent_zero)) \<noteq> TRUE"
    by (simp add: demo_state_def agent_zero_def Let_def)
  let ?s1 = "snd (run_state (rfc_set RFC_AdvancedSecurityOTM demo_env ''Enable'' TRUE) (demo_state agent_zero))"
  have "map_of (dw_cfg (world ?s1)) = [g_AdvSecOTMEnabled \<mapsto> ''1'']"
    using rfc_persists [OF demo_syscfg_law demo_sprintf_law demo_otm_run off]
    by (simp add: demo_state_def demo_world0_def digits_one)
  then have cfg: "map_of (dw_cfg (world (demo_boot [(g_AdvSecOTMEnabled, ''1'')]))) = map_of (dw_cfg (world ?s1))"
    by simp
  have bus: "fst (x_rbus_open (demo_lenv (\<lambda>_. False)) (world (demo_boot [(g_AdvSecOTMEnabled, ''1'')]))) = RBUS_ERROR_SUCCESS"
    by (simp add: demo_lenv_def)
  show ?thesis
    using rfc_survives_restart [OF demo_syscfg_law demo_sprintf_law demo_startup_law demo_otm_run off cfg bus run] run
    by auto
qed

end
