(* ===== verification/Adv_Plugin.thy ===== *)
theory Adv_Plugin
  imports Adv_Startup Adv_Registry
begin

text \<open>
  The plug-in as the framework loads and unloads it (\<open>plugin_main.c\<close>): \<open>COSA_Init\<close> registers the
  handlers, creates and initialises the agent and allocates the consumer of the data-collection
  library; \<open>COSA_Unload\<close> releases them.
\<close>

section \<open>State\<close>

text \<open>The two global pointers are kept as whether they are set; the blocks they point to are those of
  the agent (\<open>agent_blocks\<close>) and the consumer.\<close>

record 'w plugst =
  adv_state :: "'w advst"
  g_pAdvSecAgent :: bool
  g_cujoagent_dcl :: bool
  uPluginVersion :: ULONG

type_synonym ('w, 'a) plug = "('w plugst, 'a) state"

definition in_agent :: "('w, 'a) adv \<Rightarrow> ('w, 'a) plug" where
  "in_agent m = State (\<lambda>s. case run_state m (adv_state s) of (r, a) \<Rightarrow> (r, s\<lparr>adv_state := a\<rparr>))"

lemma run_state_in_agent [simp]:
  "run_state (in_agent m) s =
     (fst (run_state m (adv_state s)), s\<lparr>adv_state := snd (run_state m (adv_state s))\<rparr>)"
  by (simp add: in_agent_def case_prod_beta)

abbreviation "THIS_PLUGIN_VERSION \<equiv> 1 :: ULONG"

text \<open>How loading ends: it answers, or the process exits while the agent is initialised.\<close>

datatype load_end = LOAD_RETURN int | LOAD_EXIT int

section \<open>Loading and unloading\<close>

text \<open>\<open>RegisterFunction\<close> of the framework; its answer is ignored.\<close>

fun register_all :: "(string \<Rightarrow> 'w \<Rightarrow> ANSC_STATUS \<times> 'w) \<Rightarrow> string list \<Rightarrow> ('w, unit) adv" where
  "register_all RegisterFunction [] = return ()"
| "register_all RegisterFunction (f # fs) = do {
     _ \<leftarrow> call (RegisterFunction f);
     register_all RegisterFunction fs
   }"

definition COSA_Init :: "'w env \<Rightarrow> 'w senv \<Rightarrow> 'w lenv \<Rightarrow> (string \<Rightarrow> 'w \<Rightarrow> ANSC_STATUS \<times> 'w)
    \<Rightarrow> ULONG \<Rightarrow> ('w, load_end) plug" where
  "COSA_Init E S L RegisterFunction uMaxVersionSupported =
     (if uMaxVersionSupported < THIS_PLUGIN_VERSION then return (LOAD_RETURN (- 1))
      else do {
        _ \<leftarrow> modify (\<lambda>s. s\<lparr>uPluginVersion := THIS_PLUGIN_VERSION\<rparr>);
        _ \<leftarrow> in_agent (register_all RegisterFunction registered_functions);
        obj \<leftarrow> in_agent (CosaSecurityCreate L);
        _ \<leftarrow> modify (\<lambda>s. s\<lparr>g_pAdvSecAgent := obj \<noteq> None\<rparr>);
        _ \<leftarrow> (if WIFI_DATA_COLLECTION E
             then do {
               ok \<leftarrow> in_agent (call (x_AnscAllocateMemory L ''g_cujoagent_dcl''));
               modify (\<lambda>s. s\<lparr>g_cujoagent_dcl := ok\<rparr>)
             }
             else return ());
        case obj of
          None \<Rightarrow> return (LOAD_RETURN 0)
        | Some a \<Rightarrow> do {
            _ \<leftarrow> in_agent (upd_agent (\<lambda>_. a));
            r \<leftarrow> in_agent (CosaSecurityInitialize E S L);
            return (case r of INIT_EXIT c \<Rightarrow> LOAD_EXIT c | INIT_RETURN _ \<Rightarrow> LOAD_RETURN 0)
          }
      })"

definition COSA_IsObjectSupported :: "string \<Rightarrow> bool" where
  "COSA_IsObjectSupported pObjName = True"

definition COSA_Unload :: "'w env \<Rightarrow> 'w lenv \<Rightarrow> ('w, unit) plug" where
  "COSA_Unload E L = do {
     a \<leftarrow> gets g_pAdvSecAgent;
     _ \<leftarrow> (if a then do { _ \<leftarrow> in_agent (CosaSecurityRemove L agent_blocks); return () } else return ());
     _ \<leftarrow> modify (\<lambda>s. s\<lparr>g_pAdvSecAgent := False\<rparr>);
     if WIFI_DATA_COLLECTION E
     then do {
       c \<leftarrow> gets g_cujoagent_dcl;
       _ \<leftarrow> (if c then in_agent (call (x_AnscFreeMemory L ''g_cujoagent_dcl'')) else return ());
       modify (\<lambda>s. s\<lparr>g_cujoagent_dcl := False\<rparr>)
     }
     else return ()
   }"

section \<open>What loading and unloading promise\<close>

text \<open>The framework keeps the functions in the order they are registered, and registering one, like a
  use of the allocator, changes nothing else.\<close>

definition load_law :: "'w lenv \<Rightarrow> (string \<Rightarrow> 'w \<Rightarrow> ANSC_STATUS \<times> 'w) \<Rightarrow> ('w \<Rightarrow> string multiset)
    \<Rightarrow> ('w \<Rightarrow> string list) \<Rightarrow> bool" where
  "load_law L RegisterFunction heap table \<longleftrightarrow> heap_law L heap \<and>
     (\<forall>f w. heap (snd (RegisterFunction f w)) = heap w \<and> table (snd (RegisterFunction f w)) = table w @ [f]) \<and>
     (\<forall>b w. table (snd (x_AnscAllocateMemory L b w)) = table w \<and> table (snd (x_AnscFreeMemory L b w)) = table w) \<and>
     (\<forall>w. heap (snd (x_rbus_close L w)) = heap w)"

lemma register_all_effect:
  assumes "load_law L R heap table"
  shows "heap (world (snd (run_state (register_all R fs) s))) = heap (world s)"
    "table (world (snd (run_state (register_all R fs) s))) = table (world s) @ fs"
  using assms by (induction fs arbitrary: s) (simp_all add: load_law_def)

lemma allocate_all_table:
  assumes "load_law L R heap table"
  shows "table (world (snd (run_state (allocate_all L bs) s))) = table (world s)"
  using assms by (induction bs arbitrary: s) (simp_all add: load_law_def case_prod_beta)

lemma free_all_table:
  assumes "load_law L R heap table"
  shows "table (world (snd (run_state (free_all L bs) s))) = table (world s)"
  using assms by (induction bs arbitrary: s) (simp_all add: load_law_def)

lemma create_failed_table:
  assumes "load_law L R heap table" "fst (run_state (CosaSecurityCreate L) s) = None"
  shows "table (world (snd (run_state (CosaSecurityCreate L) s))) = table (world s)"
proof -
  obtain live all s1 where r: "run_state (allocate_all L agent_blocks) s = ((live, all), s1)"
    by (metis prod.collapse)
  then show ?thesis
    using assms allocate_all_table [OF assms(1), of agent_blocks s] free_all_table [OF assms(1)]
    by (auto simp: CosaSecurityCreate_def FreeCosaDmAgent_def case_prod_beta split: if_splits)
qed

lemma freed_agent_blocks: "mset (freed_blocks agent_blocks) = mset agent_blocks"
  using freed_prefix [of "length agent_blocks"] by simp

lemma unload_heap:
  assumes "load_law L R heap table"
  shows "heap (world (adv_state (snd (run_state (COSA_Unload E L) s)))) = heap (world (adv_state s))
    - (if g_pAdvSecAgent s then mset agent_blocks else {#})
    - (if WIFI_DATA_COLLECTION E \<and> g_cujoagent_dcl s then {#''g_cujoagent_dcl''#} else {#})"
proof -
  have h: "heap_law L heap" "\<And>w. heap (snd (x_rbus_close L w)) = heap w"
    using assms by (simp_all add: load_law_def)
  show ?thesis
    using free_all_heap [OF h(1), of "freed_blocks agent_blocks" "adv_state s"]
    by (simp add: COSA_Unload_def CosaSecurityRemove_def FreeCosaDmAgent_def h(2) heap_laws [OF h(1)] freed_agent_blocks
        case_prod_beta)
qed

text \<open>C36: A load that fails is reported as a success: a framework that offers version 0 gets the answer
  \<open>-1\<close> and nothing is changed, but when the agent cannot be created \<open>COSA_Init\<close> answers 0 all the
  same, with every handler registered and no agent behind them. Unloading then releases whatever was
  allocated.\<close>

theorem failed_load_reports_success:
  fixes E :: "'w env" and S :: "'w senv" and L :: "'w lenv" and s :: "'w plugst"
  assumes "load_law L R heap table" "v \<noteq> 0"
    and "fst (run_state (CosaSecurityCreate L) (snd (run_state (register_all R registered_functions) (adv_state s)))) = None"
  defines "s' \<equiv> snd (run_state (COSA_Init E S L R v) s)"
  shows "run_state (COSA_Init E S L R 0) s = (LOAD_RETURN (- 1), s)
    \<and> fst (run_state (COSA_Init E S L R v) s) = LOAD_RETURN 0
    \<and> \<not> g_pAdvSecAgent s'
    \<and> table (world (adv_state s')) = table (world (adv_state s)) @ registered_functions
    \<and> (WIFI_DATA_COLLECTION E \<longrightarrow>
        heap (world (adv_state (snd (run_state (COSA_Unload E L) s')))) = heap (world (adv_state s)))"
proof -
  define s1 where "s1 = snd (run_state (register_all R registered_functions) (adv_state s))"
  define s2 where "s2 = snd (run_state (CosaSecurityCreate L) s1)"
  have c: "run_state (CosaSecurityCreate L) s1 = (None, s2)"
    using assms(3) by (simp add: s1_def s2_def prod_eq_iff)
  have h: "heap_law L heap" "\<And>b w. table (snd (x_AnscAllocateMemory L b w)) = table w"
    using assms(1) by (simp_all add: load_law_def)
  have heap2: "heap (world s2) = heap (world (adv_state s))"
    using create_heap [OF h(1) c] register_all_effect(1) [OF assms(1)] by (simp add: s1_def)
  have table2: "table (world s2) = table (world (adv_state s)) @ registered_functions"
    using create_failed_table [OF assms(1), of s1] c register_all_effect(2) [OF assms(1)] by (simp add: s1_def)
  have "\<not> v < 1" using assms(2) by (simp add: word_less_nat_alt unat_gt_0)
  then have r: "run_state (COSA_Init E S L R v) s = (LOAD_RETURN 0,
      if WIFI_DATA_COLLECTION E
      then s\<lparr>uPluginVersion := 1, g_pAdvSecAgent := False,
        adv_state := s2\<lparr>world := snd (x_AnscAllocateMemory L ''g_cujoagent_dcl'' (world s2))\<rparr>,
        g_cujoagent_dcl := fst (x_AnscAllocateMemory L ''g_cujoagent_dcl'' (world s2))\<rparr>
      else s\<lparr>uPluginVersion := 1, adv_state := s2, g_pAdvSecAgent := False\<rparr>)"
    using c by (simp add: COSA_Init_def s1_def)
  have z: "run_state (COSA_Init E S L R 0) s = (LOAD_RETURN (- 1), s)"
    by (simp add: COSA_Init_def)
  have t: "table (world (adv_state s')) = table (world s2)" and a: "\<not> g_pAdvSecAgent s'"
    by (simp_all add: s'_def r h(2))
  have u: "heap (world (adv_state (snd (run_state (COSA_Unload E L) s')))) = heap (world s2)" if w: "WIFI_DATA_COLLECTION E"
    unfolding unload_heap [OF assms(1)]
    by (cases "fst (x_AnscAllocateMemory L ''g_cujoagent_dcl'' (world s2))") (simp_all add: s'_def r w heap_laws [OF h(1)])
  show ?thesis
    using z t a u heap2 table2 r by simp
qed

lemma allocate_all_fails:
  assumes "b \<in> set bs" "\<And>w. \<not> fst (x_AnscAllocateMemory L b w)"
  shows "\<not> snd (fst (run_state (allocate_all L bs) s))"
  using assms by (induction bs arbitrary: s) (auto simp: case_prod_beta)

theorem failed_load_reports_success_witness:
  "fst (run_state (COSA_Init demo_env demo_senv (demo_lenv (\<lambda>b. b \<noteq> ''pRaptr_RFC'')) (\<lambda>f w. (0, w\<lparr>dw_files := (f, []) # dw_files w\<rparr>)) 1)
    \<lparr>adv_state = demo_state agent_zero, g_pAdvSecAgent = False, g_cujoagent_dcl = False, uPluginVersion = 0\<rparr>) = LOAD_RETURN 0"
proof -
  let ?L = "demo_lenv (\<lambda>b. b \<noteq> ''pRaptr_RFC'')" and ?R = "\<lambda>f w. (0, w\<lparr>dw_files := (f, []) # dw_files w\<rparr>)"
  let ?s = "\<lparr>adv_state = demo_state agent_zero, g_pAdvSecAgent = False, g_cujoagent_dcl = False, uPluginVersion = 0\<rparr>"
  have l: "load_law ?L ?R (\<lambda>w. mset (dw_cmds w)) (\<lambda>w. rev (map fst (dw_files w)))"
    by (simp add: load_law_def demo_heap_law) (simp add: demo_lenv_def)
  have "fst (run_state (CosaSecurityCreate ?L) s) = None" for s
    using allocate_all_fails [of "''pRaptr_RFC''" agent_blocks ?L s]
    by (simp add: CosaSecurityCreate_def case_prod_beta agent_blocks_def demo_lenv_def del: allocate_all.simps)
  then show ?thesis
    using failed_load_reports_success [OF l, of 1 ?s demo_env demo_senv] by simp
qed

end
