(* ===== verification/Adv_Logs.thy ===== *)
theory Adv_Logs
  imports Adv_Events "HOL-Library.Sublist"
begin

text \<open>
  The thread that watches the log files (\<open>advsec_log_monitor_thread\<close>). libev reports changes of the
  files whose watchers were started; the changes are a list, each with the path and the link count
  of the file, which is zero once the file is gone.
\<close>

abbreviation "ADVSEC_AGENT_LOG_FILE \<equiv> ''/rdklogs/logs/agent.txt''"
abbreviation "ADVSEC_NI_LOG_FILE \<equiv> ''/rdklogs/logs/cujo-ni.txt''"

section \<open>The thread\<close>

definition started_watchers :: "'w env \<Rightarrow> string list" where
  "started_watchers E = ADVSEC_AGENT_LOG_FILE # (if NETWORK_INTELLIGENCE E then [ADVSEC_NI_LOG_FILE] else [])"

definition watcher_callback :: "'w env \<Rightarrow> 'w senv \<Rightarrow> string \<Rightarrow> nat \<Rightarrow> ('w, unit) adv" where
  "watcher_callback E S path st_nlink =
     (if path = ADVSEC_AGENT_LOG_FILE then agent_log_stat_cb E S st_nlink else ni_log_stat_cb E S st_nlink)"

fun ev_run :: "'w env \<Rightarrow> 'w senv \<Rightarrow> string list \<Rightarrow> (string \<times> nat) list \<Rightarrow> ('w, unit) adv" where
  "ev_run E S watched [] = return ()"
| "ev_run E S watched ((path, st_nlink) # changes) = do {
     _ \<leftarrow> (if path \<in> set watched then watcher_callback E S path st_nlink else return ());
     ev_run E S watched changes
   }"

text \<open>\<open>ev_loop_new\<close> is the routine of libev: whether there is a loop.\<close>

definition advsec_log_monitor_thread ::
    "'w env \<Rightarrow> 'w senv \<Rightarrow> ('w \<Rightarrow> bool \<times> 'w) \<Rightarrow> (string \<times> nat) list \<Rightarrow> ('w, unit) adv" where
  "advsec_log_monitor_thread E S ev_loop_new changes = do {
     loop \<leftarrow> call ev_loop_new;
     if \<not> loop then return () else ev_run E S (started_watchers E) changes
   }"

section \<open>What it does\<close>

text \<open>The commands issued so far, and the sizes of the files, as read off the world; only a command is a
  command.\<close>

definition logs_law :: "'w env \<Rightarrow> 'w senv \<Rightarrow> ('w \<Rightarrow> string list) \<Rightarrow> ('w \<Rightarrow> string \<Rightarrow> int option) \<Rightarrow> bool" where
  "logs_law E S cmds fsize \<longleftrightarrow>
     (\<forall>c w. cmds (snd (x_system E c w)) = cmds w @ [c]) \<and>
     (\<forall>f w. fst (x_stat_size S f w) = fsize w f \<and> cmds (snd (x_stat_size S f w)) = cmds w)"

definition rotation :: "string \<Rightarrow> string" where
  "rotation path = ''/usr/sbin/logrotate '' @
     (if path = ADVSEC_AGENT_LOG_FILE then ''/etc/logrotate.d/advsec-agent'' else ''/etc/logrotate.d/advsec-ni'')"

text \<open>One change: the log is rotated when it is watched, exists and has reached two megabytes.\<close>

lemma change_effect:
  assumes "logs_law E S cmds fsize"
  shows "cmds (world (snd (run_state (ev_run E S watched [(path, n)]) s))) = cmds (world s) @
    (if path \<in> set watched \<and> n \<noteq> 0 \<and> (\<exists>k. fsize (world s)
          (if path = ADVSEC_AGENT_LOG_FILE then ADVSEC_AGENT_LOG_FILE else ADVSEC_NI_LOG_FILE) = Some k \<and> 2097152 \<le> k)
     then [rotation path] else [])"
  using assms
  by (auto simp: watcher_callback_def agent_log_stat_cb_def ni_log_stat_cb_def rotate_agent_log_def rotate_ni_log_def
      rotate_log_file_def rotation_def logs_law_def case_prod_beta split: option.split)

text \<open>The log monitor only rotates: whatever changes libev reports, every command the thread issues is a
  rotation of a log that is watched, the cujo log only in a build with network intelligence, and
  there is at most one for each change that leaves the file in place, in the order of the changes;
  without a loop there is none.\<close>

lemma log_monitor_only_rotates:
  assumes "logs_law E S cmds fsize" "\<And>w. cmds (snd (ev_loop_new w)) = cmds w"
  shows "\<exists>ps. cmds (world (snd (run_state (advsec_log_monitor_thread E S ev_loop_new changes) s))) =
      cmds (world s) @ map rotation ps
    \<and> subseq ps (map fst (filter (\<lambda>(p, n). n \<noteq> 0 \<and> p \<in> set (started_watchers E)) changes))
    \<and> (\<not> fst (ev_loop_new (world s)) \<longrightarrow> ps = [])"
proof -
  have loop: "\<exists>ps. cmds (world (snd (run_state (ev_run E S ws changes) s))) = cmds (world s) @ map rotation ps
    \<and> subseq ps (map fst (filter (\<lambda>(p, n). n \<noteq> 0 \<and> p \<in> set ws) changes))" for ws changes s
  proof (induction changes arbitrary: s)
    case Nil
    then show ?case by simp
  next
    case (Cons x xs)
    obtain p n where x: "x = (p, n)" by (cases x)
    define s1 where "s1 = snd (run_state (ev_run E S ws [(p, n)]) s)"
    have r: "snd (run_state (ev_run E S ws (x # xs)) s) = snd (run_state (ev_run E S ws xs) s1)"
      by (simp add: x s1_def case_prod_beta)
    from Cons.IH [of s1] obtain ps where
      ps: "cmds (world (snd (run_state (ev_run E S ws xs) s1))) = cmds (world s1) @ map rotation ps"
        "subseq ps (map fst (filter (\<lambda>(p, n). n \<noteq> 0 \<and> p \<in> set ws) xs))" by blast
    define big where "big \<longleftrightarrow> p \<in> set ws \<and> n \<noteq> 0 \<and> (\<exists>k. fsize (world s)
      (if p = ADVSEC_AGENT_LOG_FILE then ADVSEC_AGENT_LOG_FILE else ADVSEC_NI_LOG_FILE) = Some k \<and> 2097152 \<le> k)"
    define qs where "qs = (if big then [p] else [])"
    have qs: "cmds (world s1) = cmds (world s) @ map rotation qs"
        "subseq qs (map fst (filter (\<lambda>(p, n). n \<noteq> 0 \<and> p \<in> set ws) [x]))"
      using change_effect [OF assms(1), of ws p n s] unfolding s1_def qs_def big_def [symmetric]
      by (simp_all add: x) (simp add: big_def)
    have "subseq (qs @ ps) (map fst (filter (\<lambda>(p, n). n \<noteq> 0 \<and> p \<in> set ws) ([x] @ xs)))"
      unfolding filter_append map_append using qs(2) ps(2) by (rule list_emb_append_mono)
    then show ?case
      unfolding r by (intro exI [of _ "qs @ ps"]) (simp add: ps(1) qs(1))
  qed
  show ?thesis
  proof (cases "fst (ev_loop_new (world s))")
    case True
    then show ?thesis
      using loop [of "started_watchers E" changes "s\<lparr>world := snd (ev_loop_new (world s))\<rparr>"] assms(2)
      by (simp add: advsec_log_monitor_thread_def)
  next
    case False
    then show ?thesis using assms(2) by (simp add: advsec_log_monitor_thread_def)
  qed
qed

lemma log_monitor_only_rotates_witness:
  "\<exists>ps. rev (dw_cmds (world (snd (run_state (advsec_log_monitor_thread demo_env (demo_senv\<lparr>x_stat_size := (\<lambda>f w. (Some 3000000, w))\<rparr>) (\<lambda>w. (True, w))
       [(''/tmp/other'', 1), (ADVSEC_AGENT_LOG_FILE, 0), (ADVSEC_NI_LOG_FILE, 1)]) (demo_state agent_zero))))) = map rotation ps
    \<and> subseq ps [ADVSEC_NI_LOG_FILE]"
proof -
  have l: "logs_law demo_env (demo_senv\<lparr>x_stat_size := (\<lambda>f w. (Some 3000000, w))\<rparr>) (\<lambda>w. rev (dw_cmds w)) (\<lambda>w f. Some 3000000)"
    by (simp add: logs_law_def) (simp add: demo_env_def)
  show ?thesis
    using log_monitor_only_rotates [OF l, of "\<lambda>w. (True, w)" "[(''/tmp/other'', 1), (ADVSEC_AGENT_LOG_FILE, 0), (ADVSEC_NI_LOG_FILE, 1)]"
        "demo_state agent_zero"]
    by (simp add: demo_state_def demo_world0_def started_watchers_def) (simp add: demo_env_def)
qed

end
