(* ===== verification/Adv_Release.thy ===== *)
theory Adv_Release
  imports Adv_Lifecycle Adv_Webconfig
begin

text \<open>
  Release of a web-configuration document (\<open>advsecuritydoc_destroy\<close>) and of a request that was queued
  (\<open>advsec_webconfig_free_resources\<close>). A block is named by what it holds.
\<close>

definition free_if :: "'w lenv \<Rightarrow> bool \<Rightarrow> string \<Rightarrow> ('w, unit) adv" where
  "free_if L nonnull b = (if nonnull then call (x_AnscFreeMemory L b) else return ())"

definition advsecuritydoc_destroy :: "'w lenv \<Rightarrow> advsecuritydoc option \<Rightarrow> ('w, unit) adv" where
  "advsecuritydoc_destroy L ad = (case ad of
      None \<Rightarrow> return ()
    | Some d \<Rightarrow> do {
        _ \<leftarrow> free_if L (subdoc_name d \<noteq> None) ''subdoc_name'';
        _ \<leftarrow> free_if L (param d \<noteq> None) ''param'';
        call (x_AnscFreeMemory L ''advsecuritydoc'')
      })"

text \<open>The argument is the request with the pointer to its document.\<close>

definition advsec_webconfig_free_resources :: "'w lenv \<Rightarrow> advsecuritydoc option option \<Rightarrow> ('w, unit) adv" where
  "advsec_webconfig_free_resources L blob_exec_data = (case blob_exec_data of
      None \<Rightarrow> return ()
    | Some ad \<Rightarrow> do {
        _ \<leftarrow> advsecuritydoc_destroy L ad;
        call (x_AnscFreeMemory L ''execData'')
      })"

text \<open>The blocks of a request.\<close>

definition doc_blocks :: "advsecuritydoc \<Rightarrow> string list" where
  "doc_blocks d = (if subdoc_name d = None then [] else [''subdoc_name'']) @
     (if param d = None then [] else [''param'']) @ [''advsecuritydoc'']"

definition request_blocks :: "advsecuritydoc option option \<Rightarrow> string list" where
  "request_blocks e = (case e of None \<Rightarrow> [] | Some ad \<Rightarrow>
     (case ad of None \<Rightarrow> [] | Some d \<Rightarrow> doc_blocks d) @ [''execData''])"

text \<open>Each block of a request is freed once, the request itself last.\<close>

lemma free_resources_frees:
  assumes "\<And>b w. freed (snd (x_AnscFreeMemory L b w)) = freed w @ [b]"
  shows "freed (world (snd (run_state (advsec_webconfig_free_resources L e) s))) = freed (world s) @ request_blocks e"
    "distinct (request_blocks e)"
  using assms by (auto simp: advsec_webconfig_free_resources_def advsecuritydoc_destroy_def free_if_def request_blocks_def
      doc_blocks_def split: option.split)

end
