(* ===== verification/Adv_Ssp.thy ===== *)
theory Adv_Ssp
  imports Adv_Prelude
begin

text \<open>
  The process around the plug-in (\<open>source/AdvSecuritySsp\<close>): the common data model of a component
  and its callbacks, creation, engagement and cancellation, the message bus, the command line, the
  console and the signals, in the build for Linux. The framework, the bus and the operating system are
  the record \<open>penv\<close>.
\<close>

section \<open>Framework and operating system\<close>

abbreviation "CCSP_COMMON_COMPONENT_HEALTH_Red \<equiv> 1 :: ULONG"
abbreviation "CCSP_COMMON_COMPONENT_HEALTH_Yellow \<equiv> 2 :: ULONG"
abbreviation "CCSP_COMMON_COMPONENT_HEALTH_Green \<equiv> 3 :: ULONG"
abbreviation "CCSP_COMMON_COMPONENT_STATE_Running \<equiv> 2 :: ULONG"

record common_dm =
  dm_Name :: "string option"
  dm_Version :: ULONG
  dm_Author :: "string option"
  dm_Health :: ULONG
  dm_State :: ULONG
  dm_LogEnable :: BOOL
  dm_LogLevel :: ULONG
  dm_MemMaxUsage :: ULONG
  dm_MemMinUsage :: ULONG
  dm_MemConsumed :: ULONG

text \<open>The interface of the common data model: its name and the callbacks it holds.\<close>

record ccd_interface =
  ccd_Name :: string
  ccd_callbacks :: "string list"

record fc_context =
  hCcspCcdIf :: bool
  hMessageBus :: int

record 'w penv =
  \<comment> \<open>build flag and constants of the framework\<close>
  INCLUDE_BREAKPAD :: bool
  CCSP_CCD_INTERFACE_NAME :: string
  CCD_NAME_SIZE :: nat
  CCSP_DBUS_INTERFACE_CR :: string
  CCSP_TRACE_INVALID_LEVEL :: ULONG
  CCSP_TRACE_LEVEL_EMERGENCY :: int
  ANSC_STATUS_RESOURCES :: ANSC_STATUS
  CCSP_SUCCESS :: ANSC_STATUS
  CCSP_Message_Bus_OK :: ANSC_STATUS
  \<comment> \<open>strings\<close>
  p_strcmp_s :: "string \<Rightarrow> nat \<Rightarrow> string \<Rightarrow> int \<times> int"
  p_strcpy_s :: "nat \<Rightarrow> string \<Rightarrow> int \<times> string"
  p_sprintf_ss :: "nat \<Rightarrow> string \<Rightarrow> string \<Rightarrow> int \<times> string"   \<comment> \<open>with \<open>\"%s%s\"\<close>\<close>
  \<comment> \<open>the framework\<close>
  p_AllocateMemory :: "string \<Rightarrow> 'w \<Rightarrow> bool \<times> 'w"
  p_FreeMemory :: "string \<Rightarrow> 'w \<Rightarrow> unit \<times> 'w"
  p_CloneString :: "string \<Rightarrow> 'w \<Rightarrow> string option \<times> 'w"
  p_iTraceLevel :: "'w \<Rightarrow> int"                             \<comment> \<open>\<open>g_iTraceLevel\<close>\<close>
  p_CreateCpeController :: "'w \<Rightarrow> bool \<times> 'w"
  p_DslhDataModelAgent :: "'w \<Rightarrow> bool"                  \<comment> \<open>whether \<open>g_DslhDataModelAgent\<close> is set\<close>
  p_SetFcContext :: "fc_context option \<Rightarrow> 'w \<Rightarrow> unit \<times> 'w"
  p_AddInterface :: "string \<Rightarrow> 'w \<Rightarrow> unit \<times> 'w"
  p_SetDbusHandle :: "int \<Rightarrow> 'w \<Rightarrow> unit \<times> 'w"
  p_Engage :: "'w \<Rightarrow> unit \<times> 'w"
  p_Cancel :: "'w \<Rightarrow> unit \<times> 'w"
  p_AcquireFunction :: "string \<Rightarrow> 'w \<Rightarrow> bool \<times> 'w"
  p_RegisterCcspDataModel2 :: "string \<Rightarrow> string \<Rightarrow> 'w \<Rightarrow> ANSC_STATUS \<times> 'w"
  p_SetTraceLevel :: "ULONG \<Rightarrow> 'w \<Rightarrow> unit \<times> 'w"
  p_AllocatedSizePeak :: "'w \<Rightarrow> ULONG"
  p_ComponentMemorySize :: "'w \<Rightarrow> int \<times> 'w"
  p_GetParameterValues :: "'w \<Rightarrow> (int \<times> (string \<times> string) option list) \<times> 'w"   \<comment> \<open>the count, and the array\<close>
  p_PrintMemoryTable :: "'w \<Rightarrow> unit \<times> 'w"
  p_TraceMemoryTable :: "'w \<Rightarrow> unit \<times> 'w"
  \<comment> \<open>the bus\<close>
  p_Message_Bus_Init :: "string \<Rightarrow> 'w \<Rightarrow> (ANSC_STATUS \<times> int) \<times> 'w"
  p_SleepInMilliSeconds :: "nat \<Rightarrow> 'w \<Rightarrow> unit \<times> 'w"
  p_SetCallback :: "string list \<Rightarrow> 'w \<Rightarrow> unit \<times> 'w"
  p_Register_Event :: "string \<Rightarrow> 'w \<Rightarrow> ANSC_STATUS \<times> 'w"
  \<comment> \<open>the operating system\<close>
  p_fopen :: "string \<Rightarrow> string \<Rightarrow> 'w \<Rightarrow> bool \<times> 'w"
  p_ftell_end :: "'w \<Rightarrow> int \<times> 'w"                          \<comment> \<open>\<open>fseek\<close> to the end, \<open>ftell\<close>, \<open>fseek\<close> back\<close>
  p_fread :: "nat \<Rightarrow> 'w \<Rightarrow> string \<times> 'w"                     \<comment> \<open>the bytes that were read\<close>
  p_fclose :: "'w \<Rightarrow> unit \<times> 'w"
  p_fprintf :: "string \<Rightarrow> 'w \<Rightarrow> unit \<times> 'w"
  p_malloc :: "nat \<Rightarrow> 'w \<Rightarrow> bool \<times> 'w"
  p_fork :: "'w \<Rightarrow> int \<times> 'w"
  p_setsid :: "'w \<Rightarrow> int \<times> 'w"
  p_redirect :: "int \<Rightarrow> 'w \<Rightarrow> unit \<times> 'w"                  \<comment> \<open>\<open>/dev/null\<close> onto the descriptor\<close>
  p_signal :: "int \<Rightarrow> bool \<Rightarrow> 'w \<Rightarrow> unit \<times> 'w"            \<comment> \<open>the handler, or ignore\<close>
  p_open :: "string \<Rightarrow> 'w \<Rightarrow> int \<times> 'w"
  p_backtrace :: "int \<Rightarrow> 'w \<Rightarrow> unit \<times> 'w"             \<comment> \<open>the trace onto a descriptor, which is closed, and into the log\<close>
  p_breakpad :: "'w \<Rightarrow> unit \<times> 'w"
  p_check_component_crash :: "string \<Rightarrow> 'w \<Rightarrow> unit \<times> 'w"
  p_creat :: "string \<Rightarrow> 'w \<Rightarrow> int \<times> 'w"
  p_sleep :: "nat \<Rightarrow> 'w \<Rightarrow> unit \<times> 'w"
  p_getchar :: "'w \<Rightarrow> int \<times> 'w"

section \<open>State\<close>

text \<open>The pointer to the controller: NULL, to a live block, or to one that was freed.\<close>

datatype block_ptr = NULL_PTR | LIVE_PTR | FREED_PTR

record 'w sspst =
  g_pComponent_Common_Dm :: "common_dm option"
  pAdvSecCcdIf :: "ccd_interface option"
  pAdvSecFcContext :: "fc_context option"
  pDslhCpeController :: block_ptr
  bus_handle :: int
  g_MessageBusHandle_Irep :: int
  g_SubSysPrefix_Irep :: string
  g_Subsystem :: string
  g_bActive :: bool
  g_GetParamValueByPathNameProc :: bool
  consoleDebugEnable :: bool
  debugLogFile :: "string option"    \<comment> \<open>None for \<open>stderr\<close>\<close>
  sworld :: 'w

type_synonym ('w, 'a) ssp = "('w sspst, 'a) state"

text \<open>A body goes on, has called \<open>exit\<close>, or has used a pointer that is NULL or freed.\<close>

datatype 'a ctl = Go 'a | Exit int | Undefined

definition pcall :: "('w \<Rightarrow> 'r \<times> 'w) \<Rightarrow> ('w, 'r) ssp" where
  "pcall f = State (\<lambda>s. case f (sworld s) of (r, w') \<Rightarrow> (r, s\<lparr>sworld := w'\<rparr>))"

lemma run_state_pcall [simp]:
  "run_state (pcall f) s = (fst (f (sworld s)), s\<lparr>sworld := snd (f (sworld s))\<rparr>)"
  by (simp add: pcall_def case_prod_beta)

definition andthen :: "('w, 'a ctl) ssp \<Rightarrow> ('a \<Rightarrow> ('w, 'b ctl) ssp) \<Rightarrow> ('w, 'b ctl) ssp" where
  "andthen m f = do {
     r \<leftarrow> m;
     case r of Go x \<Rightarrow> f x | Exit c \<Rightarrow> return (Exit c) | Undefined \<Rightarrow> return Undefined
   }"

section \<open>The common data model of the component\<close>

abbreviation "CCSP_COMPONENT_ID_ADVSEC \<equiv> ''com.cisco.spvtg.ccsp.advsec''"
abbreviation "CCSP_COMPONENT_NAME_ADVSEC \<equiv> ''com.cisco.spvtg.ccsp.advsec''"
abbreviation "CCSP_COMPONENT_PATH_ADVSEC \<equiv> ''/com/cisco/spvtg/ccsp/advsec''"

definition read_dm :: "(common_dm \<Rightarrow> 'a) \<Rightarrow> ('w, 'a ctl) ssp" where
  "read_dm f = gets (\<lambda>s. case g_pComponent_Common_Dm s of None \<Rightarrow> Undefined | Some dm \<Rightarrow> Go (f dm))"

definition write_dm :: "(common_dm \<Rightarrow> common_dm) \<Rightarrow> ('w, unit) ssp" where
  "write_dm f = modify (\<lambda>s. s\<lparr>g_pComponent_Common_Dm := map_option f (g_pComponent_Common_Dm s)\<rparr>)"

definition ssp_AdvSecCCDmGetComponentName :: "('w, string option ctl) ssp" where
  "ssp_AdvSecCCDmGetComponentName = read_dm dm_Name"

definition ssp_AdvSecCCDmGetComponentVersion :: "('w, ULONG ctl) ssp" where
  "ssp_AdvSecCCDmGetComponentVersion = read_dm dm_Version"

definition ssp_AdvSecCCDmGetComponentAuthor :: "('w, string option ctl) ssp" where
  "ssp_AdvSecCCDmGetComponentAuthor = read_dm dm_Author"

definition ssp_AdvSecCCDmGetComponentHealth :: "('w, ULONG ctl) ssp" where
  "ssp_AdvSecCCDmGetComponentHealth = read_dm dm_Health"

definition ssp_AdvSecCCDmGetComponentState :: "('w, ULONG ctl) ssp" where
  "ssp_AdvSecCCDmGetComponentState = read_dm dm_State"

definition ssp_AdvSecCCDmGetLoggingEnabled :: "('w, BOOL ctl) ssp" where
  "ssp_AdvSecCCDmGetLoggingEnabled = read_dm dm_LogEnable"

definition ssp_AdvSecCCDmSetLoggingEnabled :: "'w penv \<Rightarrow> BOOL \<Rightarrow> ('w, ANSC_STATUS ctl) ssp" where
  "ssp_AdvSecCCDmSetLoggingEnabled P bEnabled = andthen (read_dm id) (\<lambda>dm.
     if dm_LogEnable dm = bEnabled then return (Go ANSC_STATUS_SUCCESS)
     else do {
       _ \<leftarrow> write_dm (dm_LogEnable_update (\<lambda>_. bEnabled));
       _ \<leftarrow> (if bEnabled = 0 then pcall (p_SetTraceLevel P (CCSP_TRACE_INVALID_LEVEL P))
            else pcall (p_SetTraceLevel P (dm_LogLevel dm)));
       return (Go ANSC_STATUS_SUCCESS)
     })"

definition ssp_AdvSecCCDmGetLoggingLevel :: "('w, ULONG ctl) ssp" where
  "ssp_AdvSecCCDmGetLoggingLevel = read_dm dm_LogLevel"

definition ssp_AdvSecCCDmSetLoggingLevel :: "'w penv \<Rightarrow> ULONG \<Rightarrow> ('w, ANSC_STATUS ctl) ssp" where
  "ssp_AdvSecCCDmSetLoggingLevel P LogLevel = andthen (read_dm id) (\<lambda>dm.
     if dm_LogLevel dm = LogLevel then return (Go ANSC_STATUS_SUCCESS)
     else do {
       _ \<leftarrow> write_dm (dm_LogLevel_update (\<lambda>_. LogLevel));
       _ \<leftarrow> (if dm_LogEnable dm \<noteq> 0 then pcall (p_SetTraceLevel P LogLevel) else return ());
       return (Go ANSC_STATUS_SUCCESS)
     })"

definition ssp_AdvSecCCDmGetMemMaxUsage :: "'w penv \<Rightarrow> ('w, ULONG) ssp" where
  "ssp_AdvSecCCDmGetMemMaxUsage P = gets (\<lambda>s. p_AllocatedSizePeak P (sworld s))"

definition ssp_AdvSecCCDmGetMemMinUsage :: "('w, ULONG ctl) ssp" where
  "ssp_AdvSecCCDmGetMemMinUsage = read_dm dm_MemMinUsage"

definition ssp_AdvSecCCDmGetMemConsumed :: "'w penv \<Rightarrow> ('w, ULONG) ssp" where
  "ssp_AdvSecCCDmGetMemConsumed P = do {
     sz \<leftarrow> pcall (p_ComponentMemorySize P);
     return (if sz = - 1 then 0 else of_int sz)
   }"

definition ssp_AdvSecCCDmApplyChanges :: "('w, ANSC_STATUS) ssp" where
  "ssp_AdvSecCCDmApplyChanges = return ANSC_STATUS_SUCCESS"

section \<open>Creation, engagement, cancellation\<close>

definition ccd_functions :: "string list" where
  "ccd_functions = [
     ''ssp_AdvSecCCDmGetComponentName'', ''ssp_AdvSecCCDmGetComponentVersion'', ''ssp_AdvSecCCDmGetComponentAuthor'',
     ''ssp_AdvSecCCDmGetComponentHealth'', ''ssp_AdvSecCCDmGetComponentState'', ''ssp_AdvSecCCDmGetLoggingEnabled'',
     ''ssp_AdvSecCCDmSetLoggingEnabled'', ''ssp_AdvSecCCDmGetLoggingLevel'', ''ssp_AdvSecCCDmSetLoggingLevel'',
     ''ssp_AdvSecCCDmGetMemMaxUsage'', ''ssp_AdvSecCCDmGetMemMinUsage'', ''ssp_AdvSecCCDmGetMemConsumed'',
     ''ssp_AdvSecCCDmApplyChanges'']"

text \<open>The interface is created once. Its contents are written after the copy of the name succeeded; until
  then it holds whatever the fresh block holds, here nothing.\<close>

definition create_ccd :: "'w penv \<Rightarrow> ('w, ANSC_STATUS) ssp" where
  "create_ccd P = do {
     old \<leftarrow> gets pAdvSecCcdIf;
     if old \<noteq> None then return ANSC_STATUS_SUCCESS
     else do {
       ok \<leftarrow> pcall (p_AllocateMemory P ''pAdvSecCcdIf'');
       if \<not> ok then return (ANSC_STATUS_RESOURCES P)
       else do {
         let (rc, name) = p_strcpy_s P (CCD_NAME_SIZE P) (CCSP_CCD_INTERFACE_NAME P);
         _ \<leftarrow> modify (\<lambda>s. s\<lparr>pAdvSecCcdIf := Some \<lparr>ccd_Name = name, ccd_callbacks = []\<rparr>\<rparr>);
         if rc \<noteq> EOK then return ANSC_STATUS_FAILURE
         else do {
           _ \<leftarrow> modify (\<lambda>s. s\<lparr>pAdvSecCcdIf := Some \<lparr>ccd_Name = name, ccd_callbacks = ccd_functions\<rparr>\<rparr>);
           return ANSC_STATUS_SUCCESS
         }
       }
     }
   }"

definition ComponentCommonDmInit :: "'w penv \<Rightarrow> 'w \<Rightarrow> common_dm" where
  "ComponentCommonDmInit P w =
     \<lparr>dm_Name = None, dm_Version = 1, dm_Author = None, dm_Health = CCSP_COMMON_COMPONENT_HEALTH_Red, dm_State = CCSP_COMMON_COMPONENT_STATE_Running,
      dm_LogEnable = TRUE,
      dm_LogLevel = (if p_iTraceLevel P w \<ge> CCSP_TRACE_LEVEL_EMERGENCY P then of_int (p_iTraceLevel P w) else 0),
      dm_MemMaxUsage = 0, dm_MemMinUsage = 0, dm_MemConsumed = 0\<rparr>"

definition ssp_create_advsec :: "'w penv \<Rightarrow> ('w, ANSC_STATUS) ssp" where
  "ssp_create_advsec P = do {
     ok \<leftarrow> pcall (p_AllocateMemory P ''g_pComponent_Common_Dm'');
     if \<not> ok
     then do { _ \<leftarrow> modify (\<lambda>s. s\<lparr>g_pComponent_Common_Dm := None\<rparr>); return (ANSC_STATUS_RESOURCES P) }
     else do {
       dm \<leftarrow> gets (\<lambda>s. ComponentCommonDmInit P (sworld s));
       name \<leftarrow> pcall (p_CloneString P CCSP_COMPONENT_NAME_ADVSEC);
       author \<leftarrow> pcall (p_CloneString P ''CCSP'');
       _ \<leftarrow> modify (\<lambda>s. s\<lparr>g_pComponent_Common_Dm :=
              Some (dm\<lparr>dm_Name := name, dm_Version := 1, dm_Author := author\<rparr>)\<rparr>);
       r \<leftarrow> create_ccd P;
       if r \<noteq> ANSC_STATUS_SUCCESS then return r
       else do {
         fcok \<leftarrow> pcall (p_AllocateMemory P ''pAdvSecFcContext'');
         _ \<leftarrow> modify (\<lambda>s. s\<lparr>pAdvSecFcContext := if fcok then Some \<lparr>hCcspCcdIf = False, hMessageBus = 0\<rparr> else None\<rparr>);
         if \<not> fcok then return (ANSC_STATUS_RESOURCES P)
         else do {
           c \<leftarrow> pcall (p_CreateCpeController P);
           _ \<leftarrow> modify (\<lambda>s. s\<lparr>pDslhCpeController := if c then LIVE_PTR else NULL_PTR\<rparr>);
           return (if c then ANSC_STATUS_SUCCESS else ANSC_STATUS_RESOURCES P)
         }
       }
     }
   }"

text \<open>The calls through the controller and the data-model agent of the framework, and the writes to the common
  data model and the context, need them all; the caller has created all but the agent. No pointer is tested.\<close>

definition ssp_engage_advsec :: "'w penv \<Rightarrow> ('w, ANSC_STATUS ctl) ssp" where
  "ssp_engage_advsec P = do {
     s0 \<leftarrow> gets id;
     if g_pComponent_Common_Dm s0 = None \<or> (pAdvSecCcdIf s0 \<noteq> None \<and> pAdvSecFcContext s0 = None)
        \<or> \<not> p_DslhDataModelAgent P (sworld s0) \<or> pDslhCpeController s0 \<noteq> LIVE_PTR
     then return Undefined
     else do {
       _ \<leftarrow> write_dm (dm_Health_update (\<lambda>_. CCSP_COMMON_COMPONENT_HEALTH_Yellow));
       _ \<leftarrow> (if pAdvSecCcdIf s0 \<noteq> None
            then modify (\<lambda>s. s\<lparr>pAdvSecFcContext := Some \<lparr>hCcspCcdIf = True, hMessageBus = bus_handle s\<rparr>\<rparr>)
            else return ());
       fcc \<leftarrow> gets pAdvSecFcContext;
       _ \<leftarrow> pcall (p_SetFcContext P fcc);
       _ \<leftarrow> pcall (p_AddInterface P ''CcdMbiIf'');
       _ \<leftarrow> pcall (p_AddInterface P ''CcdIf'');
       _ \<leftarrow> pcall (p_SetDbusHandle P (bus_handle s0));
       _ \<leftarrow> pcall (p_Engage P);
       let (rc, CrName) = p_sprintf_ss P 256 (g_Subsystem s0) (CCSP_DBUS_INTERFACE_CR P);
       if rc < EOK then return (Go ANSC_STATUS_FAILURE)
       else do {
         _ \<leftarrow> (if g_GetParamValueByPathNameProc s0 then return ()
              else do {
                p \<leftarrow> pcall (p_AcquireFunction P ''COSAGetParamValueByPathName'');
                modify (\<lambda>s. s\<lparr>g_GetParamValueByPathNameProc := p\<rparr>)
              });
         returnStatus \<leftarrow> pcall (p_RegisterCcspDataModel2 P CrName (g_Subsystem s0));
         _ \<leftarrow> (if returnStatus = ANSC_STATUS_SUCCESS \<or> CCSP_SUCCESS P = returnStatus
              then write_dm (dm_Health_update (\<lambda>_. CCSP_COMMON_COMPONENT_HEALTH_Green)) else return ());
         return (Go ANSC_STATUS_SUCCESS)
       }
     }
   }"

text \<open>The pointer is not cleared.\<close>

definition ssp_cancel_advsec :: "'w penv \<Rightarrow> ('w, ANSC_STATUS ctl) ssp" where
  "ssp_cancel_advsec P = do {
     c \<leftarrow> gets pDslhCpeController;
     if c \<noteq> LIVE_PTR then return Undefined
     else do {
       _ \<leftarrow> pcall (p_Cancel P);
       _ \<leftarrow> pcall (p_FreeMemory P ''pDslhCpeController'');
       _ \<leftarrow> modify (\<lambda>s. s\<lparr>pDslhCpeController := FREED_PTR\<rparr>);
       return (Go ANSC_STATUS_SUCCESS)
     }
   }"

section \<open>The message bus\<close>

definition ssp_AdvsecMbi_WaitConditionReady :: "('w, unit) ssp" where
  "ssp_AdvsecMbi_WaitConditionReady = return ()"

definition ssp_AdvsecMbi_GetHealth :: int where
  "ssp_AdvsecMbi_GetHealth = - 1"

definition ssp_AdvsecMbi_Initialize :: int where "ssp_AdvsecMbi_Initialize = 0"
definition ssp_AdvsecMbi_Finalize :: int where "ssp_AdvsecMbi_Finalize = 0"
definition ssp_AdvsecMbi_Buscheck :: int where "ssp_AdvsecMbi_Buscheck = 0"
definition ssp_AdvsecMbi_FreeResources :: int where "ssp_AdvsecMbi_FreeResources = 0"

definition bus_callbacks :: "string list" where
  "bus_callbacks = [''CcspCcMbi_GetParameterValues'', ''CcspCcMbi_SetParameterValues'', ''CcspCcMbi_SetCommit'',
     ''CcspCcMbi_SetParameterAttributes'', ''CcspCcMbi_GetParameterAttributes'', ''CcspCcMbi_AddTblRow'',
     ''CcspCcMbi_DeleteTblRow'', ''CcspCcMbi_GetParameterNames'', ''CcspCcMbi_CurrentSessionIdSignal'',
     ''ssp_AdvsecMbi_Initialize'', ''ssp_AdvsecMbi_Finalize'', ''ssp_AdvsecMbi_FreeResources'',
     ''ssp_AdvsecMbi_Buscheck'', ''ssp_AdvsecMbi_GetHealth'']"

definition ssp_AdvsecMbi_MessageBusEngage :: "'w penv \<Rightarrow> string option \<Rightarrow> string option \<Rightarrow> ('w, ANSC_STATUS) ssp" where
  "ssp_AdvsecMbi_MessageBusEngage P component_id path = (case (component_id, path) of
      (Some cid, Some _) \<Rightarrow> do {
        (returnStatus, handle) \<leftarrow> pcall (p_Message_Bus_Init P cid);
        _ \<leftarrow> modify (\<lambda>s. s\<lparr>bus_handle := handle\<rparr>);
        if returnStatus \<noteq> ANSC_STATUS_SUCCESS then return returnStatus
        else do {
          _ \<leftarrow> ssp_AdvsecMbi_WaitConditionReady;
          sub \<leftarrow> gets g_Subsystem;
          let (rc, prefix) = p_strcpy_s P 32 sub;
          _ \<leftarrow> modify (\<lambda>s. s\<lparr>g_MessageBusHandle_Irep := handle, g_SubSysPrefix_Irep := prefix\<rparr>);
          if rc \<noteq> EOK then return ANSC_STATUS_FAILURE
          else do {
            _ \<leftarrow> pcall (p_SleepInMilliSeconds P 1000);
            _ \<leftarrow> pcall (p_SetCallback P bus_callbacks);
            r \<leftarrow> pcall (p_Register_Event P ''currentSessionIDSignal'');
            return (if r \<noteq> CCSP_Message_Bus_OK P then r else ANSC_STATUS_SUCCESS)
          }
        }
      }
    | _ \<Rightarrow> return ANSC_STATUS_FAILURE)"

section \<open>Commands\<close>

text \<open>Characters as \<open>getchar\<close> returns them.\<close>

definition code :: "char \<Rightarrow> int" where
  "code c = int (of_char c)"

definition dispatch_e :: "'w penv \<Rightarrow> ('w, int ctl) ssp" where
  "dispatch_e P = do {
     sub \<leftarrow> gets g_Subsystem;
     let (rc, CName) = p_sprintf_ss P 256 sub CCSP_COMPONENT_ID_ADVSEC;
     if rc < EOK then return (Go (- 1))
     else do {
       b \<leftarrow> ssp_AdvsecMbi_MessageBusEngage P (Some CName) (Some CCSP_COMPONENT_PATH_ADVSEC);
       if b \<noteq> ANSC_STATUS_SUCCESS then return (Go (- 1))
       else do {
         c \<leftarrow> ssp_create_advsec P;
         if c \<noteq> ANSC_STATUS_SUCCESS then return (Go (- 1))
         else andthen (ssp_engage_advsec P) (\<lambda>e.
           if e \<noteq> ANSC_STATUS_SUCCESS then return (Go (- 1))
           else do { _ \<leftarrow> modify (\<lambda>s. s\<lparr>g_bActive := True\<rparr>); return (Go 0) })
       }
     }
   }"

text \<open>The loop of command \<open>r\<close> prints the values, as many as the bus has counted, through the pointers of
  the array.\<close>

fun print_values :: "nat \<Rightarrow> (string \<times> string) option list \<Rightarrow> unit ctl" where
  "print_values 0 vs = Go ()"
| "print_values (Suc n) [] = Undefined"
| "print_values (Suc n) (None # vs) = Undefined"
| "print_values (Suc n) (Some v # vs) = print_values n vs"

definition cmd_dispatch :: "'w penv \<Rightarrow> int \<Rightarrow> ('w, int ctl) ssp" where
  "cmd_dispatch P command =
     (if command = code (CHR ''e'') then dispatch_e P
      else if command = code (CHR ''r'') then do {
        (ulReturnValCount, ppReturnVal) \<leftarrow> pcall (p_GetParameterValues P);
        andthen (return (print_values (nat ulReturnValCount) ppReturnVal)) (\<lambda>_. return (Go 0))
      }
      else if command = code (CHR ''m'') then do { _ \<leftarrow> pcall (p_PrintMemoryTable P); return (Go 0) }
      else if command = code (CHR ''t'') then do { _ \<leftarrow> pcall (p_TraceMemoryTable P); return (Go 0) }
      else if command = code (CHR ''c'') then andthen (ssp_cancel_advsec P) (\<lambda>_. return (Go 0))
      else return (Go 0))"

section \<open>The command line\<close>

datatype subsytemType_e = SUBSYS | C | DEBUG | LOGFILE

definition gSubsystem_type_table :: "(string \<times> subsytemType_e) list" where
  "gSubsystem_type_table = [(''-subsys'', SUBSYS), (''-c'', C), (''-DEBUG'', DEBUG), (''-LOGFILE'', LOGFILE)]"

fun subsystem_type_loop :: "'w penv \<Rightarrow> string \<Rightarrow> (string \<times> subsytemType_e) list \<Rightarrow> subsytemType_e option" where
  "subsystem_type_loop P name [] = None"
| "subsystem_type_loop P name ((n, t) # r) = (case p_strcmp_s P name (length name) n of
     (rc, ind) \<Rightarrow> if rc = EOK \<and> ind = 0 then Some t else subsystem_type_loop P name r)"

definition get_gSubsystem_type_from_name :: "'w penv \<Rightarrow> string \<Rightarrow> subsytemType_e option" where
  "get_gSubsystem_type_from_name P name = subsystem_type_loop P name gSubsystem_type_table"

text \<open>The loop over the arguments; the value of an option is not skipped. The answer is whether to run as
  a daemon.\<close>

fun parse_args :: "'w penv \<Rightarrow> string list \<Rightarrow> bool \<Rightarrow> ('w, bool ctl) ssp" where
  "parse_args P [] daemon = return (Go daemon)"
| "parse_args P (a # r) daemon = (case get_gSubsystem_type_from_name P a of
      None \<Rightarrow> parse_args P r daemon
    | Some SUBSYS \<Rightarrow>
        (case r of
           [] \<Rightarrow> return (Exit 0)
         | v # _ \<Rightarrow>
             if length v < 32
             then (case p_strcpy_s P 32 v of (rc, dst) \<Rightarrow> do {
               _ \<leftarrow> modify (\<lambda>s. s\<lparr>g_Subsystem := dst\<rparr>);
               if rc \<noteq> EOK then return (Exit 0) else parse_args P r daemon
             })
             else return (Exit 0))
    | Some C \<Rightarrow> parse_args P r False
    | Some DEBUG \<Rightarrow> do { _ \<leftarrow> modify (\<lambda>s. s\<lparr>consoleDebugEnable := True\<rparr>); parse_args P r daemon }
    | Some LOGFILE \<Rightarrow>
        (case r of
           [] \<Rightarrow> parse_args P r daemon
         | v # _ \<Rightarrow> do {
             fp \<leftarrow> pcall (p_fopen P v ''a+'');
             _ \<leftarrow> (if fp
                  then do {
                    _ \<leftarrow> modify (\<lambda>s. s\<lparr>debugLogFile := Some v\<rparr>);
                    pcall (p_fprintf P v)
                  }
                  else return ());
             parse_args P r daemon
           }))"

section \<open>Privileges\<close>

text \<open>\<open>strcasestr\<close>, and a buffer read as a C string.\<close>

definition lower_char :: "char \<Rightarrow> char" where
  "lower_char c = (let n = of_char c :: nat in if 65 \<le> n \<and> n \<le> 90 then char_of (n + 32) else c)"

fun strcasestr :: "string \<Rightarrow> string \<Rightarrow> bool" where
  "strcasestr [] pat = (pat = [])"
| "strcasestr (c # cs) pat =
     (map lower_char (take (length pat) (c # cs)) = map lower_char pat \<or> strcasestr cs pat)"

definition c_text :: "string \<Rightarrow> string" where
  "c_text = takeWhile (\<lambda>c. c \<noteq> CHR 0x00)"

definition isCujoBlocklisted :: "'w penv \<Rightarrow> ('w, bool) ssp" where
  "isCujoBlocklisted P = do {
     fp \<leftarrow> pcall (p_fopen P ''/opt/secure/Blocklist_file.txt'' ''r'');
     if \<not> fp then return False
     else do {
       len \<leftarrow> pcall (p_ftell_end P);
       if len = - 1 then do { _ \<leftarrow> pcall (p_fclose P); return False }
       else do {
         ok \<leftarrow> pcall (p_malloc P (nat (len + 1)));
         if \<not> ok then do { _ \<leftarrow> pcall (p_fclose P); return False }
         else do {
           buf \<leftarrow> pcall (p_fread P (nat len));
           _ \<leftarrow> pcall (p_fclose P);
           return (int (length buf) = len \<and> length (c_text buf) \<noteq> 0 \<and> strcasestr (c_text buf) ''cujo-agent'')
         }
       }
     }
   }"

definition drop_root :: "'w penv \<Rightarrow> ('w, unit) ssp" where
  "drop_root P = do {
     blocklist_ret \<leftarrow> isCujoBlocklisted P;
     if blocklist_ret
     then do {
       fp \<leftarrow> pcall (p_fopen P ''/tmp/advsec_cujo_agent_root_priv'' ''w'');
       if fp then pcall (p_fclose P) else return ()
     }
     else return ()
   }"

section \<open>The process\<close>

definition daemonize :: "'w penv \<Rightarrow> ('w, unit ctl) ssp" where
  "daemonize P = do {
     pid \<leftarrow> pcall (p_fork P);
     if pid \<noteq> 0 then return (Exit 0)
     else do {
       sid \<leftarrow> pcall (p_setsid P);
       if sid < 0 then return (Exit 0)
       else do {
         _ \<leftarrow> pcall (p_redirect P 0);
         _ \<leftarrow> pcall (p_redirect P 1);
         _ \<leftarrow> pcall (p_redirect P 2);
         return (Go ())
       }
     }
   }"

abbreviation "SIGHUP \<equiv> 1 :: int"
abbreviation "SIGINT \<equiv> 2 :: int"
abbreviation "SIGQUIT \<equiv> 3 :: int"
abbreviation "SIGILL \<equiv> 4 :: int"
abbreviation "SIGBUS \<equiv> 7 :: int"
abbreviation "SIGFPE \<equiv> 8 :: int"
abbreviation "SIGKILL \<equiv> 9 :: int"
abbreviation "SIGUSR1 \<equiv> 10 :: int"
abbreviation "SIGSEGV \<equiv> 11 :: int"
abbreviation "SIGUSR2 \<equiv> 12 :: int"
abbreviation "SIGPIPE \<equiv> 13 :: int"
abbreviation "SIGTERM \<equiv> 15 :: int"
abbreviation "SIGCHLD \<equiv> 17 :: int"

definition print_stack_backtrace :: "'w penv \<Rightarrow> ('w, unit) ssp" where
  "print_stack_backtrace P = do {
     fd \<leftarrow> pcall (p_open P ''/nvram/advsecssp_backtrace'');
     if fd < 0 then return () else pcall (p_backtrace P fd)
   }"

definition sig_handler :: "'w penv \<Rightarrow> int \<Rightarrow> ('w, unit ctl) ssp" where
  "sig_handler P sig =
     (if sig = SIGINT then do { _ \<leftarrow> pcall (p_signal P SIGINT True); return (Exit 0) }
      else if sig = SIGUSR1 then do { _ \<leftarrow> pcall (p_signal P SIGUSR1 True); return (Go ()) }
      else if sig = SIGUSR2 then return (Go ())
      else if sig = SIGCHLD then do { _ \<leftarrow> pcall (p_signal P SIGCHLD True); return (Go ()) }
      else if sig = SIGPIPE then do { _ \<leftarrow> pcall (p_signal P SIGPIPE True); return (Go ()) }
      else do { _ \<leftarrow> print_stack_backtrace P; return (Exit 0) })"

definition handled_signals :: "int list" where
  "handled_signals = [SIGTERM, SIGINT, SIGUSR1, SIGUSR2, SIGSEGV, SIGBUS, SIGKILL, SIGFPE, SIGILL, SIGQUIT, SIGHUP]"

fun install_handlers :: "'w penv \<Rightarrow> int list \<Rightarrow> ('w, unit) ssp" where
  "install_handlers P [] = pcall (p_signal P SIGPIPE False)"
| "install_handlers P (x # xs) = do { _ \<leftarrow> pcall (p_signal P x True); install_handlers P xs }"

text \<open>The daemon sleeps for ever: the fuel is the number of sleeps followed, and there is no answer.\<close>

fun daemon_loop :: "nat \<Rightarrow> 'w penv \<Rightarrow> ('w, unit ctl option) ssp" where
  "daemon_loop 0 P = return None"
| "daemon_loop (Suc n) P = do { _ \<leftarrow> pcall (p_sleep P 30); daemon_loop n P }"

text \<open>The console reads commands until a \<open>q\<close>, which is dispatched too. The fuel is the number of commands
  followed.\<close>

fun console_loop :: "nat \<Rightarrow> 'w penv \<Rightarrow> int \<Rightarrow> ('w, unit ctl option) ssp" where
  "console_loop n P cmdChar =
     (if cmdChar = code (CHR ''q'') then return (Some (Go ()))
      else (case n of
          0 \<Rightarrow> return None
        | Suc m \<Rightarrow> do {
            c \<leftarrow> pcall (p_getchar P);
            _ \<leftarrow> pcall (p_sleep P 30);
            r \<leftarrow> cmd_dispatch P c;
            case r of
              Undefined \<Rightarrow> return (Some Undefined)
            | Exit x \<Rightarrow> return (Some (Exit x))
            | Go ret \<Rightarrow> if ret \<noteq> 0 then return (Some (Exit 0)) else console_loop m P c
          }))"

declare console_loop.simps [simp del]

text \<open>What \<open>main\<close> does after its loop.\<close>

definition main_end :: "'w penv \<Rightarrow> ('w, int ctl) ssp" where
  "main_end P = do {
     active \<leftarrow> gets g_bActive;
     if \<not> active then return (Go 0)
     else andthen (ssp_cancel_advsec P) (\<lambda>returnStatus.
       if returnStatus \<noteq> ANSC_STATUS_SUCCESS then return (Exit 0)
       else do { _ \<leftarrow> modify (\<lambda>s. s\<lparr>g_bActive := False\<rparr>); return (Go 0) })
   }"

definition start_component :: "'w penv \<Rightarrow> bool \<Rightarrow> ('w, unit ctl) ssp" where
  "start_component P bRunAsDaemon = do {
     _ \<leftarrow> drop_root P;
     andthen (if bRunAsDaemon then daemonize P else return (Go ())) (\<lambda>_. do {
       _ \<leftarrow> (if INCLUDE_BREAKPAD P then pcall (p_breakpad P) else install_handlers P handled_signals);
       andthen (cmd_dispatch P (code (CHR ''e''))) (\<lambda>ret.
         if ret \<noteq> 0 then return (Exit 0)
         else do {
           _ \<leftarrow> pcall (p_check_component_crash P ''/tmp/advsec_ccsp_initialized_bootup'');
           fd \<leftarrow> pcall (p_creat P ''/tmp/advsec_ccsp_initialized_bootup'');
           return (if fd < 0 then Exit 0 else Go ())
         })
     })
   }"

definition ssp_main :: "nat \<Rightarrow> 'w penv \<Rightarrow> string list \<Rightarrow> ('w, int ctl option) ssp" where
  "ssp_main n P argv = do {
     _ \<leftarrow> modify (\<lambda>s. s\<lparr>debugLogFile := None\<rparr>);
     a \<leftarrow> parse_args P (drop 1 argv) True;
     case a of
       Undefined \<Rightarrow> return (Some Undefined)
     | Exit c \<Rightarrow> return (Some (Exit c))
     | Go bRunAsDaemon \<Rightarrow> do {
         b \<leftarrow> start_component P bRunAsDaemon;
         case b of
           Undefined \<Rightarrow> return (Some Undefined)
         | Exit c \<Rightarrow> return (Some (Exit c))
         | Go _ \<Rightarrow> do {
             l \<leftarrow> (if bRunAsDaemon then daemon_loop n P else console_loop n P 0);
             case l of
               None \<Rightarrow> return None
             | Some Undefined \<Rightarrow> return (Some Undefined)
             | Some (Exit c) \<Rightarrow> return (Some (Exit c))
             | Some (Go _) \<Rightarrow> do { r \<leftarrow> main_end P; return (Some r) }
           }
       }
   }"

end
