(* ===== verification/Adv_Process.thy ===== *)
theory Adv_Process
  imports Adv_Ssp Adv_Wp
begin

text \<open>
  What the process promises: the effect of the command line, when the agent keeps root privileges, a
  loaded component whose callbacks all answer, the trace level that follows the logging settings, when
  the console ends, the safety of the pointers of a process that is not cancelled from its console, and
  the commands of the console that use a freed controller. The safety is by the weakest preconditions
  of \<open>Adv_Wp\<close>, extended by bodies that may end the process.
\<close>

section \<open>The command line\<close>

definition pstr_law :: "'w penv \<Rightarrow> bool" where
  "pstr_law P \<longleftrightarrow> (\<forall>s t. s \<noteq> [] \<longrightarrow>
       fst (p_strcmp_s P s (length s) t) = EOK \<and> (snd (p_strcmp_s P s (length s) t) = 0 \<longleftrightarrow> s = t)) \<and>
     (\<forall>t. fst (p_strcmp_s P [] 0 t) \<noteq> EOK) \<and>
     (\<forall>n s. length s < n \<longrightarrow> p_strcpy_s P n s = (EOK, s))"

lemma subsystem_option_exact:
  assumes "pstr_law P"
  shows "get_gSubsystem_type_from_name P name = map_of gSubsystem_type_table name"
proof -
  have "subsystem_type_loop P name xs = map_of xs name" if "\<forall>(n, t) \<in> set xs. n \<noteq> []" for xs
    using that
  proof (induction xs)
    case (Cons x xs)
    obtain n t where x: "x = (n, t)" by (cases x)
    obtain rc ind where r: "p_strcmp_s P name (length name) n = (rc, ind)" by (cases "p_strcmp_s P name (length name) n")
    have "rc = EOK \<and> ind = 0 \<longleftrightarrow> name = n"
    proof (cases "name = []")
      case True
      then show ?thesis using assms Cons.prems r x by (auto simp: pstr_law_def) (metis fst_conv)
    next
      case False
      then show ?thesis using assms r unfolding pstr_law_def by (metis fst_conv snd_conv)
    qed
    then show ?case using Cons x r by auto
  qed simp
  moreover have "\<forall>(n, t) \<in> set gSubsystem_type_table. n \<noteq> []"
    by (simp add: gSubsystem_type_table_def)
  ultimately show ?thesis
    unfolding get_gSubsystem_type_from_name_def by blast
qed

text \<open>Each argument with the one behind it.\<close>

definition with_next :: "string list \<Rightarrow> (string \<times> string) list" where
  "with_next args = zip args (tl args)"

definition subsys_values :: "string list \<Rightarrow> string list" where
  "subsys_values args = map snd (filter (\<lambda>(a, v). a = ''-subsys'') (with_next args))"

definition args_ok :: "string list \<Rightarrow> bool" where
  "args_ok args \<longleftrightarrow> (args \<noteq> [] \<longrightarrow> last args \<noteq> ''-subsys'') \<and> (\<forall>v \<in> set (subsys_values args). length v < 32)"

lemma subsys_values_simps:
  "subsys_values [] = []" "subsys_values [a] = []"
  "subsys_values (a # v # r) = (if a = ''-subsys'' then v # subsys_values (v # r) else subsys_values (v # r))"
  by (simp_all add: subsys_values_def with_next_def)

lemma last_default: "(if xs = [] then x else last xs) = last (x # xs)"
  by simp

text \<open>C33: The command line: the process exits exactly when a \<open>-subsys\<close> is the last argument or is followed by
  32 characters or more; otherwise the prefix of the subsystem is the value behind the last
  \<open>-subsys\<close>, and the process is a daemon unless \<open>-c\<close> occurs anywhere, also as the value of another
  option.\<close>

theorem command_line_effect:
  assumes "pstr_law P"
  shows "fst (run_state (parse_args P args d) s) = (if args_ok args then Go (d \<and> ''-c'' \<notin> set args) else Exit 0)
    \<and> (args_ok args \<longrightarrow> g_Subsystem (snd (run_state (parse_args P args d) s)) = last (g_Subsystem s # subsys_values args))"
proof (induction args arbitrary: d s)
  case Nil
  then show ?case by (simp add: args_ok_def subsys_values_simps)
next
  case (Cons a r)
  have t: "get_gSubsystem_type_from_name P a = map_of gSubsystem_type_table a"
    using subsystem_option_exact [OF assms] by simp
  have cp: "p_strcpy_s P 32 v = (EOK, v)" if "length v < 32" for v
    using assms that by (simp add: pstr_law_def)
  show ?case
  proof (cases r)
    case Nil
    then show ?thesis
      using t Cons.IH by (auto simp: args_ok_def subsys_values_simps gSubsystem_type_table_def)
  next
    case (Cons v r')
    show ?thesis
    proof (cases "a = ''-subsys''")
      case True
      then show ?thesis
        using t Cons.IH [of d "s\<lparr>g_Subsystem := v\<rparr>"] cp [of v] Cons
        by (auto simp: args_ok_def subsys_values_simps gSubsystem_type_table_def)
    next
      case False
      have e: "args_ok (a # r) = args_ok r" "subsys_values (a # r) = subsys_values r"
        using False Cons by (simp_all add: args_ok_def subsys_values_simps)
      show ?thesis
        using t Cons.IH False Cons unfolding e
        by (auto simp: gSubsystem_type_table_def case_prod_beta)
    qed
  qed
qed

section \<open>The block list\<close>

text \<open>The block list as a file of the world, None when it cannot be opened; \<open>mem\<close> tells whether there is
  memory for its text.\<close>

definition file_law :: "('w \<Rightarrow> string option) \<Rightarrow> bool \<Rightarrow> 'w penv \<Rightarrow> bool" where
  "file_law file mem P \<longleftrightarrow>
     (\<forall>w. fst (p_fopen P ''/opt/secure/Blocklist_file.txt'' ''r'' w) = (file w \<noteq> None)
        \<and> file (snd (p_fopen P ''/opt/secure/Blocklist_file.txt'' ''r'' w)) = file w) \<and>
     (\<forall>w t. file w = Some t \<longrightarrow> fst (p_ftell_end P w) = int (length t)) \<and>
     (\<forall>w. file (snd (p_ftell_end P w)) = file w) \<and>
     (\<forall>n w. fst (p_malloc P n w) = mem \<and> file (snd (p_malloc P n w)) = file w) \<and>
     (\<forall>n w t. file w = Some t \<longrightarrow> fst (p_fread P n w) = take n t)"

lemma strcasestr_iff:
  "strcasestr s pat \<longleftrightarrow> (\<exists>a m b. s = a @ m @ b \<and> map lower_char m = map lower_char pat)"
proof (induction s)
  case Nil
  then show ?case by auto
next
  case (Cons c cs)
  show ?case
  proof
    assume "strcasestr (c # cs) pat"
    then consider "map lower_char (take (length pat) (c # cs)) = map lower_char pat" | "strcasestr cs pat" by auto
    then show "\<exists>a m b. c # cs = a @ m @ b \<and> map lower_char m = map lower_char pat"
    proof cases
      case 1
      then show ?thesis by (metis append_Nil append_take_drop_id)
    next
      case 2
      then show ?thesis using Cons.IH by (metis append_Cons)
    qed
  next
    assume "\<exists>a m b. c # cs = a @ m @ b \<and> map lower_char m = map lower_char pat"
    then obtain a m b where m: "c # cs = a @ m @ b" "map lower_char m = map lower_char pat" by blast
    show "strcasestr (c # cs) pat"
    proof (cases a)
      case Nil
      then have "take (length pat) (c # cs) = m" using m by (metis append_Nil append_eq_conv_conj length_map)
      then show ?thesis using m(2) by simp
    next
      case (Cons x a')
      then show ?thesis using m Cons.IH by auto
    qed
  qed
qed

text \<open>C35: When the block list is taken to name the agent: with a file that, once open, can be sought and
  read, \<open>isCujoBlocklisted\<close> answers true exactly when there is memory for the list, the list can be opened,
  and the name of the agent occurs in it, in any case of letters, before its first NUL character.\<close>

theorem blocklisted_iff:
  assumes "file_law file mem P"
  shows "fst (run_state (isCujoBlocklisted P) s) \<longleftrightarrow> mem \<and> (\<exists>t a m b. file (sworld s) = Some t \<and> c_text t = a @ m @ b
    \<and> map lower_char m = map lower_char ''cujo-agent'')"
proof (cases "file (sworld s)")
  case None
  then have "\<not> fst (p_fopen P ''/opt/secure/Blocklist_file.txt'' ''r'' (sworld s))"
    using assms by (simp add: file_law_def)
  then show ?thesis using None by (simp add: isCujoBlocklisted_def)
next
  case (Some t)
  define w1 where "w1 = snd (p_fopen P ''/opt/secure/Blocklist_file.txt'' ''r'' (sworld s))"
  define w2 where "w2 = snd (p_ftell_end P w1)"
  define w3 where "w3 = snd (p_malloc P (nat (int (length t) + 1)) w2)"
  have f: "fst (p_fopen P ''/opt/secure/Blocklist_file.txt'' ''r'' (sworld s))" "file w1 = Some t"
    using assms Some by (simp_all add: file_law_def w1_def)
  have l: "fst (p_ftell_end P w1) = int (length t)" "file w2 = Some t"
    using assms f(2) by (simp_all add: file_law_def w2_def)
  have m: "fst (p_malloc P (nat (int (length t) + 1)) w2) = mem" "file w3 = Some t"
    using assms l(2) by (simp_all add: file_law_def w3_def)
  have "fst (p_fread P (length t) w3) = t"
    using assms m(2) by (simp add: file_law_def)
  then have "fst (run_state (isCujoBlocklisted P) s) = (mem \<and> length (c_text t) \<noteq> 0 \<and> strcasestr (c_text t) ''cujo-agent'')"
    using f(1) l(1) m(1)
    by (simp add: isCujoBlocklisted_def case_prod_beta w1_def [symmetric] w2_def [symmetric] w3_def [symmetric])
  moreover have "\<not> strcasestr [] ''cujo-agent''" by simp
  ultimately have "fst (run_state (isCujoBlocklisted P) s) = (mem \<and> strcasestr (c_text t) ''cujo-agent'')"
    by (cases "c_text t = []") auto
  then show ?thesis using Some by (simp add: strcasestr_iff)
qed

section \<open>The trace level\<close>

datatype ccd_op = SetLoggingEnabled BOOL | SetLoggingLevel ULONG | ApplyChanges

fun run_ops :: "'w penv \<Rightarrow> ccd_op list \<Rightarrow> ('w, unit) ssp" where
  "run_ops P [] = return ()"
| "run_ops P (x # xs) = do {
     _ \<leftarrow> (case x of
            SetLoggingEnabled b \<Rightarrow> ssp_AdvSecCCDmSetLoggingEnabled P b
          | SetLoggingLevel l \<Rightarrow> ssp_AdvSecCCDmSetLoggingLevel P l
          | ApplyChanges \<Rightarrow> do { r \<leftarrow> ssp_AdvSecCCDmApplyChanges; return (Go r) });
     run_ops P xs
   }"

definition level_follows :: "('w \<Rightarrow> ULONG) \<Rightarrow> 'w penv \<Rightarrow> 'w sspst \<Rightarrow> bool" where
  "level_follows lvl P s \<longleftrightarrow> (case g_pComponent_Common_Dm s of
      None \<Rightarrow> False
    | Some dm \<Rightarrow> lvl (sworld s) = (if dm_LogEnable dm = 0 then CCSP_TRACE_INVALID_LEVEL P else dm_LogLevel dm))"

lemma run_state_read_dm [simp]:
  "run_state (read_dm f) s = (case g_pComponent_Common_Dm s of None \<Rightarrow> Undefined | Some dm \<Rightarrow> Go (f dm), s)"
  by (simp add: read_dm_def)

lemma run_state_write_dm [simp]:
  "run_state (write_dm f) s = ((), s\<lparr>g_pComponent_Common_Dm := map_option f (g_pComponent_Common_Dm s)\<rparr>)"
  by (simp add: write_dm_def)

text \<open>C34: The trace level follows the settings: whatever sequence of changes to the logging switch and the
  logging level, the level in force stays the one the settings ask for, the stored level while
  logging is on and the invalid level while it is off.\<close>

theorem trace_level_follows_logging:
  assumes "\<forall>v w. lvl (snd (p_SetTraceLevel P v w)) = v" "level_follows lvl P s"
  shows "level_follows lvl P (snd (run_state (run_ops P ops) s))"
  using assms(2)
proof (induction ops arbitrary: s)
  case (Cons x xs)
  have "level_follows lvl P (snd (run_state (ssp_AdvSecCCDmSetLoggingEnabled P b) s))" for b
    using Cons.prems assms(1)
    by (auto simp: level_follows_def ssp_AdvSecCCDmSetLoggingEnabled_def andthen_def case_prod_beta
        split: option.splits)
  moreover have "level_follows lvl P (snd (run_state (ssp_AdvSecCCDmSetLoggingLevel P l) s))" for l
    using Cons.prems assms(1)
    by (auto simp: level_follows_def ssp_AdvSecCCDmSetLoggingLevel_def andthen_def case_prod_beta
        split: option.splits)
  ultimately show ?case
    using Cons by (cases x) (simp_all add: case_prod_beta ssp_AdvSecCCDmApplyChanges_def)
qed simp

section \<open>A loaded component\<close>

lemma create_ccd_effect:
  assumes "fst (run_state (create_ccd P) s) = ANSC_STATUS_SUCCESS" "pAdvSecCcdIf s = None"
    and "ANSC_STATUS_RESOURCES P \<noteq> ANSC_STATUS_SUCCESS"
  shows "\<exists>name w. snd (run_state (create_ccd P) s) =
    s\<lparr>pAdvSecCcdIf := Some \<lparr>ccd_Name = name, ccd_callbacks = ccd_functions\<rparr>, sworld := w\<rparr>"
proof -
  define w where "w = snd (p_AllocateMemory P ''pAdvSecCcdIf'' (sworld s))"
  obtain rc name where n: "p_strcpy_s P (CCD_NAME_SIZE P) (CCSP_CCD_INTERFACE_NAME P) = (rc, name)" by fastforce
  have "snd (run_state (create_ccd P) s) = s\<lparr>sworld := w, pAdvSecCcdIf := Some \<lparr>ccd_Name = name, ccd_callbacks = ccd_functions\<rparr>\<rparr>"
    using assms n by (auto simp: create_ccd_def w_def split: if_splits)
  also have "\<dots> = s\<lparr>pAdvSecCcdIf := Some \<lparr>ccd_Name = name, ccd_callbacks = ccd_functions\<rparr>, sworld := w\<rparr>"
    by (rule sspst.equality) simp_all
  finally show ?thesis by blast
qed

lemma create_effect:
  assumes "fst (run_state (ssp_create_advsec P) s) = ANSC_STATUS_SUCCESS" "pAdvSecCcdIf s = None"
    and "ANSC_STATUS_RESOURCES P \<noteq> ANSC_STATUS_SUCCESS"
  shows "\<exists>dm name w. dm_Version dm = 1 \<and> snd (run_state (ssp_create_advsec P) s) =
    s\<lparr>g_pComponent_Common_Dm := Some dm, pAdvSecCcdIf := Some \<lparr>ccd_Name = name, ccd_callbacks = ccd_functions\<rparr>,
      pAdvSecFcContext := Some \<lparr>hCcspCcdIf = False, hMessageBus = 0\<rparr>, sworld := w, pDslhCpeController := LIVE_PTR\<rparr>"
proof -
  define w1 where "w1 = snd (p_AllocateMemory P ''g_pComponent_Common_Dm'' (sworld s))"
  define dm where "dm = ComponentCommonDmInit P w1"
  obtain name w3 where 3: "p_CloneString P CCSP_COMPONENT_NAME_ADVSEC w1 = (name, w3)" by fastforce
  obtain author w4 where 4: "p_CloneString P ''CCSP'' w3 = (author, w4)" by fastforce
  define dm' where "dm' = dm\<lparr>dm_Name := name, dm_Version := 1, dm_Author := author\<rparr>"
  define s1 where "s1 = s\<lparr>sworld := w4, g_pComponent_Common_Dm := Some dm'\<rparr>"
  define c where "c = run_state (create_ccd P) s1"
  define w5 where "w5 = snd (p_AllocateMemory P ''pAdvSecFcContext'' (sworld (snd c)))"
  have ok: "fst (p_AllocateMemory P ''g_pComponent_Common_Dm'' (sworld s))"
    using assms(1,3) by (auto simp: ssp_create_advsec_def split: if_splits)
  have r: "run_state (ssp_create_advsec P) s = (if fst c \<noteq> ANSC_STATUS_SUCCESS then c
      else if \<not> fst (p_AllocateMemory P ''pAdvSecFcContext'' (sworld (snd c)))
        then (ANSC_STATUS_RESOURCES P, (snd c)\<lparr>sworld := w5, pAdvSecFcContext := None\<rparr>)
      else if fst (p_CreateCpeController P w5)
        then (ANSC_STATUS_SUCCESS, (snd c)\<lparr>pAdvSecFcContext := Some \<lparr>hCcspCcdIf = False, hMessageBus = 0\<rparr>,
          sworld := snd (p_CreateCpeController P w5), pDslhCpeController := LIVE_PTR\<rparr>)
      else (ANSC_STATUS_RESOURCES P, (snd c)\<lparr>pAdvSecFcContext := Some \<lparr>hCcspCcdIf = False, hMessageBus = 0\<rparr>,
          sworld := snd (p_CreateCpeController P w5), pDslhCpeController := NULL_PTR\<rparr>))"
    using ok by (simp add: ssp_create_advsec_def w1_def [symmetric] dm_def [symmetric] 3 4 dm'_def [symmetric] s1_def [symmetric]
        c_def [symmetric] w5_def [symmetric] case_prod_beta)
  then have "fst c = ANSC_STATUS_SUCCESS" using assms(1) by (auto split: if_splits)
  moreover have "pAdvSecCcdIf s1 = None" using assms(2) by (simp add: s1_def)
  ultimately obtain n w where "snd c = s1\<lparr>pAdvSecCcdIf := Some \<lparr>ccd_Name = n, ccd_callbacks = ccd_functions\<rparr>, sworld := w\<rparr>"
    using create_ccd_effect [of P s1] assms(3) unfolding c_def by blast
  moreover have "dm_Version dm' = 1" by (simp add: dm'_def)
  ultimately show ?thesis
    using assms(1,3) r by (auto simp: s1_def split: if_splits)
qed

lemma engage_effect:
  fixes P :: "'w penv" and s :: "'w sspst"
  assumes "g_pComponent_Common_Dm s = Some dm" "pAdvSecFcContext s \<noteq> None" "pDslhCpeController s = LIVE_PTR"
    and "pAdvSecCcdIf s \<noteq> None" "fst (run_state (ssp_engage_advsec P) s) = Go ANSC_STATUS_SUCCESS"
  defines "s' \<equiv> snd (run_state (ssp_engage_advsec P) s)"
  shows "pDslhCpeController s' = LIVE_PTR" "bus_handle s' = bus_handle s" "pAdvSecCcdIf s' = pAdvSecCcdIf s"
    "pAdvSecFcContext s' = Some \<lparr>hCcspCcdIf = True, hMessageBus = bus_handle s\<rparr>"
    "\<exists>dm'. g_pComponent_Common_Dm s' = Some dm' \<and> dm_Version dm' = dm_Version dm \<and> dm_Health dm' \<in> {CCSP_COMMON_COMPONENT_HEALTH_Yellow, CCSP_COMMON_COMPONENT_HEALTH_Green}
      \<and> ((\<forall>c x w. fst (p_RegisterCcspDataModel2 P c x w) \<notin> {ANSC_STATUS_SUCCESS, CCSP_SUCCESS P}) \<longrightarrow> dm_Health dm' = CCSP_COMMON_COMPONENT_HEALTH_Yellow)"
proof -
  have ag: "p_DslhDataModelAgent P (sworld s)"
    using assms(5) by (auto simp: ssp_engage_advsec_def split: if_splits)
  show "pDslhCpeController s' = LIVE_PTR" "bus_handle s' = bus_handle s" "pAdvSecCcdIf s' = pAdvSecCcdIf s"
    using assms(1-5) ag by (simp_all add: s'_def ssp_engage_advsec_def Let_def case_prod_beta)
  show "pAdvSecFcContext s' = Some \<lparr>hCcspCcdIf = True, hMessageBus = bus_handle s\<rparr>"
    using assms(1-5) ag by (simp add: s'_def ssp_engage_advsec_def Let_def case_prod_beta)
  obtain fc ccd where fc: "pAdvSecFcContext s = Some fc" "pAdvSecCcdIf s = Some ccd"
    using assms(2,4) by auto
  obtain rc cn where cn: "p_sprintf_ss P 256 (g_Subsystem s) (CCSP_DBUS_INTERFACE_CR P) = (rc, cn)" by fastforce
  have rc: "\<not> rc < EOK"
    using assms(1,3,5) fc ag by (auto simp: ssp_engage_advsec_def cn)
  have h: "g_pComponent_Common_Dm s' \<in> {Some (dm\<lparr>dm_Health := CCSP_COMMON_COMPONENT_HEALTH_Green\<rparr>), Some (dm\<lparr>dm_Health := CCSP_COMMON_COMPONENT_HEALTH_Yellow\<rparr>)}"
    using assms(1,3) fc rc ag by (cases "g_GetParamValueByPathNameProc s")
      (simp_all add: s'_def ssp_engage_advsec_def cn case_prod_beta)
  have y: "g_pComponent_Common_Dm s' = Some (dm\<lparr>dm_Health := CCSP_COMMON_COMPONENT_HEALTH_Yellow\<rparr>)"
    if no: "\<forall>c x w. fst (p_RegisterCcspDataModel2 P c x w) \<notin> {ANSC_STATUS_SUCCESS, CCSP_SUCCESS P}"
  proof -
    have "fst (p_RegisterCcspDataModel2 P c x w) \<noteq> ANSC_STATUS_SUCCESS" "CCSP_SUCCESS P \<noteq> fst (p_RegisterCcspDataModel2 P c x w)"
      for c x w using no by (metis insertCI)+
    then show ?thesis
      using assms(1,3) fc rc ag by (cases "g_GetParamValueByPathNameProc s")
        (simp_all add: s'_def ssp_engage_advsec_def cn case_prod_beta)
  qed
  show "\<exists>dm'. g_pComponent_Common_Dm s' = Some dm' \<and> dm_Version dm' = dm_Version dm \<and> dm_Health dm' \<in> {CCSP_COMMON_COMPONENT_HEALTH_Yellow, CCSP_COMMON_COMPONENT_HEALTH_Green}
      \<and> ((\<forall>c x w. fst (p_RegisterCcspDataModel2 P c x w) \<notin> {ANSC_STATUS_SUCCESS, CCSP_SUCCESS P}) \<longrightarrow> dm_Health dm' = CCSP_COMMON_COMPONENT_HEALTH_Yellow)"
    using h y by (elim insertE emptyE) simp_all
qed

text \<open>Whether loading succeeds does not depend on what the registration of the data model answers.\<close>

lemma registration_ignored:
  "fst (run_state (dispatch_e (P\<lparr>p_RegisterCcspDataModel2 := f\<rparr>)) s) = fst (run_state (dispatch_e P) s)"
proof -
  have c: "ssp_create_advsec (P\<lparr>p_RegisterCcspDataModel2 := f\<rparr>) = ssp_create_advsec P"
    by (simp add: ssp_create_advsec_def create_ccd_def ComponentCommonDmInit_def cong: if_cong)
  have b: "ssp_AdvsecMbi_MessageBusEngage (P\<lparr>p_RegisterCcspDataModel2 := f\<rparr>) = ssp_AdvsecMbi_MessageBusEngage P"
    by (intro ext) (simp add: ssp_AdvsecMbi_MessageBusEngage_def cong: if_cong option.case_cong)
  have e: "fst (run_state (ssp_engage_advsec (P\<lparr>p_RegisterCcspDataModel2 := f\<rparr>)) t) = fst (run_state (ssp_engage_advsec P) t)" for t
    by (auto simp: ssp_engage_advsec_def case_prod_beta Let_def)
  show ?thesis
    by (simp add: dispatch_e_def b c andthen_def case_prod_beta e Let_def split: ctl.split)
qed

text \<open>C32: A component that reports itself loaded is complete: after the first load that succeeds, with an error
  code for missing memory that is distinct from success, the controller is live and the bus handle known to it,
  the interface holds the thirteen callbacks, each in its place, and the common data model they read
  exists. It is not necessarily registered: the load succeeds whatever the registration of the data model answers,
  and only the health of the component, which stays yellow when it fails, tells.\<close>

theorem loaded_component_complete:
  fixes P :: "'w penv" and s :: "'w sspst"
  assumes "fst (run_state (cmd_dispatch P (code (CHR ''e''))) s) = Go 0" "pAdvSecCcdIf s = None"
    and "ANSC_STATUS_RESOURCES P \<noteq> ANSC_STATUS_SUCCESS"
  defines "s' \<equiv> snd (run_state (cmd_dispatch P (code (CHR ''e''))) s)"
  shows "g_bActive s' \<and> pDslhCpeController s' = LIVE_PTR
    \<and> pAdvSecFcContext s' = Some \<lparr>hCcspCcdIf = True, hMessageBus = bus_handle s'\<rparr>
    \<and> (\<exists>ccd. pAdvSecCcdIf s' = Some ccd \<and> ccd_callbacks ccd = [
          ''ssp_AdvSecCCDmGetComponentName'', ''ssp_AdvSecCCDmGetComponentVersion'', ''ssp_AdvSecCCDmGetComponentAuthor'',
          ''ssp_AdvSecCCDmGetComponentHealth'', ''ssp_AdvSecCCDmGetComponentState'', ''ssp_AdvSecCCDmGetLoggingEnabled'',
          ''ssp_AdvSecCCDmSetLoggingEnabled'', ''ssp_AdvSecCCDmGetLoggingLevel'', ''ssp_AdvSecCCDmSetLoggingLevel'',
          ''ssp_AdvSecCCDmGetMemMaxUsage'', ''ssp_AdvSecCCDmGetMemMinUsage'', ''ssp_AdvSecCCDmGetMemConsumed'',
          ''ssp_AdvSecCCDmApplyChanges''])
    \<and> (\<forall>f. fst (run_state (cmd_dispatch (P\<lparr>p_RegisterCcspDataModel2 := f\<rparr>) (code (CHR ''e''))) s) = Go 0)
    \<and> (\<exists>dm. g_pComponent_Common_Dm s' = Some dm \<and> dm_Version dm = 1 \<and> dm_Health dm \<in> {CCSP_COMMON_COMPONENT_HEALTH_Yellow, CCSP_COMMON_COMPONENT_HEALTH_Green}
        \<and> ((\<forall>c x w. fst (p_RegisterCcspDataModel2 P c x w) \<notin> {ANSC_STATUS_SUCCESS, CCSP_SUCCESS P})
            \<longrightarrow> dm_Health dm = CCSP_COMMON_COMPONENT_HEALTH_Yellow))"
proof -
  have d': "cmd_dispatch P' (code (CHR ''e'')) = dispatch_e P'" for P' :: "'w penv" by (simp add: cmd_dispatch_def)
  note d = d' [of P]
  obtain rc cn where cn: "p_sprintf_ss P 256 (g_Subsystem s) CCSP_COMPONENT_ID_ADVSEC = (rc, cn)" by fastforce
  define b where "b = run_state (ssp_AdvsecMbi_MessageBusEngage P (Some cn) (Some CCSP_COMPONENT_PATH_ADVSEC)) s"
  define c where "c = run_state (ssp_create_advsec P) (snd b)"
  define e where "e = run_state (ssp_engage_advsec P) (snd c)"
  have r: "run_state (dispatch_e P) s = (if rc < EOK then (Go (- 1), s) else if fst b \<noteq> ANSC_STATUS_SUCCESS then (Go (- 1), snd b)
      else if fst c \<noteq> ANSC_STATUS_SUCCESS then (Go (- 1), snd c)
      else case fst e of Exit x \<Rightarrow> (Exit x, snd e) | Undefined \<Rightarrow> (Undefined, snd e)
        | Go x \<Rightarrow> if x \<noteq> ANSC_STATUS_SUCCESS then (Go (- 1), snd e) else (Go 0, (snd e)\<lparr>g_bActive := True\<rparr>))"
    by (simp add: dispatch_e_def cn andthen_def b_def [symmetric] c_def [symmetric] e_def [symmetric] case_prod_beta split: ctl.split)
  then have ok: "fst c = ANSC_STATUS_SUCCESS" "fst e = Go ANSC_STATUS_SUCCESS" and s': "s' = (snd e)\<lparr>g_bActive := True\<rparr>"
    using assms(1) unfolding d s'_def by (auto split: if_splits ctl.splits)
  have "pAdvSecCcdIf (snd b) = None"
    using assms(2) by (simp add: b_def ssp_AdvsecMbi_MessageBusEngage_def ssp_AdvsecMbi_WaitConditionReady_def case_prod_beta)
  then obtain dm name w where c: "dm_Version dm = 1" "snd c = (snd b)\<lparr>g_pComponent_Common_Dm := Some dm,
      pAdvSecCcdIf := Some \<lparr>ccd_Name = name, ccd_callbacks = ccd_functions\<rparr>,
      pAdvSecFcContext := Some \<lparr>hCcspCcdIf = False, hMessageBus = 0\<rparr>, sworld := w, pDslhCpeController := LIVE_PTR\<rparr>"
    using create_effect [of P "snd b"] ok(1) assms(3) unfolding c_def by blast
  have sel: "g_pComponent_Common_Dm (snd c) = Some dm" "pAdvSecFcContext (snd c) \<noteq> None" "pDslhCpeController (snd c) = LIVE_PTR"
    "pAdvSecCcdIf (snd c) = Some \<lparr>ccd_Name = name, ccd_callbacks = ccd_functions\<rparr>"
    unfolding c(2) by simp_all
  note E = engage_effect [OF sel(1-3) _ ok(2) [unfolded e_def], folded e_def]
  have "pAdvSecCcdIf (snd c) \<noteq> None" using sel(4) by simp
  note E = E [OF this]
  show ?thesis
    using E(1,2,4) E(3) E(5) sel(4) c(1) assms(1) registration_ignored [where P = P and s = s]
    unfolding s' by (simp add: d d') (simp add: ccd_functions_def)
qed

section \<open>Cancelling twice\<close>

text \<open>C40: Cancelling from the console leaves a trap: the command \<open>c\<close> frees the controller and leaves the
  pointer and the flag that the component is active, so a second \<open>c\<close>, and the cleanup at the end of
  \<open>main\<close> after a \<open>q\<close>, call and free the controller again.\<close>

theorem cancel_from_console_frees_twice:
  fixes P :: "'w penv" and s :: "'w sspst"
  assumes "pDslhCpeController s = LIVE_PTR" "g_bActive s"
  defines "s' \<equiv> snd (run_state (cmd_dispatch P (code (CHR ''c''))) s)"
  shows "fst (run_state (cmd_dispatch P (code (CHR ''c''))) s) = Go 0
    \<and> fst (run_state (cmd_dispatch P (code (CHR ''c''))) s') = Undefined
    \<and> fst (run_state (cmd_dispatch P (code (CHR ''q''))) s') = Go 0
    \<and> fst (run_state (main_end P) (snd (run_state (cmd_dispatch P (code (CHR ''q''))) s'))) = Undefined"
  using assms(1,2)
  by (simp add: s'_def cmd_dispatch_def code_def ssp_cancel_advsec_def main_end_def andthen_def)

section \<open>The console\<close>

text \<open>The bus returns an array with a value for each that it counts.\<close>

definition values_law :: "'w penv \<Rightarrow> bool" where
  "values_law P \<longleftrightarrow> (\<forall>w. case fst (p_GetParameterValues P w) of
     (count, vs) \<Rightarrow> nat count \<le> length vs \<and> None \<notin> set (take (nat count) vs))"

lemma print_values_complete: "n \<le> length vs \<Longrightarrow> None \<notin> set (take n vs) \<Longrightarrow> print_values n vs = Go ()"
  by (induction n vs rule: print_values.induct) auto

lemma print_values_law: "values_law P \<Longrightarrow> print_values (nat (fst (fst (p_GetParameterValues P w)))) (snd (fst (p_GetParameterValues P w))) = Go ()"
  by (rule print_values_complete) (auto simp: values_law_def case_prod_beta)

text \<open>A bus that counts a value too many brings the console down at the command \<open>r\<close>.\<close>

lemma short_values_crash:
  assumes "fst (p_GetParameterValues P (sworld s)) = (int (length vs) + 1, vs)"
  shows "fst (run_state (cmd_dispatch P (code (CHR ''r''))) s) = Undefined"
proof -
  have "print_values (Suc (length vs)) vs = Undefined"
  proof (induction vs)
    case (Cons v vs)
    then show ?case by (cases v) simp_all
  qed simp
  moreover have "nat (int (length vs) + 1) = Suc (length vs)" by simp
  ultimately show ?thesis
    using assms by (simp add: cmd_dispatch_def code_def andthen_def case_prod_beta del: print_values.simps)
qed

text \<open>Reading takes the next of the characters typed; sleeping and the commands that only print leave the
  place in them alone.\<close>

definition typed_law :: "(nat \<Rightarrow> int) \<Rightarrow> ('w \<Rightarrow> nat) \<Rightarrow> 'w penv \<Rightarrow> bool" where
  "typed_law input pos P \<longleftrightarrow>
     (\<forall>w. fst (p_getchar P w) = input (pos w) \<and> pos (snd (p_getchar P w)) = pos w + 1) \<and>
     (\<forall>n w. pos (snd (p_sleep P n w)) = pos w) \<and> values_law P \<and>
     (\<forall>w. pos (snd (p_GetParameterValues P w)) = pos w \<and> pos (snd (p_PrintMemoryTable P w)) = pos w
        \<and> pos (snd (p_TraceMemoryTable P w)) = pos w)"

lemma harmless_command:
  assumes "typed_law input pos P" "c \<notin> {code (CHR ''e''), code (CHR ''c'')}"
  shows "fst (run_state (cmd_dispatch P c) s) = Go 0" "pos (sworld (snd (run_state (cmd_dispatch P c) s))) = pos (sworld s)"
  using assms by (simp_all add: cmd_dispatch_def typed_law_def andthen_def case_prod_beta print_values_law)

text \<open>C38: The console ends at a \<open>q\<close> and only there: when neither \<open>e\<close> nor \<open>c\<close> is typed and the bus
  returns as many values as it counts, following \<open>n\<close> commands ends the loop, without an error, exactly when one of
  the next \<open>n\<close> characters is a \<open>q\<close>. The end of the input is no \<open>q\<close>: a console that is closed leaves the
  process in its loop.\<close>

theorem console_ends_at_q:
  assumes "typed_law input pos P" "\<forall>k. input k \<notin> {code (CHR ''e''), code (CHR ''c'')}"
  shows "fst (run_state (console_loop n P 0) s) =
    (if \<exists>k<n. input (pos (sworld s) + k) = code (CHR ''q'') then Some (Go ()) else None)"
proof -
  have "fst (run_state (console_loop n P c) s) =
      (if \<exists>k<n. input (pos (sworld s) + k) = code (CHR ''q'') then Some (Go ()) else None)"
    if "c \<noteq> code (CHR ''q'')" for c s
    using that
  proof (induction n arbitrary: c s)
    case 0
    then show ?case by (simp add: console_loop.simps [of 0])
  next
    case (Suc n)
    define ch where "ch = input (pos (sworld s))"
    define s1 where "s1 = s\<lparr>sworld := snd (p_sleep P 30 (snd (p_getchar P (sworld s))))\<rparr>"
    define s2 where "s2 = snd (run_state (cmd_dispatch P ch) s1)"
    have h: "fst (run_state (cmd_dispatch P ch) s1) = Go 0" "pos (sworld s2) = pos (sworld s) + 1"
      using harmless_command [OF assms(1), of ch s1] assms unfolding ch_def s1_def s2_def typed_law_def by simp_all
    have d: "run_state (cmd_dispatch P ch) s1 = (Go 0, s2)"
      using h(1) by (simp add: s2_def prod_eq_iff)
    have g: "fst (p_getchar P (sworld s)) = ch"
      using assms(1) by (simp add: typed_law_def ch_def)
    have r: "fst (run_state (console_loop (Suc n) P c) s) = fst (run_state (console_loop n P ch) s2)"
      using Suc.prems d by (subst console_loop.simps) (simp add: g s1_def)
    show ?case
    proof (cases "ch = code (CHR ''q'')")
      case True
      then have "\<exists>k<Suc n. input (pos (sworld s) + k) = code (CHR ''q'')"
        by (intro exI [of _ 0]) (simp add: ch_def)
      then show ?thesis
        unfolding r using True by (subst console_loop.simps) simp
    next
      case False
      have "(\<exists>k<Suc n. input (pos (sworld s) + k) = code (CHR ''q'')) \<longleftrightarrow> (\<exists>k<n. input (pos (sworld s2) + k) = code (CHR ''q''))"
        using False unfolding h(2) ch_def by (auto simp: less_Suc_eq_0_disj)
      then show ?thesis
        unfolding r using Suc.IH [OF False, of s2] by simp
    qed
  qed
  moreover have "(0::int) \<noteq> code (CHR ''q'')" by (simp add: code_def)
  ultimately show ?thesis by blast
qed

text \<open>A process that runs as a daemon never comes back from its loop.\<close>

lemma daemon_never_ends: "fst (run_state (daemon_loop n P) s) = None"
  by (induction n arbitrary: s) (simp_all add: case_prod_beta)

text \<open>A signal ends the process unless it is one of four.\<close>

lemma signals_that_end: "fst (run_state (sig_handler P sig) s) = Exit 0 \<longleftrightarrow> sig \<notin> {SIGUSR1, SIGUSR2, SIGCHLD, SIGPIPE}"
  by (simp add: sig_handler_def case_prod_beta)

section \<open>No pointer is used that is not live\<close>

text \<open>A postcondition of a body that may have ended the process: it has not used a bad pointer, and where it
  goes on, \<open>Q\<close> holds.\<close>

definition ends :: "('a \<Rightarrow> 's \<Rightarrow> bool) \<Rightarrow> 'a ctl \<Rightarrow> 's \<Rightarrow> bool" where
  "ends Q r s = (case r of Go x \<Rightarrow> Q x s | Exit _ \<Rightarrow> True | Undefined \<Rightarrow> False)"

lemma ends_simps [simp]: "ends Q (Go x) s = Q x s" "ends Q (Exit c) s" "\<not> ends Q Undefined s"
  by (simp_all add: ends_def)

lemma ends_GoI: "Q x s \<Longrightarrow> ends Q (Go x) s"
  by simp

lemma wp_case_ctl:
  "(\<And>x. v = Go x \<Longrightarrow> wp (f x) Q s) \<Longrightarrow> (\<And>c. v = Exit c \<Longrightarrow> wp (g c) Q s) \<Longrightarrow> (v = Undefined \<Longrightarrow> wp h Q s) \<Longrightarrow>
   wp (case v of Go x \<Rightarrow> f x | Exit c \<Rightarrow> g c | Undefined \<Rightarrow> h) Q s"
  by (simp split: ctl.split)

lemma wp_andthen: "wp m (ends (\<lambda>x. wp (f x) (ends Q))) s \<Longrightarrow> wp (andthen m f) (ends Q) s"
  unfolding andthen_def by (rule wp_bind, erule wp_mono) (auto simp: ends_def wp_def split: ctl.splits)

lemma wp_pcall: "(\<And>r w. Q r (s\<lparr>sworld := w\<rparr>)) \<Longrightarrow> wp (pcall f) Q s"
  by (simp add: wp_def)

lemma wp_write_dm: "Q () (s\<lparr>g_pComponent_Common_Dm := map_option f (g_pComponent_Common_Dm s)\<rparr>) \<Longrightarrow> wp (write_dm f) Q s"
  by (simp add: wp_def write_dm_def)

lemmas process_rules = ends_GoI wp_rules wp_andthen wp_pcall wp_write_dm

text \<open>The pointers that a loaded component has.\<close>

definition loaded :: "'w sspst \<Rightarrow> bool" where
  "loaded s \<longleftrightarrow> g_pComponent_Common_Dm s \<noteq> None \<and> pAdvSecFcContext s \<noteq> None \<and> pDslhCpeController s = LIVE_PTR"

lemma wp_any: "(\<And>r s'. Q r s') \<Longrightarrow> wp m Q s"
  by (simp add: wp_def)

lemma wp_ends_mono: "wp m (ends R) s \<Longrightarrow> (\<And>x s'. R x s' \<Longrightarrow> Q x s') \<Longrightarrow> wp m (ends Q) s"
  by (erule wp_mono) (auto simp: ends_def split: ctl.splits)

lemma wp_create_ccd: "g_pComponent_Common_Dm s \<noteq> None \<Longrightarrow> wp (create_ccd P) (\<lambda>_ s. g_pComponent_Common_Dm s \<noteq> None) s"
  unfolding create_ccd_def Let_def by (intro process_rules) simp_all

text \<open>The framework sets its data-model agent when it creates the controller.\<close>

definition agent_law :: "'w penv \<Rightarrow> bool" where
  "agent_law P \<longleftrightarrow> (\<forall>w. fst (p_CreateCpeController P w) \<longrightarrow> p_DslhDataModelAgent P (snd (p_CreateCpeController P w)))"

lemma wp_create:
  assumes "ANSC_STATUS_RESOURCES P \<noteq> ANSC_STATUS_SUCCESS" "agent_law P"
  shows "wp (ssp_create_advsec P) (\<lambda>r s. r = ANSC_STATUS_SUCCESS \<longrightarrow> loaded s \<and> p_DslhDataModelAgent P (sworld s)) s"
proof -
  have c: "wp (pcall (p_CreateCpeController P)) Q t"
    if "\<And>w. p_DslhDataModelAgent P w \<Longrightarrow> Q True (t\<lparr>sworld := w\<rparr>)" "\<And>w. Q False (t\<lparr>sworld := w\<rparr>)" for Q t
    using assms(2) that by (cases "fst (p_CreateCpeController P (sworld t))") (auto simp: wp_def agent_law_def)
  show ?thesis
    unfolding ssp_create_advsec_def
    by (intro c process_rules wp_mono [OF wp_create_ccd]) (auto simp: assms loaded_def)
qed

lemma wp_engage: "loaded s \<Longrightarrow> p_DslhDataModelAgent P (sworld s) \<Longrightarrow> wp (ssp_engage_advsec P) (ends (\<lambda>_. loaded)) s"
  unfolding ssp_engage_advsec_def Let_def by (intro process_rules) (auto simp: loaded_def)

lemma wp_dispatch_e:
  assumes "ANSC_STATUS_RESOURCES P \<noteq> ANSC_STATUS_SUCCESS" "agent_law P"
  shows "wp (dispatch_e P) (ends (\<lambda>r s. r = 0 \<longrightarrow> loaded s)) s"
  unfolding dispatch_e_def Let_def
  by (intro process_rules wp_any [where m = "ssp_AdvsecMbi_MessageBusEngage P c x" for c x]
      wp_mono [OF wp_create [OF assms]] wp_ends_mono [OF wp_engage]) (auto simp: loaded_def)

lemma wp_cmd_dispatch:
  assumes "ANSC_STATUS_RESOURCES P \<noteq> ANSC_STATUS_SUCCESS" "agent_law P" "values_law P"
    and "command \<noteq> code (CHR ''c'')" "loaded s"
  shows "wp (cmd_dispatch P command) (ends (\<lambda>r s. r = 0 \<longrightarrow> loaded s)) s"
proof -
  have v: "wp (pcall (p_GetParameterValues P)) Q t"
    if "\<And>n vs w. print_values (nat n) vs = Go () \<Longrightarrow> Q (n, vs) (t\<lparr>sworld := w\<rparr>)" for Q t
    using that print_values_law [OF assms(3), of "sworld t"] unfolding wp_def by (metis prod.collapse run_state_pcall prod.sel)
  show ?thesis
    unfolding cmd_dispatch_def using assms(4,5)
    by (intro v process_rules wp_dispatch_e [OF assms(1,2)]) (auto simp: loaded_def wp_def)
qed

lemma wp_parse_args: "wp (parse_args P args d) (ends (\<lambda>_ _. True)) s"
proof (induction args arbitrary: d s)
  case Nil
  then show ?case by (simp add: wp_def)
next
  case (Cons a r)
  show ?case
  proof (cases "get_gSubsystem_type_from_name P a")
    case None
    then show ?thesis by (simp add: Cons.IH)
  next
    case (Some t)
    show ?thesis
      unfolding parse_args.simps(2) Some option.case using Cons.IH
      by (cases t; cases r; simp only: subsytemType_e.case list.case) (intro process_rules; simp)+
  qed
qed

lemma wp_daemonize: "wp (if d then daemonize P else return (Go ())) (ends (\<lambda>_ _. True)) s"
  unfolding daemonize_def by (intro process_rules) simp_all

lemma wp_start:
  assumes "ANSC_STATUS_RESOURCES P \<noteq> ANSC_STATUS_SUCCESS" "agent_law P"
  shows "wp (start_component P d) (ends (\<lambda>_. loaded)) s"
proof -
  have e: "cmd_dispatch P (code (CHR ''e'')) = dispatch_e P" by (simp add: cmd_dispatch_def)
  show ?thesis
    unfolding start_component_def e
    by (rule wp_bind, rule wp_any, rule wp_andthen, rule wp_ends_mono [OF wp_daemonize], rule wp_bind, rule wp_any,
        rule wp_andthen, rule wp_ends_mono [OF wp_dispatch_e [OF assms]]) (intro process_rules; auto simp: loaded_def)
qed

lemma wp_console:
  assumes "ANSC_STATUS_RESOURCES P \<noteq> ANSC_STATUS_SUCCESS" "agent_law P" "values_law P"
    and "\<And>w. fst (p_getchar P w) \<noteq> code (CHR ''c'')" "loaded s"
  shows "wp (console_loop n P ch) (\<lambda>r s. case r of None \<Rightarrow> True | Some x \<Rightarrow> ends (\<lambda>_. loaded) x s) s"
  using assms(5)
proof (induction n arbitrary: ch s)
  case 0
  then show ?case by (subst console_loop.simps) (simp add: wp_def)
next
  case (Suc n)
  show ?case
  proof (cases "ch = code (CHR ''q'')")
    case True
    then show ?thesis using Suc.prems by (subst console_loop.simps) (simp add: wp_def)
  next
    case False
    define k where "k = fst (p_getchar P (sworld s))"
    define s1 where "s1 = s\<lparr>sworld := snd (p_sleep P 30 (snd (p_getchar P (sworld s))))\<rparr>"
    have l: "loaded s1" using Suc.prems by (simp add: loaded_def s1_def)
    define t where "t = run_state (cmd_dispatch P k) s1"
    have e: "ends (\<lambda>r s. r = 0 \<longrightarrow> loaded s) (fst t) (snd t)"
      using wpD [OF wp_cmd_dispatch [OF assms(1-3) _ l, of k]] assms(4) by (simp add: k_def t_def)
    have u: "run_state (console_loop (Suc n) P ch) s = run_state (case fst t of
        Undefined \<Rightarrow> return (Some Undefined) | Exit x \<Rightarrow> return (Some (Exit x))
      | Go ret \<Rightarrow> if ret \<noteq> 0 then return (Some (Exit 0)) else console_loop n P k) (snd t)"
      unfolding t_def s1_def k_def using False by (subst console_loop.simps) (simp add: case_prod_beta cong del: ctl.case_cong_weak if_weak_cong)
    have "wp (case fst t of Undefined \<Rightarrow> return (Some Undefined) | Exit x \<Rightarrow> return (Some (Exit x))
      | Go ret \<Rightarrow> if ret \<noteq> 0 then return (Some (Exit 0)) else console_loop n P k)
        (\<lambda>r s. case r of None \<Rightarrow> True | Some x \<Rightarrow> ends (\<lambda>_. loaded) x s) (snd t)"
      using e by (intro wp_case_ctl wp_if wp_return Suc.IH) auto
    then show ?thesis by (simp only: wp_def u)
  qed
qed

lemma wp_main_end: "loaded s \<Longrightarrow> wp (main_end P) (ends (\<lambda>_ _. True)) s"
  unfolding main_end_def ssp_cancel_advsec_def by (intro process_rules) (auto simp: loaded_def)

text \<open>C31: Without a cancellation no pointer is used that is not live: whatever the command line, however often
  allocations and calls of the framework, the bus and the operating system fail, and whatever is typed at the
  console, as long as it is not \<open>c\<close>, the process never reads or calls through a NULL or freed pointer, from its
  start to the cleanup at its end, for any number of commands. This rests on two things the code does not test:
  a framework that has created its controller has set its data-model agent, and a bus that counts values
  has returned them all. The error code for missing memory is distinct from success.\<close>

theorem process_safe_without_cancel:
  assumes "ANSC_STATUS_RESOURCES P \<noteq> ANSC_STATUS_SUCCESS" "agent_law P" "values_law P"
    and "\<And>w. fst (p_getchar P w) \<noteq> code (CHR ''c'')"
  shows "fst (run_state (ssp_main n P argv) s) \<noteq> Some Undefined"
proof -
  have l: "wp (if d then daemon_loop n P else console_loop n P 0)
      (\<lambda>r s. case r of None \<Rightarrow> True | Some x \<Rightarrow> ends (\<lambda>_. loaded) x s) t" if "loaded t" for d t
    using wp_console [OF assms that, of n 0] daemon_never_ends [of n P t] by (simp add: wp_def)
  have "wp (ssp_main n P argv) (\<lambda>r s. r \<noteq> Some Undefined) s"
    unfolding ssp_main_def
    by (intro wp_bind wp_modify wp_return wp_case_ctl wp_case_option wp_mono [OF wp_parse_args] wp_mono [OF wp_start [OF assms(1,2)]]
        wp_mono [OF l] wp_mono [OF wp_main_end]) auto
  then show ?thesis by (rule wpD)
qed

section \<open>The demonstration\<close>

text \<open>A world that is the trace level and the number of characters read from the console, of which the
  third is a \<open>q\<close> and the others are \<open>m\<close>; everything succeeds but the registration of the data model.\<close>

type_synonym demo_tty = "ULONG \<times> nat"

definition demo_penv :: "demo_tty penv" where
  "demo_penv = \<lparr>INCLUDE_BREAKPAD = False, CCSP_CCD_INTERFACE_NAME = ''ccd'', CCD_NAME_SIZE = 64,
     CCSP_DBUS_INTERFACE_CR = ''cr'', CCSP_TRACE_INVALID_LEVEL = 99, CCSP_TRACE_LEVEL_EMERGENCY = 0,
     ANSC_STATUS_RESOURCES = 5, CCSP_SUCCESS = 100, CCSP_Message_Bus_OK = 100,
     p_strcmp_s = (\<lambda>s n t. (if s = [] then 1 else EOK, if s = t then 0 else 1)),
     p_strcpy_s = (\<lambda>n s. (if length s < n then EOK else 1, s)),
     p_sprintf_ss = (\<lambda>n a b. (int (length (a @ b)), a @ b)),
     p_AllocateMemory = (\<lambda>x w. (True, w)), p_FreeMemory = (\<lambda>x w. ((), w)), p_CloneString = (\<lambda>x w. (Some x, w)),
     p_iTraceLevel = (\<lambda>w. uint (fst w)),
     p_CreateCpeController = (\<lambda>w. (True, w)), p_DslhDataModelAgent = (\<lambda>w. True), p_SetFcContext = (\<lambda>c w. ((), w)), p_AddInterface = (\<lambda>x w. ((), w)),
     p_SetDbusHandle = (\<lambda>h w. ((), w)), p_Engage = (\<lambda>w. ((), w)), p_Cancel = (\<lambda>w. ((), w)),
     p_AcquireFunction = (\<lambda>x w. (True, w)), p_RegisterCcspDataModel2 = (\<lambda>c x w. (7, w)),
     p_SetTraceLevel = (\<lambda>v w. ((), (v, snd w))), p_AllocatedSizePeak = (\<lambda>w. 0), p_ComponentMemorySize = (\<lambda>w. (0, w)),
     p_GetParameterValues = (\<lambda>w. ((1, [Some (''Device.IP.Diagnostics.IPPing.'', ''1'')]), w)), p_PrintMemoryTable = (\<lambda>w. ((), w)), p_TraceMemoryTable = (\<lambda>w. ((), w)),
     p_Message_Bus_Init = (\<lambda>c w. ((ANSC_STATUS_SUCCESS, 17), w)), p_SleepInMilliSeconds = (\<lambda>n w. ((), w)),
     p_SetCallback = (\<lambda>c w. ((), w)), p_Register_Event = (\<lambda>e w. (100, w)),
     p_fopen = (\<lambda>f m w. (True, w)), p_ftell_end = (\<lambda>w. (10, w)), p_fread = (\<lambda>n w. (take n ''CUJO-Agent'', w)),
     p_fclose = (\<lambda>w. ((), w)), p_fprintf = (\<lambda>x w. ((), w)), p_malloc = (\<lambda>n w. (True, w)),
     p_fork = (\<lambda>w. (0, w)), p_setsid = (\<lambda>w. (1, w)), p_redirect = (\<lambda>d w. ((), w)), p_signal = (\<lambda>x h w. ((), w)),
     p_open = (\<lambda>f w. (3, w)), p_backtrace = (\<lambda>fd w. ((), w)), p_breakpad = (\<lambda>w. ((), w)), p_check_component_crash = (\<lambda>f w. ((), w)),
     p_creat = (\<lambda>f w. (3, w)), p_sleep = (\<lambda>n w. ((), w)), 
     p_getchar = (\<lambda>w. (if snd w = 2 then 113 else 109, (fst w, snd w + 1)))\<rparr>"

definition demo_sspst :: "demo_tty sspst" where
  "demo_sspst = \<lparr>g_pComponent_Common_Dm = None, pAdvSecCcdIf = None, pAdvSecFcContext = None,
     pDslhCpeController = NULL_PTR, bus_handle = 0, g_MessageBusHandle_Irep = 0, g_SubSysPrefix_Irep = [],
     g_Subsystem = [], g_bActive = False, g_GetParamValueByPathNameProc = False, consoleDebugEnable = False,
     debugLogFile = None, sworld = (0, 0)\<rparr>"

theorem command_line_effect_witness:
  "fst (run_state (parse_args demo_penv [''-subsys'', ''-c''] True) demo_sspst) = Go False
   \<and> g_Subsystem (snd (run_state (parse_args demo_penv [''-subsys'', ''-c''] True) demo_sspst)) = ''-c''"
proof -
  have l: "pstr_law demo_penv" by (simp add: pstr_law_def demo_penv_def)
  have "args_ok [''-subsys'', ''-c'']" by (simp add: args_ok_def subsys_values_simps)
  then show ?thesis
    using command_line_effect [OF l, of "[''-subsys'', ''-c'']" True demo_sspst] by (simp add: subsys_values_simps)
qed

theorem blocklisted_iff_witness: "fst (run_state (isCujoBlocklisted demo_penv) demo_sspst)"
proof -
  have l: "file_law (\<lambda>_. Some ''CUJO-Agent'') True demo_penv" by (simp add: file_law_def demo_penv_def)
  have "c_text ''CUJO-Agent'' = [] @ ''CUJO-Agent'' @ [] \<and> map lower_char ''CUJO-Agent'' = map lower_char ''cujo-agent''"
    by code_simp
  then show ?thesis unfolding blocklisted_iff [OF l] by blast
qed

theorem loaded_component_complete_witness:
  "g_bActive (snd (run_state (cmd_dispatch demo_penv (code (CHR ''e''))) demo_sspst))"
proof -
  have "fst (run_state (cmd_dispatch demo_penv (code (CHR ''e''))) demo_sspst) = Go 0"
    by (simp add: cmd_dispatch_def dispatch_e_def ssp_AdvsecMbi_MessageBusEngage_def ssp_AdvsecMbi_WaitConditionReady_def
        ssp_create_advsec_def create_ccd_def ssp_engage_advsec_def andthen_def demo_penv_def demo_sspst_def)
  moreover have "pAdvSecCcdIf demo_sspst = None" "ANSC_STATUS_RESOURCES demo_penv \<noteq> ANSC_STATUS_SUCCESS"
    by (simp_all add: demo_sspst_def demo_penv_def)
  ultimately show ?thesis
    using loaded_component_complete [of demo_penv demo_sspst] by simp
qed

definition demo_loaded :: "demo_tty sspst" where
  "demo_loaded = demo_sspst\<lparr>g_pComponent_Common_Dm := Some (ComponentCommonDmInit demo_penv (4, 0)),
     pDslhCpeController := LIVE_PTR, g_bActive := True, sworld := (4, 0)\<rparr>"

theorem trace_level_follows_logging_witness:
  "fst (sworld (snd (run_state (run_ops demo_penv [SetLoggingLevel 7, SetLoggingEnabled 0, SetLoggingLevel 8, SetLoggingEnabled 1]) demo_loaded))) = 8"
proof -
  let ?ops = "[SetLoggingLevel 7, SetLoggingEnabled 0, SetLoggingLevel 8, SetLoggingEnabled 1]"
  have a: "\<forall>v w. fst (snd (p_SetTraceLevel demo_penv v w)) = v" by (simp add: demo_penv_def)
  have b: "level_follows fst demo_penv demo_loaded" by (simp add: level_follows_def demo_loaded_def ComponentCommonDmInit_def demo_penv_def)
  have "g_pComponent_Common_Dm (snd (run_state (run_ops demo_penv ?ops) demo_loaded)) =
      Some ((ComponentCommonDmInit demo_penv (4, 0))\<lparr>dm_LogLevel := 8\<rparr>)"
    by (simp add: ssp_AdvSecCCDmSetLoggingLevel_def ssp_AdvSecCCDmSetLoggingEnabled_def andthen_def demo_loaded_def ComponentCommonDmInit_def demo_penv_def)
  then show ?thesis
    using trace_level_follows_logging [OF a b, of ?ops] by (simp add: level_follows_def) (simp add: ComponentCommonDmInit_def)
qed

theorem cancel_from_console_frees_twice_witness:
  "fst (run_state (main_end demo_penv) (snd (run_state (cmd_dispatch demo_penv (code (CHR ''q'')))
     (snd (run_state (cmd_dispatch demo_penv (code (CHR ''c''))) demo_loaded))))) = Undefined"
  using cancel_from_console_frees_twice [of demo_loaded demo_penv] by (simp add: demo_loaded_def)

theorem console_ends_at_q_witness:
  "fst (run_state (console_loop 3 demo_penv 0) demo_sspst) = Some (Go ())
   \<and> fst (run_state (console_loop 2 demo_penv 0) demo_sspst) = None"
proof -
  let ?input = "\<lambda>k::nat. if k = 2 then 113 else 109"
  have l: "typed_law ?input snd demo_penv"
    by (simp add: typed_law_def values_law_def demo_penv_def)
  have i: "\<forall>k. ?input k \<notin> {code (CHR ''e''), code (CHR ''c'')}" and q: "code (CHR ''q'') = 113" and z: "snd (sworld demo_sspst) = 0"
    by (simp_all add: code_def demo_sspst_def)
  show ?thesis
    unfolding console_ends_at_q [OF l i] q z by auto
qed

theorem process_safe_without_cancel_witness:
  "fst (run_state (ssp_main 5 demo_penv [''advsec'', ''-c'', ''-subsys'', ''eRT.'']) demo_sspst) \<noteq> Some Undefined"
  by (rule process_safe_without_cancel) (simp_all add: demo_penv_def code_def agent_law_def values_law_def)

end
