(* ===== verification/Adv_Decode.thy ===== *)
theory Adv_Decode
  imports Adv_Laws
begin

text \<open>
  What the web-configuration path promises: which maps of switches are accepted and what they
  decode to, which documents convert, fail or read through a bad pointer, what is queued and
  how a queued blob is answered, and the stored version of the sub-document.
\<close>

section \<open>The map of switches\<close>

lemma strncmp_numeral [simp]:
  "strncmp_eq (numeral k) (c # cs) (d # ds) =
     (c = d \<and> (c = CHR 0x00 \<or> strncmp_eq (pred_numeral k) cs ds))"
  "strncmp_eq (numeral k) [] (d # ds) = (d = CHR 0x00)"
  "strncmp_eq (numeral k) (c # cs) [] = (c = CHR 0x00)"
  by (simp_all add: numeral_eq_Suc)

text \<open>The two entries the converter waits for, as an abstract state of \<open>objects_left\<close>.\<close>

definition seeks :: "string \<Rightarrow> mp_key \<times> mp_val \<Rightarrow> bool" where
  "seeks name p = (case p of (KEY_STR mem n, MP_BOOLEAN b) \<Rightarrow> key_match (KEY_STR mem n) name | _ \<Rightarrow> False)"

definition left_of :: "bool \<Rightarrow> bool \<Rightarrow> 8 word" where
  "left_of fp pp = (if fp then 0 else 1) + (if pp then 0 else 4)"

lemma left_of_zero [simp]: "left_of fp pp = 0 \<longleftrightarrow> fp \<and> pp"
  by (cases fp; cases pp) (simp_all add: left_of_def)

lemma left_of_pos [simp]: "0 < left_of fp pp \<longleftrightarrow> \<not> (fp \<and> pp)"
  by (simp add: word_gt_0)

lemma clear_left [simp]:
  "clear_bit8 0 (left_of fp pp) = left_of True pp" "clear_bit8 2 (left_of fp pp) = left_of fp True"
  "clear_bit8 (Suc 0) (left_of fp pp) = left_of fp pp"
  "clear_bit8 3 (left_of fp pp) = left_of fp pp" "clear_bit8 4 (left_of fp pp) = left_of fp pp"
  by (cases fp; cases pp; simp add: left_of_def clear_bit8_def)+

lemma five_left: "(5 :: 8 word) = left_of False False"
  by (simp add: left_of_def)

lemma process_pair_left:
  "snd (process_pair p (e, left_of fp pp)) =
     left_of (fp \<or> seeks ''FingerPrintEnable'' p) (pp \<or> seeks ''PrivacyProtectionActivate'' p)"
  by (cases p; cases "fst p"; cases "snd p") (auto simp: process_pair_def seeks_def Let_def)

lemma process_loop_left:
  "snd (process_params_loop m (e, left_of fp pp)) = 0 \<longleftrightarrow>
     (fp \<or> (\<exists>p \<in> set m. seeks ''FingerPrintEnable'' p)) \<and>
     (pp \<or> (\<exists>p \<in> set m. seeks ''PrivacyProtectionActivate'' p))"
proof (induction m arbitrary: e fp pp)
  case Nil
  then show ?case by simp
next
  case (Cons p m)
  obtain e' where p: "process_pair p (e, left_of fp pp) = (e',
      left_of (fp \<or> seeks ''FingerPrintEnable'' p) (pp \<or> seeks ''PrivacyProtectionActivate'' p))"
    using process_pair_left [of p e fp pp] by (metis prod.collapse)
  show ?case
    by (cases "fp \<and> pp") (auto simp: p Cons.IH)
qed

lemma accepts_awaited:
  "fst (process_advsecurityparams e m) = 0 \<longleftrightarrow>
     (\<exists>p \<in> set m. seeks ''FingerPrintEnable'' p) \<and> (\<exists>p \<in> set m. seeks ''PrivacyProtectionActivate'' p)"
  using process_loop_left [of m e False False]
  by (simp add: process_advsecurityparams_def five_left case_prod_beta)

text \<open>C13: A map of switches is accepted exactly when it has a Boolean entry that matches
  FingerPrintEnable and one that matches PrivacyProtectionActivate; the other three switches
  are never required, although the document has five.\<close>

theorem params_accepted_iff:
  "fst (process_advsecurityparams e m) = 0 \<longleftrightarrow>
     (\<exists>p \<in> set m. seeks ''FingerPrintEnable'' p) \<and> (\<exists>p \<in> set m. seeks ''PrivacyProtectionActivate'' p)"
  by (rule accepts_awaited)

lemma process_loop_append:
  "snd (process_params_loop ps eo) = 0 \<Longrightarrow> process_params_loop (ps @ qs) eo = process_params_loop ps eo"
proof (induction ps arbitrary: eo)
  case Nil
  then show ?case by (cases qs) simp_all
next
  case (Cons p ps)
  then show ?case by (simp split: if_splits)
qed

text \<open>As soon as the two required switches have been seen the rest of the map is ignored:
  entries that follow an accepted map do not change what it decodes to, whatever they are.\<close>

lemma params_rest_ignored:
  assumes "fst (process_advsecurityparams e ps) = 0"
  shows "process_advsecurityparams e (ps @ qs) = process_advsecurityparams e ps"
  using assms process_loop_append [of ps "(e, 5)" qs]
  by (simp add: process_advsecurityparams_def case_prod_beta split: if_splits)

definition key :: "string \<Rightarrow> mp_key" where
  "key s = KEY_STR s (length s)"

theorem params_rest_ignored_witness:
  "safebrowsing_enable (snd (process_advsecurityparams param_zero
     ([(key ''FingerPrintEnable'', MP_BOOLEAN True), (key ''PrivacyProtectionActivate'', MP_BOOLEAN True)]
      @ [(key ''SafeBrowsingEnable'', MP_BOOLEAN True)]))) = False"
proof -
  have "fst (process_advsecurityparams param_zero
     [(key ''FingerPrintEnable'', MP_BOOLEAN True), (key ''PrivacyProtectionActivate'', MP_BOOLEAN True)]) = 0"
    by code_simp
  note params_rest_ignored [OF this, of "[(key ''SafeBrowsingEnable'', MP_BOOLEAN True)]"]
  moreover have "safebrowsing_enable (snd (process_advsecurityparams param_zero
     [(key ''FingerPrintEnable'', MP_BOOLEAN True), (key ''PrivacyProtectionActivate'', MP_BOOLEAN True)])) = False"
    by code_simp
  ultimately show ?thesis by simp
qed

text \<open>The switches by the names they have in a message.\<close>

definition switch_names :: "string list" where
  "switch_names = [''FingerPrintEnable'', ''SoftflowdEnable'', ''SafeBrowsingEnable'',
     ''ParentalControlActivate'', ''PrivacyProtectionActivate'']"

definition switch_value :: "advsecurityparam \<Rightarrow> string \<Rightarrow> bool" where
  "switch_value d k = (if k = ''FingerPrintEnable'' then fingerprint_enable d
     else if k = ''SoftflowdEnable'' then softflowd_enable d
     else if k = ''SafeBrowsingEnable'' then safebrowsing_enable d
     else if k = ''ParentalControlActivate'' then parental_control_activate d
     else privacy_protection_activate d)"

text \<open>The switches of \<open>d\<close> in the order \<open>ks\<close>. A key is followed in memory by the rest of the message.\<close>

definition switch_entries :: "(string \<Rightarrow> string) \<Rightarrow> advsecurityparam \<Rightarrow> string list \<Rightarrow> (mp_key \<times> mp_val) list" where
  "switch_entries tail d ks = List.map (\<lambda>k. (KEY_STR (k @ tail k) (length k), MP_BOOLEAN (switch_value d k))) ks"

text \<open>A switch that comes behind both of the awaited ones.\<close>

definition late :: "string list \<Rightarrow> string \<Rightarrow> bool" where
  "late ks k \<longleftrightarrow> (\<exists>ps qs. ks = ps @ k # qs \<and> ''FingerPrintEnable'' \<in> set ps \<and> ''PrivacyProtectionActivate'' \<in> set ps)"

definition late_from :: "bool \<Rightarrow> bool \<Rightarrow> string list \<Rightarrow> string \<Rightarrow> bool" where
  "late_from fp pp ks k \<longleftrightarrow> (\<exists>ps qs. ks = ps @ k # qs \<and> (fp \<or> ''FingerPrintEnable'' \<in> set ps)
     \<and> (pp \<or> ''PrivacyProtectionActivate'' \<in> set ps))"

lemma late_from_Cons:
  assumes "k \<noteq> x"
  shows "late_from fp pp (x # ks) k \<longleftrightarrow> late_from (fp \<or> x = ''FingerPrintEnable'') (pp \<or> x = ''PrivacyProtectionActivate'') ks k"
proof
  assume "late_from fp pp (x # ks) k"
  then obtain ps qs where p: "x # ks = ps @ k # qs" "fp \<or> ''FingerPrintEnable'' \<in> set ps" "pp \<or> ''PrivacyProtectionActivate'' \<in> set ps"
    by (auto simp: late_from_def)
  then obtain ps' where "ps = x # ps'" using assms by (cases ps) auto
  then show "late_from (fp \<or> x = ''FingerPrintEnable'') (pp \<or> x = ''PrivacyProtectionActivate'') ks k"
    using p unfolding late_from_def by (intro exI [of _ ps'] exI [of _ qs]) auto
next
  assume "late_from (fp \<or> x = ''FingerPrintEnable'') (pp \<or> x = ''PrivacyProtectionActivate'') ks k"
  then obtain ps qs where "ks = ps @ k # qs" "fp \<or> x = ''FingerPrintEnable'' \<or> ''FingerPrintEnable'' \<in> set ps"
    "pp \<or> x = ''PrivacyProtectionActivate'' \<or> ''PrivacyProtectionActivate'' \<in> set ps"
    by (auto simp: late_from_def)
  then show "late_from fp pp (x # ks) k"
    unfolding late_from_def by (intro exI [of _ "x # ps"] exI [of _ qs]) auto
qed

lemma late_from_head: "x \<notin> set ks \<Longrightarrow> late_from fp pp (x # ks) x \<longleftrightarrow> fp \<and> pp"
  unfolding late_from_def by (auto simp: Cons_eq_append_conv intro: exI [of _ "[]"])

lemma late_from_stopped: "k \<in> set ks \<Longrightarrow> late_from True True ks k"
  unfolding late_from_def by (metis split_list)

lemma switch_value_upd:
  "k \<in> set switch_names \<Longrightarrow> switch_value (e\<lparr>fingerprint_enable := b\<rparr>) k = (if k = ''FingerPrintEnable'' then b else switch_value e k)"
  "k \<in> set switch_names \<Longrightarrow> switch_value (e\<lparr>softflowd_enable := b\<rparr>) k = (if k = ''SoftflowdEnable'' then b else switch_value e k)"
  "k \<in> set switch_names \<Longrightarrow> switch_value (e\<lparr>safebrowsing_enable := b\<rparr>) k = (if k = ''SafeBrowsingEnable'' then b else switch_value e k)"
  "k \<in> set switch_names \<Longrightarrow> switch_value (e\<lparr>parental_control_activate := b\<rparr>) k = (if k = ''ParentalControlActivate'' then b else switch_value e k)"
  "k \<in> set switch_names \<Longrightarrow> switch_value (e\<lparr>privacy_protection_activate := b\<rparr>) k = (if k = ''PrivacyProtectionActivate'' then b else switch_value e k)"
  by (simp_all add: switch_value_def) (auto simp: switch_names_def)

lemma process_switch:
  assumes "x \<in> set switch_names"
  obtains e' where "process_pair (KEY_STR (x @ tail) (length x), MP_BOOLEAN b) (e, left_of fp pp) =
      (e', left_of (fp \<or> x = ''FingerPrintEnable'') (pp \<or> x = ''PrivacyProtectionActivate''))"
    and "\<forall>k \<in> set switch_names. switch_value e' k = (if k = x then b else switch_value e k)"
proof -
  have "x = ''FingerPrintEnable'' \<or> x = ''SoftflowdEnable'' \<or> x = ''SafeBrowsingEnable'' \<or> x = ''ParentalControlActivate'' \<or> x = ''PrivacyProtectionActivate''"
    using assms by (simp add: switch_names_def)
  then show thesis
  proof (elim disjE)
    assume "x = ''FingerPrintEnable''"
    then show thesis by (intro that [of "e\<lparr>fingerprint_enable := b\<rparr>"]) (simp_all add: process_pair_def switch_value_upd)
  next
    assume "x = ''SoftflowdEnable''"
    then show thesis by (intro that [of "e\<lparr>softflowd_enable := b\<rparr>"]) (simp_all add: process_pair_def switch_value_upd)
  next
    assume "x = ''SafeBrowsingEnable''"
    then show thesis by (intro that [of "e\<lparr>safebrowsing_enable := b\<rparr>"]) (simp_all add: process_pair_def switch_value_upd)
  next
    assume "x = ''ParentalControlActivate''"
    then show thesis by (intro that [of "e\<lparr>parental_control_activate := b\<rparr>"]) (simp_all add: process_pair_def switch_value_upd)
  next
    assume "x = ''PrivacyProtectionActivate''"
    then show thesis by (intro that [of "e\<lparr>privacy_protection_activate := b\<rparr>"]) (simp_all add: process_pair_def switch_value_upd)
  qed
qed

lemma process_switches:
  assumes "distinct ks" "set ks \<subseteq> set switch_names"
  shows "\<forall>k \<in> set switch_names. switch_value (fst (process_params_loop (switch_entries tail d ks) (e, left_of fp pp))) k =
    (if k \<in> set ks \<and> \<not> late_from fp pp ks k then switch_value d k else switch_value e k)"
  using assms
proof (induction ks arbitrary: e fp pp)
  case Nil
  then show ?case by (simp add: switch_entries_def)
next
  case (Cons x ks)
  show ?case
  proof (cases "fp \<and> pp")
    case True
    have "k \<in> set (x # ks) \<Longrightarrow> late_from True True (x # ks) k" for k by (rule late_from_stopped)
    then show ?thesis using True by (auto simp: switch_entries_def)
  next
    case False
    have x: "x \<in> set switch_names" "x \<notin> set ks" "set ks \<subseteq> set switch_names" "distinct ks" using Cons.prems by auto
    obtain e' where p: "process_pair (KEY_STR (x @ tail x) (length x), MP_BOOLEAN (switch_value d x)) (e, left_of fp pp) =
        (e', left_of (fp \<or> x = ''FingerPrintEnable'') (pp \<or> x = ''PrivacyProtectionActivate''))"
      and v: "\<forall>k \<in> set switch_names. switch_value e' k = (if k = x then switch_value d x else switch_value e k)"
      using process_switch [OF x(1)] by blast
    have "process_params_loop (switch_entries tail d (x # ks)) (e, left_of fp pp) =
        process_params_loop (switch_entries tail d ks) (e', left_of (fp \<or> x = ''FingerPrintEnable'') (pp \<or> x = ''PrivacyProtectionActivate''))"
      using False p by (simp add: switch_entries_def)
    then show ?thesis
      using Cons.IH [OF x(4,3), of e' "fp \<or> x = ''FingerPrintEnable''" "pp \<or> x = ''PrivacyProtectionActivate''"] v x(2) False
      by (auto simp: late_from_Cons late_from_head)
  qed
qed

text \<open>Five switches in any order are accepted and read back, but for those that come late.\<close>

lemma params_any_order:
  assumes "distinct ks" "set ks = set switch_names"
  obtains e where "process_advsecurityparams param_zero (switch_entries tail d ks) = (0, e)"
    and "\<forall>k \<in> set switch_names. switch_value e k \<longleftrightarrow> switch_value d k \<and> \<not> late ks k"
proof -
  let ?r = "process_advsecurityparams param_zero (switch_entries tail d ks)"
  have z: "switch_value param_zero k = False" for k by (simp add: switch_value_def param_zero_def)
  have "snd ?r = fst (process_params_loop (switch_entries tail d ks) (param_zero, left_of False False))"
    by (simp add: process_advsecurityparams_def five_left case_prod_beta)
  then have v: "\<forall>k \<in> set switch_names. switch_value (snd ?r) k \<longleftrightarrow> switch_value d k \<and> \<not> late ks k"
    using process_switches [of ks tail d param_zero False False] assms z by (simp add: late_def late_from_def)
  have "''FingerPrintEnable'' \<in> set ks" "''PrivacyProtectionActivate'' \<in> set ks"
    using assms(2) by (simp_all add: switch_names_def)
  then have "\<exists>p \<in> set (switch_entries tail d ks). seeks ''FingerPrintEnable'' p"
    "\<exists>p \<in> set (switch_entries tail d ks). seeks ''PrivacyProtectionActivate'' p"
    by (force simp: switch_entries_def seeks_def)+
  then have "fst ?r = 0" by (simp add: accepts_awaited)
  then show thesis using that [of "snd ?r"] v by (metis prod.collapse)
qed

text \<open>A key that is a proper prefix of a switch name is taken for the switch, and the empty key
  for all five: a map of the empty key alone is accepted, and sets them together.\<close>

lemma params_prefix_keys:
  "process_advsecurityparams param_zero [(KEY_STR mem 0, MP_BOOLEAN b)] =
     (0, \<lparr>fingerprint_enable = b, softflowd_enable = b, safebrowsing_enable = b,
          parental_control_activate = b, privacy_protection_activate = b\<rparr>)
   \<and> snd (process_advsecurityparams param_zero [(KEY_STR (''Soft'' @ mem) 4, MP_BOOLEAN b)]) =
       param_zero\<lparr>softflowd_enable := b\<rparr>"
  by (simp add: process_advsecurityparams_def process_pair_def five_left Let_def param_zero_def)

section \<open>The document\<close>

definition allocs_ok :: "'w wenv \<Rightarrow> bool" where
  "allocs_ok W \<longleftrightarrow> (\<forall>n w. fst (x_alloc W n w))"

text \<open>The buffer unpacks to the map \<open>m\<close>.\<close>

definition unpacks :: "'w wenv \<Rightarrow> string \<Rightarrow> (mp_key \<times> mp_val) list \<Rightarrow> bool" where
  "unpacks W buf m \<longleftrightarrow> buf \<noteq> [] \<and>
     (\<exists>off. off \<noteq> 0 \<and> x_msgpack_unpack_next W buf = ((MSGPACK_UNPACK_SUCCESS, off), MP_MAP m))"

text \<open>What the union of a value holds under its own tag; a string and a binary, a map and an array have the same
  layout, a size and a pointer.\<close>

definition via_law :: "'w wenv \<Rightarrow> bool" where
  "via_law W \<longleftrightarrow> (\<forall>n. x_via_u64 W (MP_UINT n) = n)
     \<and> (\<forall>s. x_via_str W (MP_STR s) = Some s \<and> x_via_str W (MP_BIN s) = Some s)
     \<and> (\<forall>m. x_via_map W (MP_MAP m) = (m, True)) \<and> x_via_map W (MP_ARRAY []) = ([], True)"

text \<open>What a document is: switches under the wrapper, and three more entries. No tag is asked for; what the
  unions give decides.\<close>

definition switches_readable :: "'w wenv \<Rightarrow> mp_val \<Rightarrow> bool" where
  "switches_readable W v \<longleftrightarrow> (case x_via_map W v of (pm, complete) \<Rightarrow> complete \<or>
     (\<exists>p \<in> set pm. seeks ''FingerPrintEnable'' p) \<and> (\<exists>p \<in> set pm. seeks ''PrivacyProtectionActivate'' p))"

definition document_ref :: "'w wenv \<Rightarrow> (mp_key \<times> mp_val) list \<Rightarrow> advsecuritydoc option outcome" where
  "document_ref W m = (case finder_comp ''advsecurity'' T_MAP m of
      None \<Rightarrow> Done (Some doc_zero)
    | Some obj \<Rightarrow> (case (finder_comp ''subdoc_name'' T_MAP m, finder_comp ''version'' T_MAP m,
                        finder_comp ''transaction_id'' T_MAP m) of
          (Some n, Some v, Some t) \<Rightarrow>
            (case (x_via_str W n, process_advsecurityparams param_zero (fst (x_via_map W obj))) of
               (Some nm, (r, e)) \<Rightarrow>
                 (if \<not> switches_readable W obj then Crash
                  else Done (if r = 0
                     then Some \<lparr>param = Some e, subdoc_name = Some (takeWhile (\<lambda>c. c \<noteq> CHR 0x00) nm),
                               version = ucast (x_via_u64 W v), transaction_id = ucast (x_via_u64 W t)\<rparr>
                     else None))
             | _ \<Rightarrow> Crash)
        | _ \<Rightarrow> Crash))"

lemma switches_readable_iff:
  "switches_readable W v \<longleftrightarrow> snd (x_via_map W v) \<or> fst (process_advsecurityparams e (fst (x_via_map W v))) = 0"
  by (simp add: switches_readable_def accepts_awaited case_prod_beta)

lemma convert_is_ref:
  assumes "strcmp_s_law E" "allocs_ok W" "unpacks W buf m"
  shows "fst (run_state (advsecuritydoc_convert E W buf) s) = document_ref W m"
proof -
  obtain off where buf: "buf \<noteq> []" "off \<noteq> 0"
    and u: "x_msgpack_unpack_next W buf = ((MSGPACK_UNPACK_SUCCESS, off), MP_MAP m)"
    using assms(3) by (auto simp: unpacks_def)
  have p: "\<not> strcmp_s_matches E ''parameters'' ''advsecurity''"
    "fst (x_strcmp_s E ''parameters'' (length ''parameters'') ''advsecurity'') = EOK"
    using strcmp_s_matches_iff [OF assms(1), of "''parameters''"] assms(1)
    by (auto simp: strcmp_s_law_def simp del: List.list.size)
  have a: "\<And>n w. fst (x_alloc W n w)" using assms(2) by (simp add: allocs_ok_def)
  show ?thesis
    using buf p
    by (auto simp: advsecuritydoc_convert_def comp_helper_convert_def u a process_advsecuritydoc_def
        document_ref_def doc_zero_def case_prod_beta Let_def switches_readable_iff [of _ _ param_zero]
        simp del: List.list.size split: option.splits)
qed

text \<open>The four entries of a message: every number as an unsigned integer, the switches as a map.\<close>

definition doc_entries :: "(string \<Rightarrow> string) \<Rightarrow> (mp_key \<times> mp_val) list \<Rightarrow> string \<Rightarrow> 32 word \<Rightarrow> 16 word \<Rightarrow> (mp_key \<times> mp_val) list" where
  "doc_entries tail pm nm v t = List.map (\<lambda>(k, x). (KEY_STR (k @ tail k) (length k), x))
     [(''subdoc_name'', MP_STR nm), (''version'', MP_UINT (ucast v)),
      (''transaction_id'', MP_UINT (ucast t)), (''advsecurity'', MP_MAP pm)]"

lemma finder_unique:
  assumes "\<And>mem n v. (KEY_STR mem n, v) \<in> set m \<Longrightarrow>
      (if mp_type_of v = t then key_match (KEY_STR mem n) name else strncmp_eq (length name) mem name) \<Longrightarrow> v = x"
    and "(KEY_STR mem' n', x) \<in> set m"
    and "if mp_type_of x = t then key_match (KEY_STR mem' n') name else strncmp_eq (length name) mem' name"
  shows "finder_comp name t m = Some x"
  using assms
proof (induction m)
  case (Cons p m)
  obtain k v where p: "p = (k, v)" by (cases p)
  show ?case
  proof (cases "\<exists>mem n. k = KEY_STR mem n \<and>
      (if mp_type_of v = t then key_match (KEY_STR mem n) name else strncmp_eq (length name) mem name)")
    case True
    then obtain mem n where k: "k = KEY_STR mem n"
      "if mp_type_of v = t then key_match (KEY_STR mem n) name else strncmp_eq (length name) mem name" by blast
    then have "v = x" using Cons.prems(1) [of mem n v] p by simp
    then show ?thesis using k p by (auto split: if_splits)
  next
    case False
    then have "(KEY_STR mem' n', x) \<in> set m" using Cons.prems(2,3) p by auto
    then have "finder_comp name t m = Some x" using Cons.IH Cons.prems(1,3) by (metis list.set_intros(2))
    then show ?thesis using False p by (cases k) (auto split: if_splits)
  qed
qed simp

lemma doc_entries_found:
  assumes "set m = set (doc_entries tail pm nm v t)"
  shows "finder_comp ''subdoc_name'' T_MAP m = Some (MP_STR nm)"
    "finder_comp ''version'' T_MAP m = Some (MP_UINT (ucast v))"
    "finder_comp ''transaction_id'' T_MAP m = Some (MP_UINT (ucast t))"
    "finder_comp ''advsecurity'' T_MAP m = Some (MP_MAP pm)"
proof -
  show "finder_comp ''subdoc_name'' T_MAP m = Some (MP_STR nm)"
    by (rule finder_unique [where mem' = "''subdoc_name'' @ tail ''subdoc_name''" and n' = "length ''subdoc_name''"])
      (auto simp: assms doc_entries_def)
  show "finder_comp ''version'' T_MAP m = Some (MP_UINT (ucast v))"
    by (rule finder_unique [where mem' = "''version'' @ tail ''version''" and n' = "length ''version''"])
      (auto simp: assms doc_entries_def)
  show "finder_comp ''transaction_id'' T_MAP m = Some (MP_UINT (ucast t))"
    by (rule finder_unique [where mem' = "''transaction_id'' @ tail ''transaction_id''" and n' = "length ''transaction_id''"])
      (auto simp: assms doc_entries_def)
  show "finder_comp ''advsecurity'' T_MAP m = Some (MP_MAP pm)"
    by (rule finder_unique [where mem' = "''advsecurity'' @ tail ''advsecurity''" and n' = "length ''advsecurity''"])
      (auto simp: assms doc_entries_def)
qed

lemma ucast_back: "ucast (ucast (v :: 32 word) :: 64 word) = v" "ucast (ucast (t :: 16 word) :: 64 word) = t"
  by (transfer, simp)+

lemma doc_entries_ref:
  assumes "via_law W" "set m = set (doc_entries tail pm nm v t)" "CHR 0x00 \<notin> set nm"
    and "process_advsecurityparams param_zero pm = (0, e)"
  shows "document_ref W m = Done (Some \<lparr>param = Some e, subdoc_name = Some nm, version = v, transaction_id = t\<rparr>)"
proof -
  have "takeWhile (\<lambda>c. c \<noteq> CHR 0x00) nm = nm"
    using assms(3) by (auto simp: takeWhile_eq_all_conv)
  then show ?thesis
    using assms(1,4) by (simp add: document_ref_def doc_entries_found [OF assms(2)] ucast_back via_law_def switches_readable_def)
qed

text \<open>C8: A document is read back from the wire whatever the order of its entries: with memory for the
  copies and a name without a NUL character, a message whose entries are the name, the version, the
  transaction id and the map of the five switches, in any order and each key followed in memory by any
  bytes, converts to exactly that name, version and id; each switch is read back, but for those that come
  behind both FingerPrintEnable and PrivacyProtectionActivate, which read as off.\<close>

theorem document_roundtrip:
  assumes "strcmp_s_law E" "allocs_ok W" "via_law W" "unpacks W buf m"
    and "set m = set (doc_entries tail (switch_entries tail d ks) nm v t)"
    and "distinct ks" "set ks = set switch_names" "CHR 0x00 \<notin> set nm"
  shows "\<exists>e. fst (run_state (advsecuritydoc_convert E W buf) s) =
      Done (Some \<lparr>param = Some e, subdoc_name = Some nm, version = v, transaction_id = t\<rparr>)
    \<and> (\<forall>k \<in> set switch_names. switch_value e k \<longleftrightarrow> switch_value d k \<and> \<not> late ks k)"
proof -
  obtain e where "process_advsecurityparams param_zero (switch_entries tail d ks) = (0, e)"
    and e: "\<forall>k \<in> set switch_names. switch_value e k \<longleftrightarrow> switch_value d k \<and> \<not> late ks k"
    by (rule params_any_order [OF assms(6,7)])
  then have "document_ref W m = Done (Some \<lparr>param = Some e, subdoc_name = Some nm, version = v, transaction_id = t\<rparr>)"
    by (intro doc_entries_ref [OF assms(3,5,8)])
  then show ?thesis using convert_is_ref [OF assms(1,2,4), of s] e by auto
qed

text \<open>An instance of the web-configuration routines: a buffer unpacks to the map \<open>m\<close>.\<close>

definition demo_wenv :: "(mp_key \<times> mp_val) list \<Rightarrow> demo_world wenv" where
  "demo_wenv m = \<lparr>
     x_alloc = (\<lambda>n w. (True, w)), x_b64_decode = (\<lambda>b. b),
     x_msgpack_unpack = (\<lambda>b. MSGPACK_UNPACK_SUCCESS),
     x_msgpack_unpack_next = (\<lambda>b. ((MSGPACK_UNPACK_SUCCESS, 1), MP_MAP m)),
     x_via_u64 = (\<lambda>v. case v of MP_UINT n \<Rightarrow> n | _ \<Rightarrow> 0),
     x_via_str = (\<lambda>v. case v of MP_STR s \<Rightarrow> Some s | MP_BIN s \<Rightarrow> Some s | _ \<Rightarrow> None),
     x_via_map = (\<lambda>v. case v of MP_MAP p \<Rightarrow> (p, True) | MP_ARRAY [] \<Rightarrow> ([], True) | _ \<Rightarrow> ([], False)),
     x_sprintf_s_u = (\<lambda>n v. if length (nat_digits (unat v)) < n
        then (int (length (nat_digits (unat v))), nat_digits (unat v)) else (- 1, [])),
     x_sprintf_s_version = (\<lambda>n b. if length b + 8 < n then (int (length b + 8), b @ ''_version'') else (- 1, [])),
     x_PushBlobRequest = (\<lambda>x w. ((), w\<lparr>dw_cmds := exec_subdoc_name x # dw_cmds w\<rparr>)),
     SUBDOC_NAME_SIZE = 64 \<rparr>"

lemma demo_wenv_laws:
  "allocs_ok (demo_wenv m)" "via_law (demo_wenv m)" "buf \<noteq> [] \<Longrightarrow> unpacks (demo_wenv m) buf m"
  by (simp_all add: allocs_ok_def unpacks_def via_law_def demo_wenv_def)

text \<open>A message in another order, in which safe browsing comes last.\<close>

definition demo_order :: "string list" where
  "demo_order = [''PrivacyProtectionActivate'', ''ParentalControlActivate'', ''SoftflowdEnable'',
     ''FingerPrintEnable'', ''SafeBrowsingEnable'']"

abbreviation demo_message :: "(mp_key \<times> mp_val) list" where
  "demo_message \<equiv> rev (doc_entries (\<lambda>_. ''rest'') (switch_entries (\<lambda>_. ''rest'') demo_blob demo_order) ''advsecurity'' 7 3)"

theorem document_roundtrip_witness:
  "\<exists>e. fst (run_state (advsecuritydoc_convert demo_env (demo_wenv demo_message) ''blob'') (demo_state agent_zero)) =
     Done (Some \<lparr>param = Some e, subdoc_name = Some ''advsecurity'', version = 7, transaction_id = 3\<rparr>)
   \<and> fingerprint_enable e = fingerprint_enable demo_blob \<and> \<not> safebrowsing_enable e"
proof -
  have "late demo_order ''SafeBrowsingEnable''"
    unfolding late_def demo_order_def by (intro exI [of _ "butlast demo_order"] exI [of _ "[]"]) (simp add: demo_order_def)
  moreover have "\<not> late demo_order ''FingerPrintEnable''"
    by (auto simp: late_def demo_order_def Cons_eq_append_conv)
  moreover have "set demo_order = set switch_names" "distinct demo_order"
    by (auto simp: demo_order_def switch_names_def)
  ultimately show ?thesis
    using document_roundtrip [OF demo_strcmp_law demo_wenv_laws(1,2) demo_wenv_laws(3), of "''blob''" demo_message
        "\<lambda>_. ''rest''" demo_blob demo_order "''advsecurity''" 7 3 "demo_state agent_zero"]
    by (fastforce simp: switch_names_def switch_value_def)
qed

section \<open>Receiving a blob\<close>

text \<open>A call that writes nothing but the outside world.\<close>

definition world_only :: "('w, 'a) adv \<Rightarrow> bool" where
  "world_only m \<longleftrightarrow> (\<forall>s. \<exists>w. snd (run_state m s) = s\<lparr>world := w\<rparr>)"

named_theorems world_only_rules

lemma world_only_return [world_only_rules]: "world_only (return x)"
proof (unfold world_only_def, rule)
  show "\<exists>w. snd (run_state (return x) s) = s\<lparr>world := w\<rparr>" for s :: "'c advst"
    by (rule exI [of _ "world s"]) simp
qed

lemma world_only_call [world_only_rules]: "world_only (call f)"
  by (auto simp: world_only_def)

lemma world_only_bind [world_only_rules]:
  assumes "world_only m" "\<And>x. world_only (f x)"
  shows "world_only (m \<bind> f)"
  unfolding world_only_def
proof
  fix s
  obtain w where "snd (run_state m s) = s\<lparr>world := w\<rparr>"
    using assms(1) by (auto simp: world_only_def)
  moreover obtain w' where "snd (run_state (f (fst (run_state m s))) (s\<lparr>world := w\<rparr>)) = s\<lparr>world := w\<rparr>\<lparr>world := w'\<rparr>"
    using assms(2) unfolding world_only_def by blast
  ultimately show "\<exists>w. snd (run_state (m \<bind> f) s) = s\<lparr>world := w\<rparr>"
    by (auto simp: case_prod_beta)
qed

lemma world_only_if [world_only_rules]:
  "world_only m \<Longrightarrow> world_only n \<Longrightarrow> world_only (if b then m else n)"
  by simp

lemma world_only_option [world_only_rules]:
  "world_only m \<Longrightarrow> (\<And>x. world_only (f x)) \<Longrightarrow> world_only (case v of None \<Rightarrow> m | Some x \<Rightarrow> f x)"
  by (cases v) simp_all

lemma world_only_prod [world_only_rules]:
  "(\<And>x y. world_only (f x y)) \<Longrightarrow> world_only (case p of (x, y) \<Rightarrow> f x y)"
  by (cases p) simp

lemma world_only_list [world_only_rules]:
  "world_only m \<Longrightarrow> (\<And>x xs. world_only (f x xs)) \<Longrightarrow> world_only (case l of [] \<Rightarrow> m | x # xs \<Rightarrow> f x xs)"
  by (cases l) simp_all

lemma world_only_map [world_only_rules]:
  "(\<And>m. world_only (f m)) \<Longrightarrow> world_only g \<Longrightarrow> world_only (case v of MP_MAP m \<Rightarrow> f m | _ \<Rightarrow> g)"
  by (cases v) simp_all

lemma world_only_convert: "world_only (advsecuritydoc_convert E W buf)"
  unfolding advsecuritydoc_convert_def comp_helper_convert_def process_advsecuritydoc_def Let_def
  by (intro world_only_rules)

lemma convert_runs:
  assumes "strcmp_s_law E" "allocs_ok W" "unpacks W buf m"
  obtains w where "run_state (advsecuritydoc_convert E W buf) s = (document_ref W m, s\<lparr>world := w\<rparr>)"
  using convert_is_ref [OF assms, of s] world_only_convert [of E W buf] unfolding world_only_def
  by (metis prod.collapse)

text \<open>What the decoding of a map reads is there: the wrapper with switches that can be read until the two
  awaited ones were seen, a name that can be read as a string, a version and a transaction id.\<close>

definition readable :: "'w wenv \<Rightarrow> (mp_key \<times> mp_val) list \<Rightarrow> bool" where
  "readable W m \<longleftrightarrow> (\<exists>obj. finder_comp ''advsecurity'' T_MAP m = Some obj \<and> switches_readable W obj) \<and>
     (\<exists>n. finder_comp ''subdoc_name'' T_MAP m = Some n \<and> x_via_str W n \<noteq> None) \<and>
     finder_comp ''version'' T_MAP m \<noteq> None \<and> finder_comp ''transaction_id'' T_MAP m \<noteq> None"

text \<open>All entries there and of the types the protocol gives them.\<close>

definition well_formed :: "(mp_key \<times> mp_val) list \<Rightarrow> bool" where
  "well_formed m \<longleftrightarrow> (\<exists>pm. finder_comp ''advsecurity'' T_MAP m = Some (MP_MAP pm)) \<and>
     (\<exists>nm. finder_comp ''subdoc_name'' T_MAP m = Some (MP_STR nm)) \<and>
     finder_comp ''version'' T_MAP m \<noteq> None \<and> finder_comp ''transaction_id'' T_MAP m \<noteq> None"

lemma well_formed_readable: "via_law W \<Longrightarrow> well_formed m \<Longrightarrow> readable W m"
  by (auto simp: well_formed_def readable_def via_law_def switches_readable_def)

lemma document_ref_cases:
  "(\<not> readable W m \<and> (document_ref W m = Crash \<or> document_ref W m = Done (Some doc_zero))) \<or>
   (readable W m \<and> (document_ref W m = Done None \<or>
      (\<exists>d e nm. document_ref W m = Done (Some d) \<and> param d = Some e \<and> subdoc_name d = Some nm)))"
  by (auto simp: document_ref_def readable_def case_prod_beta split: option.splits)

text \<open>C5: Which messages bring the process down: with memory available, the set handler of the data-model
  parameter Data reads through a bad pointer on a message that unpacks to a map exactly when the wrapper, the
  name, the version or the transaction id is missing, or when the memory does not hold what the decoding
  reads without asking for a type: the value of the name as a string, and the value of the wrapper as a map, up
  to the two switches the decoding waits for. A message whose wrapper is a map and whose name is a string is
  none of them. A message without the wrapper, which the converter treats as optional, is one.\<close>

theorem data_set_crash_iff:
  assumes "strcmp_s_law E" "allocs_ok W"
    and "x_msgpack_unpack W (x_b64_decode W b) = MSGPACK_UNPACK_SUCCESS" "unpacks W (x_b64_decode W b) m"
  shows "(fst (run_state (AdvancedSecurity_SetParamStringValue E W (Some ''Data'') b) s) = Crash \<longleftrightarrow> \<not> readable W m)
    \<and> (via_law W \<and> well_formed m \<longrightarrow>
        fst (run_state (AdvancedSecurity_SetParamStringValue E W (Some ''Data'') b) s) \<noteq> Crash)"
proof -
  have a: "\<And>n w. fst (x_alloc W n w)" using assms(2) by (simp add: allocs_ok_def)
  have d: "strcmp_s_matches E ''Data'' ''Data''" using strcmp_s_matches_iff [OF assms(1)] by blast
  let ?s = "s\<lparr>world := snd (x_alloc W ''decodeMsg'' (world s))\<rparr>"
  obtain w where c: "run_state (advsecuritydoc_convert E W (x_b64_decode W b)) ?s
      = (document_ref W m, ?s\<lparr>world := w\<rparr>)"
    by (rule convert_runs [OF assms(1,2,4)])
  have "fst (run_state (AdvancedSecurity_SetParamStringValue E W (Some ''Data'') b) s) = Crash \<longleftrightarrow> \<not> readable W m"
    using document_ref_cases [of W m] assms(3)
    by (auto simp: AdvancedSecurity_SetParamStringValue_def a d c doc_zero_def case_prod_beta split: if_splits)
  then show ?thesis using well_formed_readable [of W m] by blast
qed

text \<open>A message whose wrapper holds a number, and one whose wrapper is an empty array.\<close>

theorem data_set_crash_iff_witness:
  "fst (run_state (AdvancedSecurity_SetParamStringValue demo_env
      (demo_wenv [(key ''advsecurity'', MP_UINT 1), (key ''subdoc_name'', MP_STR ''advsecurity''),
         (key ''version'', MP_UINT 1), (key ''transaction_id'', MP_UINT 1)]) (Some ''Data'') ''blob'') (demo_state agent_zero)) = Crash
   \<and> fst (run_state (AdvancedSecurity_SetParamStringValue demo_env
      (demo_wenv [(key ''advsecurity'', MP_ARRAY []), (key ''subdoc_name'', MP_BIN ''advsecurity''),
         (key ''version'', MP_UINT 1), (key ''transaction_id'', MP_UINT 1)]) (Some ''Data'') ''blob'') (demo_state agent_zero)) \<noteq> Crash"
proof -
  let ?m = "\<lambda>w n. [(key ''advsecurity'', w), (key ''subdoc_name'', n), (key ''version'', MP_UINT 1), (key ''transaction_id'', MP_UINT 1)]"
  have "\<not> readable (demo_wenv (?m (MP_UINT 1) (MP_STR ''advsecurity''))) (?m (MP_UINT 1) (MP_STR ''advsecurity''))"
    by (simp add: readable_def key_def switches_readable_def) (simp add: demo_wenv_def)
  moreover have "readable (demo_wenv (?m (MP_ARRAY []) (MP_BIN ''advsecurity''))) (?m (MP_ARRAY []) (MP_BIN ''advsecurity''))"
    by (simp add: readable_def key_def switches_readable_def) (simp add: demo_wenv_def)
  moreover have "x_msgpack_unpack (demo_wenv m) (x_b64_decode (demo_wenv m) ''blob'') = MSGPACK_UNPACK_SUCCESS"
    "unpacks (demo_wenv m) (x_b64_decode (demo_wenv m) ''blob'') m" for m
    by (simp_all add: demo_wenv_def unpacks_def)
  ultimately show ?thesis
    using data_set_crash_iff [THEN conjunct1, OF demo_strcmp_law demo_wenv_laws(1)] by blast
qed

text \<open>Setting Data to a message that converts to a document queues exactly that document, under its name,
  version and transaction id, as one entry, answers TRUE, and leaves the agent for the callback
  to change.\<close>

lemma data_set_queues:
  assumes "strcmp_s_law E" "strcpy_s_law E" "allocs_ok W"
    and "x_msgpack_unpack W (x_b64_decode W b) = MSGPACK_UNPACK_SUCCESS" "unpacks W (x_b64_decode W b) m"
    and "document_ref W m = Done (Some \<lparr>param = Some d, subdoc_name = Some nm, version = v, transaction_id = t\<rparr>)"
    and "length nm < SUBDOC_NAME_SIZE W"
  shows "\<exists>w. run_state (AdvancedSecurity_SetParamStringValue E W (Some ''Data'') b) s =
     (Done TRUE, s\<lparr>world := snd (x_PushBlobRequest W
        \<lparr>txid = t, exec_version = v, numOfEntries = 1, exec_subdoc_name = nm,
         user_data = \<lparr>param = Some d, subdoc_name = Some nm, version = v, transaction_id = t\<rparr>\<rparr> w)\<rparr>)"
proof -
  have a: "\<And>n w. fst (x_alloc W n w)" using assms(3) by (simp add: allocs_ok_def)
  have m: "strcmp_s_matches E ''Data'' ''Data''" using strcmp_s_matches_iff [OF assms(1)] by blast
  let ?s = "s\<lparr>world := snd (x_alloc W ''decodeMsg'' (world s))\<rparr>"
  obtain w where c: "run_state (advsecuritydoc_convert E W (x_b64_decode W b)) ?s
      = (Done (Some \<lparr>param = Some d, subdoc_name = Some nm, version = v, transaction_id = t\<rparr>), ?s\<lparr>world := w\<rparr>)"
    using convert_runs [OF assms(1,3,5)] unfolding assms(6) by blast
  have cp: "x_strcpy_s E (SUBDOC_NAME_SIZE W) nm = (EOK, nm)"
    using assms(2,7) by (simp add: strcpy_s_law_def)
  show ?thesis
    by (rule exI [of _ "snd (x_alloc W ''execData'' w)"])
      (simp add: AdvancedSecurity_SetParamStringValue_def a m c cp assms(4) case_prod_beta)
qed

section \<open>Executing a queued blob\<close>

lemma handle_blob_codes:
  "fst (run_state (advsec_webconfig_handle_blob E f) s) \<in> {BLOB_EXEC_SUCCESS, ADVSEC_FAILURE, SYSCFG_FAILURE}"
  by (auto simp: advsec_webconfig_handle_blob_def case_prod_beta)

lemma handle_blob_refusal:
  assumes "run_state (advsec_webconfig_handle_blob E f) s = (ADVSEC_FAILURE, s')"
  shows "s' = s"
  using assms handle_blob_not_refused [of f s E] handle_blob_refused [of f s E]
  by (cases "fingerprint_enable f \<or> bEnable (agent s) \<noteq> 0") auto

text \<open>C12: The answer to a queued blob is truthful: success means that the blob named this
  sub-document and that the agent's five switches are now the ones it carries, the message telling
  whether fingerprinting is on; an answer that refuses the blob means that the agent is untouched.\<close>

theorem blob_answer_truthful:
  assumes "strcmp_s_law E"
    and "run_state (advsec_webconfig_process_request E W data) s = (Some (code, msg), s')"
  shows "(code = BLOB_EXEC_SUCCESS \<longrightarrow> (\<exists>d p. data = Some d \<and> subdoc_name d = Some ''advsecurity'' \<and> param d = Some p
      \<and> sb_of (agent s') = of_bool8 (safebrowsing_enable p) \<and> sf_of (agent s') = of_bool8 (softflowd_enable p)
      \<and> apc_of (agent s') = of_bool8 (parental_control_activate p)
      \<and> pp_of (agent s') = of_bool8 (privacy_protection_activate p)
      \<and> bEnable (agent s') = of_bool8 (fingerprint_enable p)
      \<and> msg = (if fingerprint_enable p then ''enabled'' else ''disabled'')))
    \<and> (code \<in> {SUBDOC_NOT_SUPPORTED, NULL_BLOB_EXEC_POINTER, ADVSEC_FAILURE} \<longrightarrow> agent s' = agent s \<and> msg = [])"
proof -
  let ?s = "s\<lparr>world := snd (x_alloc W ''Err'' (world s))\<rparr>"
  have ok: "fst (x_alloc W ''Err'' (world s))"
    using assms(2) by (auto simp: advsec_webconfig_process_request_def split: if_splits)
  consider (null) "data = None \<or> (\<exists>d. data = Some d \<and> (subdoc_name d = None \<or> param d = None))"
    | (doc) d nm p where "data = Some d" "subdoc_name d = Some nm" "param d = Some p"
    by (cases data; metis option.exhaust)
  then show ?thesis
  proof cases
    case null
    then show ?thesis
      using assms(2) ok by (auto simp: advsec_webconfig_process_request_def split: option.splits)
  next
    case doc
    obtain r s1 where r: "run_state (advsec_webconfig_handle_blob E p) ?s = (r, s1)"
      by fastforce
    have "nm = ''advsecurity'' \<Longrightarrow> s1 = s' \<and> code = r
        \<and> msg = (if r = BLOB_EXEC_SUCCESS then if fingerprint_enable p then ''enabled'' else ''disabled'' else [])"
      using assms(2) ok doc r strcmp_s_matches_iff [OF assms(1), of "''advsecurity''" nm]
      by (auto simp: advsec_webconfig_process_request_def split: if_splits)
    moreover have "nm \<noteq> ''advsecurity'' \<Longrightarrow> code = SUBDOC_NOT_SUPPORTED \<and> s' = ?s \<and> msg = []"
      using assms(2) ok doc strcmp_s_matches_iff [OF assms(1), of "''advsecurity''" nm]
      by (auto simp: advsec_webconfig_process_request_def split: if_splits)
    moreover have "r \<in> {BLOB_EXEC_SUCCESS, ADVSEC_FAILURE, SYSCFG_FAILURE}"
      using handle_blob_codes [of E p ?s] r by simp
    ultimately show ?thesis
      using doc r blob_success [of E p ?s s1] handle_blob_refusal [of E p ?s s1]
      by (cases "nm = ''advsecurity''") auto
  qed
qed

definition demo_doc :: advsecuritydoc where
  "demo_doc = \<lparr>param = Some demo_blob, subdoc_name = Some ''advsecurity'', version = 7, transaction_id = 3\<rparr>"

theorem blob_answer_truthful_witness:
  "\<exists>s'. run_state (advsec_webconfig_process_request demo_env (demo_wenv []) (Some demo_doc)) (demo_state agent_zero)
      = (Some (BLOB_EXEC_SUCCESS, ''enabled''), s') \<and> sb_of (agent s') = TRUE"
proof -
  have f: "fst (run_state (advsec_webconfig_process_request demo_env (demo_wenv []) (Some demo_doc))
      (demo_state agent_zero)) = Some (BLOB_EXEC_SUCCESS, ''enabled'')" by code_simp
  then have run: "run_state (advsec_webconfig_process_request demo_env (demo_wenv []) (Some demo_doc)) (demo_state agent_zero) =
     (Some (BLOB_EXEC_SUCCESS, ''enabled''), snd (run_state (advsec_webconfig_process_request demo_env (demo_wenv [])
        (Some demo_doc)) (demo_state agent_zero)))"
    by (simp add: prod_eq_iff)
  show ?thesis
    by (intro exI conjI, rule run) (use blob_answer_truthful [OF demo_strcmp_law run] in \<open>simp add: demo_doc_def demo_blob_def\<close>)
qed

section \<open>The version of the sub-document\<close>

definition version_law :: "'w wenv \<Rightarrow> bool" where
  "version_law W \<longleftrightarrow> (\<forall>n v. length (nat_digits (unat v)) < n \<longrightarrow>
     x_sprintf_s_u W n v = (int (length (nat_digits (unat v))), nat_digits (unat v)))"

lemma nat_digits_u32_length: "length (nat_digits (unat (v :: 32 word))) \<le> 10"
proof -
  have "unat v < 2 ^ 32" using unsigned_less [of v] by simp
  also have "(2::nat) ^ 32 < 10 ^ 10" by simp
  finally show ?thesis by (intro length_nat_digits) simp_all
qed

text \<open>The version the framework stores for a sub-document is the one it reads back, for every
  32-bit version and every sub-document whose key fits its buffer.\<close>

lemma blobversion_roundtrip:
  assumes "syscfg_law E cfg" "version_law W"
    and "run_state (advsec_webconfig_set_blobversion E W subdoc ver) s = (0, s')"
  shows "fst (run_state (advsec_webconfig_get_blobversion E W subdoc) s') = ver"
proof -
  let ?d = "nat_digits (unat ver)"
  have len: "length ?d < 64" using nat_digits_u32_length [of ver] by simp
  then have pr: "x_sprintf_s_u W 64 ver = (int (length ?d), ?d)"
    using assms(2) by (simp add: version_law_def)
  obtain rc key where key: "x_sprintf_s_version W 72 subdoc = (rc, key)" by fastforce
  have set_ok: "\<not> rc < 0" "fst (x_syscfg_set E key ?d (world s)) = 0"
    "world s' = snd (x_syscfg_commit E (snd (x_syscfg_set E key ?d (world s))))"
    using assms(3) by (auto simp: advsec_webconfig_set_blobversion_def pr key case_prod_beta split: if_splits)
  have "cfg (world s') key = Some ?d"
    using syscfg_set_cfg [OF assms(1), of key ?d "world s"] syscfg_commit_cfg [OF assms(1)] set_ok
    by (metis (no_types, lifting) fun_upd_same prod.collapse)
  then have "fst (x_syscfg_get E key 64 (world s')) = (0, ?d)"
    by (rule syscfg_get_Some [OF assms(1) _ len])
  moreover have "unat ver < 2 ^ 32" using unsigned_less [of ver] by simp
  then have "unat ver < 2 ^ 64" by simp
  ultimately show ?thesis
    using set_ok(1) strtoul_nat_digits [of "unat ver"]
    by (simp add: advsec_webconfig_get_blobversion_def key case_prod_beta ucast_back)
qed

theorem blobversion_roundtrip_witness:
  "\<exists>s'. run_state (advsec_webconfig_set_blobversion demo_env (demo_wenv []) ''advsecurity'' 42) (demo_state agent_zero) = (0, s')
     \<and> fst (run_state (advsec_webconfig_get_blobversion demo_env (demo_wenv []) ''advsecurity'') s') = 42"
proof -
  have v: "version_law (demo_wenv [])" by (simp add: version_law_def demo_wenv_def)
  have "fst (run_state (advsec_webconfig_set_blobversion demo_env (demo_wenv []) ''advsecurity'' 42) (demo_state agent_zero)) = 0"
    by code_simp
  then have run: "run_state (advsec_webconfig_set_blobversion demo_env (demo_wenv []) ''advsecurity'' 42) (demo_state agent_zero)
     = (0, snd (run_state (advsec_webconfig_set_blobversion demo_env (demo_wenv []) ''advsecurity'' 42) (demo_state agent_zero)))"
    by (simp add: prod_eq_iff)
  show ?thesis
    by (intro exI conjI, rule run) (rule blobversion_roundtrip [OF demo_syscfg_law v run])
qed

text \<open>The message for an error number is unknown exactly for the numbers other than 0, 1, 2, 4
  and 5: the missing wrapper, number 3, which the decoder reports, has none.\<close>

lemma strerror_unknown_iff:
  "advsecuritydoc_strerror n = ''Unknown error.'' \<longleftrightarrow> n \<notin> {0, 1, 2, 4, 5}"
  by (simp add: advsecuritydoc_strerror_def error_map_def)

end
