(* ===== verification/Adv_Dcl.thy ===== *)
theory Adv_Dcl
  imports Adv_Wp
begin

text \<open>
  The data-collection library (\<open>cujoagent_dcl_api.h\<close>, first part of \<open>cujoagent_dcl_api.c\<close>): the
  consumer object, the routines of the environment, and the building blocks every thread uses:
  directories and the socket, event descriptors, the queue, the message to the agent.
  What is declared in headers outside the repository (the fingerprint protocol, OneWifi, rbus)
  appears by the constants and fields the library names; sizes of its structures are parameters.
\<close>

section \<open>Types of the library\<close>

type_synonym byte = "8 word"
type_synonym uint = "32 word"
type_synonym mac_address_t = "byte \<times> byte \<times> byte \<times> byte \<times> byte \<times> byte"
type_synonym addr = string

datatype cujoagent_notify_t =
    NOTIFY_NONE
  | NOTIFY_WEBCONFIG_INIT_READY
  | NOTIFY_RADIO_DATA_READY
  | NOTIFY_RADIO_DATA_SENT
  | NOTIFY_STATION_DATA_READY
  | NOTIFY_STATION_DATA_SENT
  | NOTIFY_BATCH_DATA_READY
  | NOTIFY_BATCH_DATA_SENT
  | NOTIFY_CSI_CFO_READY
  | NOTIFY_CSI_CFO_SENT
  | NOTIFY_TEMPERATURE_READY
  | NOTIFY_TEMPERATURE_SENT
  | NOTIFY_L1_COLLECTION_DONE_READY
  | NOTIFY_L1_COLLECTION_DONE_SENT
  | NOTIFY_SOCKET_THREAD_STOP
  | NOTIFY_SOCKET_THREAD_RETURN
  | NOTIFY_L1_COLLECTION_THREAD_STOP
  | NOTIFY_L1_COLLECTION_THREAD_RETURN
  | NOTIFY_FIFO_THREAD_STOP
  | NOTIFY_FIFO_THREAD_RETURN

text \<open>The numbers C gives the enumerators, as written to a 64-bit event descriptor.\<close>

fun notify_code :: "cujoagent_notify_t \<Rightarrow> 64 word" where
  "notify_code NOTIFY_NONE = 0"
| "notify_code NOTIFY_WEBCONFIG_INIT_READY = 1"
| "notify_code NOTIFY_RADIO_DATA_READY = 2"
| "notify_code NOTIFY_RADIO_DATA_SENT = 3"
| "notify_code NOTIFY_STATION_DATA_READY = 4"
| "notify_code NOTIFY_STATION_DATA_SENT = 5"
| "notify_code NOTIFY_BATCH_DATA_READY = 6"
| "notify_code NOTIFY_BATCH_DATA_SENT = 7"
| "notify_code NOTIFY_CSI_CFO_READY = 8"
| "notify_code NOTIFY_CSI_CFO_SENT = 9"
| "notify_code NOTIFY_TEMPERATURE_READY = 10"
| "notify_code NOTIFY_TEMPERATURE_SENT = 11"
| "notify_code NOTIFY_L1_COLLECTION_DONE_READY = 12"
| "notify_code NOTIFY_L1_COLLECTION_DONE_SENT = 13"
| "notify_code NOTIFY_SOCKET_THREAD_STOP = 14"
| "notify_code NOTIFY_SOCKET_THREAD_RETURN = 15"
| "notify_code NOTIFY_L1_COLLECTION_THREAD_STOP = 16"
| "notify_code NOTIFY_L1_COLLECTION_THREAD_RETURN = 17"
| "notify_code NOTIFY_FIFO_THREAD_STOP = 18"
| "notify_code NOTIFY_FIFO_THREAD_RETURN = 19"

lemma notify_code_inj: "inj notify_code"
proof (rule injI)
  fix a b assume "notify_code a = notify_code b"
  then show "a = b" by (cases a; cases b; simp)
qed

lemma notify_code_eq [simp]: "notify_code a = notify_code b \<longleftrightarrow> a = b"
  using notify_code_inj by (rule inj_eq)

text \<open>The tags of the protocol the library names; any other tag is the last case.\<close>

datatype cujo_fpc_tag_list =
    CUJO_FPC_HELLO
  | CUJO_FPC_PROTOCOL_VERSION
  | CUJO_FPC_WIFI_RADIO_UPDATE_EVENT
  | CUJO_FPC_WIFI_STATION_UPDATE_EVENT
  | CUJO_FPC_WIFI_DATA_BATCH_EVENT
  | CUJO_FPC_CSI_AND_CFO_DATA_EVENT
  | CUJO_FPC_TEMPERATURE_DATA_EVENT
  | CUJO_FPC_L1_COLLECTION_START
  | CUJO_FPC_L1_COLLECTION_DONE
  | CUJO_FPC_OTHER nat

record cujoagent_tlv_notify_lut_t =
  event_tag :: cujo_fpc_tag_list
  notify_ready :: cujoagent_notify_t
  notify_sent :: cujoagent_notify_t

datatype cujoagent_consumer_event_type_t =
    consumer_event_type_webconfig
  | consumer_event_type_mgmt_frame
  | consumer_event_type_l1
  | consumer_event_type_temperature

datatype cujoagent_consumer_event_subtype_t =
    consumer_event_webconfig_init
  | consumer_event_webconfig_set_data
  | consumer_event_webconfig_get_data
  | consumer_event_probe_req
  | consumer_event_auth
  | consumer_event_assoc_req
  | consumer_event_reassoc_req
  | consumer_event_l1_csi_data
  | consumer_event_l1_done
  | consumer_event_radio_temperature

section \<open>Types of the protocol and of OneWifi\<close>

datatype client_state_t =
  client_state_connected | client_state_disconnected | client_state_other nat

datatype wifi_freq_bands_t =
    WIFI_FREQUENCY_2_4_BAND | WIFI_FREQUENCY_5_BAND | WIFI_FREQUENCY_5L_BAND
  | WIFI_FREQUENCY_5H_BAND | WIFI_FREQUENCY_6_BAND | WIFI_FREQUENCY_60_BAND
  | WIFI_FREQUENCY_OTHER nat

datatype cujo_event_type = CUJO_FPC_CONNECT | CUJO_FPC_DISCONNECT
datatype cujo_freq = CUJO_FPC_WIFI_FREQ_2_4 | CUJO_FPC_WIFI_FREQ_5 | CUJO_FPC_WIFI_FREQ_6
datatype cujo_mode = CUJO_FPC_WIFI_MODE_AUTO

record l1_collection_start =
  start_vap_index :: uint
  start_mac :: mac_address_t
  timeout_secs :: uint
  temperature_interval_secs :: uint
  max_csi_readings :: uint

record l1_collection_done =
  done_vap_index :: uint
  done_mac :: mac_address_t

record assoc_station_info_t =
  info_mac :: mac_address_t
  info_if_name :: string
  info_operating_mode :: cujo_mode

record station_event =
  se_event_type :: "cujo_event_type option"
  se_timestamp_ms :: "64 word"
  se_vap_index :: uint
  se_essid :: string
  se_essid_length :: nat
  assoc_station_count :: uint
  assoc_station_info :: "assoc_station_info_t list"

record radio_event =
  re_event_type :: "cujo_event_type option"
  re_timestamp_ms :: "64 word"
  re_if_name :: string
  re_vap_index :: uint
  re_freq_band :: "cujo_freq option"
  re_channel :: uint
  re_operating_mode :: cujo_mode
  re_bssid :: mac_address_t
  re_essid :: string
  re_essid_length :: nat
  re_station_mac :: mac_address_t
  station_update_event_count :: nat

record wifi_pcap =
  pcap_ts :: "nat \<times> nat"
  pcap_caplen :: uint
  pcap_len :: uint
  has_radiotap_header :: bool
  pcap_data :: "byte list"

record data_batch_event =
  be_timestamp_ms :: "64 word"
  be_vap_index :: uint
  be_mac :: mac_address_t
  wifi_captures_count :: nat
  wifi_captures :: "wifi_pcap option"

record csi_and_cfo_event =
  ce_vap_index :: uint
  ce_mac :: mac_address_t
  csi_count :: nat
  csi_rssi :: "int list"
  csi_reading :: "byte list"

record temperature_event =
  te_timestamp_ms :: "64 word"
  temperatures_count :: uint
  temperatures :: "uint list"

datatype fpc_data =
    FPC_VERSION nat nat
  | FPC_RADIO radio_event
  | FPC_STATION station_event
  | FPC_BATCH data_batch_event
  | FPC_CSI csi_and_cfo_event
  | FPC_TEMPERATURE temperature_event
  | FPC_DONE l1_collection_done

text \<open>A message to the agent; the length field has 16 bits.\<close>

record cujo_fpc_tlv =
  tlv_tag :: cujo_fpc_tag_list
  tlv_len :: "16 word"
  tlv_data :: fpc_data

record assoc_dev_data_t =
  cli_MACAddress :: mac_address_t
  client_state :: client_state_t

record wifi_interface_name_idex_map_t =
  iface_index :: nat
  rdk_radio_index :: nat
  interface_name :: string
  bridge_name :: string

record wifi_platform_property_t =
  numRadios :: nat
  interface_map :: "wifi_interface_name_idex_map_t list"

record wifi_vap_info_t =
  vi_vap_index :: uint
  vi_ssid :: string
  vi_bssid :: mac_address_t

text \<open>A map of associated devices (type \<open>'m\<close>) may be absent.\<close>

record 'm rdk_wifi_vap_info_t =
  rdk_vap_index :: nat
  associated_devices_map :: "'m option"
  associated_devices_diff_map :: "'m option"
  acl_map :: "'m option"

record 'm rdk_wifi_radio_t =
  oper_band :: wifi_freq_bands_t
  oper_channel :: uint
  num_vaps :: nat
  vap_array :: "nat \<Rightarrow> wifi_vap_info_t"
  rdk_vap_array :: "nat \<Rightarrow> 'm rdk_wifi_vap_info_t"

datatype wifi_mgmt_frame_type_t =
    WIFI_MGMT_FRAME_TYPE_PROBE_REQ | WIFI_MGMT_FRAME_TYPE_AUTH
  | WIFI_MGMT_FRAME_TYPE_ASSOC_REQ | WIFI_MGMT_FRAME_TYPE_REASSOC_REQ
  | WIFI_MGMT_FRAME_TYPE_OTHER nat

text \<open>A management frame as it arrives: the metadata, and the bytes behind it.\<close>

record frame_data_t =
  frame_type :: wifi_mgmt_frame_type_t
  frame_len :: nat
  frame_ap_index :: nat
  frame_sta_mac :: mac_address_t
  frame_data :: "byte list"

record radio_temperature_context_t =
  radio_index :: nat
  temperature :: uint

datatype consumer_msg =
    MSG_DOC string
  | MSG_FRAME frame_data_t
  | MSG_CSI "byte list"
  | MSG_DONE l1_collection_done
  | MSG_TEMPERATURE radio_temperature_context_t

record cujoagent_wifi_consumer_event_t =
  event_type :: cujoagent_consumer_event_type_t
  event_subtype :: cujoagent_consumer_event_subtype_t
  ev_msg :: consumer_msg

record l1_collector =
  notification :: int
  notification_ack :: int
  timer :: int
  l1_start :: l1_collection_start

text \<open>A subscription: its name, its interval, and which handler it calls.\<close>

datatype dcl_handler = HANDLE_WEBCONFIG | HANDLE_UNSUPPORTED | HANDLE_FRAME_EVENTS | HANDLE_RADIO_TEMPERATURE

record rbusEventSubscription_t =
  eventName :: string
  sub_interval :: uint
  sub_handler :: dcl_handler

abbreviation "DCL_MAX_CSI_CLIENTS \<equiv> 1 :: nat"

text \<open>The fields of \<open>struct consumer\<close>, the descriptors, the subscriptions and the two contexts as
  records of their own.\<close>

record consumer_fds =
  sock_fd :: int
  fifo_fd :: int
  misc_epoll :: int
  misc_notification :: int
  queue_epoll :: int
  comms_epoll :: int
  comms_notification :: int
  comms_notification_ack :: int
  fifo_epoll :: int
  fifo_notification :: int
  fifo_notification_ack :: int

text \<open>A pointer to an array is None when it is NULL; an entry of a subscription array is None while
  its \<open>eventName\<close> is NULL.\<close>

record consumer_subs =
  vap_subs_count :: nat
  vap_subs_indexes :: "nat list option"
  subscriptions :: "rbusEventSubscription_t option list option"
  raw_data_subscriptions :: "rbusEventSubscription_t option list option"
  on_demand_subscriptions :: "rbusEventSubscription_t option list option"

text \<open>\<open>data_size\<close> is the length of \<open>temperature_data\<close>.\<close>

record temperature_collection_context_t =
  temperature_data :: "uint list option"
  collected_count :: uint

record tlv_context_t =
  ctx_tlv :: "cujo_fpc_tlv option"
  ctx_size :: nat

record 'm wifi_structs =
  config :: "byte list"
  wifi_prop :: wifi_platform_property_t
  radios :: "nat \<Rightarrow> 'm rdk_wifi_radio_t"

record 'm consumer =
  queue :: "cujoagent_wifi_consumer_event_t list option"
  queue_wakeup :: bool
  wifi :: "'m wifi_structs"
  rbus_handle :: bool
  subs :: consumer_subs
  fds :: consumer_fds
  disable_l1_collection :: bool
  l1_collections :: "l1_collector option list"
  tcollect_ctx :: temperature_collection_context_t
  comms_ready :: bool
  tlv_ctx :: tlv_context_t
  tlv_notify_lut :: "cujoagent_tlv_notify_lut_t list"
  exit_consumer :: bool

text \<open>The document of a web configuration, decoded.\<close>

datatype assoclist_notifier_t = assoclist_notifier_full | assoclist_notifier_diff | assoclist_notifier_other nat

record 'm decoded_data =
  dec_config :: "byte list"
  dec_num_radios :: nat
  dec_prop :: wifi_platform_property_t
  dec_radios :: "nat \<Rightarrow> 'm rdk_wifi_radio_t"
  dec_notifier_type :: assoclist_notifier_t
  dec_associated_clients :: bool   \<comment> \<open>the type is \<open>webconfig_subdoc_type_associated_clients\<close>\<close>

record ('m, 'w) dclst =
  consumer :: "'m consumer"
  dworld :: 'w

end
