(* ===== verification/Adv_Dcl_Core.thy ===== *)
theory Adv_Dcl_Core
  imports Adv_Dcl
begin

text \<open>
  The building blocks of the data-collection library (\<open>cujoagent_dcl_api.c\<close> up to
  \<open>cujoagent_emit_event_tlv\<close>): directories and the socket, descriptors, the queue, the handshake and
  the message to the agent. The operating system is the record \<open>denv\<close>. A routine that blocks
  (\<open>epoll_wait\<close>, the receive of the handshake) may change the whole state, since the other threads
  run meanwhile; every other routine changes the world only.
\<close>

section \<open>Environment\<close>

abbreviation "MAX_SOCK_RECV_BUFFER \<equiv> 1024 :: nat"

record ('m, 'w) denv =
  \<comment> \<open>layout of the protocol\<close>
  TLV_SIZE :: nat            \<comment> \<open>\<open>sizeof(struct cujo_fpc_tlv)\<close>\<close>
  VERSION_SIZE :: nat
  SUN_PATH :: nat
  tlv_header :: "byte list \<Rightarrow> cujo_fpc_tag_list \<times> 16 word"
  \<comment> \<open>the queue of the platform\<close>
  queue_push :: "cujoagent_wifi_consumer_event_t list \<Rightarrow> cujoagent_wifi_consumer_event_t
    \<Rightarrow> cujoagent_wifi_consumer_event_t list"
  queue_pop :: "cujoagent_wifi_consumer_event_t list
    \<Rightarrow> cujoagent_wifi_consumer_event_t \<times> cujoagent_wifi_consumer_event_t list"
  \<comment> \<open>routines\<close>
  d_malloc :: "string \<Rightarrow> 'w \<Rightarrow> bool \<times> 'w"
  d_free :: "string \<Rightarrow> 'w \<Rightarrow> unit \<times> 'w"
  d_sysconf :: "'w \<Rightarrow> int \<times> 'w"
  d_getgrnam_r :: "string \<Rightarrow> int \<Rightarrow> 'w \<Rightarrow> (int \<times> uint option) \<times> 'w"
  d_mkdir :: "string \<Rightarrow> nat \<Rightarrow> 'w \<Rightarrow> int \<times> 'w"             \<comment> \<open>0, or \<open>errno\<close>\<close>
  d_chown :: "string \<Rightarrow> uint \<Rightarrow> 'w \<Rightarrow> int \<times> 'w"
  d_umask :: "nat \<Rightarrow> 'w \<Rightarrow> nat \<times> 'w"
  d_socket :: "'w \<Rightarrow> int \<times> 'w"
  d_remove :: "string \<Rightarrow> 'w \<Rightarrow> int \<times> 'w"                  \<comment> \<open>0, or \<open>errno\<close>\<close>
  d_bind :: "int \<Rightarrow> string \<Rightarrow> 'w \<Rightarrow> int \<times> 'w"
  d_open :: "string \<Rightarrow> 'w \<Rightarrow> int \<times> 'w"
  d_epoll_create :: "'w \<Rightarrow> int \<times> 'w"
  d_eventfd :: "'w \<Rightarrow> int \<times> 'w"
  d_epoll_add :: "int \<Rightarrow> int \<Rightarrow> 'w \<Rightarrow> int \<times> 'w"
  d_epoll_del :: "int \<Rightarrow> int \<Rightarrow> 'w \<Rightarrow> int \<times> 'w"
  d_close :: "int \<Rightarrow> 'w \<Rightarrow> unit \<times> 'w"
  d_write_fd :: "int \<Rightarrow> 64 word \<Rightarrow> 'w \<Rightarrow> bool \<times> 'w"
  d_read_fd :: "int \<Rightarrow> 'w \<Rightarrow> 64 word option \<times> 'w"
  d_sendto :: "int \<Rightarrow> cujo_fpc_tlv \<Rightarrow> nat \<Rightarrow> addr \<Rightarrow> 'w \<Rightarrow> bool \<times> 'w"
  d_webconfig_init :: "'w \<Rightarrow> int \<times> 'w"
  d_rbus_close :: "'w \<Rightarrow> unit \<times> 'w"
  \<comment> \<open>routines that block\<close>
  d_epoll_wait :: "int \<Rightarrow> int \<Rightarrow> ('m, 'w) dclst \<Rightarrow> (int \<times> bool) list option \<times> ('m, 'w) dclst"
  d_recvfrom :: "int \<Rightarrow> ('m, 'w) dclst \<Rightarrow> (byte list \<times> addr) option \<times> ('m, 'w) dclst"

type_synonym ('m, 'w, 'a) dcl = "(('m, 'w) dclst, 'a) state"

definition dcall :: "('w \<Rightarrow> 'r \<times> 'w) \<Rightarrow> ('m, 'w, 'r) dcl" where
  "dcall f = State (\<lambda>s. case f (dworld s) of (r, w') \<Rightarrow> (r, s\<lparr>dworld := w'\<rparr>))"

definition block :: "(('m, 'w) dclst \<Rightarrow> 'r \<times> ('m, 'w) dclst) \<Rightarrow> ('m, 'w, 'r) dcl" where
  "block f = State f"

definition consumer_get :: "('m consumer \<Rightarrow> 'a) \<Rightarrow> ('m, 'w, 'a) dcl" where
  "consumer_get f = gets (\<lambda>s. f (consumer s))"

definition upd_consumer :: "('m consumer \<Rightarrow> 'm consumer) \<Rightarrow> ('m, 'w, unit) dcl" where
  "upd_consumer f = modify (\<lambda>s. s\<lparr>consumer := f (consumer s)\<rparr>)"

lemma run_state_dcall [simp]:
  "run_state (dcall f) s = (fst (f (dworld s)), s\<lparr>dworld := snd (f (dworld s))\<rparr>)"
  by (simp add: dcall_def case_prod_beta)

lemma run_state_block [simp]: "run_state (block f) s = f s"
  by (simp add: block_def)

lemma run_state_consumer_get [simp]: "run_state (consumer_get f) s = (f (consumer s), s)"
  by (simp add: consumer_get_def)

lemma run_state_upd_consumer [simp]:
  "run_state (upd_consumer f) s = ((), s\<lparr>consumer := f (consumer s)\<rparr>)"
  by (simp add: upd_consumer_def)

section \<open>Directories and the socket\<close>

abbreviation "GID_NONE \<equiv> - 1 :: uint"
abbreviation "EEXIST \<equiv> 17 :: int"
abbreviation "ENOENT \<equiv> 2 :: int"

definition cujoagent_get_group_id :: "('m, 'w) denv \<Rightarrow> string option \<Rightarrow> ('m, 'w, uint) dcl" where
  "cujoagent_get_group_id D group_name = (case group_name of
      None \<Rightarrow> return GID_NONE
    | Some name \<Rightarrow>
        if name = [] then return GID_NONE
        else do {
          sc \<leftarrow> dcall (d_sysconf D);
          let bufsize = (if sc = - 1 then 1024 else sc);
          buf \<leftarrow> dcall (d_malloc D ''buf'');
          if \<not> buf then return GID_NONE
          else do {
            (ret, result) \<leftarrow> dcall (d_getgrnam_r D name bufsize);
            return (case result of None \<Rightarrow> GID_NONE | Some gid \<Rightarrow> if ret \<noteq> 0 then GID_NONE else gid)
          }
        })"

definition cujoagent_dir_component :: "('m, 'w) denv \<Rightarrow> string \<Rightarrow> nat \<Rightarrow> uint \<Rightarrow> ('m, 'w, int) dcl" where
  "cujoagent_dir_component D path mode group_id =
     (if path = [] then return (- 1)
      else do {
        r \<leftarrow> dcall (d_mkdir D path mode);
        if r = 0
        then do {
          c \<leftarrow> dcall (d_chown D path group_id);
          return (if c \<noteq> 0 then - 1 else 0)
        }
        else return (if r \<noteq> EEXIST then - 1 else 0)
      })"

text \<open>The loop over the characters: \<open>pre\<close> is what lies before \<open>p\<close>.\<close>

fun mkdir_loop :: "('m, 'w) denv \<Rightarrow> nat \<Rightarrow> uint \<Rightarrow> string \<Rightarrow> string \<Rightarrow> ('m, 'w, int) dcl" where
  "mkdir_loop D mode gid pre [] = return 0"
| "mkdir_loop D mode gid pre (c # cs) =
     (if c = CHR ''/'' \<and> pre \<noteq> []
      then do {
        result \<leftarrow> cujoagent_dir_component D pre mode gid;
        if result \<noteq> 0 then return result else mkdir_loop D mode gid (pre @ [c]) cs
      }
      else mkdir_loop D mode gid (pre @ [c]) cs)"

definition strip_slash :: "string \<Rightarrow> string" where
  "strip_slash path = (if length path > 1 \<and> last path = CHR ''/'' then butlast path else path)"

definition cujoagent_mkdir_parents :: "('m, 'w) denv \<Rightarrow> string \<Rightarrow> nat \<Rightarrow> uint \<Rightarrow> ('m, 'w, int) dcl" where
  "cujoagent_mkdir_parents D path mode gid =
     (if path = [] then return (- 1)
      else do {
        dup \<leftarrow> dcall (d_malloc D ''subpath'');
        if \<not> dup then return (- 1)
        else do {
          let subpath = strip_slash path;
          orig_umask \<leftarrow> dcall (d_umask D 0);
          r \<leftarrow> mkdir_loop D mode gid [] subpath;
          result \<leftarrow> (if r \<noteq> 0 then return r else cujoagent_dir_component D subpath mode gid);
          _ \<leftarrow> dcall (d_umask D orig_umask);
          return result
        }
      })"

definition CCSP_CUJOAGENT_SOCK_PATH :: string where
  "CCSP_CUJOAGENT_SOCK_PATH = ''/tmp/cujo/wifi.sock''"

text \<open>\<open>dirname\<close> of a path with a component behind its last slash.\<close>

definition dirname :: "string \<Rightarrow> string" where
  "dirname path = rev (drop 1 (dropWhile (\<lambda>c. c \<noteq> CHR ''/'') (rev path)))"

text \<open>The modes are \<open>S_IRWXU | S_IRWXG | S_IROTH | S_IXOTH\<close>, octal 775, and the mask
  \<open>S_IRWXO | S_IXGRP | S_IXUSR\<close>, octal 117.\<close>

definition set_sock_fd :: "int \<Rightarrow> ('m, 'w, unit) dcl" where
  "set_sock_fd fd = upd_consumer (fds_update (sock_fd_update (\<lambda>_. fd)))"

definition cujoagent_socket_init :: "('m, 'w) denv \<Rightarrow> ('m, 'w, int) dcl" where
  "cujoagent_socket_init D = do {
     _ \<leftarrow> set_sock_fd (- 1);
     group_id \<leftarrow> cujoagent_get_group_id D (Some ''_cujo'');
     if group_id = GID_NONE then return (- 1)
     else do {
       dup \<leftarrow> dcall (d_malloc D ''socket_path'');
       if \<not> dup then return (- 1)
       else do {
         socket_dir \<leftarrow> cujoagent_mkdir_parents D (dirname CCSP_CUJOAGENT_SOCK_PATH) 509 group_id;
         if socket_dir \<noteq> 0 then return (- 1)
         else do {
           fd \<leftarrow> dcall (d_socket D);
           _ \<leftarrow> set_sock_fd fd;
           if fd = - 1 then return (- 1)
           else do {
             rm \<leftarrow> dcall (d_remove D CCSP_CUJOAGENT_SOCK_PATH);
             if rm \<noteq> 0 \<and> rm \<noteq> ENOENT then return (- 1)
             else if length CCSP_CUJOAGENT_SOCK_PATH \<ge> SUN_PATH D then return (- 1)
             else do {
               orig_umask \<leftarrow> dcall (d_umask D 79);
               b \<leftarrow> dcall (d_bind D fd CCSP_CUJOAGENT_SOCK_PATH);
               _ \<leftarrow> dcall (d_umask D orig_umask);
               if b = - 1 then return (- 1)
               else do {
                 c \<leftarrow> dcall (d_chown D CCSP_CUJOAGENT_SOCK_PATH group_id);
                 return (if c = - 1 then - 1 else 0)
               }
             }
           }
         }
       }
     }
   }"

section \<open>Event descriptors\<close>

type_synonym fdref = "(consumer_fds \<Rightarrow> int) \<times> ((int \<Rightarrow> int) \<Rightarrow> consumer_fds \<Rightarrow> consumer_fds)"

text \<open>\<open>*fds[i] = create()\<close> for each until one fails.\<close>

fun create_fds :: "('w \<Rightarrow> int \<times> 'w) \<Rightarrow> fdref list \<Rightarrow> ('m, 'w, int) dcl" where
  "create_fds mk [] = return 0"
| "create_fds mk (r # rs) = do {
     fd \<leftarrow> dcall mk;
     _ \<leftarrow> upd_consumer (fds_update (snd r (\<lambda>_. fd)));
     if fd = - 1 then return (- 1) else create_fds mk rs
   }"

definition epoll_refs :: "fdref list" where
  "epoll_refs = [(misc_epoll, misc_epoll_update), (queue_epoll, queue_epoll_update),
     (comms_epoll, comms_epoll_update), (fifo_epoll, fifo_epoll_update)]"

definition eventfd_refs :: "fdref list" where
  "eventfd_refs = [(misc_notification, misc_notification_update),
     (comms_notification, comms_notification_update),
     (comms_notification_ack, comms_notification_ack_update),
     (fifo_notification, fifo_notification_update),
     (fifo_notification_ack, fifo_notification_ack_update)]"

definition cujoagent_notify_events_init :: "('m, 'w) denv \<Rightarrow> ('m, 'w, int) dcl" where
  "cujoagent_notify_events_init D = do {
     r \<leftarrow> create_fds (d_epoll_create D) epoll_refs;
     if r \<noteq> 0 then return (- 1) else create_fds (d_eventfd D) eventfd_refs
   }"

fun epoll_add_all :: "('m, 'w) denv \<Rightarrow> (int \<times> int) list \<Rightarrow> ('m, 'w, int) dcl" where
  "epoll_add_all D [] = return 0"
| "epoll_add_all D ((ep, fd) # r) = do {
     e \<leftarrow> dcall (d_epoll_add D ep fd);
     if e \<noteq> 0 then return (- 1) else epoll_add_all D r
   }"

definition cujoagent_set_consumer_epoll_lists :: "('m, 'w) denv \<Rightarrow> ('m, 'w, int) dcl" where
  "cujoagent_set_consumer_epoll_lists D = do {
     f \<leftarrow> consumer_get fds;
     epoll_add_all D [(comms_epoll f, sock_fd f), (comms_epoll f, comms_notification f),
       (fifo_epoll f, fifo_fd f), (fifo_epoll f, fifo_notification f),
       (queue_epoll f, comms_notification_ack f), (queue_epoll f, fifo_notification_ack f)]
   }"

section \<open>The consumer object\<close>

definition fds_zero :: consumer_fds where
  "fds_zero = \<lparr>sock_fd = 0, fifo_fd = 0, misc_epoll = 0, misc_notification = 0, queue_epoll = 0,
     comms_epoll = 0, comms_notification = 0, comms_notification_ack = 0, fifo_epoll = 0,
     fifo_notification = 0, fifo_notification_ack = 0\<rparr>"

definition mac_zero :: mac_address_t where
  "mac_zero = (0, 0, 0, 0, 0, 0)"

definition radio_zero :: "'m rdk_wifi_radio_t" where
  "radio_zero = \<lparr>oper_band = WIFI_FREQUENCY_OTHER 0, oper_channel = 0, num_vaps = 0,
     vap_array = (\<lambda>_. \<lparr>vi_vap_index = 0, vi_ssid = [], vi_bssid = mac_zero\<rparr>),
     rdk_vap_array = (\<lambda>_. \<lparr>rdk_vap_index = 0, associated_devices_map = None, associated_devices_diff_map = None,
       acl_map = None\<rparr>)\<rparr>"

definition consumer_zero :: "'m consumer" where
  "consumer_zero = \<lparr>queue = None, queue_wakeup = False,
     wifi = \<lparr>config = [], wifi_prop = \<lparr>numRadios = 0, interface_map = []\<rparr>, radios = (\<lambda>_. radio_zero)\<rparr>,
     rbus_handle = False,
     subs = \<lparr>vap_subs_count = 0, vap_subs_indexes = None, subscriptions = None,
       raw_data_subscriptions = None, on_demand_subscriptions = None\<rparr>,
     fds = fds_zero, disable_l1_collection = False,
     l1_collections = replicate DCL_MAX_CSI_CLIENTS None,
     tcollect_ctx = \<lparr>temperature_data = None, collected_count = 0\<rparr>,
     comms_ready = False, tlv_ctx = \<lparr>ctx_tlv = None, ctx_size = 0\<rparr>, tlv_notify_lut = [],
     exit_consumer = False\<rparr>"

definition tlv_notify_lut_filler :: "cujoagent_tlv_notify_lut_t list" where
  "tlv_notify_lut_filler = [
     \<lparr>event_tag = CUJO_FPC_WIFI_RADIO_UPDATE_EVENT, notify_ready = NOTIFY_RADIO_DATA_READY, notify_sent = NOTIFY_RADIO_DATA_SENT\<rparr>,
     \<lparr>event_tag = CUJO_FPC_WIFI_STATION_UPDATE_EVENT, notify_ready = NOTIFY_STATION_DATA_READY, notify_sent = NOTIFY_STATION_DATA_SENT\<rparr>,
     \<lparr>event_tag = CUJO_FPC_WIFI_DATA_BATCH_EVENT, notify_ready = NOTIFY_BATCH_DATA_READY, notify_sent = NOTIFY_BATCH_DATA_SENT\<rparr>,
     \<lparr>event_tag = CUJO_FPC_CSI_AND_CFO_DATA_EVENT, notify_ready = NOTIFY_CSI_CFO_READY, notify_sent = NOTIFY_CSI_CFO_SENT\<rparr>,
     \<lparr>event_tag = CUJO_FPC_TEMPERATURE_DATA_EVENT, notify_ready = NOTIFY_TEMPERATURE_READY, notify_sent = NOTIFY_TEMPERATURE_SENT\<rparr>,
     \<lparr>event_tag = CUJO_FPC_L1_COLLECTION_DONE, notify_ready = NOTIFY_L1_COLLECTION_DONE_READY, notify_sent = NOTIFY_L1_COLLECTION_DONE_SENT\<rparr>]"

definition cujoagent_consumer_init :: "('m, 'w) denv \<Rightarrow> ('m, 'w, int) dcl" where
  "cujoagent_consumer_init D = do {
     _ \<leftarrow> upd_consumer (\<lambda>_. consumer_zero);
     q \<leftarrow> dcall (d_malloc D ''queue'');
     if \<not> q then return (- 1)
     else do {
       _ \<leftarrow> upd_consumer (\<lambda>c. c\<lparr>queue := Some [], queue_wakeup := False, tlv_notify_lut := tlv_notify_lut_filler\<rparr>);
       w \<leftarrow> dcall (d_webconfig_init D);
       if w \<noteq> 0 then return (- 1)
       else do {
         so \<leftarrow> cujoagent_socket_init D;
         if so \<noteq> 0 then return (- 1)
         else do {
           ff \<leftarrow> dcall (d_open D ''/tmp/csi_levl_pipe'');
           _ \<leftarrow> upd_consumer (fds_update (fifo_fd_update (\<lambda>_. ff)));
           if ff = - 1 then return (- 1)
           else do {
             n \<leftarrow> cujoagent_notify_events_init D;
             if n \<noteq> 0 then return (- 1)
             else do {
               l \<leftarrow> cujoagent_set_consumer_epoll_lists D;
               if l \<noteq> 0 then return (- 1)
               else do {
                 _ \<leftarrow> upd_consumer (\<lambda>c. c\<lparr>disable_l1_collection := False, comms_ready := False, exit_consumer := False\<rparr>);
                 return 0
               }
             }
           }
         }
       }
     }
   }"

definition cujoagent_close_if_valid :: "('m, 'w) denv \<Rightarrow> fdref \<Rightarrow> ('m, 'w, unit) dcl" where
  "cujoagent_close_if_valid D r = do {
     fd \<leftarrow> consumer_get (\<lambda>c. fst r (fds c));
     if fd \<ge> 0
     then do {
       _ \<leftarrow> dcall (d_close D fd);
       upd_consumer (fds_update (snd r (\<lambda>_. - 1)))
     }
     else return ()
   }"

fun close_all :: "('m, 'w) denv \<Rightarrow> fdref list \<Rightarrow> ('m, 'w, unit) dcl" where
  "close_all D [] = return ()"
| "close_all D (r # rs) = do { _ \<leftarrow> cujoagent_close_if_valid D r; close_all D rs }"

definition close_order :: "fdref list" where
  "close_order = eventfd_refs @ [(misc_epoll, misc_epoll_update), (comms_epoll, comms_epoll_update),
     (fifo_epoll, fifo_epoll_update), (queue_epoll, queue_epoll_update)]"

definition cujoagent_close_event_fds :: "('m, 'w) denv \<Rightarrow> ('m, 'w, unit) dcl" where
  "cujoagent_close_event_fds D = close_all D close_order"

abbreviation "sock_ref \<equiv> (sock_fd, sock_fd_update) :: fdref"
abbreviation "fifo_ref \<equiv> (fifo_fd, fifo_fd_update) :: fdref"

fun free_names :: "('m, 'w) denv \<Rightarrow> rbusEventSubscription_t option list \<Rightarrow> ('m, 'w, unit) dcl" where
  "free_names D [] = return ()"
| "free_names D (x # xs) = do {
     _ \<leftarrow> (if x \<noteq> None then dcall (d_free D ''eventName'') else return ());
     free_names D xs
   }"

definition free_subscriptions :: "('m, 'w) denv \<Rightarrow> string \<Rightarrow> rbusEventSubscription_t option list option \<Rightarrow> ('m, 'w, unit) dcl" where
  "free_subscriptions D name p = (case p of
      None \<Rightarrow> return ()
    | Some xs \<Rightarrow> do { _ \<leftarrow> free_names D xs; dcall (d_free D name) })"

text \<open>\<open>free(NULL)\<close> does nothing.\<close>

definition free_ptr :: "('m, 'w) denv \<Rightarrow> string \<Rightarrow> 'a option \<Rightarrow> ('m, 'w, unit) dcl" where
  "free_ptr D name p = (case p of None \<Rightarrow> return () | Some _ \<Rightarrow> dcall (d_free D name))"

definition cujoagent_consumer_deinit :: "('m, 'w) denv \<Rightarrow> ('m, 'w, unit) dcl" where
  "cujoagent_consumer_deinit D = do {
     q \<leftarrow> consumer_get queue;
     _ \<leftarrow> free_ptr D ''queue'' q;
     h \<leftarrow> consumer_get rbus_handle;
     _ \<leftarrow> (if h then dcall (d_rbus_close D) else return ());
     sb \<leftarrow> consumer_get subs;
     _ \<leftarrow> free_ptr D ''vap_subs_indexes'' (vap_subs_indexes sb);
     _ \<leftarrow> free_subscriptions D ''subscriptions'' (subscriptions sb);
     _ \<leftarrow> free_subscriptions D ''raw_data_subscriptions'' (raw_data_subscriptions sb);
     _ \<leftarrow> free_subscriptions D ''on_demand_subscriptions'' (on_demand_subscriptions sb);
     t \<leftarrow> consumer_get (\<lambda>c. temperature_data (tcollect_ctx c));
     _ \<leftarrow> free_ptr D ''temperature_data'' t;
     _ \<leftarrow> cujoagent_close_if_valid D sock_ref;
     _ \<leftarrow> cujoagent_close_if_valid D fifo_ref;
     cujoagent_close_event_fds D
   }"

end
