(* ===== verification/Adv_Dcl_Msg.thy ===== *)
theory Adv_Dcl_Msg
  imports Adv_Dcl_Core
begin

text \<open>
  Messages of the data-collection library: notifications over event descriptors, the handshake with
  the agent, the consumer queue, and \<open>cujoagent_emit_event_tlv\<close>, which hands a message to the
  socket thread and waits for its acknowledgement.
\<close>

section \<open>Notifications\<close>

definition cujoagent_write_event :: "('m, 'w) denv \<Rightarrow> int \<Rightarrow> cujoagent_notify_t \<Rightarrow> ('m, 'w, int) dcl" where
  "cujoagent_write_event D fd notify = do {
     ok \<leftarrow> dcall (d_write_fd D fd (notify_code notify));
     return (if ok then 0 else - 1)
   }"

text \<open>The loop over the descriptors that became ready, each with its \<open>EPOLLIN\<close> bit; \<open>n\<close> is their number.\<close>

fun wait_events :: "('m, 'w) denv \<Rightarrow> cujoagent_notify_t \<Rightarrow> int \<Rightarrow> (int \<times> bool) list \<Rightarrow> ('m, 'w, int) dcl" where
  "wait_events D notify n [] = return n"
| "wait_events D notify n ((efd, epollin) # r) =
     (if \<not> epollin then return (- 1)
      else do {
        u \<leftarrow> dcall (d_read_fd D efd);
        case u of
          None \<Rightarrow> return (- 1)
        | Some v \<Rightarrow> if v \<noteq> notify_code notify then return (- 1) else wait_events D notify n r
      })"

definition EPOLL_TIMEOUT_MS :: int where
  "EPOLL_TIMEOUT_MS = 100"

definition cujoagent_wait_for_event ::
    "('m, 'w) denv \<Rightarrow> int \<Rightarrow> cujoagent_notify_t \<Rightarrow> int \<Rightarrow> ('m, 'w, int) dcl" where
  "cujoagent_wait_for_event D epoll_fd notify timeout_ms = do {
     events \<leftarrow> block (d_epoll_wait D epoll_fd timeout_ms);
     case events of
       None \<Rightarrow> return (- 1)
     | Some es \<Rightarrow> wait_events D notify (int (length es)) es
   }"

section \<open>The handshake\<close>

definition cujoagent_send_version_tlv :: "('m, 'w) denv \<Rightarrow> int \<Rightarrow> addr \<Rightarrow> ('m, 'w, int) dcl" where
  "cujoagent_send_version_tlv D fd paddr = do {
     ok \<leftarrow> dcall (d_malloc D ''ver_tlv'');
     if \<not> ok then return (- 1)
     else do {
       sent \<leftarrow> dcall (d_sendto D fd
         \<lparr>tlv_tag = CUJO_FPC_PROTOCOL_VERSION, tlv_len = of_nat (VERSION_SIZE D), tlv_data = FPC_VERSION 2 0\<rparr>
         (TLV_SIZE D + VERSION_SIZE D) paddr);
       return (if sent then 0 else - 1)
     }
   }"

text \<open>What a receive leaves in the buffer: a datagram shorter than the buffer keeps its tail.\<close>

definition recv_into :: "byte list \<Rightarrow> byte list \<Rightarrow> byte list" where
  "recv_into buf bs = take (length buf) (bs @ drop (length bs) buf)"

text \<open>The fuel is the number of datagrams followed: None says that it still waits for a hello.
  Otherwise the answer, the buffer and the address of the peer.\<close>

fun cujoagent_tlv_handshake ::
    "nat \<Rightarrow> ('m, 'w) denv \<Rightarrow> int \<Rightarrow> byte list \<Rightarrow> addr \<Rightarrow> ('m, 'w, (int \<times> byte list \<times> addr) option) dcl" where
  "cujoagent_tlv_handshake 0 D fd buf paddr = return None"
| "cujoagent_tlv_handshake (Suc n) D fd buf paddr = do {
     r \<leftarrow> block (d_recvfrom D fd);
     case r of
       None \<Rightarrow> return (Some (- 1, buf, paddr))
     | Some (bs, from) \<Rightarrow> do {
         let buf' = recv_into buf bs;
         if fst (tlv_header D buf') \<noteq> CUJO_FPC_HELLO
         then cujoagent_tlv_handshake n D fd buf' from
         else do {
           v \<leftarrow> cujoagent_send_version_tlv D fd from;
           return (Some (if v = - 1 then - 1 else 0, buf', from))
         }
       }
   }"

section \<open>The queue\<close>

definition cujoagent_push_to_consumer_queue ::
    "('m, 'w) denv \<Rightarrow> consumer_msg \<Rightarrow> cujoagent_consumer_event_type_t
      \<Rightarrow> cujoagent_consumer_event_subtype_t \<Rightarrow> ('m, 'w, int) dcl" where
  "cujoagent_push_to_consumer_queue D m t subtype = do {
     d \<leftarrow> dcall (d_malloc D ''data'');
     if \<not> d then return (- 1)
     else do {
       msg \<leftarrow> dcall (d_malloc D ''msg'');
       if \<not> msg then return (- 1)
       else do {
         _ \<leftarrow> upd_consumer (\<lambda>c. c\<lparr>queue := map_option
                (\<lambda>q. queue_push D q \<lparr>event_type = t, event_subtype = subtype, ev_msg = m\<rparr>) (queue c),
              queue_wakeup := True\<rparr>);
         return 0
       }
     }
   }"

section \<open>Addresses as text\<close>

definition hex_digit :: "nat \<Rightarrow> char" where
  "hex_digit d = (if d < 10 then char_of (48 + d) else char_of (87 + d))"

definition hex2 :: "byte \<Rightarrow> string" where
  "hex2 b = [hex_digit (unat b div 16), hex_digit (unat b mod 16)]"

abbreviation "MAX_MAC_STR_LEN \<equiv> 17 :: nat"

definition mac_str :: "mac_address_t \<Rightarrow> string" where
  "mac_str mac = (case mac of (a, b, c, d, e, f) \<Rightarrow>
     hex2 a @ '':'' @ hex2 b @ '':'' @ hex2 c @ '':'' @ hex2 d @ '':'' @ hex2 e @ '':'' @ hex2 f)"

definition cujoagent_bytes_to_mac_str :: "mac_address_t \<Rightarrow> string option" where
  "cujoagent_bytes_to_mac_str mac =
     (if length (mac_str mac) \<ge> MAX_MAC_STR_LEN + 1 then None else Some (mac_str mac))"

section \<open>Sending an event\<close>

text \<open>The first row of the table with the tag, as the pair of notifications.\<close>

fun lut_find :: "cujo_fpc_tag_list \<Rightarrow> cujoagent_tlv_notify_lut_t list \<Rightarrow> cujoagent_notify_t \<times> cujoagent_notify_t" where
  "lut_find tag [] = (NOTIFY_NONE, NOTIFY_NONE)"
| "lut_find tag (r # rs) = (if tag = event_tag r then (notify_ready r, notify_sent r) else lut_find tag rs)"

definition set_tlv :: "cujo_fpc_tlv option \<Rightarrow> nat \<Rightarrow> ('m, 'w, unit) dcl" where
  "set_tlv t n = upd_consumer (\<lambda>c. c\<lparr>tlv_ctx := \<lparr>ctx_tlv = t, ctx_size = n\<rparr>\<rparr>)"

definition clear_tlv :: "('m, 'w, unit) dcl" where
  "clear_tlv = upd_consumer (\<lambda>c. c\<lparr>tlv_ctx := (tlv_ctx c)\<lparr>ctx_tlv := None\<rparr>\<rparr>)"

definition set_comms_ready :: "bool \<Rightarrow> ('m, 'w, unit) dcl" where
  "set_comms_ready b = upd_consumer (\<lambda>c. c\<lparr>comms_ready := b\<rparr>)"

definition cujoagent_emit_event_tlv ::
    "('m, 'w) denv \<Rightarrow> cujo_fpc_tag_list \<Rightarrow> fpc_data option \<Rightarrow> nat \<Rightarrow> ('m, 'w, int) dcl" where
  "cujoagent_emit_event_tlv D tag data data_len = (case data of
      None \<Rightarrow> return (- 1)
    | Some dat \<Rightarrow> do {
        lut \<leftarrow> consumer_get tlv_notify_lut;
        let (ready, sent) = lut_find tag lut;
        if ready = NOTIFY_NONE \<or> sent = NOTIFY_NONE then return (- 1)
        else do {
          let tlv_size = TLV_SIZE D + data_len;
          ok \<leftarrow> dcall (d_malloc D ''tlv'');
          _ \<leftarrow> set_tlv (if ok then Some \<lparr>tlv_tag = tag, tlv_len = of_nat data_len, tlv_data = dat\<rparr> else None) tlv_size;
          if \<not> ok then return (- 1)
          else do {
            f \<leftarrow> consumer_get fds;
            w \<leftarrow> cujoagent_write_event D (comms_notification f) ready;
            failed \<leftarrow> (if w = - 1 then return True
                      else do {
                        n \<leftarrow> cujoagent_wait_for_event D (queue_epoll f) sent EPOLL_TIMEOUT_MS;
                        return (n \<le> 0)
                      });
            _ \<leftarrow> dcall (d_free D ''tlv'');
            _ \<leftarrow> clear_tlv;
            if failed then do { _ \<leftarrow> set_comms_ready False; return (- 1) }
            else return 0
          }
        }
      })"

section \<open>The abstract message exchange\<close>

text \<open>The address text determines the address, so a map keyed by the text is a map keyed by the address.\<close>

lemma hex_digit_inj: "d < 16 \<Longrightarrow> e < 16 \<Longrightarrow> hex_digit d = hex_digit e \<longleftrightarrow> d = e"
proof -
  assume a: "d < 16" "e < 16"
  have "of_char (hex_digit k) = (if k < 10 then 48 + k else 87 + k)" if "k < 16" for k :: nat
    using that by (simp add: hex_digit_def)
  then have "(if d < 10 then 48 + d else 87 + d) = (if e < 10 then 48 + e else 87 + e)" if "hex_digit d = hex_digit e"
    using a that by metis
  then show ?thesis by (fastforce split: if_splits)
qed

lemma hex2_inj [simp]: "hex2 a = hex2 b \<longleftrightarrow> a = b"
proof
  assume "hex2 a = hex2 b"
  moreover have "unat x div 16 < 16" "unat x mod 16 < 16" for x :: byte
  proof -
    have "unat x < 256" using unsigned_less [of x] by simp
    then show "unat x div 16 < 16" "unat x mod 16 < 16" by simp_all
  qed
  ultimately have "unat a div 16 = unat b div 16" "unat a mod 16 = unat b mod 16"
    by (simp_all add: hex2_def hex_digit_inj)
  then have "unat a = unat b" by (metis div_mult_mod_eq)
  then show "a = b" by (simp add: word_unat_eq_iff)
qed simp

lemma length_hex2 [simp]: "length (hex2 a) = 2"
  by (simp add: hex2_def)

lemma mac_str_inj [simp]: "mac_str m = mac_str n \<longleftrightarrow> m = n"
  by (auto simp: mac_str_def append_eq_append_conv split: prod.splits)

lemma length_mac_str [simp]: "length (mac_str m) = 17"
  by (simp add: mac_str_def split: prod.splits)

lemma bytes_to_mac_str [simp]: "cujoagent_bytes_to_mac_str m = Some (mac_str m)"
  by (simp add: cujoagent_bytes_to_mac_str_def)

end
