(* ===== verification/Adv_Dcl_Wifi.thy ===== *)
theory Adv_Dcl_Wifi
  imports Adv_Dcl_Msg
begin

text \<open>
  What the consumer thread of the data-collection library does with Wi-Fi data: looking up access
  points, the maps of associated devices, and the events for the agent (station, radio, frames,
  channel state, temperatures). The hash maps of the platform, OneWifi and rbus are the record
  \<open>dlib\<close>.
\<close>

section \<open>Libraries\<close>

record csi_frame_info =
  csi_Nr :: nat
  nr_rssi :: "int list"

record ('m, 'w) dlib =
  \<comment> \<open>sizes\<close>
  MAX_NUM_VAP_PER_RADIO :: nat
  STATION_EVENT_SIZE :: nat
  STATION_INFO_SIZE :: nat
  RADIO_EVENT_SIZE :: nat
  DONE_SIZE :: nat
  BATCH_EVENT_SIZE :: nat
  PCAP_SIZE :: nat
  CSI_EVENT_SIZE :: nat       \<comment> \<open>event, reading and matrix together\<close>
  TEMPERATURE_EVENT_SIZE :: nat
  IF_NAMESIZE :: nat
  ESSID_SIZE :: nat
  \<comment> \<open>hash maps; the entries are what \<open>hash_map_get_first\<close> and \<open>hash_map_get_next\<close> run through\<close>
  hm_empty :: 'm
  hm_get :: "'m \<Rightarrow> string \<Rightarrow> assoc_dev_data_t option"
  hm_put :: "'m \<Rightarrow> string option \<Rightarrow> assoc_dev_data_t \<Rightarrow> 'm"
  hm_set :: "'m \<Rightarrow> string \<Rightarrow> assoc_dev_data_t \<Rightarrow> 'm"     \<comment> \<open>a write through the pointer of an entry\<close>
  hm_remove :: "'m \<Rightarrow> string \<Rightarrow> 'm"
  hm_count :: "'m \<Rightarrow> nat"
  hm_entries :: "'m \<Rightarrow> assoc_dev_data_t list"
  acl_entries :: "'m \<Rightarrow> mac_address_t list"                \<comment> \<open>of an access-control list\<close>
  acl_remove :: "'m \<Rightarrow> string \<Rightarrow> 'm"
  \<comment> \<open>the payload of a channel-state sample\<close>
  csi_mac :: "byte list \<Rightarrow> mac_address_t"
  csi_info :: "byte list \<Rightarrow> csi_frame_info"
  csi_rest :: "byte list \<Rightarrow> byte list"
  TRACE_DEBUG :: bool         \<comment> \<open>whether \<open>CcspTraceDebug\<close> evaluates its arguments\<close>
  \<comment> \<open>clocks\<close>
  d_clock :: "'w \<Rightarrow> (64 word \<times> 64 word) option \<times> 'w"
  d_gettimeofday :: "'w \<Rightarrow> (nat \<times> nat) \<times> 'w"

section \<open>Helpers\<close>

definition cujoagent_timestamp :: "('m, 'w) dlib \<Rightarrow> ('m, 'w, 64 word) dcl" where
  "cujoagent_timestamp L = do {
     ts \<leftarrow> dcall (d_clock L);
     return (case ts of None \<Rightarrow> 1 | Some (sec, nsec) \<Rightarrow> sec * 1000 + nsec div 1000000)
   }"

text \<open>What is copied, and its length.\<close>

definition cujoagent_copy_to :: "nat \<Rightarrow> string \<Rightarrow> string \<times> nat" where
  "cujoagent_copy_to dst_len src =
     (let min_len = (if length src > dst_len - 1 then dst_len - 1 else length src)
      in (take min_len src, min_len))"

definition interfaces :: "('m, 'w) dlib \<Rightarrow> wifi_platform_property_t \<Rightarrow> wifi_interface_name_idex_map_t list" where
  "interfaces L p = take (numRadios p * MAX_NUM_VAP_PER_RADIO L) (interface_map p)"

definition cujoagent_iface_property ::
    "('m, 'w) dlib \<Rightarrow> wifi_platform_property_t \<Rightarrow> nat \<Rightarrow> wifi_interface_name_idex_map_t option" where
  "cujoagent_iface_property L p vap_index = find (\<lambda>i. iface_index i = vap_index) (interfaces L p)"

fun vap_array_loop :: "wifi_interface_name_idex_map_t \<Rightarrow> wifi_interface_name_idex_map_t list \<Rightarrow> int \<Rightarrow> int" where
  "vap_array_loop im [] k = k"
| "vap_array_loop im (i # r) k =
     (let k' = (if rdk_radio_index i = rdk_radio_index im then k + 1 else k)
      in if iface_index i = iface_index im then k' else vap_array_loop im r k')"

definition cujoagent_vap_array_index ::
    "('m, 'w) dlib \<Rightarrow> wifi_platform_property_t \<Rightarrow> wifi_interface_name_idex_map_t \<Rightarrow> int" where
  "cujoagent_vap_array_index L p im = vap_array_loop im (interfaces L p) (- 1)"

definition cujoagent_vap_index_to_vap_info ::
    "('m, 'w) dlib \<Rightarrow> 'm consumer \<Rightarrow> nat \<Rightarrow> wifi_vap_info_t option" where
  "cujoagent_vap_index_to_vap_info L c vap_index =
     (let p = wifi_prop (wifi c) in
      case cujoagent_iface_property L p vap_index of
        None \<Rightarrow> None
      | Some im \<Rightarrow>
          (let k = cujoagent_vap_array_index L p im in
           if k = - 1 then None
           else Some (vap_array (radios (wifi c) (rdk_radio_index im)) (nat k))))"

definition cujoagent_event_type :: "client_state_t \<Rightarrow> cujo_event_type option" where
  "cujoagent_event_type st = (case st of
      client_state_connected \<Rightarrow> Some CUJO_FPC_CONNECT
    | client_state_disconnected \<Rightarrow> Some CUJO_FPC_DISCONNECT
    | client_state_other _ \<Rightarrow> None)"

definition cujoagent_freq_band :: "wifi_freq_bands_t \<Rightarrow> cujo_freq option" where
  "cujoagent_freq_band b = (case b of
      WIFI_FREQUENCY_2_4_BAND \<Rightarrow> Some CUJO_FPC_WIFI_FREQ_2_4
    | WIFI_FREQUENCY_5_BAND \<Rightarrow> Some CUJO_FPC_WIFI_FREQ_5
    | WIFI_FREQUENCY_5L_BAND \<Rightarrow> Some CUJO_FPC_WIFI_FREQ_5
    | WIFI_FREQUENCY_5H_BAND \<Rightarrow> Some CUJO_FPC_WIFI_FREQ_5
    | WIFI_FREQUENCY_6_BAND \<Rightarrow> Some CUJO_FPC_WIFI_FREQ_6
    | WIFI_FREQUENCY_60_BAND \<Rightarrow> Some CUJO_FPC_WIFI_FREQ_6
    | WIFI_FREQUENCY_OTHER _ \<Rightarrow> None)"

section \<open>Walking the access points of interest\<close>

text \<open>The nested loops over radios and subscribed access points, with their \<open>continue\<close>s: the radio,
  its interface entry and the index of the access point in the arrays of the radio.\<close>

definition vap_of_sub :: "('m, 'w) dlib \<Rightarrow> wifi_platform_property_t \<Rightarrow> nat \<Rightarrow> nat
    \<Rightarrow> (nat \<times> wifi_interface_name_idex_map_t \<times> nat) option" where
  "vap_of_sub L p i idx = (case cujoagent_iface_property L p idx of
      None \<Rightarrow> None
    | Some im \<Rightarrow>
        if rdk_radio_index im \<noteq> i then None
        else (let k = cujoagent_vap_array_index L p im in if k < 0 then None else Some (i, im, nat k)))"

definition vap_walk :: "('m, 'w) dlib \<Rightarrow> nat \<Rightarrow> wifi_platform_property_t \<Rightarrow> nat list
    \<Rightarrow> (nat \<times> wifi_interface_name_idex_map_t \<times> nat) list" where
  "vap_walk L n p idxs = concat (map (\<lambda>i. List.map_filter (vap_of_sub L p i) idxs) [0..<n])"

definition subs_indexes :: "'m consumer \<Rightarrow> nat list" where
  "subs_indexes c = (case vap_subs_indexes (subs c) of None \<Rightarrow> [] | Some xs \<Rightarrow> take (vap_subs_count (subs c)) xs)"

definition assoc_map_at :: "'m consumer \<Rightarrow> nat \<Rightarrow> nat \<Rightarrow> 'm option" where
  "assoc_map_at c i a = associated_devices_map (rdk_vap_array (radios (wifi c) i) a)"

definition set_assoc_map :: "nat \<Rightarrow> nat \<Rightarrow> 'm option \<Rightarrow> 'm consumer \<Rightarrow> 'm consumer" where
  "set_assoc_map i a m = wifi_update (radios_update (\<lambda>rs. rs(i := rdk_vap_array_update
     (\<lambda>vs. vs(a := (vs a)\<lparr>associated_devices_map := m\<rparr>)) (rs i))))"

section \<open>The maps of associated devices\<close>

definition cujoagent_add_device_to_associated_device_map ::
    "('m, 'w) denv \<Rightarrow> ('m, 'w) dlib \<Rightarrow> mac_address_t \<Rightarrow> 'm option \<Rightarrow> assoc_dev_data_t option \<Rightarrow> ('m, 'w, 'm option) dcl" where
  "cujoagent_add_device_to_associated_device_map D L mac assoc_dev_map assoc_dev_data =
     (case (assoc_dev_map, assoc_dev_data) of
        (Some m, Some d) \<Rightarrow>
          (let key = mac_str mac in
           case hm_get L m key of
             None \<Rightarrow> do {
               ok \<leftarrow> dcall (d_malloc D ''assoc_dev_data'');
               if \<not> ok then return (Some m)
               else do {
                 dup \<leftarrow> dcall (d_malloc D ''mac_str'');
                 return (Some (hm_put L m (if dup then Some key else None) d))
               }
             }
           | Some _ \<Rightarrow> return (Some (hm_set L m key d)))
      | _ \<Rightarrow> return assoc_dev_map)"

definition cujoagent_remove_device_from_associated_devices_map ::
    "('m, 'w) dlib \<Rightarrow> mac_address_t \<Rightarrow> 'm option \<Rightarrow> 'm option" where
  "cujoagent_remove_device_from_associated_devices_map L mac assoc_dev_map =
     (case assoc_dev_map of None \<Rightarrow> None | Some m \<Rightarrow> Some (hm_remove L m (mac_str mac)))"

definition cujoagent_update_associated_devices_map ::
    "('m, 'w) denv \<Rightarrow> ('m, 'w) dlib \<Rightarrow> 'm option \<Rightarrow> assoc_dev_data_t option \<Rightarrow> ('m, 'w, 'm option) dcl" where
  "cujoagent_update_associated_devices_map D L assoc_dev_map assoc_dev_data =
     (case (assoc_dev_map, assoc_dev_data) of
        (Some m, Some d) \<Rightarrow>
          (case client_state d of
             client_state_disconnected \<Rightarrow>
               return (cujoagent_remove_device_from_associated_devices_map L (cli_MACAddress d) assoc_dev_map)
           | client_state_connected \<Rightarrow>
               cujoagent_add_device_to_associated_device_map D L (cli_MACAddress d) assoc_dev_map assoc_dev_data
           | client_state_other _ \<Rightarrow> return assoc_dev_map)
      | _ \<Rightarrow> return assoc_dev_map)"

text \<open>The entries are removed one by one, each by the text of its own address; what is left when the
  map is destroyed is leaked.\<close>

definition drain_map :: "('m, 'w) dlib \<Rightarrow> 'm \<Rightarrow> 'm" where
  "drain_map L m = foldl (\<lambda>m' d. hm_remove L m' (mac_str (cli_MACAddress d))) m (hm_entries L m)"

definition free_vap_maps :: "'m rdk_wifi_vap_info_t \<Rightarrow> 'm rdk_wifi_vap_info_t" where
  "free_vap_maps v = v\<lparr>associated_devices_map := None, associated_devices_diff_map := None\<rparr>"

text \<open>The radios after the call, and what the maps held when they were destroyed.\<close>

definition cujoagent_free_all_associated_devices_maps ::
    "('m, 'w) dlib \<Rightarrow> (nat \<Rightarrow> 'm rdk_wifi_radio_t) \<Rightarrow> nat \<Rightarrow> (nat \<Rightarrow> 'm rdk_wifi_radio_t) \<times> 'm list" where
  "cujoagent_free_all_associated_devices_maps L rs n =
     ((\<lambda>i. if i < n
           then rdk_vap_array_update (\<lambda>vs j. if j < num_vaps (rs i) then free_vap_maps (vs j) else vs j) (rs i)
           else rs i),
      concat (map (\<lambda>i. concat (map (\<lambda>j. let v = rdk_vap_array (rs i) j in
          (case associated_devices_map v of None \<Rightarrow> [] | Some m \<Rightarrow> [drain_map L m]) @
          (case associated_devices_diff_map v of None \<Rightarrow> [] | Some m \<Rightarrow> [drain_map L m]))
        [0..<num_vaps (rs i)])) [0..<n]))"

text \<open>The same for the access-control lists of a decoded document: the document after the call, and
  what the lists held when they were destroyed.\<close>

definition drain_acl :: "('m, 'w) dlib \<Rightarrow> 'm \<Rightarrow> 'm" where
  "drain_acl L m = foldl (\<lambda>m' mac. acl_remove L m' (mac_str mac)) m (acl_entries L m)"

definition acl_range :: "'m decoded_data \<Rightarrow> (nat \<times> nat) list" where
  "acl_range dec = concat (map (\<lambda>i. map (\<lambda>j. (i, j)) [0..<num_vaps (dec_radios dec i)])
     [0..<numRadios (dec_prop dec)])"

definition cujoagent_free_decoded_macfilter_entries ::
    "('m, 'w) dlib \<Rightarrow> 'm decoded_data \<Rightarrow> 'm decoded_data \<times> 'm list" where
  "cujoagent_free_decoded_macfilter_entries L dec =
     (dec\<lparr>dec_radios := (\<lambda>i. if i < numRadios (dec_prop dec)
         then rdk_vap_array_update (\<lambda>vs j. if j < num_vaps (dec_radios dec i) then (vs j)\<lparr>acl_map := None\<rparr> else vs j)
                (dec_radios dec i)
         else dec_radios dec i)\<rparr>,
      map (drain_acl L) (List.map_filter (\<lambda>(i, j). acl_map (rdk_vap_array (dec_radios dec i) j)) (acl_range dec)))"

section \<open>Station and radio events\<close>

text \<open>First pass: the clients on all access points of interest. \<close>

definition count_clients :: "('m, 'w) dlib \<Rightarrow> 'm consumer \<Rightarrow> (nat \<times> wifi_interface_name_idex_map_t \<times> nat) list \<Rightarrow> nat" where
  "count_clients L c walk = sum_list (map (\<lambda>(i, im, a).
     case assoc_map_at c i a of None \<Rightarrow> 0 | Some m \<Rightarrow> hm_count L m) walk)"

text \<open>Second pass: the rows written from an offset on; None is a write behind the allocated rows.\<close>

definition station_row :: "('m, 'w) dlib \<Rightarrow> wifi_interface_name_idex_map_t \<Rightarrow> assoc_dev_data_t \<Rightarrow> assoc_station_info_t" where
  "station_row L im d = \<lparr>info_mac = cli_MACAddress d,
     info_if_name = fst (cujoagent_copy_to (IF_NAMESIZE L) (interface_name im)),
     info_operating_mode = CUJO_FPC_WIFI_MODE_AUTO\<rparr>"

fun write_rows :: "'a list \<Rightarrow> nat \<Rightarrow> 'a list \<Rightarrow> 'a list option" where
  "write_rows xs k [] = Some xs"
| "write_rows xs k (v # vs) = (if k < length xs then write_rows (xs[k := v]) (k + 1) vs else None)"

fun fill_rows :: "('m, 'w) dlib \<Rightarrow> 'm consumer \<Rightarrow> (nat \<times> wifi_interface_name_idex_map_t \<times> nat) list
    \<Rightarrow> nat \<Rightarrow> assoc_station_info_t list \<Rightarrow> assoc_station_info_t list option" where
  "fill_rows L c [] offset xs = Some xs"
| "fill_rows L c ((i, im, a) # w) offset xs = (case assoc_map_at c i a of
      None \<Rightarrow> fill_rows L c w offset xs
    | Some m \<Rightarrow> (case write_rows xs offset (map (station_row L im) (hm_entries L m)) of
          None \<Rightarrow> None
        | Some ys \<Rightarrow> fill_rows L c w (offset + hm_count L m) ys))"

definition row_zero :: assoc_station_info_t where
  "row_zero = \<lparr>info_mac = mac_zero, info_if_name = [], info_operating_mode = CUJO_FPC_WIFI_MODE_AUTO\<rparr>"

definition station_rows :: "('m, 'w) dlib \<Rightarrow> 'm consumer \<Rightarrow> assoc_station_info_t list option" where
  "station_rows L c =
     (let w = vap_walk L (numRadios (wifi_prop (wifi c))) (wifi_prop (wifi c)) (subs_indexes c)
      in fill_rows L c w 0 (replicate (count_clients L c w) row_zero))"

definition station_count :: "('m, 'w) dlib \<Rightarrow> 'm consumer \<Rightarrow> nat" where
  "station_count L c = count_clients L c
     (vap_walk L (numRadios (wifi_prop (wifi c))) (wifi_prop (wifi c)) (subs_indexes c))"

text \<open>The event, None when it cannot be allocated, and its size. A write behind the rows would be
  undefined behaviour; \<open>station_rows\<close> says when it happens.\<close>

definition cujoagent_new_station_event ::
    "('m, 'w) denv \<Rightarrow> ('m, 'w) dlib \<Rightarrow> assoc_dev_data_t \<Rightarrow> wifi_vap_info_t
      \<Rightarrow> ('m, 'w, station_event option \<times> nat) dcl" where
  "cujoagent_new_station_event D L diff vap_info = do {
     c \<leftarrow> consumer_get id;
     let size = STATION_EVENT_SIZE L + station_count L c * STATION_INFO_SIZE L;
     ok \<leftarrow> dcall (d_malloc D ''event'');
     if \<not> ok then return (None, size)
     else do {
       ts \<leftarrow> cujoagent_timestamp L;
       let (essid, ssid_len) = cujoagent_copy_to (ESSID_SIZE L) (vi_ssid vap_info);
       return (Some \<lparr>se_event_type = cujoagent_event_type (client_state diff), se_timestamp_ms = ts,
         se_vap_index = vi_vap_index vap_info, se_essid = essid, se_essid_length = ssid_len,
         assoc_station_count = of_nat (station_count L c),
         assoc_station_info = (case station_rows L c of None \<Rightarrow> [] | Some xs \<Rightarrow> xs)\<rparr>, size)
     }
   }"

definition cujoagent_new_radio_event ::
    "('m, 'w) dlib \<Rightarrow> assoc_dev_data_t \<Rightarrow> wifi_interface_name_idex_map_t \<Rightarrow> 'm rdk_wifi_radio_t
      \<Rightarrow> wifi_vap_info_t \<Rightarrow> ('m, 'w, radio_event) dcl" where
  "cujoagent_new_radio_event L diff im radio vap_info = do {
     ts \<leftarrow> cujoagent_timestamp L;
     let (essid, ssid_len) = cujoagent_copy_to (ESSID_SIZE L) (vi_ssid vap_info);
     return \<lparr>re_event_type = cujoagent_event_type (client_state diff), re_timestamp_ms = ts,
       re_if_name = fst (cujoagent_copy_to (IF_NAMESIZE L) (interface_name im)),
       re_vap_index = vi_vap_index vap_info, re_freq_band = cujoagent_freq_band (oper_band radio),
       re_channel = oper_channel radio, re_operating_mode = CUJO_FPC_WIFI_MODE_AUTO,
       re_bssid = vi_bssid vap_info, re_essid = essid, re_essid_length = ssid_len,
       re_station_mac = cli_MACAddress diff, station_update_event_count = 0\<rparr>
   }"

end
