(* ===== verification/Adv_Dcl_Trace.thy ===== *)
theory Adv_Dcl_Trace
  imports Adv_Dcl_Wifi
begin

text \<open>
  The trace of the events the data-collection library sends (\<open>cujoagent_print_events\<close>). The lines are
  values; what matters is the memory they are read from: a batch event is walked capture by capture,
  and the headers of a frame are read at an offset the radiotap header of the capture names.
\<close>

section \<open>Lines\<close>

text \<open>A line with the index of its entry and the values it prints; the metadata of a channel-state
  reading is kept as its bytes.\<close>

datatype trace_line =
    TRACE_RADIO radio_event
  | TRACE_STATION "cujo_event_type option" "64 word" uint uint
  | TRACE_STATION_ENTRY nat assoc_station_info_t
  | TRACE_BATCH "64 word" uint mac_address_t nat
  | TRACE_RADIOTAP nat byte "16 word"
  | TRACE_PCAP nat "64 word" uint uint
  | TRACE_FRAME nat "16 word" "mac_address_t option" "mac_address_t option" "mac_address_t option"
  | TRACE_CSI uint mac_address_t nat
  | TRACE_CSI_READING nat "int list" "byte list"
  | TRACE_TEMPERATURES "64 word" uint
  | TRACE_TEMPERATURE nat uint

section \<open>Reading a capture\<close>

text \<open>Reads at an offset of the captured bytes; None when they end before.\<close>

definition read_le16 :: "byte list \<Rightarrow> nat \<Rightarrow> 16 word option" where
  "read_le16 data off =
     (if off + 2 \<le> length data then Some (ucast (data ! off) + 256 * ucast (data ! (off + 1))) else None)"

definition read_mac :: "byte list \<Rightarrow> nat \<Rightarrow> mac_address_t option" where
  "read_mac data off =
     (if off + 6 \<le> length data
      then Some (data ! off, data ! (off + 1), data ! (off + 2), data ! (off + 3), data ! (off + 4), data ! (off + 5))
      else None)"

text \<open>The length of the radiotap header, carried over from the capture before when there is none.\<close>

definition trace_radiotap :: "nat \<Rightarrow> 16 word \<Rightarrow> wifi_pcap \<Rightarrow> (trace_line list \<times> 16 word) option" where
  "trace_radiotap i hdrlen pcap =
     (if has_radiotap_header pcap
      then (if pcap_data pcap = [] then None
            else case read_le16 (pcap_data pcap) 2 of
                None \<Rightarrow> None
              | Some h \<Rightarrow> Some ([TRACE_RADIOTAP i (hd (pcap_data pcap)) h], h))
      else Some ([], hdrlen))"

text \<open>The line of the frame; its addresses are read only when the line is formatted. The offsets of the
  addresses are 16-bit numbers.\<close>

definition trace_frame :: "bool \<Rightarrow> nat \<Rightarrow> 16 word \<Rightarrow> byte list \<Rightarrow> trace_line option" where
  "trace_frame debug i hdrlen data =
     (case (read_le16 data (unat hdrlen), read_le16 data (unat hdrlen + 2)) of
        (Some fc, Some _) \<Rightarrow>
          (let addr1 = hdrlen + 4; addr2 = addr1 + 6; addr3 = addr2 + 6 in
           if \<not> debug then Some (TRACE_FRAME i fc None None None)
           else (case (read_mac data (unat addr1), read_mac data (unat addr2), read_mac data (unat addr3)) of
               (Some da, Some sa, Some bssid) \<Rightarrow> Some (TRACE_FRAME i fc (Some da) (Some sa) (Some bssid))
             | _ \<Rightarrow> None))
      | _ \<Rightarrow> None)"

definition pcap_ms :: "wifi_pcap \<Rightarrow> 64 word" where
  "pcap_ms pcap = (case pcap_ts pcap of (sec, usec) \<Rightarrow> of_nat sec * 1000 + of_nat usec div 1000)"

definition trace_capture :: "bool \<Rightarrow> nat \<Rightarrow> 16 word \<Rightarrow> wifi_pcap \<Rightarrow> (trace_line list \<times> 16 word) option" where
  "trace_capture debug i hdrlen pcap = (case trace_radiotap i hdrlen pcap of
      None \<Rightarrow> None
    | Some (rt, h) \<Rightarrow> (case trace_frame debug i h (pcap_data pcap) of
          None \<Rightarrow> None
        | Some fr \<Rightarrow> Some (rt @ [TRACE_PCAP i (pcap_ms pcap) (pcap_caplen pcap) (pcap_len pcap), fr], h)))"

text \<open>The captures one behind the other, as many as the event counts.\<close>

fun trace_captures :: "bool \<Rightarrow> nat \<Rightarrow> nat \<Rightarrow> 16 word \<Rightarrow> wifi_pcap list \<Rightarrow> trace_line list option" where
  "trace_captures debug i 0 h ps = Some []"
| "trace_captures debug i (Suc n) h [] = None"
| "trace_captures debug i (Suc n) h (p # ps) = (case trace_capture debug i h p of
      None \<Rightarrow> None
    | Some (ls, h') \<Rightarrow> map_option ((@) ls) (trace_captures debug (Suc i) n h' ps))"

section \<open>The trace of an event\<close>

text \<open>The rows of an array, as many as its counter says.\<close>

definition trace_rows :: "(nat \<Rightarrow> 'a \<Rightarrow> trace_line) \<Rightarrow> nat \<Rightarrow> 'a list \<Rightarrow> trace_line list option" where
  "trace_rows f n xs = (if n \<le> length xs then Some (map (\<lambda>i. f i (xs ! i)) [0..<n]) else None)"

definition trace_station :: "station_event \<Rightarrow> trace_line list option" where
  "trace_station e = map_option
     ((#) (TRACE_STATION (se_event_type e) (se_timestamp_ms e) (se_vap_index e) (assoc_station_count e)))
     (trace_rows TRACE_STATION_ENTRY (unat (assoc_station_count e)) (assoc_station_info e))"

definition trace_batch :: "bool \<Rightarrow> data_batch_event \<Rightarrow> trace_line list option" where
  "trace_batch debug e = map_option
     ((#) (TRACE_BATCH (be_timestamp_ms e) (be_vap_index e) (be_mac e) (wifi_captures_count e)))
     (trace_captures debug 0 (wifi_captures_count e) 0
        (case wifi_captures e of None \<Rightarrow> [] | Some p \<Rightarrow> [p]))"

definition trace_csi :: "csi_and_cfo_event \<Rightarrow> trace_line list option" where
  "trace_csi e = map_option ((#) (TRACE_CSI (ce_vap_index e) (ce_mac e) (csi_count e)))
     (trace_rows (\<lambda>i r. TRACE_CSI_READING i (csi_rssi e) r) (csi_count e) [csi_reading e])"

definition trace_temperature :: "temperature_event \<Rightarrow> trace_line list option" where
  "trace_temperature e = map_option ((#) (TRACE_TEMPERATURES (te_timestamp_ms e) (temperatures_count e)))
     (trace_rows TRACE_TEMPERATURE (unat (temperatures_count e)) (temperatures e))"

fun trace_all :: "trace_line list option list \<Rightarrow> trace_line list option" where
  "trace_all [] = Some []"
| "trace_all (None # xs) = None"
| "trace_all (Some ls # xs) = map_option ((@) ls) (trace_all xs)"

text \<open>None when a read leaves the event.\<close>

definition cujoagent_print_events :: "('m, 'w) dlib \<Rightarrow> radio_event option \<Rightarrow> station_event option
    \<Rightarrow> data_batch_event option \<Rightarrow> csi_and_cfo_event option \<Rightarrow> temperature_event option \<Rightarrow> trace_line list option" where
  "cujoagent_print_events L radio station batch csi temp = trace_all
     [case radio of None \<Rightarrow> Some [] | Some e \<Rightarrow> Some [TRACE_RADIO e],
      case station of None \<Rightarrow> Some [] | Some e \<Rightarrow> trace_station e,
      case batch of None \<Rightarrow> Some [] | Some e \<Rightarrow> trace_batch (TRACE_DEBUG L) e,
      case csi of None \<Rightarrow> Some [] | Some e \<Rightarrow> trace_csi e,
      case temp of None \<Rightarrow> Some [] | Some e \<Rightarrow> trace_temperature e]"

section \<open>What can be printed\<close>

text \<open>A frame is printed in full when 22 bytes follow the radiotap header, and its first line needs 4.\<close>

lemma trace_frame_None:
  assumes "unat h + 22 < 2 ^ 16"
  shows "trace_frame debug i h data = None \<longleftrightarrow> length data < unat h + (if debug then 22 else 4)"
proof -
  have u: "unat (h + k) = unat h + unat k" if "unat k \<le> 16" for k :: "16 word"
    using assms that by (subst unat_add_lem [THEN iffD1]) simp_all
  have "unat (h + 4) = unat h + 4" "unat (h + 4 + 6) = unat h + 10" "unat (h + 4 + 6 + 6) = unat h + 16"
    using u [of 4] u [of 10] u [of 16] by (simp_all add: add.assoc)
  then show ?thesis
    by (auto simp: trace_frame_def Let_def read_le16_def read_mac_def)
qed

end
