(* ===== verification/Adv_Dcl_Process.thy ===== *)
theory Adv_Dcl_Process
  imports Adv_Dcl_Trace
begin

text \<open>
  The consumer thread of the data-collection library: one function per kind of queued event
  (associated clients, management frames, channel state, temperatures, web-configuration
  documents) and the loop that takes them off the queue.
\<close>

section \<open>Connects and disconnects\<close>

text \<open>The collectors that run for an address are told to stop; the answer says whether there was one.\<close>

fun stop_collectors :: "('m, 'w) denv \<Rightarrow> mac_address_t \<Rightarrow> nat list \<Rightarrow> bool \<Rightarrow> ('m, 'w, bool) dcl" where
  "stop_collectors D mac [] b = return b"
| "stop_collectors D mac (k # ks) b = do {
     slot \<leftarrow> consumer_get (\<lambda>c. l1_collections c ! k);
     case slot of
       None \<Rightarrow> stop_collectors D mac ks b
     | Some collector \<Rightarrow>
         if start_mac (l1_start collector) \<noteq> mac then stop_collectors D mac ks b
         else do {
           w \<leftarrow> cujoagent_write_event D (notification collector) NOTIFY_L1_COLLECTION_THREAD_STOP;
           _ \<leftarrow> (if w = - 1 then return 0
                else do {
                  f \<leftarrow> consumer_get fds;
                  cujoagent_wait_for_event D (queue_epoll f) NOTIFY_L1_COLLECTION_THREAD_RETURN EPOLL_TIMEOUT_MS
                });
           stop_collectors D mac ks True
         }
   }"

text \<open>For a disconnect: the collection is stopped and its end reported first. False: the rest of the
  device is skipped.\<close>

definition report_done :: "('m, 'w) denv \<Rightarrow> ('m, 'w) dlib \<Rightarrow> mac_address_t \<Rightarrow> nat \<Rightarrow> ('m, 'w, bool) dcl" where
  "report_done D L mac vap_index = do {
     should_send_done \<leftarrow> stop_collectors D mac [0..<DCL_MAX_CSI_CLIENTS] False;
     if \<not> should_send_done then return True
     else do {
       ready \<leftarrow> consumer_get comms_ready;
       if \<not> ready then return False
       else do {
         r \<leftarrow> cujoagent_emit_event_tlv D CUJO_FPC_L1_COLLECTION_DONE
                (Some (FPC_DONE \<lparr>done_vap_index = of_nat vap_index, done_mac = mac\<rparr>)) (DONE_SIZE L);
         return (r = 0)
       }
     }
   }"

text \<open>The station update, and the radio update when the station update was sent.\<close>

definition report_state :: "('m, 'w) denv \<Rightarrow> ('m, 'w) dlib \<Rightarrow> assoc_dev_data_t
    \<Rightarrow> wifi_interface_name_idex_map_t \<Rightarrow> 'm rdk_wifi_radio_t \<Rightarrow> wifi_vap_info_t \<Rightarrow> ('m, 'w, unit) dcl" where
  "report_state D L diff im radio vap_info = do {
     ready \<leftarrow> consumer_get comms_ready;
     if \<not> ready then return ()
     else do {
       (event, size) \<leftarrow> cujoagent_new_station_event D L diff vap_info;
       r \<leftarrow> cujoagent_emit_event_tlv D CUJO_FPC_WIFI_STATION_UPDATE_EVENT (map_option FPC_STATION event) size;
       if r \<noteq> 0 then return ()
       else do {
         re \<leftarrow> cujoagent_new_radio_event L diff im radio vap_info;
         _ \<leftarrow> cujoagent_emit_event_tlv D CUJO_FPC_WIFI_RADIO_UPDATE_EVENT
                (Some (FPC_RADIO (re\<lparr>station_update_event_count := 1\<rparr>))) (RADIO_EVENT_SIZE L);
         return ()
       }
     }
   }"

text \<open>One device of the diff map whose state is the one wanted. The full map is updated first.\<close>

definition process_device :: "('m, 'w) denv \<Rightarrow> ('m, 'w) dlib \<Rightarrow> client_state_t \<Rightarrow> 'm decoded_data
    \<Rightarrow> nat \<times> wifi_interface_name_idex_map_t \<times> nat \<Rightarrow> assoc_dev_data_t \<Rightarrow> ('m, 'w, unit) dcl" where
  "process_device D L st dec v diff = (case v of (i, im, a) \<Rightarrow> do {
     m \<leftarrow> consumer_get (\<lambda>c. assoc_map_at c i a);
     m' \<leftarrow> cujoagent_update_associated_devices_map D L m (Some diff);
     _ \<leftarrow> upd_consumer (set_assoc_map i a m');
     go \<leftarrow> (if st = client_state_disconnected
           then report_done D L (cli_MACAddress diff) (rdk_vap_index (rdk_vap_array (dec_radios dec i) a))
           else return True);
     if go then report_state D L diff im (dec_radios dec i) (vap_array (dec_radios dec i) a) else return ()
   })"

fun process_devices :: "('m, 'w) denv \<Rightarrow> ('m, 'w) dlib \<Rightarrow> client_state_t \<Rightarrow> 'm decoded_data
    \<Rightarrow> nat \<times> wifi_interface_name_idex_map_t \<times> nat \<Rightarrow> assoc_dev_data_t list \<Rightarrow> ('m, 'w, unit) dcl" where
  "process_devices D L st dec v [] = return ()"
| "process_devices D L st dec v (d # ds) = do {
     _ \<leftarrow> (if client_state d = st then process_device D L st dec v d else return ());
     process_devices D L st dec v ds
   }"

definition process_vap :: "('m, 'w) denv \<Rightarrow> ('m, 'w) dlib \<Rightarrow> client_state_t \<Rightarrow> 'm decoded_data
    \<Rightarrow> nat \<times> wifi_interface_name_idex_map_t \<times> nat \<Rightarrow> ('m, 'w, unit) dcl" where
  "process_vap D L st dec v = (case v of (i, im, a) \<Rightarrow>
     (case associated_devices_diff_map (rdk_vap_array (dec_radios dec i) a) of
        None \<Rightarrow> return ()
      | Some diff_map \<Rightarrow> do {
          m \<leftarrow> consumer_get (\<lambda>c. assoc_map_at c i a);
          _ \<leftarrow> (if m = None
               then do {
                 ok \<leftarrow> dcall (d_malloc D ''hash_map'');
                 upd_consumer (set_assoc_map i a (if ok then Some (hm_empty L) else None))
               }
               else return ());
          process_devices D L st dec v (hm_entries L diff_map)
        }))"

fun process_vaps :: "('m, 'w) denv \<Rightarrow> ('m, 'w) dlib \<Rightarrow> client_state_t \<Rightarrow> 'm decoded_data
    \<Rightarrow> (nat \<times> wifi_interface_name_idex_map_t \<times> nat) list \<Rightarrow> ('m, 'w, unit) dcl" where
  "process_vaps D L st dec [] = return ()"
| "process_vaps D L st dec (v # vs) = do { _ \<leftarrow> process_vap D L st dec v; process_vaps D L st dec vs }"

definition cujoagent_process_client_state ::
    "('m, 'w) denv \<Rightarrow> ('m, 'w) dlib \<Rightarrow> client_state_t \<Rightarrow> 'm decoded_data \<Rightarrow> ('m, 'w, unit) dcl" where
  "cujoagent_process_client_state D L st dec = do {
     c \<leftarrow> consumer_get id;
     process_vaps D L st dec (vap_walk L (numRadios (wifi_prop (wifi c))) (dec_prop dec) (subs_indexes c))
   }"

section \<open>Web-configuration documents\<close>

definition cujoagent_update_consumer_wifi_structs :: "'m decoded_data \<Rightarrow> 'm consumer \<Rightarrow> 'm consumer" where
  "cujoagent_update_consumer_wifi_structs dec = wifi_update (\<lambda>w.
     (let w1 = w\<lparr>wifi_prop := (wifi_prop w)\<lparr>numRadios := dec_num_radios dec\<rparr>\<rparr>;
          w2 = w1\<lparr>config := dec_config dec\<rparr>;
          w3 = w2\<lparr>wifi_prop := dec_prop dec\<rparr>
      in w3\<lparr>radios := (\<lambda>i. if i < dec_num_radios dec then dec_radios dec i else radios w3 i)\<rparr>))"

definition cujoagent_update_decoded_wifi_structs :: "'m consumer \<Rightarrow> 'm decoded_data \<Rightarrow> 'm decoded_data" where
  "cujoagent_update_decoded_wifi_structs c dec =
     (let n = numRadios (wifi_prop (wifi c)) in
      dec\<lparr>dec_num_radios := n, dec_config := config (wifi c), dec_prop := wifi_prop (wifi c),
          dec_radios := (\<lambda>i. if i < n then radios (wifi c) i else dec_radios dec i)\<rparr>)"

definition decoded_zero :: "'m decoded_data" where
  "decoded_zero = \<lparr>dec_config = [], dec_num_radios = 0,
     dec_prop = \<lparr>numRadios = 0, interface_map = []\<rparr>, dec_radios = (\<lambda>_. radio_zero),
     dec_notifier_type = assoclist_notifier_other 0, dec_associated_clients = False\<rparr>"

text \<open>OneWifi and rbus.\<close>

record ('m, 'w) dbus =
  webconfig_decode :: "string \<Rightarrow> 'm decoded_data \<Rightarrow> 'w \<Rightarrow> (int \<times> 'm decoded_data) \<times> 'w"
  rbus_open :: "'w \<Rightarrow> int \<times> 'w"
  rbus_getStr :: "string \<Rightarrow> 'w \<Rightarrow> (int \<times> string) \<times> 'w"
  rbus_setUInt :: "string \<Rightarrow> uint \<Rightarrow> 'w \<Rightarrow> int \<times> 'w"
  rbus_setStr :: "string \<Rightarrow> string \<Rightarrow> 'w \<Rightarrow> int \<times> 'w"
  rbus_SubscribeEx :: "rbusEventSubscription_t option list option \<Rightarrow> 'w \<Rightarrow> int \<times> 'w"
  rbus_SubscribeExRawData :: "rbusEventSubscription_t option list option \<Rightarrow> 'w \<Rightarrow> int \<times> 'w"
  rbus_UnsubscribeEx :: "rbusEventSubscription_t option list option \<Rightarrow> 'w \<Rightarrow> unit \<times> 'w"
  rbus_UnsubscribeExRawData :: "rbusEventSubscription_t option list option \<Rightarrow> 'w \<Rightarrow> unit \<times> 'w"
  rbus_IsSubscriptionExist :: "rbusEventSubscription_t option \<Rightarrow> 'w \<Rightarrow> bool \<times> 'w"
  d_pthread_create :: "string \<Rightarrow> 'w \<Rightarrow> int \<times> 'w"
  d_timerfd_create :: "'w \<Rightarrow> int \<times> 'w"
  d_timerfd_settime :: "int \<Rightarrow> uint \<Rightarrow> uint \<Rightarrow> 'w \<Rightarrow> int \<times> 'w"
  d_read_fifo :: "nat \<Rightarrow> 'w \<Rightarrow> byte list option \<times> 'w"   \<comment> \<open>None when the read fails\<close>
  l1_start_of :: "byte list \<Rightarrow> l1_collection_start"
  fifo_payload_size :: nat
  csi_total_length :: "byte list \<Rightarrow> uint"                   \<comment> \<open>of the four bytes behind the label\<close>
  WEBCONFIG_INIT_NAME :: string
  WEBCONFIG_DOC_NAME :: string
  WEBCONFIG_ASSOC_NAME :: string
  RBUS_MAX_NAME_LENGTH :: nat
  MIN_CSI_INTERVAL :: uint
  FRAME_DATA_SIZE :: nat
  frame_of :: "byte list \<Rightarrow> frame_data_t"

definition free_all_in_consumer :: "('m, 'w) dlib \<Rightarrow> 'm consumer \<Rightarrow> 'm consumer" where
  "free_all_in_consumer L c = wifi_update (radios_update (\<lambda>rs.
     fst (cujoagent_free_all_associated_devices_maps L rs (numRadios (wifi_prop (wifi c)))))) c"

definition cujoagent_process_webconfig_event ::
    "('m, 'w) denv \<Rightarrow> ('m, 'w) dlib \<Rightarrow> ('m, 'w) dbus \<Rightarrow> string \<Rightarrow> cujoagent_consumer_event_subtype_t
      \<Rightarrow> ('m, 'w, unit) dcl" where
  "cujoagent_process_webconfig_event D L B s subtype = do {
     ok \<leftarrow> dcall (d_malloc D ''webconfig_subdoc_data'');
     if \<not> ok then return ()
     else do {
       c \<leftarrow> consumer_get id;
       (err, dec) \<leftarrow> dcall (webconfig_decode B s (cujoagent_update_decoded_wifi_structs c decoded_zero));
       if err \<noteq> 0 then return ()
       else (case subtype of
           consumer_event_webconfig_init \<Rightarrow> do {
             _ \<leftarrow> upd_consumer (cujoagent_update_consumer_wifi_structs
                    (fst (cujoagent_free_decoded_macfilter_entries L dec)));
             f \<leftarrow> consumer_get fds;
             _ \<leftarrow> cujoagent_write_event D (misc_notification f) NOTIFY_WEBCONFIG_INIT_READY;
             return ()
           }
         | consumer_event_webconfig_set_data \<Rightarrow> do {
             _ \<leftarrow> (if dec_associated_clients dec \<and> dec_notifier_type dec = assoclist_notifier_full
                  then upd_consumer (free_all_in_consumer L) else return ());
             upd_consumer (cujoagent_update_consumer_wifi_structs
               (fst (cujoagent_free_decoded_macfilter_entries L dec)))
           }
         | consumer_event_webconfig_get_data \<Rightarrow>
             (if \<not> dec_associated_clients dec then return ()
              else do {
                _ \<leftarrow> (if dec_notifier_type dec = assoclist_notifier_full
                     then do {
                       _ \<leftarrow> upd_consumer (free_all_in_consumer L);
                       upd_consumer (cujoagent_update_consumer_wifi_structs dec)
                     }
                     else return ());
                if dec_notifier_type dec = assoclist_notifier_diff
                then do {
                  _ \<leftarrow> cujoagent_process_client_state D L client_state_disconnected dec;
                  cujoagent_process_client_state D L client_state_connected dec
                }
                else return ()
              })
         | _ \<Rightarrow> return ())
     }
   }"

section \<open>Management frames\<close>

abbreviation "EMPTY_RT_LEN \<equiv> 8 :: nat"

text \<open>None when the copy would read behind the bytes of the message.\<close>

definition cujoagent_new_wifi_pcap :: "nat \<times> nat \<Rightarrow> nat \<Rightarrow> frame_data_t \<Rightarrow> wifi_pcap option" where
  "cujoagent_new_wifi_pcap tv data_size rdk_mgmt =
     (if frame_len rdk_mgmt > length (frame_data rdk_mgmt) then None
      else Some \<lparr>pcap_ts = tv, pcap_caplen = of_nat data_size, pcap_len = of_nat data_size,
             has_radiotap_header = True,
             pcap_data = [0, 0, of_nat EMPTY_RT_LEN, 0, 0, 0, 0, 0] @ take (frame_len rdk_mgmt) (frame_data rdk_mgmt)\<rparr>)"

definition cujoagent_new_data_batch_event ::
    "('m, 'w) dlib \<Rightarrow> wifi_pcap \<Rightarrow> frame_data_t \<Rightarrow> ('m, 'w, data_batch_event option) dcl" where
  "cujoagent_new_data_batch_event L pcap rdk_mgmt = do {
     v \<leftarrow> consumer_get (\<lambda>c. cujoagent_vap_index_to_vap_info L c (frame_ap_index rdk_mgmt));
     case v of
       None \<Rightarrow> return None
     | Some vap_info \<Rightarrow> do {
         ts \<leftarrow> cujoagent_timestamp L;
         return (Some \<lparr>be_timestamp_ms = ts, be_vap_index = of_nat (frame_ap_index rdk_mgmt),
           be_mac = vi_bssid vap_info, wifi_captures_count = 1, wifi_captures = Some pcap\<rparr>)
       }
   }"

definition batch_zero :: data_batch_event where
  "batch_zero = \<lparr>be_timestamp_ms = 0, be_vap_index = 0, be_mac = mac_zero, wifi_captures_count = 0, wifi_captures = None\<rparr>"

text \<open>How the handling of a frame ends: it may read behind the bytes of the message, or, when the event
  is printed, behind the bytes of the capture.\<close>

datatype frame_end = FRAME_DONE | READ_BEHIND_MESSAGE | READ_BEHIND_CAPTURE

definition cujoagent_process_mgmt_frame_event ::
    "('m, 'w) denv \<Rightarrow> ('m, 'w) dlib \<Rightarrow> frame_data_t \<Rightarrow> cujoagent_consumer_event_subtype_t \<Rightarrow> ('m, 'w, frame_end) dcl" where
  "cujoagent_process_mgmt_frame_event D L rdk_mgmt subtype = do {
     ready \<leftarrow> consumer_get comms_ready;
     if \<not> ready then return FRAME_DONE
     else do {
       let data_size = frame_len rdk_mgmt + EMPTY_RT_LEN;
       let pcap_size = PCAP_SIZE L + data_size;
       p \<leftarrow> dcall (d_malloc D ''pcap'');
       if \<not> p then return FRAME_DONE
       else do {
         b \<leftarrow> dcall (d_malloc D ''data_batch_event'');
         if \<not> b then return FRAME_DONE
         else do {
           tv \<leftarrow> dcall (d_gettimeofday L);
           case cujoagent_new_wifi_pcap tv data_size rdk_mgmt of
             None \<Rightarrow> return READ_BEHIND_MESSAGE
           | Some pcap \<Rightarrow> do {
               ev \<leftarrow> (if subtype \<in> {consumer_event_probe_req, consumer_event_auth, consumer_event_assoc_req,
                                   consumer_event_reassoc_req}
                     then cujoagent_new_data_batch_event L pcap rdk_mgmt
                     else return (Some batch_zero));
               case ev of
                 None \<Rightarrow> return FRAME_DONE
               | Some e \<Rightarrow> do {
                   r \<leftarrow> cujoagent_emit_event_tlv D CUJO_FPC_WIFI_DATA_BATCH_EVENT (Some (FPC_BATCH e))
                          (BATCH_EVENT_SIZE L + pcap_size);
                   return (if r \<noteq> 0 then FRAME_DONE
                     else case cujoagent_print_events L None None (Some e) None None of
                         None \<Rightarrow> READ_BEHIND_CAPTURE
                       | Some _ \<Rightarrow> FRAME_DONE)
                 }
             }
         }
       }
     }
   }"

section \<open>Channel state\<close>

text \<open>The driver leaves the strength as an unsigned byte: 256 is taken off.\<close>

definition cujoagent_new_csi_and_cfo_event :: "('m, 'w) dlib \<Rightarrow> int \<Rightarrow> byte list \<Rightarrow> csi_and_cfo_event" where
  "cujoagent_new_csi_and_cfo_event L vap_index csi_data =
     \<lparr>ce_vap_index = of_int vap_index, ce_mac = csi_mac L csi_data, csi_count = 1,
      csi_rssi = map (\<lambda>r. r - 2 ^ 8) (take (csi_Nr (csi_info L csi_data)) (nr_rssi (csi_info L csi_data))),
      csi_reading = csi_rest L csi_data\<rparr>"

text \<open>The last access point, in the order of radios and of their arrays, whose map has the address.\<close>

definition vap_has_mac :: "('m, 'w) dlib \<Rightarrow> string \<Rightarrow> 'm rdk_wifi_vap_info_t \<Rightarrow> bool" where
  "vap_has_mac L key v = (case associated_devices_map v of
      None \<Rightarrow> False
    | Some m \<Rightarrow> (case hm_get L m key of None \<Rightarrow> False | Some _ \<Rightarrow> True))"

definition cujoagent_vap_index_from_mac :: "('m, 'w) dlib \<Rightarrow> 'm consumer \<Rightarrow> string \<Rightarrow> int" where
  "cujoagent_vap_index_from_mac L c key =
     foldl (\<lambda>r v. if vap_has_mac L key v then int (rdk_vap_index v) else r) (- 1)
       (concat (map (\<lambda>i. map (rdk_vap_array (radios (wifi c) i)) [0..<num_vaps (radios (wifi c) i)])
          [0..<numRadios (wifi_prop (wifi c))]))"

definition zero_temperatures :: "('m, 'w, unit) dcl" where
  "zero_temperatures = upd_consumer (tcollect_ctx_update (\<lambda>t.
     t\<lparr>temperature_data := map_option (map (\<lambda>_. 0)) (temperature_data t), collected_count := 0\<rparr>))"

definition process_csi :: "('m, 'w) denv \<Rightarrow> ('m, 'w) dlib \<Rightarrow> byte list \<Rightarrow> ('m, 'w, unit) dcl" where
  "process_csi D L csi = do {
     ready \<leftarrow> consumer_get comms_ready;
     if \<not> ready then return ()
     else do {
       vap_index \<leftarrow> consumer_get (\<lambda>c. cujoagent_vap_index_from_mac L c (mac_str (csi_mac L csi)));
       if vap_index = - 1 then return ()
       else do {
         ok \<leftarrow> dcall (d_malloc D ''csi_cfo_event'');
         if \<not> ok then return ()
         else do {
           _ \<leftarrow> cujoagent_emit_event_tlv D CUJO_FPC_CSI_AND_CFO_DATA_EVENT
                  (Some (FPC_CSI (cujoagent_new_csi_and_cfo_event L vap_index csi))) (CSI_EVENT_SIZE L);
           return ()
         }
       }
     }
   }"

definition process_done :: "('m, 'w) denv \<Rightarrow> ('m, 'w) dlib \<Rightarrow> l1_collection_done \<Rightarrow> ('m, 'w, unit) dcl" where
  "process_done D L dn = do {
     _ \<leftarrow> zero_temperatures;
     ready \<leftarrow> consumer_get comms_ready;
     if \<not> ready then return ()
     else do {
       _ \<leftarrow> cujoagent_emit_event_tlv D CUJO_FPC_L1_COLLECTION_DONE (Some (FPC_DONE dn)) (DONE_SIZE L);
       return ()
     }
   }"

definition cujoagent_process_l1_event :: "('m, 'w) denv \<Rightarrow> ('m, 'w) dlib \<Rightarrow> consumer_msg
    \<Rightarrow> cujoagent_consumer_event_subtype_t \<Rightarrow> ('m, 'w, unit) dcl" where
  "cujoagent_process_l1_event D L msg subtype =
     (if subtype = consumer_event_l1_csi_data
      then (case msg of MSG_CSI csi \<Rightarrow> process_csi D L csi | _ \<Rightarrow> return ())
      else if subtype = consumer_event_l1_done
      then (case msg of MSG_DONE dn \<Rightarrow> process_done D L dn | _ \<Rightarrow> return ())
      else return ())"

section \<open>Temperatures\<close>

definition readings :: "'m consumer \<Rightarrow> uint list" where
  "readings c = (case temperature_data (tcollect_ctx c) of None \<Rightarrow> [] | Some xs \<Rightarrow> xs)"

definition cujoagent_new_temperature_event :: "('m, 'w) dlib \<Rightarrow> ('m, 'w, temperature_event) dcl" where
  "cujoagent_new_temperature_event L = do {
     ts \<leftarrow> cujoagent_timestamp L;
     xs \<leftarrow> consumer_get readings;
     return \<lparr>te_timestamp_ms = ts, temperatures_count = of_nat (length xs), temperatures = xs\<rparr>
   }"

definition send_temperatures :: "('m, 'w) denv \<Rightarrow> ('m, 'w) dlib \<Rightarrow> ('m, 'w, unit) dcl" where
  "send_temperatures D L = do {
     ready \<leftarrow> consumer_get comms_ready;
     if \<not> ready then zero_temperatures
     else do {
       ok \<leftarrow> dcall (d_malloc D ''temperature_data_event'');
       if \<not> ok then return ()
       else do {
         e \<leftarrow> cujoagent_new_temperature_event L;
         n \<leftarrow> consumer_get (\<lambda>c. length (readings c));
         _ \<leftarrow> cujoagent_emit_event_tlv D CUJO_FPC_TEMPERATURE_DATA_EVENT (Some (FPC_TEMPERATURE e))
                (TEMPERATURE_EVENT_SIZE L + 4 * n);
         zero_temperatures
       }
     }
   }"

text \<open>False: the reading is of a radio out of range.\<close>

definition store_reading :: "radio_temperature_context_t \<Rightarrow> ('m, 'w, bool) dcl" where
  "store_reading t = do {
     max \<leftarrow> consumer_get (\<lambda>c. length (readings c));
     if radio_index t \<ge> max then return False
     else do {
       _ \<leftarrow> upd_consumer (tcollect_ctx_update (\<lambda>x.
              x\<lparr>temperature_data := map_option (\<lambda>xs. xs[radio_index t := temperature t]) (temperature_data x),
                collected_count := collected_count x + 1\<rparr>));
       return True
     }
   }"

definition cujoagent_process_temperature_event :: "('m, 'w) denv \<Rightarrow> ('m, 'w) dlib \<Rightarrow> consumer_msg
    \<Rightarrow> cujoagent_consumer_event_subtype_t \<Rightarrow> ('m, 'w, unit) dcl" where
  "cujoagent_process_temperature_event D L msg subtype = do {
     go \<leftarrow> (if subtype = consumer_event_radio_temperature
           then (case msg of MSG_TEMPERATURE t \<Rightarrow> store_reading t | _ \<Rightarrow> return False)
           else return True);
     if \<not> go then return ()
     else do {
       max \<leftarrow> consumer_get (\<lambda>c. length (readings c));
       n \<leftarrow> consumer_get (\<lambda>c. collected_count (tcollect_ctx c));
       if n = of_nat max then send_temperatures D L else return ()
     }
   }"

section \<open>The loop of the consumer thread\<close>

text \<open>One event. A message is of the kind its type says (\<open>Adv_Dcl_Typing\<close>), so
  that the cases left over do not arise.\<close>

definition process_event :: "('m, 'w) denv \<Rightarrow> ('m, 'w) dlib \<Rightarrow> ('m, 'w) dbus
    \<Rightarrow> cujoagent_wifi_consumer_event_t \<Rightarrow> ('m, 'w, unit) dcl" where
  "process_event D L B e = (case event_type e of
      consumer_event_type_webconfig \<Rightarrow>
        (case ev_msg e of MSG_DOC s \<Rightarrow> cujoagent_process_webconfig_event D L B s (event_subtype e) | _ \<Rightarrow> return ())
    | consumer_event_type_mgmt_frame \<Rightarrow>
        (case ev_msg e of
           MSG_FRAME fr \<Rightarrow> do { _ \<leftarrow> cujoagent_process_mgmt_frame_event D L fr (event_subtype e); return () }
         | _ \<Rightarrow> return ())
    | consumer_event_type_l1 \<Rightarrow> cujoagent_process_l1_event D L (ev_msg e) (event_subtype e)
    | consumer_event_type_temperature \<Rightarrow> cujoagent_process_temperature_event D L (ev_msg e) (event_subtype e))"

text \<open>The inner loop; the other threads may push while an event waits, so the fuel bounds the events
  followed. Whether the queue was emptied.\<close>

fun drain_queue :: "nat \<Rightarrow> ('m, 'w) denv \<Rightarrow> ('m, 'w) dlib \<Rightarrow> ('m, 'w) dbus \<Rightarrow> ('m, 'w, bool) dcl" where
  "drain_queue 0 D L B = return False"
| "drain_queue (Suc n) D L B = do {
     q \<leftarrow> consumer_get queue;
     case q of
       None \<Rightarrow> return True
     | Some [] \<Rightarrow> return True
     | Some (x # xs) \<Rightarrow> do {
         let (e, rest) = queue_pop D (x # xs);
         _ \<leftarrow> upd_consumer (queue_update (\<lambda>_. Some rest));
         _ \<leftarrow> process_event D L B e;
         drain_queue n D L B
       }
   }"

text \<open>One wake-up: True when the thread returns; None when the fuel ran out.\<close>

definition consumer_queue_round :: "nat \<Rightarrow> ('m, 'w) denv \<Rightarrow> ('m, 'w) dlib \<Rightarrow> ('m, 'w) dbus \<Rightarrow> ('m, 'w, bool option) dcl" where
  "consumer_queue_round n D L B = do {
     exit \<leftarrow> consumer_get exit_consumer;
     if exit then return (Some True)
     else do {
       emptied \<leftarrow> drain_queue n D L B;
       if \<not> emptied then return None
       else do { _ \<leftarrow> upd_consumer (queue_wakeup_update (\<lambda>_. False)); return (Some False) }
     }
   }"

text \<open>The thread waits while \<open>queue_wakeup\<close> is false; \<open>wait\<close> is the wait on the condition.\<close>

fun cujoagent_consumer_queue_loop :: "nat \<Rightarrow> ('m, 'w) denv \<Rightarrow> ('m, 'w) dlib \<Rightarrow> ('m, 'w) dbus
    \<Rightarrow> (('m, 'w) dclst \<Rightarrow> unit \<times> ('m, 'w) dclst) \<Rightarrow> ('m, 'w, unit option) dcl" where
  "cujoagent_consumer_queue_loop 0 D L B wait = return None"
| "cujoagent_consumer_queue_loop (Suc n) D L B wait = do {
     up \<leftarrow> consumer_get queue_wakeup;
     if \<not> up then do { _ \<leftarrow> block wait; cujoagent_consumer_queue_loop n D L B wait }
     else do {
       r \<leftarrow> consumer_queue_round n D L B;
       case r of
         None \<Rightarrow> return None
       | Some True \<Rightarrow> return (Some ())
       | Some False \<Rightarrow> cujoagent_consumer_queue_loop n D L B wait
     }
   }"

end
