(* ===== verification/Adv_Dcl_Threads.thy ===== *)
theory Adv_Dcl_Threads
  imports Adv_Dcl_Process
begin

text \<open>
  The threads of the data-collection library (one collector per client, the socket thread, the fifo
  thread), the callbacks of rbus, and initialisation and shutdown. A loop that may run for ever
  has its number of rounds as fuel.
\<close>

section \<open>Collection for one client\<close>

definition cujoagent_set_csi_collection :: "('m, 'w) dbus \<Rightarrow> uint \<Rightarrow> string \<Rightarrow> ('m, 'w, int) dcl" where
  "cujoagent_set_csi_collection B duration client_mac_str = do {
     err \<leftarrow> dcall (rbus_setUInt B ''Device.WiFi.X_RDK_CSI_LEVL.Duration'' duration);
     if err \<noteq> 0 then return err
     else dcall (rbus_setStr B ''Device.WiFi.X_RDK_CSI_LEVL.clientMac'' client_mac_str)
   }"

text \<open>The interval and the durations, in milliseconds, in the arithmetic of \<open>unsigned int\<close>.\<close>

definition expected_temperature_interval :: "l1_collection_start \<Rightarrow> uint" where
  "expected_temperature_interval st =
     (let e = temperature_interval_secs st * 1000 in if e < 5000 then 5000 else e)"

definition collect_timeout_ms :: "l1_collection_start \<Rightarrow> uint" where
  "collect_timeout_ms st = timeout_secs st * 1000"

definition expected_csi_duration :: "('m, 'w) dbus \<Rightarrow> l1_collection_start \<Rightarrow> uint" where
  "expected_csi_duration B st =
     (let t = collect_timeout_ms st;
          e1 = max_csi_readings st * MIN_CSI_INTERVAL B;
          e2 = (if e1 > t then t else e1)
      in if e2 < 1000 then 1000 else e2)"

text \<open>False when the thread was told to stop: then no end is reported.\<close>

fun l1_events :: "('m, 'w) denv \<Rightarrow> l1_collector \<Rightarrow> (int \<times> bool) list \<Rightarrow> ('m, 'w, bool) dcl" where
  "l1_events D col [] = return True"
| "l1_events D col ((efd, epollin) # r) =
     (if \<not> epollin then l1_events D col r
      else do {
        u \<leftarrow> dcall (d_read_fd D efd);
        case u of
          None \<Rightarrow> l1_events D col r
        | Some v \<Rightarrow>
            if efd = timer col then return True
            else if efd = notification col \<and> v = notify_code NOTIFY_L1_COLLECTION_THREAD_STOP
            then do {
              _ \<leftarrow> cujoagent_write_event D (notification_ack col) NOTIFY_L1_COLLECTION_THREAD_RETURN;
              return False
            }
            else l1_events D col r
      })"

definition set_intervals :: "uint \<Rightarrow> 'm consumer \<Rightarrow> 'm consumer" where
  "set_intervals v = subs_update (on_demand_subscriptions_update
     (map_option (map (map_option (sub_interval_update (\<lambda>_. v))))))"

definition l1_collect :: "('m, 'w) denv \<Rightarrow> ('m, 'w) dbus \<Rightarrow> l1_collector \<Rightarrow> int \<Rightarrow> ('m, 'w, bool) dcl" where
  "l1_collect D B col ep =
     (if ep = - 1 then return True
      else do {
        a \<leftarrow> dcall (d_epoll_add D ep (notification col));
        if a \<noteq> 0 then return True
        else do {
          b \<leftarrow> dcall (d_epoll_add D ep (timer col));
          if b \<noteq> 0 then return True
          else do {
            _ \<leftarrow> upd_consumer (set_intervals (expected_temperature_interval (l1_start col)));
            od \<leftarrow> consumer_get (\<lambda>c. on_demand_subscriptions (subs c));
            su \<leftarrow> dcall (rbus_SubscribeEx B od);
            if su \<noteq> 0 then return True
            else do {
              cs \<leftarrow> cujoagent_set_csi_collection B (expected_csi_duration B (l1_start col))
                     (mac_str (start_mac (l1_start col)));
              if cs \<noteq> 0 then return True
              else do {
                let t = collect_timeout_ms (l1_start col);
                ti \<leftarrow> dcall (d_timerfd_settime B (timer col) (t div 1000) (t mod 1000 * 1000000));
                if ti \<noteq> 0 then return True
                else do {
                  es \<leftarrow> block (d_epoll_wait D ep (sint (t + 100)));
                  case es of None \<Rightarrow> return True | Some evs \<Rightarrow> l1_events D col evs
                }
              }
            }
          }
        }
      })"

fun unsubscribe_all :: "('m, 'w) dbus \<Rightarrow> rbusEventSubscription_t option list \<Rightarrow> ('m, 'w, unit) dcl" where
  "unsubscribe_all B [] = return ()"
| "unsubscribe_all B (x # xs) = do {
     ex \<leftarrow> dcall (rbus_IsSubscriptionExist B x);
     _ \<leftarrow> (if ex then dcall (rbus_UnsubscribeEx B (Some [x])) else return ());
     unsubscribe_all B xs
   }"

definition close_fd :: "('m, 'w) denv \<Rightarrow> int \<Rightarrow> ('m, 'w, unit) dcl" where
  "close_fd D fd = (if fd \<ge> 0 then dcall (d_close D fd) else return ())"

fun clear_slot :: "l1_collector \<Rightarrow> l1_collector option list \<Rightarrow> l1_collector option list" where
  "clear_slot col [] = []"
| "clear_slot col (x # xs) = (if x = Some col then None # xs else x # clear_slot col xs)"

text \<open>What every way out of the thread does.\<close>

definition l1_collector_end :: "('m, 'w) denv \<Rightarrow> ('m, 'w) dbus \<Rightarrow> l1_collector \<Rightarrow> int \<Rightarrow> ('m, 'w, unit) dcl" where
  "l1_collector_end D B col ep = do {
     od \<leftarrow> consumer_get (\<lambda>c. on_demand_subscriptions (subs c));
     _ \<leftarrow> unsubscribe_all B (case od of None \<Rightarrow> [] | Some xs \<Rightarrow> xs);
     f \<leftarrow> consumer_get fds;
     _ \<leftarrow> dcall (d_epoll_del D (queue_epoll f) (notification_ack col));
     _ \<leftarrow> close_fd D (notification_ack col);
     _ \<leftarrow> close_fd D (notification col);
     _ \<leftarrow> close_fd D (timer col);
     _ \<leftarrow> close_fd D ep;
     upd_consumer (l1_collections_update (clear_slot col))
   }"

definition cujoagent_l1_collector :: "('m, 'w) denv \<Rightarrow> ('m, 'w) dbus \<Rightarrow> l1_collector \<Rightarrow> ('m, 'w, unit) dcl" where
  "cujoagent_l1_collector D B col = do {
     ep \<leftarrow> dcall (d_epoll_create D);
     finished \<leftarrow> l1_collect D B col ep;
     _ \<leftarrow> (if finished
          then cujoagent_push_to_consumer_queue D
                 (MSG_DONE \<lparr>done_vap_index = start_vap_index (l1_start col), done_mac = start_mac (l1_start col)\<rparr>)
                 consumer_event_type_l1 consumer_event_l1_done
          else return 0);
     l1_collector_end D B col ep
   }"

fun free_slot :: "l1_collector option list \<Rightarrow> nat \<Rightarrow> nat option" where
  "free_slot [] k = None"
| "free_slot (x # xs) k = (if x = None then Some k else free_slot xs (k + 1))"

definition collecting :: "mac_address_t \<Rightarrow> l1_collector option list \<Rightarrow> bool" where
  "collecting mac slots \<longleftrightarrow> list_ex (\<lambda>x. case x of None \<Rightarrow> False | Some col \<Rightarrow> start_mac (l1_start col) = mac) slots"

text \<open>The three descriptors and the registration of the acknowledgement; on a failure what was opened
  is closed.\<close>

definition new_collector :: "('m, 'w) denv \<Rightarrow> ('m, 'w) dbus \<Rightarrow> l1_collection_start \<Rightarrow> ('m, 'w, l1_collector option) dcl" where
  "new_collector D B st = do {
     ok \<leftarrow> dcall (d_malloc D ''collector'');
     if \<not> ok then return None
     else do {
       n \<leftarrow> dcall (d_eventfd D);
       if n = - 1 then return None
       else do {
         a \<leftarrow> dcall (d_eventfd D);
         if a = - 1 then do { _ \<leftarrow> close_fd D n; return None }
         else do {
           t \<leftarrow> dcall (d_timerfd_create B);
           if t = - 1 then do { _ \<leftarrow> close_fd D a; _ \<leftarrow> close_fd D n; return None }
           else do {
             f \<leftarrow> consumer_get fds;
             e \<leftarrow> dcall (d_epoll_add D (queue_epoll f) a);
             if e \<noteq> 0 then do { _ \<leftarrow> close_fd D a; _ \<leftarrow> close_fd D n; _ \<leftarrow> close_fd D t; return None }
             else return (Some \<lparr>notification = n, notification_ack = a, timer = t, l1_start = st\<rparr>)
           }
         }
       }
     }
   }"

definition cujoagent_start_l1_collection ::
    "('m, 'w) denv \<Rightarrow> ('m, 'w) dbus \<Rightarrow> l1_collection_start \<Rightarrow> ('m, 'w, int) dcl" where
  "cujoagent_start_l1_collection D B st = do {
     c \<leftarrow> consumer_get id;
     if disable_l1_collection c then return (- 1)
     else if collecting (start_mac st) (l1_collections c) then return (- 1)
     else (case free_slot (l1_collections c) 0 of
         None \<Rightarrow> return (- 1)
       | Some slot \<Rightarrow> do {
           col \<leftarrow> new_collector D B st;
           case col of
             None \<Rightarrow> return (- 1)
           | Some collector \<Rightarrow> do {
               _ \<leftarrow> upd_consumer (l1_collections_update (\<lambda>xs. xs[slot := Some collector]));
               err \<leftarrow> dcall (d_pthread_create B ''cujoagent_l1_collector'');
               if err \<noteq> 0
               then do {
                 f \<leftarrow> consumer_get fds;
                 _ \<leftarrow> dcall (d_epoll_del D (queue_epoll f) (notification_ack collector));
                 _ \<leftarrow> upd_consumer (l1_collections_update (\<lambda>xs. xs[slot := None]));
                 _ \<leftarrow> close_fd D (notification_ack collector);
                 _ \<leftarrow> close_fd D (notification collector);
                 _ \<leftarrow> close_fd D (timer collector);
                 return (- 1)
               }
               else return 0
             }
         })
   }"

section \<open>The socket thread\<close>

text \<open>What the thread keeps: its buffer and the address of the agent.\<close>

record socket_state =
  sock_buf :: "byte list"
  daddr :: addr

text \<open>The acknowledgement for a notification: the first row with that number.\<close>

fun lut_ack :: "64 word \<Rightarrow> cujoagent_tlv_notify_lut_t list \<Rightarrow> cujoagent_notify_t" where
  "lut_ack u [] = NOTIFY_NONE"
| "lut_ack u (r # rs) = (if u = notify_code (notify_ready r) then notify_sent r else lut_ack u rs)"

text \<open>A notification: True when the thread returns.\<close>

definition socket_notification :: "('m, 'w) denv \<Rightarrow> addr \<Rightarrow> ('m, 'w, bool) dcl" where
  "socket_notification D to = do {
     c \<leftarrow> consumer_get id;
     u \<leftarrow> dcall (d_read_fd D (comms_notification (fds c)));
     case u of
       None \<Rightarrow> return False
     | Some v \<Rightarrow> do {
         let notify = (if v = notify_code NOTIFY_SOCKET_THREAD_STOP then NOTIFY_SOCKET_THREAD_RETURN
                       else lut_ack v (tlv_notify_lut c));
         if notify = NOTIFY_NONE then return False
         else if notify = NOTIFY_SOCKET_THREAD_RETURN
         then do { _ \<leftarrow> cujoagent_write_event D (comms_notification_ack (fds c)) notify; return True }
         else (case ctx_tlv (tlv_ctx c) of
             None \<Rightarrow> return False
           | Some t \<Rightarrow>
               if ctx_size (tlv_ctx c) \<noteq> unat (tlv_len t) + TLV_SIZE D then return False
               else do {
                 sent \<leftarrow> dcall (d_sendto D (sock_fd (fds c)) t (ctx_size (tlv_ctx c)) to);
                 if \<not> sent then return False
                 else do {
                   _ \<leftarrow> cujoagent_write_event D (comms_notification_ack (fds c)) notify;
                   return False
                 }
               })
       }
   }"

definition socket_datagram :: "('m, 'w) denv \<Rightarrow> ('m, 'w) dbus \<Rightarrow> socket_state \<Rightarrow> ('m, 'w, socket_state) dcl" where
  "socket_datagram D B ss = do {
     f \<leftarrow> consumer_get fds;
     r \<leftarrow> block (d_recvfrom D (sock_fd f));
     case r of
       None \<Rightarrow> return ss
     | Some (bs, from) \<Rightarrow> do {
         let buf = recv_into (sock_buf ss) bs;
         let ss' = ss\<lparr>sock_buf := buf\<rparr>;
         case fst (tlv_header D buf) of
           CUJO_FPC_HELLO \<Rightarrow> do {
             v \<leftarrow> cujoagent_send_version_tlv D (sock_fd f) from;
             if v = - 1 then return ss'
             else do { _ \<leftarrow> set_comms_ready True; return (ss'\<lparr>daddr := from\<rparr>) }
           }
         | CUJO_FPC_L1_COLLECTION_START \<Rightarrow> do {
             _ \<leftarrow> cujoagent_start_l1_collection D B (l1_start_of B (drop (TLV_SIZE D) buf));
             return ss'
           }
         | _ \<Rightarrow> return ss'
       }
   }"

fun socket_events :: "('m, 'w) denv \<Rightarrow> ('m, 'w) dbus \<Rightarrow> (int \<times> bool) list \<Rightarrow> socket_state
    \<Rightarrow> ('m, 'w, bool \<times> socket_state) dcl" where
  "socket_events D B [] ss = return (False, ss)"
| "socket_events D B ((efd, epollin) # r) ss =
     (if \<not> epollin then socket_events D B r ss
      else do {
        f \<leftarrow> consumer_get fds;
        if efd = comms_notification f
        then do {
          stop \<leftarrow> socket_notification D (daddr ss);
          if stop then return (True, ss) else socket_events D B r ss
        }
        else if efd = sock_fd f
        then do { ss' \<leftarrow> socket_datagram D B ss; socket_events D B r ss' }
        else socket_events D B r ss
      })"

definition socket_round :: "('m, 'w) denv \<Rightarrow> ('m, 'w) dbus \<Rightarrow> socket_state \<Rightarrow> ('m, 'w, bool \<times> socket_state) dcl" where
  "socket_round D B ss = do {
     f \<leftarrow> consumer_get fds;
     es \<leftarrow> block (d_epoll_wait D (comms_epoll f) (- 1));
     socket_events D B (case es of None \<Rightarrow> [] | Some evs \<Rightarrow> evs) ss
   }"

fun socket_rounds :: "nat \<Rightarrow> ('m, 'w) denv \<Rightarrow> ('m, 'w) dbus \<Rightarrow> socket_state \<Rightarrow> ('m, 'w, unit option) dcl" where
  "socket_rounds 0 D B ss = return None"
| "socket_rounds (Suc n) D B ss = do {
     (stop, ss') \<leftarrow> socket_round D B ss;
     if stop then return (Some ()) else socket_rounds n D B ss'
   }"

definition cujoagent_socket_loop :: "nat \<Rightarrow> ('m, 'w) denv \<Rightarrow> ('m, 'w) dbus \<Rightarrow> ('m, 'w, unit option) dcl" where
  "cujoagent_socket_loop n D B = do {
     f \<leftarrow> consumer_get fds;
     h \<leftarrow> cujoagent_tlv_handshake n D (sock_fd f) (replicate MAX_SOCK_RECV_BUFFER 0) [];
     case h of
       None \<Rightarrow> return None
     | Some (r, buf, paddr) \<Rightarrow>
         if r \<noteq> 0 then return (Some ())
         else do {
           _ \<leftarrow> set_comms_ready True;
           socket_rounds n D B \<lparr>sock_buf = buf, daddr = paddr\<rparr>
         }
   }"

section \<open>The fifo thread\<close>

abbreviation "CSI_LABEL_LEN \<equiv> 4 :: nat"

definition csi_label :: "byte list" where
  "csi_label = [0x43, 0x53, 0x49]"

text \<open>The inner loop reads until nothing is left, an error, or a payload that is not as announced.\<close>

fun fifo_read_loop :: "nat \<Rightarrow> ('m, 'w) denv \<Rightarrow> ('m, 'w) dbus \<Rightarrow> byte list \<Rightarrow> ('m, 'w, byte list) dcl" where
  "fifo_read_loop 0 D B buf = return buf"
| "fifo_read_loop (Suc n) D B buf = do {
     f \<leftarrow> consumer_get fds;
     r \<leftarrow> dcall (d_read_fifo B (fifo_payload_size B));
     case r of
       None \<Rightarrow> return buf
     | Some bs \<Rightarrow>
         if bs = [] then return buf
         else do {
           let buf' = recv_into buf bs;
           if take 3 buf' \<noteq> csi_label then return buf'
           else if length bs \<noteq> CSI_LABEL_LEN + unat (csi_total_length B (drop CSI_LABEL_LEN buf')) + 4
           then return buf'
           else do {
             _ \<leftarrow> cujoagent_push_to_consumer_queue D (MSG_CSI buf') consumer_event_type_l1 consumer_event_l1_csi_data;
             fifo_read_loop n D B buf'
           }
         }
   }"

fun fifo_events :: "nat \<Rightarrow> ('m, 'w) denv \<Rightarrow> ('m, 'w) dbus \<Rightarrow> (int \<times> bool) list \<Rightarrow> byte list
    \<Rightarrow> ('m, 'w, bool \<times> byte list) dcl" where
  "fifo_events n D B [] buf = return (False, buf)"
| "fifo_events n D B ((efd, epollin) # r) buf =
     (if \<not> epollin then fifo_events n D B r buf
      else do {
        f \<leftarrow> consumer_get fds;
        if efd = fifo_fd f
        then do { buf' \<leftarrow> fifo_read_loop n D B buf; fifo_events n D B r buf' }
        else if efd = fifo_notification f
        then do {
          u \<leftarrow> dcall (d_read_fd D efd);
          if u = Some (notify_code NOTIFY_FIFO_THREAD_STOP)
          then do {
            _ \<leftarrow> cujoagent_write_event D (fifo_notification_ack f) NOTIFY_FIFO_THREAD_RETURN;
            return (True, buf)
          }
          else fifo_events n D B r buf
        }
        else fifo_events n D B r buf
      })"

fun fifo_rounds :: "nat \<Rightarrow> ('m, 'w) denv \<Rightarrow> ('m, 'w) dbus \<Rightarrow> byte list \<Rightarrow> ('m, 'w, unit option) dcl" where
  "fifo_rounds 0 D B buf = return None"
| "fifo_rounds (Suc n) D B buf = do {
     f \<leftarrow> consumer_get fds;
     es \<leftarrow> block (d_epoll_wait D (fifo_epoll f) (- 1));
     case es of
       None \<Rightarrow> return (Some ())
     | Some evs \<Rightarrow> do {
         (stop, buf') \<leftarrow> fifo_events n D B evs buf;
         if stop then return (Some ()) else fifo_rounds n D B buf'
       }
   }"

definition cujoagent_fifo_loop :: "nat \<Rightarrow> ('m, 'w) denv \<Rightarrow> ('m, 'w) dbus \<Rightarrow> ('m, 'w, unit option) dcl" where
  "cujoagent_fifo_loop n D B = do {
     ok \<leftarrow> dcall (d_malloc D ''fifo_buf'');
     if \<not> ok then return (Some ())
     else fifo_rounds n D B (replicate (fifo_payload_size B) 0)
   }"

definition cujoagent_spawn_loop :: "('m, 'w) dbus \<Rightarrow> string \<Rightarrow> ('m, 'w, int) dcl" where
  "cujoagent_spawn_loop B start_routine = dcall (d_pthread_create B start_routine)"

end
