(* ===== verification/Adv_Dcl_Init.thy ===== *)
theory Adv_Dcl_Init
  imports Adv_Dcl_Threads
begin

text \<open>
  The callbacks rbus makes into the data-collection library, the subscriptions, and initialisation and
  shutdown of the library.
\<close>

section \<open>Callbacks\<close>

text \<open>\<open>valid\<close>: event, subscription, their data and user data are all present. A value is None when rbus
  has none under the name of the subscription.\<close>

definition cujoagent_webconfig_handler ::
    "('m, 'w) denv \<Rightarrow> ('m, 'w) dbus \<Rightarrow> bool \<Rightarrow> string \<Rightarrow> string option \<Rightarrow> ('m, 'w, unit) dcl" where
  "cujoagent_webconfig_handler D B valid name value =
     (if \<not> valid then return ()
      else (case value of
          None \<Rightarrow> return ()
        | Some s \<Rightarrow> do {
            let subtype = (if name = WEBCONFIG_DOC_NAME B then consumer_event_webconfig_set_data
                           else consumer_event_webconfig_get_data);
            _ \<leftarrow> cujoagent_push_to_consumer_queue D (MSG_DOC s) consumer_event_type_webconfig subtype;
            return ()
          }))"

text \<open>The frame control field, little endian; None when the frame has less than two bytes.\<close>

definition frame_control :: "frame_data_t \<Rightarrow> 16 word option" where
  "frame_control fr = (case frame_data fr of
      b0 # b1 # _ \<Rightarrow> Some (ucast b0 + 256 * ucast b1)
    | _ \<Rightarrow> None)"

definition frame_event_subtype ::
    "wifi_mgmt_frame_type_t \<Rightarrow> 16 word \<Rightarrow> cujoagent_consumer_event_subtype_t option" where
  "frame_event_subtype t subtype = (case t of
      WIFI_MGMT_FRAME_TYPE_PROBE_REQ \<Rightarrow> if subtype = 0x40 then Some consumer_event_probe_req else None
    | WIFI_MGMT_FRAME_TYPE_AUTH \<Rightarrow> if subtype = 0xB0 then Some consumer_event_auth else None
    | WIFI_MGMT_FRAME_TYPE_ASSOC_REQ \<Rightarrow> if subtype = 0x00 then Some consumer_event_assoc_req else None
    | WIFI_MGMT_FRAME_TYPE_REASSOC_REQ \<Rightarrow> if subtype = 0x20 then Some consumer_event_reassoc_req else None
    | WIFI_MGMT_FRAME_TYPE_OTHER _ \<Rightarrow> None)"

text \<open>The answer is False when memory behind the value was read.\<close>

definition cujoagent_frame_events_handler ::
    "('m, 'w) denv \<Rightarrow> ('m, 'w) dbus \<Rightarrow> bool \<Rightarrow> byte list option \<Rightarrow> ('m, 'w, bool) dcl" where
  "cujoagent_frame_events_handler D B valid value =
     (if \<not> valid then return True
      else (case value of
          None \<Rightarrow> return True
        | Some bytes \<Rightarrow>
            if length bytes > FRAME_DATA_SIZE B then return True
            else (let fr = frame_of B bytes in
              case frame_control fr of
                None \<Rightarrow> return False
              | Some fc \<Rightarrow> (case frame_event_subtype (frame_type fr) (and fc 0x00F0) of
                    None \<Rightarrow> return True
                  | Some st \<Rightarrow> do {
                      _ \<leftarrow> cujoagent_push_to_consumer_queue D (MSG_FRAME fr) consumer_event_type_mgmt_frame st;
                      return True
                    }))))"

definition cujoagent_unsupported_handler :: "('m, 'w, unit) dcl" where
  "cujoagent_unsupported_handler = return ()"

text \<open>\<open>sscanf\<close> with \<open>%d\<close> behind a prefix: the number, when the prefix is there and a number follows.\<close>

definition radio_prefix :: string where
  "radio_prefix = ''Device.WiFi.Events.Radio.''"

definition scan_d :: "string \<Rightarrow> uint option" where
  "scan_d s =
     (let t = dropWhile isspace s;
          (neg, u) = (case t of
              c # r \<Rightarrow> if c = CHR ''-'' then (True, r) else if c = CHR ''+'' then (False, r) else (False, t)
            | [] \<Rightarrow> (False, t));
          ds = takeWhile isdigit u
      in if ds = [] then None
         else Some (if neg then - of_nat (dec_value ds) else of_nat (dec_value ds)))"

definition radio_of_name :: "string \<Rightarrow> uint option" where
  "radio_of_name name =
     (if take (length radio_prefix) name = radio_prefix then scan_d (drop (length radio_prefix) name) else None)"

definition cujoagent_radio_temperature_handler ::
    "('m, 'w) denv \<Rightarrow> bool \<Rightarrow> string \<Rightarrow> uint option \<Rightarrow> ('m, 'w, unit) dcl" where
  "cujoagent_radio_temperature_handler D valid name value =
     (if \<not> valid then return ()
      else (case radio_of_name name of
          None \<Rightarrow> return ()
        | Some event_radio_idx \<Rightarrow>
            if event_radio_idx = 0 then return ()
            else (case value of
                None \<Rightarrow> return ()
              | Some t \<Rightarrow> do {
                  _ \<leftarrow> cujoagent_push_to_consumer_queue D
                         (MSG_TEMPERATURE \<lparr>radio_index = unat (event_radio_idx - 1), temperature = t\<rparr>)
                         consumer_event_type_temperature consumer_event_radio_temperature;
                  return ()
                })))"

section \<open>Subscriptions\<close>

text \<open>The names of the subscriptions per access point and per radio.\<close>

definition frames_name :: "nat \<Rightarrow> string" where
  "frames_name n = ''Device.WiFi.Events.VAP.'' @ nat_digits n @ ''.Frames.Mgmt''"

definition temperature_name :: "nat \<Rightarrow> string" where
  "temperature_name n = radio_prefix @ nat_digits n @ ''.Temperature''"

text \<open>Collecting the access points on the private bridge. When the array cannot grow it is freed, and the
  pointer kept.\<close>

fun collect_vaps :: "('m, 'w) denv \<Rightarrow> wifi_interface_name_idex_map_t list \<Rightarrow> ('m, 'w, bool) dcl" where
  "collect_vaps D [] = return True"
| "collect_vaps D (i # r) =
     (if bridge_name i \<noteq> ''brlan0'' then collect_vaps D r
      else do {
        _ \<leftarrow> upd_consumer (subs_update (vap_subs_count_update Suc));
        ok \<leftarrow> dcall (d_malloc D ''vap_subs_indexes'');
        if \<not> ok
        then do {
          p \<leftarrow> consumer_get (\<lambda>c. vap_subs_indexes (subs c));
          _ \<leftarrow> free_ptr D ''vap_subs_indexes'' p;
          return False
        }
        else do {
          _ \<leftarrow> upd_consumer (subs_update (\<lambda>sb. vap_subs_indexes_update (\<lambda>p. Some
                 (take (vap_subs_count sb - 1) (case p of None \<Rightarrow> [] | Some xs \<Rightarrow> xs) @ [iface_index i])) sb));
          collect_vaps D r
        }
      })"

type_synonym subref = "(consumer_subs \<Rightarrow> rbusEventSubscription_t option list option) \<times>
  ((rbusEventSubscription_t option list option \<Rightarrow> rbusEventSubscription_t option list option)
    \<Rightarrow> consumer_subs \<Rightarrow> consumer_subs)"

abbreviation "subs_ref \<equiv> (subscriptions, subscriptions_update) :: subref"
abbreviation "raw_ref \<equiv> (raw_data_subscriptions, raw_data_subscriptions_update) :: subref"
abbreviation "demand_ref \<equiv> (on_demand_subscriptions, on_demand_subscriptions_update) :: subref"

definition cujoagent_fill_subscription ::
    "('m, 'w) denv \<Rightarrow> subref \<Rightarrow> nat \<Rightarrow> string \<Rightarrow> uint \<Rightarrow> dcl_handler \<Rightarrow> ('m, 'w, int) dcl" where
  "cujoagent_fill_subscription D r idx filler_name interval handler = do {
     p \<leftarrow> consumer_get (\<lambda>c. fst r (subs c));
     if idx \<ge> length (case p of None \<Rightarrow> [] | Some xs \<Rightarrow> xs) then return (- 1)
     else do {
       dup \<leftarrow> dcall (d_malloc D ''eventName'');
       _ \<leftarrow> upd_consumer (subs_update (snd r (map_option (\<lambda>xs. xs[idx :=
              (if dup then Some \<lparr>eventName = filler_name, sub_interval = interval, sub_handler = handler\<rparr> else None)]))));
       return (if dup then 0 else - 1)
     }
   }"

text \<open>One entry per subscription: the array, the index, the name, the interval and the handler.\<close>

type_synonym sub_entry = "subref \<times> nat \<times> string \<times> uint \<times> dcl_handler"

fun fill_all :: "('m, 'w) denv \<Rightarrow> ('m, 'w) dbus \<Rightarrow> sub_entry list \<Rightarrow> ('m, 'w, bool) dcl" where
  "fill_all D B [] = return True"
| "fill_all D B ((r, idx, name, interval, h) # es) =
     (if length name \<ge> RBUS_MAX_NAME_LENGTH B then return False
      else do {
        x \<leftarrow> cujoagent_fill_subscription D r idx name interval h;
        if x \<noteq> 0 then return False else fill_all D B es
      })"

definition sub_entries :: "('m, 'w) dbus \<Rightarrow> nat list \<Rightarrow> nat \<Rightarrow> sub_entry list" where
  "sub_entries B vaps radios_n =
     [(subs_ref, 0, WEBCONFIG_DOC_NAME B, 0, HANDLE_WEBCONFIG),
      (subs_ref, 1, WEBCONFIG_ASSOC_NAME B, 0, HANDLE_WEBCONFIG),
      (raw_ref, 0, ''Device.WiFi.X_RDK_CSI_LEVL.datafifo'', 0, HANDLE_UNSUPPORTED)] @
     map (\<lambda>j. (subs_ref, 2 + j, frames_name (vaps ! j + 1), 0, HANDLE_FRAME_EVENTS)) [0..<length vaps] @
     map (\<lambda>k. (demand_ref, k, temperature_name (k + 1), 5000, HANDLE_RADIO_TEMPERATURE)) [0..<radios_n]"

text \<open>The arrays, zeroed, one after the other.\<close>

definition alloc_subs :: "('m, 'w) denv \<Rightarrow> subref \<Rightarrow> string \<Rightarrow> nat \<Rightarrow> ('m, 'w, bool) dcl" where
  "alloc_subs D r name n = do {
     ok \<leftarrow> dcall (d_malloc D name);
     _ \<leftarrow> upd_consumer (subs_update (snd r (\<lambda>_. if ok then Some (replicate n None) else None)));
     return ok
   }"

definition subscribe_arrays :: "('m, 'w) denv \<Rightarrow> nat \<Rightarrow> nat \<Rightarrow> ('m, 'w, bool) dcl" where
  "subscribe_arrays D vaps radios_n = do {
     a \<leftarrow> alloc_subs D subs_ref ''subscriptions'' (2 + vaps);
     if \<not> a then return False
     else do {
       b \<leftarrow> alloc_subs D raw_ref ''raw_data_subscriptions'' 1;
       if \<not> b then return False
       else do {
         c \<leftarrow> alloc_subs D demand_ref ''on_demand_subscriptions'' radios_n;
         if \<not> c then return False
         else do {
           t \<leftarrow> dcall (d_malloc D ''temperature_data'');
           _ \<leftarrow> upd_consumer (tcollect_ctx_update (temperature_data_update
                  (\<lambda>_. if t then Some (replicate radios_n 0) else None)));
           return t
         }
       }
     }
   }"

abbreviation "RBUS_ERROR_BUS_ERROR \<equiv> 1 :: int"

definition subscribe_filled :: "('m, 'w) dbus \<Rightarrow> ('m, 'w, int) dcl" where
  "subscribe_filled B = do {
     sb \<leftarrow> consumer_get subs;
     err \<leftarrow> dcall (rbus_SubscribeEx B (subscriptions sb));
     if err \<noteq> 0 then return err
     else dcall (rbus_SubscribeExRawData B (raw_data_subscriptions sb))
   }"

definition cujoagent_rbus_subscribe :: "('m, 'w) denv \<Rightarrow> ('m, 'w) dlib \<Rightarrow> ('m, 'w) dbus \<Rightarrow> ('m, 'w, int) dcl" where
  "cujoagent_rbus_subscribe D L B = do {
     p \<leftarrow> consumer_get (\<lambda>c. wifi_prop (wifi c));
     if numRadios p = 0 then return RBUS_ERROR_BUS_ERROR
     else do {
       _ \<leftarrow> upd_consumer (subs_update (vap_subs_count_update (\<lambda>_. 0)));
       ok \<leftarrow> collect_vaps D (interfaces L p);
       if \<not> ok then return RBUS_ERROR_BUS_ERROR
       else do {
         vaps \<leftarrow> consumer_get subs_indexes;
         if vaps = [] then return RBUS_ERROR_BUS_ERROR
         else do {
           al \<leftarrow> subscribe_arrays D (length vaps) (numRadios p);
           if \<not> al then return RBUS_ERROR_BUS_ERROR
           else do {
             fl \<leftarrow> fill_all D B (sub_entries B vaps (numRadios p));
             if \<not> fl then return RBUS_ERROR_BUS_ERROR
             else subscribe_filled B
           }
         }
       }
     }
   }"

section \<open>Initialisation and shutdown\<close>

definition cujoagent_webconfig_init_get :: "('m, 'w) denv \<Rightarrow> ('m, 'w) dbus \<Rightarrow> ('m, 'w, int) dcl" where
  "cujoagent_webconfig_init_get D B = do {
     f \<leftarrow> consumer_get fds;
     e \<leftarrow> dcall (d_epoll_add D (misc_epoll f) (misc_notification f));
     if e \<noteq> 0 then return RBUS_ERROR_BUS_ERROR
     else do {
       (err, s) \<leftarrow> dcall (rbus_getStr B (WEBCONFIG_INIT_NAME B));
       if err \<noteq> 0 then return err
       else do {
         _ \<leftarrow> cujoagent_push_to_consumer_queue D (MSG_DOC s) consumer_event_type_webconfig consumer_event_webconfig_init;
         n \<leftarrow> cujoagent_wait_for_event D (misc_epoll f) NOTIFY_WEBCONFIG_INIT_READY EPOLL_TIMEOUT_MS;
         if n \<le> 0 then return RBUS_ERROR_BUS_ERROR
         else do {
           d \<leftarrow> dcall (d_epoll_del D (misc_epoll f) (misc_notification f));
           if d \<noteq> 0 then return RBUS_ERROR_BUS_ERROR
           else do {
             _ \<leftarrow> cujoagent_close_if_valid D (misc_notification, misc_notification_update);
             _ \<leftarrow> cujoagent_close_if_valid D (misc_epoll, misc_epoll_update);
             return 0
           }
         }
       }
     }
   }"

definition cujoagent_set_l1_max_clients :: "('m, 'w) dbus \<Rightarrow> ('m, 'w, int) dcl" where
  "cujoagent_set_l1_max_clients B =
     dcall (rbus_setUInt B ''Device.WiFi.X_RDK_CSI_LEVL.maxNumberCSIClients'' (of_nat DCL_MAX_CSI_CLIENTS))"

definition cujoagent_assoc_list_init_get :: "('m, 'w) denv \<Rightarrow> ('m, 'w) dbus \<Rightarrow> ('m, 'w, int) dcl" where
  "cujoagent_assoc_list_init_get D B = do {
     (err, s) \<leftarrow> dcall (rbus_getStr B (WEBCONFIG_ASSOC_NAME B));
     if err \<noteq> 0 then return err
     else do {
       _ \<leftarrow> cujoagent_push_to_consumer_queue D (MSG_DOC s) consumer_event_type_webconfig consumer_event_webconfig_set_data;
       return 0
     }
   }"

text \<open>The collectors are told to stop, whoever they run for.\<close>

fun stop_all_collectors :: "('m, 'w) denv \<Rightarrow> nat list \<Rightarrow> ('m, 'w, unit) dcl" where
  "stop_all_collectors D [] = return ()"
| "stop_all_collectors D (k # ks) = do {
     slot \<leftarrow> consumer_get (\<lambda>c. l1_collections c ! k);
     case slot of
       None \<Rightarrow> stop_all_collectors D ks
     | Some collector \<Rightarrow> do {
         _ \<leftarrow> cujoagent_write_event D (notification collector) NOTIFY_L1_COLLECTION_THREAD_STOP;
         f \<leftarrow> consumer_get fds;
         _ \<leftarrow> cujoagent_wait_for_event D (queue_epoll f) NOTIFY_L1_COLLECTION_THREAD_RETURN EPOLL_TIMEOUT_MS;
         stop_all_collectors D ks
       }
   }"

definition stop_thread :: "('m, 'w) denv \<Rightarrow> (consumer_fds \<Rightarrow> int) \<Rightarrow> cujoagent_notify_t \<Rightarrow> cujoagent_notify_t
    \<Rightarrow> ('m, 'w, unit) dcl" where
  "stop_thread D fd stop answer = do {
     f \<leftarrow> consumer_get fds;
     _ \<leftarrow> cujoagent_write_event D (fd f) stop;
     _ \<leftarrow> cujoagent_wait_for_event D (queue_epoll f) answer EPOLL_TIMEOUT_MS;
     return ()
   }"

definition cujoagent_wifidatacollection_deinit ::
    "('m, 'w) denv \<Rightarrow> ('m, 'w) dlib \<Rightarrow> ('m, 'w) dbus \<Rightarrow> bool \<Rightarrow> bool \<Rightarrow> ('m, 'w, int) dcl" where
  "cujoagent_wifidatacollection_deinit D L B present do_rbus_event_unsubscribe =
     (if \<not> present then return (- 1)
      else do {
        _ \<leftarrow> (if do_rbus_event_unsubscribe
             then do {
               sb \<leftarrow> consumer_get subs;
               _ \<leftarrow> dcall (rbus_UnsubscribeEx B (subscriptions sb));
               dcall (rbus_UnsubscribeExRawData B (raw_data_subscriptions sb))
             }
             else return ());
        _ \<leftarrow> stop_all_collectors D [0..<DCL_MAX_CSI_CLIENTS];
        _ \<leftarrow> upd_consumer (disable_l1_collection_update (\<lambda>_. True));
        _ \<leftarrow> stop_thread D fifo_notification NOTIFY_FIFO_THREAD_STOP NOTIFY_FIFO_THREAD_RETURN;
        _ \<leftarrow> upd_consumer (\<lambda>c. c\<lparr>exit_consumer := True, queue_wakeup := True\<rparr>);
        _ \<leftarrow> stop_thread D comms_notification NOTIFY_SOCKET_THREAD_STOP NOTIFY_SOCKET_THREAD_RETURN;
        _ \<leftarrow> cujoagent_close_if_valid D sock_ref;
        _ \<leftarrow> upd_consumer (free_all_in_consumer L);
        _ \<leftarrow> cujoagent_consumer_deinit D;
        return 0
      })"

definition cujoagent_consumer_initialize ::
    "('m, 'w) denv \<Rightarrow> ('m, 'w) dlib \<Rightarrow> ('m, 'w) dbus \<Rightarrow> bool \<Rightarrow> ('m, 'w, int) dcl" where
  "cujoagent_consumer_initialize D L B present =
     (if \<not> present then return (- 1)
      else do {
        a \<leftarrow> cujoagent_consumer_init D;
        ok \<leftarrow> (if a \<noteq> 0 then return False
              else do {
                b \<leftarrow> cujoagent_spawn_loop B ''cujoagent_consumer_queue_loop'';
                if b \<noteq> 0 then return False
                else do {
                  c \<leftarrow> cujoagent_spawn_loop B ''cujoagent_socket_loop'';
                  if c \<noteq> 0 then return False
                  else do { d \<leftarrow> cujoagent_spawn_loop B ''cujoagent_fifo_loop''; return (d = 0) }
                }
              });
        if ok then return 0
        else do { _ \<leftarrow> cujoagent_wifidatacollection_deinit D L B True False; return (- 1) }
      })"

definition cujoagent_rbus_initialize ::
    "('m, 'w) denv \<Rightarrow> ('m, 'w) dlib \<Rightarrow> ('m, 'w) dbus \<Rightarrow> bool \<Rightarrow> ('m, 'w, int) dcl" where
  "cujoagent_rbus_initialize D L B present =
     (if \<not> present then return (- 1)
      else do {
        o1 \<leftarrow> dcall (rbus_open B);
        if o1 \<noteq> 0 then return (- 1)
        else do {
          _ \<leftarrow> upd_consumer (rbus_handle_update (\<lambda>_. True));
          a \<leftarrow> cujoagent_webconfig_init_get D B;
          ok \<leftarrow> (if a \<noteq> 0 then return False
                else do {
                  b \<leftarrow> cujoagent_set_l1_max_clients B;
                  if b \<noteq> 0 then return False
                  else do {
                    c \<leftarrow> cujoagent_rbus_subscribe D L B;
                    if c \<noteq> 0 then return False
                    else do { d \<leftarrow> cujoagent_assoc_list_init_get D B; return (d = 0) }
                  }
                });
          if ok then return 0
          else do { _ \<leftarrow> cujoagent_wifidatacollection_deinit D L B True False; return (- 1) }
        }
      })"

definition cujoagent_wifidatacollection_init ::
    "('m, 'w) denv \<Rightarrow> ('m, 'w) dlib \<Rightarrow> ('m, 'w) dbus \<Rightarrow> bool \<Rightarrow> ('m, 'w, int) dcl" where
  "cujoagent_wifidatacollection_init D L B present =
     (if \<not> present then return (- 1)
      else do {
        a \<leftarrow> cujoagent_consumer_initialize D L B True;
        if a \<noteq> 0 then return (- 1)
        else do {
          b \<leftarrow> cujoagent_rbus_initialize D L B True;
          return (if b \<noteq> 0 then - 1 else 0)
        }
      })"

end
