(* ===== verification/Adv_Dcl_Demo.thy ===== *)
theory Adv_Dcl_Demo
  imports Adv_Dcl_Init "HOL-Library.AList"
begin

text \<open>
  A concrete environment for the data-collection library, on which the witnesses evaluate the model:
  a world with counting event descriptors, a list of what was sent, a log of what was freed and
  closed, and a list of allocations that fail; hash maps are association lists.
\<close>

type_synonym demo_map = "(string \<times> assoc_dev_data_t) list"

record dcl_world =
  w_cnt :: "int \<Rightarrow> 64 word"
  w_sent :: "(cujo_fpc_tlv \<times> addr) list"
  w_freed :: "string list"
  w_closed :: "int list"
  w_open :: "int list"
  w_fail :: "string list"
  w_pos :: nat

definition dcl_world0 :: dcl_world where
  "dcl_world0 = \<lparr>w_cnt = (\<lambda>_. 0), w_sent = [], w_freed = [], w_closed = [], w_open = [],
     w_fail = [], w_pos = 0\<rparr>"

text \<open>A new descriptor is above every open one.\<close>

definition new_fd :: "dcl_world \<Rightarrow> int \<times> dcl_world" where
  "new_fd w = (let n = fold max (w_open w) 9 + 1 in (n, w\<lparr>w_open := n # w_open w\<rparr>))"

text \<open>The agent sends an unknown message first, then a hello.\<close>

definition demo_input :: "nat \<Rightarrow> byte list \<times> addr" where
  "demo_input n = ([if n = 1 then 9 else 7, 0, 0, 0], if n = 1 then ''agent'' else ''other'')"

definition demo_denv :: "(demo_map, dcl_world) denv" where
  "demo_denv = \<lparr>
     TLV_SIZE = 4, VERSION_SIZE = 2, SUN_PATH = 108,
     tlv_header = (\<lambda>bs. (if take 1 bs = [9] then CUJO_FPC_HELLO else CUJO_FPC_OTHER 0, 0)),
     queue_push = (\<lambda>q e. q @ [e]), queue_pop = (\<lambda>q. (hd q, tl q)),
     d_malloc = (\<lambda>x w. (x \<notin> set (w_fail w), w)),
     d_free = (\<lambda>x w. ((), w\<lparr>w_freed := x # w_freed w\<rparr>)),
     d_sysconf = (\<lambda>w. (- 1, w)), d_getgrnam_r = (\<lambda>n b w. ((0, Some 77), w)),
     d_mkdir = (\<lambda>p m w. (0, w)), d_chown = (\<lambda>p g w. (0, w)), d_umask = (\<lambda>m w. (18, w)),
     d_socket = new_fd, d_remove = (\<lambda>p w. (0, w)), d_bind = (\<lambda>fd p w. (0, w)),
     d_open = (\<lambda>p. new_fd), d_epoll_create = new_fd, d_eventfd = new_fd,
     d_epoll_add = (\<lambda>ep fd w. (0, w)), d_epoll_del = (\<lambda>ep fd w. (0, w)),
     d_close = (\<lambda>fd w. ((), w\<lparr>w_closed := fd # w_closed w, w_open := filter (\<lambda>x. x \<noteq> fd) (w_open w)\<rparr>)),
     d_write_fd = (\<lambda>fd v w. (True, w\<lparr>w_cnt := (w_cnt w)(fd := w_cnt w fd + v)\<rparr>)),
     d_read_fd = (\<lambda>fd w. (if w_cnt w fd = 0 then None else Some (w_cnt w fd), w\<lparr>w_cnt := (w_cnt w)(fd := 0)\<rparr>)),
     d_sendto = (\<lambda>fd t n a w. (True, w\<lparr>w_sent := w_sent w @ [(t, a)]\<rparr>)),
     d_webconfig_init = (\<lambda>w. (0, w)), d_rbus_close = (\<lambda>w. ((), w)),
     d_epoll_wait = (\<lambda>ep t s. (Some [], s)),
     d_recvfrom = (\<lambda>fd s. (Some (demo_input (w_pos (dworld s))), s\<lparr>dworld := (dworld s)\<lparr>w_pos := w_pos (dworld s) + 1\<rparr>\<rparr>)) \<rparr>"

text \<open>The same environment where no allocation fails.\<close>

definition demo_denv_ok :: "(demo_map, dcl_world) denv" where
  "demo_denv_ok = demo_denv\<lparr>d_malloc := (\<lambda>x w. (True, w))\<rparr>"

definition demo_dlib :: "(demo_map, dcl_world) dlib" where
  "demo_dlib = \<lparr>
     MAX_NUM_VAP_PER_RADIO = 4, STATION_EVENT_SIZE = 64, STATION_INFO_SIZE = 32, RADIO_EVENT_SIZE = 96,
     DONE_SIZE = 10, BATCH_EVENT_SIZE = 24, PCAP_SIZE = 32, CSI_EVENT_SIZE = 512, TEMPERATURE_EVENT_SIZE = 12,
     IF_NAMESIZE = 16, ESSID_SIZE = 33,
     hm_empty = [], hm_get = map_of,
     hm_put = (\<lambda>m k d. case k of None \<Rightarrow> m | Some key \<Rightarrow> AList.update key d m),
     hm_set = (\<lambda>m k d. AList.update k d m), hm_remove = (\<lambda>m k. AList.delete k m),
     hm_count = length, hm_entries = map snd,
     acl_entries = map (cli_MACAddress \<circ> snd), acl_remove = (\<lambda>m k. AList.delete k m),
     csi_mac = (\<lambda>bs. mac_zero), csi_info = (\<lambda>bs. \<lparr>csi_Nr = 0, nr_rssi = []\<rparr>), csi_rest = id, TRACE_DEBUG = True,
     d_clock = (\<lambda>w. (Some (5, 3000000), w)), d_gettimeofday = (\<lambda>w. ((5, 3), w)) \<rparr>"

definition demo_dbus :: "(demo_map, dcl_world) dbus" where
  "demo_dbus = \<lparr>
     webconfig_decode = (\<lambda>s d w. ((0, d), w)), rbus_open = (\<lambda>w. (0, w)),
     rbus_getStr = (\<lambda>n w. ((0, ''doc''), w)), rbus_setUInt = (\<lambda>n v w. (0, w)), rbus_setStr = (\<lambda>n v w. (0, w)),
     rbus_SubscribeEx = (\<lambda>x w. (0, w)), rbus_SubscribeExRawData = (\<lambda>x w. (0, w)),
     rbus_UnsubscribeEx = (\<lambda>x w. ((), w)), rbus_UnsubscribeExRawData = (\<lambda>x w. ((), w)),
     rbus_IsSubscriptionExist = (\<lambda>x w. (True, w)),
     d_pthread_create = (\<lambda>r w. (if r \<in> set (w_fail w) then 11 else 0, w)),
     d_timerfd_create = new_fd, d_timerfd_settime = (\<lambda>fd a b w. (0, w)),
     d_read_fifo = (\<lambda>n w. (None, w)),
     l1_start_of = (\<lambda>bs. \<lparr>start_vap_index = 0, start_mac = mac_zero, timeout_secs = 10,
       temperature_interval_secs = 5, max_csi_readings = 20\<rparr>),
     fifo_payload_size = 16, csi_total_length = (\<lambda>bs. 0),
     WEBCONFIG_INIT_NAME = ''init'', WEBCONFIG_DOC_NAME = ''doc'', WEBCONFIG_ASSOC_NAME = ''assoc'',
     RBUS_MAX_NAME_LENGTH = 256, MIN_CSI_INTERVAL = 100, FRAME_DATA_SIZE = 2048,
     frame_of = (\<lambda>bs. \<lparr>frame_type = WIFI_MGMT_FRAME_TYPE_AUTH, frame_len = length bs, frame_ap_index = 0,
       frame_sta_mac = mac_zero, frame_data = bs\<rparr>) \<rparr>"

text \<open>One radio with two access points on the private bridge and one that is not.\<close>

definition demo_prop :: wifi_platform_property_t where
  "demo_prop = \<lparr>numRadios = 1, interface_map =
     [\<lparr>iface_index = 0, rdk_radio_index = 0, interface_name = ''wl0'', bridge_name = ''brlan0''\<rparr>,
      \<lparr>iface_index = 2, rdk_radio_index = 0, interface_name = ''wl0.1'', bridge_name = ''brlan1''\<rparr>,
      \<lparr>iface_index = 4, rdk_radio_index = 0, interface_name = ''wl0.2'', bridge_name = ''brlan0''\<rparr>]\<rparr>"

definition demo_fds :: consumer_fds where
  "demo_fds = \<lparr>sock_fd = 3, fifo_fd = 4, misc_epoll = 5, misc_notification = 6, queue_epoll = 7,
     comms_epoll = 8, comms_notification = 9, comms_notification_ack = 10, fifo_epoll = 11,
     fifo_notification = 12, fifo_notification_ack = 13\<rparr>"

definition demo_zero :: "demo_map consumer" where
  "demo_zero = consumer_zero"

definition demo_consumer :: "demo_map consumer" where
  "demo_consumer = demo_zero\<lparr>queue := Some [], wifi := (wifi demo_zero)\<lparr>wifi_prop := demo_prop\<rparr>,
     subs := (subs demo_zero)\<lparr>vap_subs_count := 2, vap_subs_indexes := Some [0, 4]\<rparr>,
     fds := demo_fds, comms_ready := True, tlv_notify_lut := tlv_notify_lut_filler,
     tcollect_ctx := \<lparr>temperature_data = Some [0, 0], collected_count = 0\<rparr>\<rparr>"

definition demo_dcl :: "(demo_map, dcl_world) dclst" where
  "demo_dcl = \<lparr>consumer = demo_consumer, dworld = dcl_world0\<rparr>"

lemma demo_consumer_simps [simp]:
  "queue demo_consumer = Some []" "fds demo_consumer = demo_fds" "comms_ready demo_consumer"
  "tlv_notify_lut demo_consumer = tlv_notify_lut_filler" "tlv_ctx demo_consumer = \<lparr>ctx_tlv = None, ctx_size = 0\<rparr>"
  "l1_collections demo_consumer = [None]" "\<not> disable_l1_collection demo_consumer"
  by (simp_all add: demo_consumer_def demo_zero_def consumer_zero_def)

lemma demo_fds_simps [simp]:
  "sock_fd demo_fds = 3" "queue_epoll demo_fds = 7" "comms_notification demo_fds = 9" "comms_notification_ack demo_fds = 10"
  by (simp_all add: demo_fds_def)

lemma demo_dcl_simps [simp]: "consumer demo_dcl = demo_consumer" "dworld demo_dcl = dcl_world0"
  by (simp_all add: demo_dcl_def)

end
