(* ===== verification/Adv_Dcl_Exchange.thy ===== *)
theory Adv_Dcl_Exchange
  imports Adv_Dcl_Demo "HOL-Library.Sublist"
begin

text \<open>
  What the building blocks of the data-collection library promise: directories are created parent by
  parent, the handshake returns at the first hello, and the laws under which a message is handed to the
  socket thread. The two threads are composed by \<open>with_socket_thread\<close>: while one waits for the acknowledgement, the other runs.
\<close>

section \<open>Directories\<close>

definition ancestors :: "string \<Rightarrow> string list" where
  "ancestors p = map (\<lambda>k. take k p) (filter (\<lambda>k. 0 < k \<and> p ! k = CHR ''/'') [0..<length p]) @ [p]"

fun try_dirs :: "('m, 'w) denv \<Rightarrow> nat \<Rightarrow> uint \<Rightarrow> string list \<Rightarrow> ('m, 'w, int) dcl" where
  "try_dirs D mode gid [] = return 0"
| "try_dirs D mode gid (p # ps) = do {
     r \<leftarrow> cujoagent_dir_component D p mode gid;
     if r \<noteq> 0 then return r else try_dirs D mode gid ps
   }"

lemma try_dirs_append:
  "run_state (try_dirs D mode gid (ps @ qs)) s =
   run_state (do { r \<leftarrow> try_dirs D mode gid ps; if r \<noteq> 0 then return r else try_dirs D mode gid qs }) s"
  by (induction ps arbitrary: s) (simp_all add: case_prod_beta prod_eq_iff)

lemma upt_Suc_map: "[0..<Suc n] = 0 # map Suc [0..<n]"
  by (simp add: upt_conv_Cons map_Suc_upt del: upt_Suc)

lemma mkdir_loop_dirs:
  "run_state (mkdir_loop D mode gid pre cs) s = run_state (try_dirs D mode gid
     (map (\<lambda>k. pre @ take k cs) (filter (\<lambda>k. (pre \<noteq> [] \<or> 0 < k) \<and> cs ! k = CHR ''/'') [0..<length cs]))) s"
proof (induction cs arbitrary: pre s)
  case (Cons c cs)
  have "map (\<lambda>k. pre @ take k (c # cs)) (filter (\<lambda>k. (pre \<noteq> [] \<or> 0 < k) \<and> (c # cs) ! k = CHR ''/'') [0..<length (c # cs)])
    = (if pre \<noteq> [] \<and> c = CHR ''/'' then [pre] else [])
      @ map (\<lambda>k. (pre @ [c]) @ take k cs) (filter (\<lambda>k. (pre @ [c] \<noteq> [] \<or> 0 < k) \<and> cs ! k = CHR ''/'') [0..<length cs])"
    by (simp add: upt_Suc_map filter_map comp_def del: upt_Suc)
  then show ?case
    using Cons.IH by (simp add: case_prod_beta)
qed simp

lemma ancestors_ordered: "sorted_wrt strict_prefix (ancestors p)"
proof -
  let ?ks = "filter (\<lambda>k. 0 < k \<and> p ! k = CHR ''/'') [0..<length p]"
  have lt: "sorted_wrt (<) ?ks" by (simp add: sorted_wrt_filter)
  have le: "\<forall>k \<in> set ?ks. k < length p" by simp
  have "strict_prefix (take j p) (take k p)" if "j < k" "k \<le> length p" for j k
  proof -
    have "prefix (take j p) (take k p)"
      using that by (metis take_is_prefix take_take min.absorb1 less_imp_le)
    moreover have "length (take j p) < length (take k p)" using that by simp
    ultimately show ?thesis by (metis nat_neq_iff strict_prefixI)
  qed
  then have "sorted_wrt (\<lambda>j k. strict_prefix (take j p) (take k p)) ?ks"
    by (intro sorted_wrt_mono_rel [OF _ lt]) auto
  moreover have "\<forall>k \<in> set ?ks. strict_prefix (take k p) p"
    using le \<open>\<And>j k. j < k \<Longrightarrow> k \<le> length p \<Longrightarrow> strict_prefix (take j p) (take k p)\<close> by (metis order_refl take_all)
  ultimately show ?thesis
    by (simp add: ancestors_def sorted_wrt_append sorted_wrt_map)
qed

lemma mkdir_parents_dirs:
  "run_state (cujoagent_mkdir_parents D path mode gid) s =
     run_state (if path = [] then return (- 1)
       else do {
         dup \<leftarrow> dcall (d_malloc D ''subpath'');
         if \<not> dup then return (- 1)
         else do {
           orig_umask \<leftarrow> dcall (d_umask D 0);
           result \<leftarrow> try_dirs D mode gid (ancestors (strip_slash path));
           _ \<leftarrow> dcall (d_umask D orig_umask);
           return result
         }
       }) s"
proof -
  have "run_state (try_dirs D mode gid (ancestors p)) t =
      run_state (do { r \<leftarrow> mkdir_loop D mode gid [] p; if r \<noteq> 0 then return r else cujoagent_dir_component D p mode gid }) t"
    for p t
    by (simp add: ancestors_def try_dirs_append mkdir_loop_dirs case_prod_beta prod_eq_iff)
  then show ?thesis
    by (simp add: cujoagent_mkdir_parents_def case_prod_beta Let_def)
qed

text \<open>The directories of a path: what lies before each slash but one at the start, and the path itself
  unless it ends with a slash that is not its only character.\<close>

definition dirs_of :: "string \<Rightarrow> string list" where
  "dirs_of path = [take k path. k \<leftarrow> [1..<length path], path ! k = CHR ''/'']
     @ (if length path > 1 \<and> last path = CHR ''/'' then [] else [path])"

lemma dirs_of_filter:
  "[take k path. k \<leftarrow> [1..<length path], path ! k = CHR ''/''] =
     map (\<lambda>k. take k path) (filter (\<lambda>k. 0 < k \<and> path ! k = CHR ''/'') [0..<length path])"
proof (cases "length path")
  case (Suc n)
  have "[take k path. k \<leftarrow> xs, path ! k = CHR ''/''] = map (\<lambda>k. take k path) (filter (\<lambda>k. path ! k = CHR ''/'') xs)" for xs
    by (induction xs) simp_all
  moreover have "filter (\<lambda>k. 0 < k \<and> path ! k = CHR ''/'') [0..<length path] = filter (\<lambda>k. path ! k = CHR ''/'') [1..<length path]"
    using Suc by (simp add: upt_conv_Cons del: upt_Suc) (rule filter_cong, auto)
  ultimately show ?thesis by simp
qed simp

lemma dirs_of_ancestors: "path \<noteq> [] \<Longrightarrow> dirs_of path = ancestors (strip_slash path)"
proof (cases "length path > 1 \<and> last path = CHR ''/''")
  case True
  then obtain q where q: "path = q @ ''/''" "q \<noteq> []"
    by (metis append_butlast_last_id length_greater_0_conv length_Cons less_trans zero_less_one list.size(3) less_numeral_extra(4)
        append_self_conv2 One_nat_def)
  have m: "map (\<lambda>k. take k path) (filter (\<lambda>k. 0 < k \<and> path ! k = CHR ''/'') [0..<length path]) = ancestors q"
    using q by (simp add: ancestors_def nth_append) (rule map_cong, rule filter_cong, auto)
  have "strip_slash path = q" using q True by (simp add: strip_slash_def)
  then show ?thesis
    unfolding dirs_of_def dirs_of_filter m using True by simp
next
  case False
  then have "strip_slash path = path" by (auto simp: strip_slash_def)
  then show ?thesis
    unfolding dirs_of_def dirs_of_filter ancestors_def using False by auto
qed

text \<open>The calls that touch directories, as the world records them; \<open>um\<close> is the mask of the process,
  \<open>mk\<close> and \<open>ch\<close> are the answers for each path. No path is tried twice (\<open>ancestors_ordered\<close>), so that an
  answer for each path is no restriction.\<close>

datatype dir_call = MKDIR string nat | CHOWN string uint | UMASK nat

definition dirs_law :: "('m, 'w) denv \<Rightarrow> ('w \<Rightarrow> dir_call list) \<Rightarrow> ('w \<Rightarrow> nat) \<Rightarrow> (string \<Rightarrow> int) \<Rightarrow> (string \<Rightarrow> int) \<Rightarrow> bool" where
  "dirs_law D calls um mk ch \<longleftrightarrow>
     (\<forall>p m w. fst (d_mkdir D p m w) = mk p \<and> calls (snd (d_mkdir D p m w)) = calls w @ [MKDIR p m]
        \<and> um (snd (d_mkdir D p m w)) = um w) \<and>
     (\<forall>p g w. fst (d_chown D p g w) = ch p \<and> calls (snd (d_chown D p g w)) = calls w @ [CHOWN p g]
        \<and> um (snd (d_chown D p g w)) = um w) \<and>
     (\<forall>m w. fst (d_umask D m w) = um w \<and> calls (snd (d_umask D m w)) = calls w @ [UMASK m]
        \<and> um (snd (d_umask D m w)) = m) \<and>
     (\<forall>x w. calls (snd (d_malloc D x w)) = calls w \<and> um (snd (d_malloc D x w)) = um w)"

text \<open>A directory is there afterwards when it could be made and given to the group, or existed.\<close>

definition made :: "(string \<Rightarrow> int) \<Rightarrow> (string \<Rightarrow> int) \<Rightarrow> string \<Rightarrow> bool" where
  "made mk ch p \<longleftrightarrow> mk p = 0 \<and> ch p = 0 \<or> mk p = EEXIST"

text \<open>What is called for one directory, and for a list of them up to the first that cannot be made.\<close>

definition dir_calls :: "(string \<Rightarrow> int) \<Rightarrow> nat \<Rightarrow> uint \<Rightarrow> string \<Rightarrow> dir_call list" where
  "dir_calls mk mode gid p = MKDIR p mode # (if mk p = 0 then [CHOWN p gid] else [])"

definition tried :: "(string \<Rightarrow> bool) \<Rightarrow> string list \<Rightarrow> string list" where
  "tried ok ds = takeWhile ok ds @ take 1 (dropWhile ok ds)"

lemma tried_simps [simp]: "tried ok [] = []" "tried ok (d # ds) = d # (if ok d then tried ok ds else [])"
  by (simp_all add: tried_def)

lemma try_dirs_trace:
  assumes "dirs_law D calls um mk ch" "[] \<notin> set ds"
  shows "fst (run_state (try_dirs D mode gid ds) s) = (if \<forall>p \<in> set ds. made mk ch p then 0 else - 1)
    \<and> calls (dworld (snd (run_state (try_dirs D mode gid ds) s))) =
        calls (dworld s) @ concat (map (dir_calls mk mode gid) (tried (made mk ch) ds))
    \<and> um (dworld (snd (run_state (try_dirs D mode gid ds) s))) = um (dworld s)"
  using assms(2)
proof (induction ds arbitrary: s)
  case (Cons p ds)
  have c: "fst (run_state (cujoagent_dir_component D p mode gid) s) = (if made mk ch p then 0 else - 1)"
    "calls (dworld (snd (run_state (cujoagent_dir_component D p mode gid) s))) = calls (dworld s) @ dir_calls mk mode gid p"
    "um (dworld (snd (run_state (cujoagent_dir_component D p mode gid) s))) = um (dworld s)"
    using assms(1) Cons.prems
    by (auto simp: cujoagent_dir_component_def dirs_law_def made_def dir_calls_def case_prod_beta)
  have "[] \<notin> set ds" using Cons.prems by simp
  note IH = Cons.IH [OF this, of "snd (run_state (cujoagent_dir_component D p mode gid) s)"]
  then show ?case
    using c by (simp add: case_prod_beta)
qed simp

text \<open>C29: The directories of a path are made parent by parent. The calls are, in this order: the mask is
  cleared; each directory of the path, from the one before the first slash (but one at the start) down to the
  path itself, a slash at the end ignored, is made with the mode and, where it did not exist, given to
  the group, up to and including the first that fails for another reason than that it exists; then the
  mask is set back to what it was. The answer is 0 exactly when none failed. Without memory for the copy, or for
  the empty path, the answer is -1 and nothing is called.\<close>

theorem mkdir_parents_makes_ancestors:
  fixes s :: "('m, 'w) dclst" and path :: string and mode :: nat and gid :: uint
  assumes "dirs_law D calls um mk ch"
  defines "run \<equiv> run_state (cujoagent_mkdir_parents D path mode gid) s"
    and "ok \<equiv> path \<noteq> [] \<and> fst (d_malloc D ''subpath'' (dworld s))"
  shows "fst run = (if ok \<and> (\<forall>p \<in> set (dirs_of path). made mk ch p) then 0 else - 1)
    \<and> calls (dworld (snd run)) = calls (dworld s) @
        (if ok then [UMASK 0] @ concat (map (dir_calls mk mode gid) (tried (made mk ch) (dirs_of path))) @ [UMASK (um (dworld s))]
         else [])"
proof (cases ok)
  case True
  let ?w = "snd (d_umask D 0 (snd (d_malloc D ''subpath'' (dworld s))))"
  let ?t = "run_state (try_dirs D mode gid (ancestors (strip_slash path))) (s\<lparr>dworld := ?w\<rparr>)"
  have "[] \<notin> set (ancestors q)" if "q \<noteq> []" for q
    using that by (auto simp: ancestors_def)
  moreover have "strip_slash path \<noteq> []"
    using True by (cases path rule: rev_cases) (auto simp: ok_def strip_slash_def)
  ultimately have t: "fst ?t = (if \<forall>p \<in> set (dirs_of path). made mk ch p then 0 else - 1)"
    "calls (dworld (snd ?t)) = calls ?w @ concat (map (dir_calls mk mode gid) (tried (made mk ch) (dirs_of path)))"
    using try_dirs_trace [OF assms(1), of "ancestors (strip_slash path)" mode gid "s\<lparr>dworld := ?w\<rparr>"] dirs_of_ancestors [of path] True
    by (simp_all add: ok_def)
  have "run = (fst ?t, (snd ?t)\<lparr>dworld := snd (d_umask D (fst (d_umask D 0 (snd (d_malloc D ''subpath'' (dworld s))))) (dworld (snd ?t)))\<rparr>)"
    using True by (simp add: run_def ok_def mkdir_parents_dirs case_prod_beta)
  then show ?thesis
    using True t assms(1) by (simp add: dirs_law_def)
next
  case False
  then show ?thesis
    using assms(1) by (auto simp: run_def ok_def mkdir_parents_dirs case_prod_beta dirs_law_def)
qed

text \<open>On a world that is the list of calls and the mask, where \<open>/tmp\<close> exists.\<close>

definition demo_dirs :: "(demo_map, dir_call list \<times> nat) denv" where
  "demo_dirs = \<lparr>
     TLV_SIZE = 4, VERSION_SIZE = 2, SUN_PATH = 108, tlv_header = (\<lambda>bs. (CUJO_FPC_OTHER 0, 0)),
     queue_push = (\<lambda>q e. q @ [e]), queue_pop = (\<lambda>q. (hd q, tl q)),
     d_malloc = (\<lambda>x w. (True, w)), d_free = (\<lambda>x w. ((), w)),
     d_sysconf = (\<lambda>w. (- 1, w)), d_getgrnam_r = (\<lambda>n b w. ((0, Some 77), w)),
     d_mkdir = (\<lambda>p m w. (if p = ''/tmp'' then EEXIST else 0, (fst w @ [MKDIR p m], snd w))),
     d_chown = (\<lambda>p g w. (0, (fst w @ [CHOWN p g], snd w))),
     d_umask = (\<lambda>m w. (snd w, (fst w @ [UMASK m], m))),
     d_socket = (\<lambda>w. (3, w)), d_remove = (\<lambda>p w. (0, w)), d_bind = (\<lambda>fd p w. (0, w)),
     d_open = (\<lambda>p w. (4, w)), d_epoll_create = (\<lambda>w. (5, w)), d_eventfd = (\<lambda>w. (6, w)),
     d_epoll_add = (\<lambda>ep fd w. (0, w)), d_epoll_del = (\<lambda>ep fd w. (0, w)),
     d_close = (\<lambda>fd w. ((), w)), d_write_fd = (\<lambda>fd v w. (True, w)), d_read_fd = (\<lambda>fd w. (None, w)),
     d_sendto = (\<lambda>fd t n a w. (True, w)), d_webconfig_init = (\<lambda>w. (0, w)), d_rbus_close = (\<lambda>w. ((), w)),
     d_epoll_wait = (\<lambda>ep t s. (Some [], s)), d_recvfrom = (\<lambda>fd s. (None, s)) \<rparr>"

theorem mkdir_parents_makes_ancestors_witness:
  "fst (dworld (snd (run_state (cujoagent_mkdir_parents demo_dirs ''/tmp/cujo/'' 509 77) \<lparr>consumer = demo_zero, dworld = ([], 18)\<rparr>))) =
     [UMASK 0, MKDIR ''/tmp'' 509, MKDIR ''/tmp/cujo'' 509, CHOWN ''/tmp/cujo'' 77, UMASK 18]"
proof -
  let ?mk = "\<lambda>p. if p = ''/tmp'' then EEXIST else 0"
  have l: "dirs_law demo_dirs fst snd ?mk (\<lambda>_. 0)" by (simp add: dirs_law_def demo_dirs_def)
  have d: "dirs_of ''/tmp/cujo/'' = [''/tmp'', ''/tmp/cujo'']" by code_simp
  show ?thesis
    using mkdir_parents_makes_ancestors [OF l, of "''/tmp/cujo/''" 509 77 "\<lparr>consumer = demo_zero, dworld = ([], 18)\<rparr>"]
    by (simp add: d made_def dir_calls_def) (simp add: demo_dirs_def)
qed

section \<open>The handshake\<close>

text \<open>What the receives answer in turn, None where one fails.\<close>

definition stream_law :: "('m, 'w) denv \<Rightarrow> int \<Rightarrow> (('m, 'w) dclst \<Rightarrow> nat) \<Rightarrow> (nat \<Rightarrow> (byte list \<times> addr) option) \<Rightarrow> bool" where
  "stream_law D fd pos inp \<longleftrightarrow> (\<forall>s. fst (d_recvfrom D fd s) = inp (pos s)
     \<and> pos (snd (d_recvfrom D fd s)) = Suc (pos s))"

text \<open>Whether there is memory for the reply, and whether it can be sent to an address.\<close>

definition reply_law :: "('m, 'w) denv \<Rightarrow> int \<Rightarrow> bool \<Rightarrow> (addr \<Rightarrow> bool) \<Rightarrow> bool" where
  "reply_law D fd mem up \<longleftrightarrow> (\<forall>w. fst (d_malloc D ''ver_tlv'' w) = mem) \<and>
     (\<forall>n a w. fst (d_sendto D fd \<lparr>tlv_tag = CUJO_FPC_PROTOCOL_VERSION, tlv_len = of_nat (VERSION_SIZE D),
        tlv_data = FPC_VERSION 2 0\<rparr> n a w) = up a)"

text \<open>The buffer, which is not cleared, and the address of the last sender after \<open>j\<close> receives.\<close>

fun heard :: "(nat \<Rightarrow> (byte list \<times> addr) option) \<Rightarrow> byte list \<times> addr \<Rightarrow> nat \<Rightarrow> byte list \<times> addr" where
  "heard inp h 0 = h"
| "heard inp h (Suc j) = (case inp j of
     None \<Rightarrow> heard inp h j | Some (bs, from) \<Rightarrow> (recv_into (fst (heard inp h j)) bs, from))"

text \<open>The receive that fails, or leaves a hello in the buffer.\<close>

definition says_hello :: "('m, 'w) denv \<Rightarrow> byte list \<Rightarrow> bool" where
  "says_hello D buf \<longleftrightarrow> fst (tlv_header D buf) = CUJO_FPC_HELLO"

lemma send_version_answer:
  "reply_law D fd mem up \<Longrightarrow> fst (run_state (cujoagent_send_version_tlv D fd a) s) = (if mem \<and> up a then 0 else - 1)"
  by (simp add: cujoagent_send_version_tlv_def reply_law_def case_prod_beta)

lemma handshake_from:
  assumes "stream_law D fd pos inp" "reply_law D fd mem up" "pos s = k" "k \<le> n"
    and "inp n = None \<or> says_hello D (fst (heard inp h (Suc n)))"
    and "\<forall>j < n. inp j \<noteq> None \<and> \<not> says_hello D (fst (heard inp h (Suc j)))"
  shows "fst (run_state (cujoagent_tlv_handshake fuel D fd (fst (heard inp h k)) (snd (heard inp h k))) s) =
    (if n < k + fuel
     then Some (if inp n \<noteq> None \<and> mem \<and> up (snd (heard inp h (Suc n))) then 0 else - 1, heard inp h (Suc n))
     else None)"
  using assms(3,4)
proof (induction fuel arbitrary: k s)
  case 0
  then show ?case by simp
next
  case (Suc fuel)
  let ?s = "snd (d_recvfrom D fd s)"
  have r: "fst (d_recvfrom D fd s) = inp k" "pos ?s = Suc k"
    using assms(1) Suc.prems by (simp_all add: stream_law_def)
  show ?case
  proof (cases "k = n")
    case True
    then show ?thesis
      using r assms(5) send_version_answer [OF assms(2)]
      by (cases "inp n") (auto simp: case_prod_beta Let_def says_hello_def)
  next
    case False
    then have "inp k \<noteq> None" "\<not> says_hello D (fst (heard inp h (Suc k)))" "Suc k \<le> n"
      using assms(6) Suc.prems by auto
    then show ?thesis
      using r Suc.IH [of ?s "Suc k"] by (auto simp: case_prod_beta Let_def says_hello_def)
  qed
qed

text \<open>C24: The handshake returns as soon as the agent says hello: it follows the datagrams, whatever they are and
  each over what the ones before left in the buffer, up to the first one that leaves a hello there, or up
  to a receive that fails, and until then it has not returned. It answers 0 exactly when no receive failed
  and the reply with the version could be allocated and sent to the sender of the hello, and -1 otherwise,
  and it leaves the buffer and the address of the last sender.\<close>

theorem handshake_returns_at_hello:
  assumes "stream_law D fd pos inp" "reply_law D fd mem up" "pos s = 0"
    and "inp n = None \<or> says_hello D (fst (heard inp (buf, a) (Suc n)))"
    and "\<forall>j < n. inp j \<noteq> None \<and> \<not> says_hello D (fst (heard inp (buf, a) (Suc j)))"
  shows "fst (run_state (cujoagent_tlv_handshake fuel D fd buf a) s) =
    (if n < fuel
     then Some (if inp n \<noteq> None \<and> mem \<and> up (snd (heard inp (buf, a) (Suc n))) then 0 else - 1, heard inp (buf, a) (Suc n))
     else None)"
  using handshake_from [OF assms(1,2,3) le0 assms(4,5)] by simp

text \<open>A datagram without bytes repeats the message before it: the buffer is not cleared, so when the
  last message was a hello an empty datagram is taken for another, and its sender, whoever it
  is, becomes the address every later message goes to.\<close>

lemma empty_datagram_repeats_hello:
  assumes "d_recvfrom D (sock_fd (fds (consumer s))) s = (Some ([], from), s1)"
    and "reply_law D (sock_fd (fds (consumer s1))) True up" "up from" "fds (consumer s1) = fds (consumer s)"
    and "fst (tlv_header D (sock_buf ss)) = CUJO_FPC_HELLO"
  shows "daddr (fst (run_state (socket_datagram D B ss) s)) = from
    \<and> comms_ready (consumer (snd (run_state (socket_datagram D B ss) s)))"
proof -
  have "recv_into (sock_buf ss) [] = sock_buf ss" by (simp add: recv_into_def)
  then show ?thesis
    using assms(1,3-5) send_version_answer [OF assms(2)]
    by (simp add: socket_datagram_def Let_def case_prod_beta set_comms_ready_def)
qed

lemma demo_reply: "reply_law demo_denv_ok fd True (\<lambda>_. True)"
  by (simp add: reply_law_def demo_denv_ok_def demo_denv_def)

theorem handshake_returns_at_hello_witness:
  "fst (run_state (cujoagent_tlv_handshake 2 demo_denv_ok 3 (replicate 8 0) []) demo_dcl) = Some (0, [9, 0, 0, 0, 0, 0, 0, 0], ''agent'')
   \<and> fst (run_state (cujoagent_tlv_handshake 1 demo_denv_ok 3 (replicate 8 0) []) demo_dcl) = None"
proof -
  let ?inp = "\<lambda>n. Some (demo_input n)" and ?h = "(replicate 8 0, []) :: byte list \<times> addr"
  have l: "stream_law demo_denv_ok 3 (\<lambda>s. w_pos (dworld s)) ?inp"
    by (simp add: stream_law_def demo_denv_ok_def demo_denv_def)
  have p: "w_pos (dworld demo_dcl) = 0" by (simp add: dcl_world0_def)
  have h: "heard ?inp ?h (Suc 1) = ([9, 0, 0, 0, 0, 0, 0, 0], ''agent'')" "fst (heard ?inp ?h (Suc 0)) = [7, 0, 0, 0, 0, 0, 0, 0]"
    by (simp_all add: demo_input_def recv_into_def numeral_eq_Suc)
  have a: "?inp 1 = None \<or> says_hello demo_denv_ok (fst (heard ?inp ?h (Suc 1)))"
    unfolding h by (simp add: says_hello_def demo_denv_ok_def demo_denv_def)
  have b: "\<forall>j < 1. ?inp j \<noteq> None \<and> \<not> says_hello demo_denv_ok (fst (heard ?inp ?h (Suc j)))"
    using h(2) by (simp add: says_hello_def demo_denv_ok_def demo_denv_def del: heard.simps)
  show ?thesis
    unfolding handshake_returns_at_hello [OF l demo_reply p a b] h by simp
qed

lemma empty_datagram_repeats_hello_witness:
  "daddr (fst (run_state (socket_datagram (demo_denv_ok\<lparr>d_recvfrom := (\<lambda>fd s. (Some ([], ''other''), s))\<rparr>) demo_dbus
      \<lparr>sock_buf = [9, 0, 0, 0], daddr = ''agent''\<rparr>) demo_dcl)) = ''other''"
  using empty_datagram_repeats_hello [of "demo_denv_ok\<lparr>d_recvfrom := (\<lambda>fd s. (Some ([], ''other''), s))\<rparr>" demo_dcl
      "''other''" demo_dcl "\<lambda>_. True" "\<lparr>sock_buf = [9, 0, 0, 0], daddr = ''agent''\<rparr>" demo_dbus]
  by (simp add: reply_law_def demo_denv_ok_def demo_denv_def)

section \<open>A message and its acknowledgement\<close>

text \<open>Event descriptors count: a write adds, a read answers the sum and clears it, and fails on zero.\<close>

definition eventfd_law :: "('m, 'w) denv \<Rightarrow> ('w \<Rightarrow> int \<Rightarrow> 64 word) \<Rightarrow> bool" where
  "eventfd_law D cnt \<longleftrightarrow>
     (\<forall>fd v w. unat (cnt w fd) + unat v < 2 ^ 64 - 1 \<longrightarrow>
        fst (d_write_fd D fd v w) \<and> cnt (snd (d_write_fd D fd v w)) = (cnt w)(fd := cnt w fd + v)) \<and>
     (\<forall>fd w. fst (d_read_fd D fd w) = (if cnt w fd = 0 then None else Some (cnt w fd)) \<and>
        cnt (snd (d_read_fd D fd w)) = (cnt w)(fd := 0))"

text \<open>What was sent, and what was freed, are lists, touched by the send and the release alone, which leave the
  counters as they are; \<open>up\<close> tells which message can be sent to which address.\<close>

definition send_law :: "('m, 'w) denv \<Rightarrow> ('w \<Rightarrow> int \<Rightarrow> 64 word) \<Rightarrow> ('w \<Rightarrow> (cujo_fpc_tlv \<times> addr) list) \<Rightarrow> ('w \<Rightarrow> string list)
    \<Rightarrow> (cujo_fpc_tlv \<Rightarrow> addr \<Rightarrow> bool) \<Rightarrow> bool" where
  "send_law D cnt sent freed up \<longleftrightarrow>
     (\<forall>fd t n a w. fst (d_sendto D fd t n a w) = up t a
        \<and> sent (snd (d_sendto D fd t n a w)) = sent w @ (if up t a then [(t, a)] else [])
        \<and> cnt (snd (d_sendto D fd t n a w)) = cnt w \<and> freed (snd (d_sendto D fd t n a w)) = freed w) \<and>
     (\<forall>x w. sent (snd (d_malloc D x w)) = sent w \<and> cnt (snd (d_malloc D x w)) = cnt w \<and> freed (snd (d_malloc D x w)) = freed w) \<and>
     (\<forall>x w. sent (snd (d_free D x w)) = sent w \<and> cnt (snd (d_free D x w)) = cnt w \<and> freed (snd (d_free D x w)) = freed w @ [x]) \<and>
     (\<forall>fd v w. sent (snd (d_write_fd D fd v w)) = sent w \<and> freed (snd (d_write_fd D fd v w)) = freed w) \<and>
     (\<forall>fd w. sent (snd (d_read_fd D fd w)) = sent w \<and> freed (snd (d_read_fd D fd w)) = freed w)"

text \<open>The consumer thread waits while the socket thread handles its notification.\<close>

definition with_socket_thread ::
    "('m, 'w) denv \<Rightarrow> ('w \<Rightarrow> int \<Rightarrow> 64 word) \<Rightarrow> addr \<Rightarrow> ('m, 'w) denv" where
  "with_socket_thread D cnt to = D\<lparr>d_epoll_wait := (\<lambda>ep timeout s.
     let s' = snd (run_state (socket_notification D to) s);
         ack = comms_notification_ack (fds (consumer s'))
     in (Some (if cnt (dworld s') ack = 0 then [] else [(ack, True)]), s'))\<rparr>"

lemma lut_rows:
  assumes "lut_find tag tlv_notify_lut_filler = (ready, ack)" "ready \<noteq> NOTIFY_NONE"
  shows "lut_ack (notify_code ready) tlv_notify_lut_filler = ack"
    "ready \<noteq> NOTIFY_SOCKET_THREAD_STOP" "ack \<noteq> NOTIFY_NONE" "ack \<noteq> NOTIFY_SOCKET_THREAD_RETURN"
    "notify_code ack \<noteq> 0" "notify_code ready \<noteq> 0"
  using assms by (cases tag; auto simp: tlv_notify_lut_filler_def simp flip: notify_code_eq)+

lemma notify_code_bound: "unat (notify_code n) < 20"
  by (cases n) simp_all

lemma write_event_run:
  assumes "eventfd_law D cnt" "unat (cnt (dworld s) fd) < 2 ^ 32"
  shows "fst (run_state (cujoagent_write_event D fd n) s) = 0"
    "cnt (dworld (snd (run_state (cujoagent_write_event D fd n) s))) = (cnt (dworld s))(fd := cnt (dworld s) fd + notify_code n)"
    "consumer (snd (run_state (cujoagent_write_event D fd n) s)) = consumer s"
proof -
  have "unat (cnt (dworld s) fd) + unat (notify_code n) < 2 ^ 64 - 1"
    using assms(2) notify_code_bound [of n] by simp
  then show "fst (run_state (cujoagent_write_event D fd n) s) = 0"
    "cnt (dworld (snd (run_state (cujoagent_write_event D fd n) s))) = (cnt (dworld s))(fd := cnt (dworld s) fd + notify_code n)"
    using assms(1) by (simp_all add: cujoagent_write_event_def eventfd_law_def)
  show "consumer (snd (run_state (cujoagent_write_event D fd n) s)) = consumer s"
    by (simp add: cujoagent_write_event_def case_prod_beta)
qed

end
