(* ===== verification/Adv_Dcl_Emit.thy ===== *)
theory Adv_Dcl_Emit
  imports Adv_Dcl_Exchange
begin

text \<open>
  The two threads of a message: what \<open>cujoagent_emit_event_tlv\<close> and one notification of the socket
  thread do together.
\<close>

definition delivery_law :: "('m, 'w) denv \<Rightarrow> ('w \<Rightarrow> int \<Rightarrow> 64 word) \<Rightarrow> ('w \<Rightarrow> (cujo_fpc_tlv \<times> addr) list)
    \<Rightarrow> ('w \<Rightarrow> string list) \<Rightarrow> (cujo_fpc_tlv \<Rightarrow> addr \<Rightarrow> bool) \<Rightarrow> bool" where
  "delivery_law D cnt sent freed up \<longleftrightarrow> eventfd_law D cnt \<and> send_law D cnt sent freed up"

lemma unat_len: "(unat (of_nat n :: 16 word) = n) = (n < 65536)"
proof -
  have u: "unat (of_nat n :: 16 word) = n mod 65536"
    by (simp add: unat_of_nat)
  show ?thesis
  proof
    assume "unat (of_nat n :: 16 word) = n"
    then have "n mod 65536 = n" by (simp only: u)
    then show "n < 65536" by (metis mod_less_divisor zero_less_numeral)
  qed (simp add: u)
qed

lemma write_event_consumer [simp]: "consumer (snd (run_state (cujoagent_write_event D fd n) s)) = consumer s"
  by (simp add: cujoagent_write_event_def)

lemma with_socket_thread_simps [simp]:
  "d_malloc (with_socket_thread D cnt to) = d_malloc D" "d_free (with_socket_thread D cnt to) = d_free D"
  "TLV_SIZE (with_socket_thread D cnt to) = TLV_SIZE D"
  "d_write_fd (with_socket_thread D cnt to) = d_write_fd D" "d_read_fd (with_socket_thread D cnt to) = d_read_fd D"
  by (simp_all add: with_socket_thread_def)

text \<open>The socket thread on a notification of the table.\<close>

lemma socket_notification_run:
  fixes to :: addr
  assumes "delivery_law D cnt sent freed up" "tlv_notify_lut (consumer s) = tlv_notify_lut_filler"
    and "lut_find tag tlv_notify_lut_filler = (ready, ack)" "ready \<noteq> NOTIFY_NONE"
    and "cnt (dworld s) (comms_notification (fds (consumer s))) = notify_code ready"
    and "comms_notification (fds (consumer s)) \<noteq> comms_notification_ack (fds (consumer s))"
    and "unat (cnt (dworld s) (comms_notification_ack (fds (consumer s)))) < 2 ^ 32"
    and "tlv_ctx (consumer s) = \<lparr>ctx_tlv = Some t, ctx_size = TLV_SIZE D + n\<rparr>" "tlv_len t = of_nat n"
  defines "s' \<equiv> snd (run_state (socket_notification D to) s)"
  shows "consumer s' = consumer s"
    "cnt (dworld s') (comms_notification_ack (fds (consumer s))) =
       cnt (dworld s) (comms_notification_ack (fds (consumer s))) + (if n < 65536 \<and> up t to then notify_code ack else 0)"
    "sent (dworld s') = sent (dworld s) @ (if n < 65536 \<and> up t to then [(t, to)] else [])"
    "freed (dworld s') = freed (dworld s)"
proof -
  let ?cn = "comms_notification (fds (consumer s))" and ?ca = "comms_notification_ack (fds (consumer s))"
  have ev: "eventfd_law D cnt" and se: "send_law D cnt sent freed up"
    using assms(1) by (simp_all add: delivery_law_def)
  note rows = lut_rows [OF assms(3,4)]
  define s1 where "s1 = s\<lparr>dworld := snd (d_read_fd D ?cn (dworld s))\<rparr>"
  have rd: "fst (d_read_fd D ?cn (dworld s)) = Some (notify_code ready)"
    "cnt (dworld s1) = (cnt (dworld s))(?cn := 0)" "sent (dworld s1) = sent (dworld s)"
    "freed (dworld s1) = freed (dworld s)" "consumer s1 = consumer s"
    using ev se rows(6) assms(5) by (simp_all add: eventfd_law_def send_law_def s1_def)
  define s2 where "s2 = s1\<lparr>dworld := snd (d_sendto D (sock_fd (fds (consumer s))) t (TLV_SIZE D + n) to (dworld s1))\<rparr>"
  have sd: "cnt (dworld s2) = (cnt (dworld s))(?cn := 0)" "sent (dworld s2) = sent (dworld s) @ (if up t to then [(t, to)] else [])"
    "freed (dworld s2) = freed (dworld s)" "fst (d_sendto D fd t k to w) = up t to" for fd k w
    using se rd by (simp_all add: send_law_def s2_def)
  have wr: "unat (cnt (dworld s2) ?ca) < 2 ^ 32"
    using assms(6,7) sd by simp
  have s': "s' = (if n < 65536 then if up t to then snd (run_state (cujoagent_write_event D ?ca ack) s2) else s2 else s1)"
    using rows assms(2,8,9) rd(1) sd(4) unat_len [of n]
    by (auto simp: s'_def socket_notification_def case_prod_beta Let_def s1_def [symmetric] s2_def [symmetric]
        simp del: notify_code.simps)
  have se': "sent (dworld (snd (run_state (cujoagent_write_event D fd m) z))) = sent (dworld z)"
    "freed (dworld (snd (run_state (cujoagent_write_event D fd m) z))) = freed (dworld z)" for fd m z
    using se by (simp_all add: cujoagent_write_event_def send_law_def case_prod_beta)
  note w = write_event_run [OF ev wr, of ack]
  show "consumer s' = consumer s" by (simp add: s' s2_def rd(5))
  show "cnt (dworld s') ?ca = cnt (dworld s) ?ca + (if n < 65536 \<and> up t to then notify_code ack else 0)"
    using assms(6) rd(2) sd(1) by (simp add: s' w)
  show "sent (dworld s') = sent (dworld s) @ (if n < 65536 \<and> up t to then [(t, to)] else [])"
    using rd(3) sd(2) by (simp add: s' se')
  show "freed (dworld s') = freed (dworld s)"
    using rd(4) sd(3) by (simp add: s' se')
qed

text \<open>Both threads together, with \<open>a\<close> left in the counter of the acknowledgements.\<close>

lemma emit_exchange:
  assumes "delivery_law D cnt sent freed up" "tlv_notify_lut (consumer s) = tlv_notify_lut_filler"
    and "lut_find tag tlv_notify_lut_filler = (ready, ack)" "ready \<noteq> NOTIFY_NONE"
    and "cnt (dworld s) (comms_notification (fds (consumer s))) = 0"
    and "comms_notification (fds (consumer s)) \<noteq> comms_notification_ack (fds (consumer s))"
    and "cnt (dworld s) (comms_notification_ack (fds (consumer s))) = a" "unat a < 2 ^ 32"
    and "fst (d_malloc D ''tlv'' (dworld s))"
    and "run_state (cujoagent_emit_event_tlv (with_socket_thread D cnt to) tag (Some dat) n) s = (r, s')"
  defines "t \<equiv> \<lparr>tlv_tag = tag, tlv_len = of_nat n, tlv_data = dat\<rparr>"
  defines "got \<equiv> a + (if n < 65536 \<and> up t to then notify_code ack else 0)"
  shows "r = (if got = notify_code ack then 0 else - 1)"
    "sent (dworld s') = sent (dworld s) @ (if n < 65536 \<and> up t to then [(t, to)] else [])"
    "freed (dworld s') = freed (dworld s) @ [''tlv'']"
    "consumer s' = (consumer s)\<lparr>tlv_ctx := \<lparr>ctx_tlv = None, ctx_size = TLV_SIZE D + n\<rparr>,
       comms_ready := got = notify_code ack \<and> comms_ready (consumer s)\<rparr>"
proof -
  let ?E = "with_socket_thread D cnt to"
  let ?f = "fds (consumer s)"
  have ev: "eventfd_law D cnt" "eventfd_law ?E cnt" and se: "send_law D cnt sent freed up"
    using assms(1) by (simp_all add: delivery_law_def with_socket_thread_def eventfd_law_def)
  note rows = lut_rows [OF assms(3,4)]
  define s1 where "s1 = snd (run_state (set_tlv (Some t) (TLV_SIZE D + n))
      (s\<lparr>dworld := snd (d_malloc D ''tlv'' (dworld s))\<rparr>))"
  have s1: "consumer s1 = (consumer s)\<lparr>tlv_ctx := \<lparr>ctx_tlv = Some t, ctx_size = TLV_SIZE D + n\<rparr>\<rparr>"
    "cnt (dworld s1) = cnt (dworld s)" "sent (dworld s1) = sent (dworld s)" "freed (dworld s1) = freed (dworld s)"
    using se by (simp_all add: s1_def set_tlv_def send_law_def)
  define s2 where "s2 = snd (run_state (cujoagent_write_event ?E (comms_notification ?f) ready) s1)"
  have "unat (cnt (dworld s1) (comms_notification ?f)) < 2 ^ 32"
    using s1 assms(5) by simp
  note w = write_event_run [OF ev(2) this, of ready]
  have s2: "consumer s2 = consumer s1" "cnt (dworld s2) = (cnt (dworld s))(comms_notification ?f := notify_code ready)"
    "sent (dworld s2) = sent (dworld s)" "freed (dworld s2) = freed (dworld s)"
    using w s1 assms(5) se
    by (simp_all add: s2_def) (simp_all add: cujoagent_write_event_def send_law_def case_prod_beta)
  define s3 where "s3 = snd (run_state (socket_notification D to) s2)"
  have "comms_notification (fds (consumer s2)) \<noteq> comms_notification_ack (fds (consumer s2))"
    and "cnt (dworld s2) (comms_notification (fds (consumer s2))) = notify_code ready"
    and "unat (cnt (dworld s2) (comms_notification_ack (fds (consumer s2)))) < 2 ^ 32"
    and "tlv_notify_lut (consumer s2) = tlv_notify_lut_filler"
    and "tlv_ctx (consumer s2) = \<lparr>ctx_tlv = Some t, ctx_size = TLV_SIZE D + n\<rparr>" "tlv_len t = of_nat n"
    using s1 s2 assms(2,6,7,8) by (simp_all add: t_def)
  from socket_notification_run [OF assms(1) this(4) assms(3,4) this(2,1,3) this(5,6), where to = to]
  have s3: "consumer s3 = consumer s1" "cnt (dworld s3) (comms_notification_ack ?f) = got"
    "sent (dworld s3) = sent (dworld s) @ (if n < 65536 \<and> up t to then [(t, to)] else [])" "freed (dworld s3) = freed (dworld s)"
    using s1 s2 assms(6,7) by (simp_all add: s3_def [symmetric] got_def)
  let ?s4 = "if got = 0 then s3 else s3\<lparr>dworld := snd (d_read_fd D (comms_notification_ack ?f) (dworld s3))\<rparr>"
  have wait: "run_state (cujoagent_wait_for_event ?E (queue_epoll ?f) ack EPOLL_TIMEOUT_MS) s2
      = (if got = 0 then 0 else if got = notify_code ack then 1 else - 1, ?s4)"
    using ev(1) s1 s3
    by (simp add: cujoagent_wait_for_event_def with_socket_thread_def s3_def [symmetric] Let_def eventfd_law_def
        split: option.split)
  define s5 where "s5 = ?s4\<lparr>dworld := snd (d_free D ''tlv'' (dworld ?s4))\<rparr>"
  have s5: "consumer s5 = consumer s1" "sent (dworld s5) = sent (dworld s3)" "freed (dworld s5) = freed (dworld s) @ [''tlv'']"
    using s3(1,4) se by (simp_all add: s5_def send_law_def)
  have "run_state (cujoagent_emit_event_tlv ?E tag (Some dat) n) s =
     (if got = notify_code ack then (0, snd (run_state clear_tlv s5))
      else (- 1, snd (run_state (do { _ \<leftarrow> clear_tlv; set_comms_ready False }) s5)))"
    using rows assms(2,3,4,9) w(1) wait s1(1)
    by (simp add: cujoagent_emit_event_tlv_def case_prod_beta Let_def t_def [symmetric]
        s1_def [symmetric] s2_def [symmetric] clear_tlv_def set_comms_ready_def s5_def)
  then have rs: "r = (if got = notify_code ack then 0 else - 1)"
    "s' = (if got = notify_code ack then snd (run_state clear_tlv s5)
           else snd (run_state (do { _ \<leftarrow> clear_tlv; set_comms_ready False }) s5))"
    using assms(10) by (simp_all split: if_splits)
  show "r = (if got = notify_code ack then 0 else - 1)" by (rule rs(1))
  show "sent (dworld s') = sent (dworld s) @ (if n < 65536 \<and> up t to then [(t, to)] else [])"
    using s3 s5 by (simp add: rs(2) clear_tlv_def set_comms_ready_def)
  show "freed (dworld s') = freed (dworld s) @ [''tlv'']"
    using s5 by (simp add: rs(2) clear_tlv_def set_comms_ready_def)
  show "consumer s' = (consumer s)\<lparr>tlv_ctx := \<lparr>ctx_tlv = None, ctx_size = TLV_SIZE D + n\<rparr>,
      comms_ready := got = notify_code ack \<and> comms_ready (consumer s)\<rparr>"
    using s5(1) s1(1) by (simp add: rs(2) clear_tlv_def set_comms_ready_def)
qed

text \<open>The same where no acknowledgement is left over, and memory may be missing.\<close>

lemma emit_run:
  assumes "delivery_law D cnt sent freed up" "tlv_notify_lut (consumer s) = tlv_notify_lut_filler"
    and "lut_find tag tlv_notify_lut_filler = (ready, ack)" "ready \<noteq> NOTIFY_NONE"
    and "cnt (dworld s) (comms_notification (fds (consumer s))) = 0"
    and "comms_notification (fds (consumer s)) \<noteq> comms_notification_ack (fds (consumer s))"
    and "cnt (dworld s) (comms_notification_ack (fds (consumer s))) = 0"
    and "run_state (cujoagent_emit_event_tlv (with_socket_thread D cnt to) tag (Some dat) n) s = (r, s')"
  defines "t \<equiv> \<lparr>tlv_tag = tag, tlv_len = of_nat n, tlv_data = dat\<rparr>" and "mem \<equiv> fst (d_malloc D ''tlv'' (dworld s))"
  shows "r = (if mem \<and> n < 65536 \<and> up t to then 0 else - 1)"
    "sent (dworld s') = sent (dworld s) @ (if mem \<and> n < 65536 \<and> up t to then [(t, to)] else [])"
    "freed (dworld s') = freed (dworld s) @ (if mem then [''tlv''] else [])"
    "consumer s' = (consumer s)\<lparr>tlv_ctx := \<lparr>ctx_tlv = None, ctx_size = TLV_SIZE D + n\<rparr>,
       comms_ready := (mem \<longrightarrow> n < 65536 \<and> up t to) \<and> comms_ready (consumer s)\<rparr>"
proof -
  have "r = (if mem \<and> n < 65536 \<and> up t to then 0 else - 1) \<and>
    sent (dworld s') = sent (dworld s) @ (if mem \<and> n < 65536 \<and> up t to then [(t, to)] else []) \<and>
    freed (dworld s') = freed (dworld s) @ (if mem then [''tlv''] else []) \<and>
    consumer s' = (consumer s)\<lparr>tlv_ctx := \<lparr>ctx_tlv = None, ctx_size = TLV_SIZE D + n\<rparr>,
       comms_ready := (mem \<longrightarrow> n < 65536 \<and> up t to) \<and> comms_ready (consumer s)\<rparr>"
  proof (cases mem)
    case True
    then have m: "fst (d_malloc D ''tlv'' (dworld s))" by (simp add: mem_def)
    have z: "unat (0 :: 64 word) < 2 ^ 32" by simp
    note E = emit_exchange [OF assms(1-7) z m assms(8), folded t_def]
    have "0 + (if n < 65536 \<and> up t to then notify_code ack else 0) = notify_code ack \<longleftrightarrow> n < 65536 \<and> up t to"
      using lut_rows(5) [OF assms(3,4)] by simp
    note E = E [unfolded this]
    show ?thesis
      using True by (simp only: E simp_thms if_True)
  next
    case False
    have "snd (run_state (set_tlv None (TLV_SIZE D + n)) (s\<lparr>dworld := w\<rparr>)) =
        s\<lparr>consumer := (consumer s)\<lparr>tlv_ctx := \<lparr>ctx_tlv = None, ctx_size = TLV_SIZE D + n\<rparr>\<rparr>, dworld := w\<rparr>" for w
      by (simp add: set_tlv_def)
    then show ?thesis
      using False assms(1,8) assms(2-4) lut_rows(3) [OF assms(3,4)]
      by (auto simp: cujoagent_emit_event_tlv_def mem_def case_prod_beta Let_def delivery_law_def send_law_def set_tlv_def)
  qed
  then show "r = (if mem \<and> n < 65536 \<and> up t to then 0 else - 1)"
    "sent (dworld s') = sent (dworld s) @ (if mem \<and> n < 65536 \<and> up t to then [(t, to)] else [])"
    "freed (dworld s') = freed (dworld s) @ (if mem then [''tlv''] else [])"
    "consumer s' = (consumer s)\<lparr>tlv_ctx := \<lparr>ctx_tlv = None, ctx_size = TLV_SIZE D + n\<rparr>,
       comms_ready := (mem \<longrightarrow> n < 65536 \<and> up t to) \<and> comms_ready (consumer s)\<rparr>"
    by simp_all
qed

text \<open>C9: When an event reaches the agent: with the socket thread running while the consumer waits and
  nothing pending in either event descriptor, an event with data of a kind the table knows is sent, once, to the
  address of the agent, and reported as sent, exactly when there is memory for its message, its length fits the
  16 bits of the protocol, and the socket takes the message. A message that could be allocated is released
  once, whatever becomes of it, and is no longer handed over; when it was not sent the library stops sending
  until the next hello, but for a lack of memory, after which it goes on.\<close>

theorem emit_delivers_iff_it_fits:
  assumes "delivery_law D cnt sent freed up" "tlv_notify_lut (consumer s) = tlv_notify_lut_filler"
    and "lut_find tag tlv_notify_lut_filler = (ready, ack)" "ready \<noteq> NOTIFY_NONE"
    and "cnt (dworld s) (comms_notification (fds (consumer s))) = 0"
    and "comms_notification (fds (consumer s)) \<noteq> comms_notification_ack (fds (consumer s))"
    and "cnt (dworld s) (comms_notification_ack (fds (consumer s))) = 0"
    and "run_state (cujoagent_emit_event_tlv (with_socket_thread D cnt to) tag (Some dat) n) s = (r, s')"
  defines "t \<equiv> \<lparr>tlv_tag = tag, tlv_len = of_nat n, tlv_data = dat\<rparr>" and "mem \<equiv> fst (d_malloc D ''tlv'' (dworld s))"
  shows "r = (if mem \<and> n < 65536 \<and> up t to then 0 else - 1)
    \<and> sent (dworld s') = sent (dworld s) @ (if mem \<and> n < 65536 \<and> up t to then [(t, to)] else [])
    \<and> freed (dworld s') = freed (dworld s) @ (if mem then [''tlv''] else [])
    \<and> ctx_tlv (tlv_ctx (consumer s')) = None
    \<and> comms_ready (consumer s') = ((mem \<longrightarrow> n < 65536 \<and> up t to) \<and> comms_ready (consumer s))"
  using emit_run [OF assms(1-8)] by (simp add: t_def mem_def)

text \<open>An acknowledgement that came too late spoils the next event: when the acknowledgement of an
  earlier event of the same kind is still in the descriptor, which counts, the next event is sent
  and yet reported as failed, and the library takes the agent for gone until the next hello.\<close>

lemma late_acknowledgement_spoils_next:
  assumes "delivery_law D cnt sent freed up" "tlv_notify_lut (consumer s) = tlv_notify_lut_filler"
    and "lut_find tag tlv_notify_lut_filler = (ready, ack)" "ready \<noteq> NOTIFY_NONE"
    and "cnt (dworld s) (comms_notification (fds (consumer s))) = 0"
    and "comms_notification (fds (consumer s)) \<noteq> comms_notification_ack (fds (consumer s))"
    and "cnt (dworld s) (comms_notification_ack (fds (consumer s))) = notify_code ack" "n < 65536"
    and "up \<lparr>tlv_tag = tag, tlv_len = of_nat n, tlv_data = dat\<rparr> to" "fst (d_malloc D ''tlv'' (dworld s))"
    and "run_state (cujoagent_emit_event_tlv (with_socket_thread D cnt to) tag (Some dat) n) s = (r, s')"
  shows "r = - 1 \<and> \<not> comms_ready (consumer s')
    \<and> sent (dworld s') = sent (dworld s) @ [(\<lparr>tlv_tag = tag, tlv_len = of_nat n, tlv_data = dat\<rparr>, to)]"
proof -
  have "unat (notify_code ack) < 2 ^ 32"
    using notify_code_bound [of ack] by simp
  from emit_exchange [OF assms(1-7) this assms(10,11)] show ?thesis
    using assms(8,9) lut_rows(5) [OF assms(3,4)] by simp
qed

abbreviation w_free_order :: "dcl_world \<Rightarrow> string list" where
  "w_free_order w \<equiv> rev (w_freed w)"

lemma demo_delivery_law:
  "delivery_law demo_denv_ok w_cnt w_sent w_free_order (\<lambda>_ _. True)"
  by (simp add: delivery_law_def eventfd_law_def send_law_def demo_denv_ok_def demo_denv_def)

lemma demo_malloc [simp]: "fst (d_malloc demo_denv_ok x w)"
  by (simp add: demo_denv_ok_def)

definition demo_done :: fpc_data where
  "demo_done = FPC_DONE \<lparr>done_vap_index = 0, done_mac = mac_zero\<rparr>"

lemma demo_done_row:
  "lut_find CUJO_FPC_L1_COLLECTION_DONE tlv_notify_lut_filler = (NOTIFY_L1_COLLECTION_DONE_READY, NOTIFY_L1_COLLECTION_DONE_SENT)"
  by (simp add: tlv_notify_lut_filler_def)

theorem emit_delivers_iff_it_fits_witness:
  "let run = (\<lambda>n. run_state (cujoagent_emit_event_tlv (with_socket_thread demo_denv_ok w_cnt ''agent'')
       CUJO_FPC_L1_COLLECTION_DONE (Some demo_done) n) demo_dcl)
   in fst (run 10) = 0 \<and> length (w_sent (dworld (snd (run 10)))) = 1 \<and> comms_ready (consumer (snd (run 10)))
    \<and> fst (run 70000) = - 1 \<and> w_sent (dworld (snd (run 70000))) = [] \<and> \<not> comms_ready (consumer (snd (run 70000)))
    \<and> w_freed (dworld (snd (run 70000))) = [''tlv'']"
proof -
  have "r = (if n < 65536 then 0 else - 1) \<and> w_sent (dworld s') = w_sent (dworld demo_dcl) @
        (if n < 65536 then [(\<lparr>tlv_tag = CUJO_FPC_L1_COLLECTION_DONE, tlv_len = of_nat n, tlv_data = demo_done\<rparr>, ''agent'')] else [])
      \<and> rev (w_freed (dworld s')) = rev (w_freed (dworld demo_dcl)) @ [''tlv'']
      \<and> comms_ready (consumer s') = (n < 65536 \<and> comms_ready (consumer demo_dcl))"
    if "run_state (cujoagent_emit_event_tlv (with_socket_thread demo_denv_ok w_cnt ''agent'')
       CUJO_FPC_L1_COLLECTION_DONE (Some demo_done) n) demo_dcl = (r, s')" for n r s'
    using emit_delivers_iff_it_fits [OF demo_delivery_law _ demo_done_row _ _ _ _ that] by (simp add: dcl_world0_def)
  from this [OF prod.collapse [symmetric]] show ?thesis
    by (simp add: dcl_world0_def rev_swap)
qed

lemma late_acknowledgement_spoils_next_witness:
  "fst (run_state (cujoagent_emit_event_tlv (with_socket_thread demo_denv_ok w_cnt ''agent'')
       CUJO_FPC_L1_COLLECTION_DONE (Some demo_done) 10)
     (demo_dcl\<lparr>dworld := dcl_world0\<lparr>w_cnt := (\<lambda>_. 0)(10 := notify_code NOTIFY_L1_COLLECTION_DONE_SENT)\<rparr>\<rparr>)) = - 1"
  using late_acknowledgement_spoils_next [OF demo_delivery_law _ demo_done_row _ _ _ _ _ _ _ prod.collapse [symmetric],
      of "demo_dcl\<lparr>dworld := dcl_world0\<lparr>w_cnt := (\<lambda>_. 0)(10 := notify_code NOTIFY_L1_COLLECTION_DONE_SENT)\<rparr>\<rparr>" 10 "''agent''" demo_done]
  by (simp add: dcl_world0_def)

end
