(* ===== verification/Adv_Dcl_Side.thy ===== *)
theory Adv_Dcl_Side
  imports Adv_Dcl_Init
begin

text \<open>
  What the consumer thread does with an event leaves the fields alone at which it meets the other threads: a
  relation between states that allows every change of the other fields holds across the handling of an
  event, when it holds across a wait. The typing of the queue and the ownership of the
  queue are two such relations.
\<close>

section \<open>The fields at which the threads meet\<close>

definition queue_part :: "'m consumer \<Rightarrow> cujoagent_wifi_consumer_event_t list option \<times> bool \<times> bool" where
  "queue_part c = (queue c, queue_wakeup c, exit_consumer c)"

definition sync_part :: "'m consumer \<Rightarrow> (cujoagent_wifi_consumer_event_t list option \<times> bool \<times> bool)
    \<times> bool \<times> l1_collector option list" where
  "sync_part c = (queue_part c, disable_l1_collection c, l1_collections c)"

lemma part_simps:
  "queue_part c = queue_part d \<longleftrightarrow> queue c = queue d \<and> queue_wakeup c = queue_wakeup d \<and> exit_consumer c = exit_consumer d"
  "sync_part c = sync_part d \<longleftrightarrow> queue c = queue d \<and> queue_wakeup c = queue_wakeup d \<and> exit_consumer c = exit_consumer d
     \<and> disable_l1_collection c = disable_l1_collection d \<and> l1_collections c = l1_collections d"
  by (auto simp: sync_part_def queue_part_def)

text \<open>What the other threads may do while one waits.\<close>

definition waits_in :: "(('m, 'w) dclst \<Rightarrow> ('m, 'w) dclst \<Rightarrow> bool) \<Rightarrow> ('m, 'w) denv \<Rightarrow> bool" where
  "waits_in R D \<longleftrightarrow> (\<forall>ep t s. R s (snd (d_epoll_wait D ep t s))) \<and> (\<forall>fd s. R s (snd (d_recvfrom D fd s)))"

section \<open>Relations that see only those fields\<close>

named_theorems side_rules

locale consumer_side =
  fixes R :: "('m, 'w) dclst \<Rightarrow> ('m, 'w) dclst \<Rightarrow> bool"
  assumes order: "step_order R"
    and same: "sync_part (consumer t) = sync_part (consumer s) \<Longrightarrow> R s t"
begin

lemmas side_structure [side_rules] = steps_in_structure [OF order]

lemma side_dcall [side_rules]: "steps_in R (dcall g)"
  by (simp add: steps_in_def same)

lemma side_get [side_rules]: "steps_in R (consumer_get g)"
  by (simp add: steps_in_def same)

lemma side_upd: "(\<And>c. sync_part (g c) = sync_part c) \<Longrightarrow> steps_in R (upd_consumer g)"
  by (simp add: steps_in_def same)

lemma side_wait_block:
  "waits_in R D \<Longrightarrow> steps_in R (block (d_epoll_wait D ep t))" "waits_in R D \<Longrightarrow> steps_in R (block (d_recvfrom D fd))"
  by (simp_all add: steps_in_def waits_in_def)

lemma side_write_event [side_rules]: "steps_in R (cujoagent_write_event D fd n)"
  unfolding cujoagent_write_event_def by (intro side_rules)

lemma side_wait_events [side_rules]: "steps_in R (wait_events D n k es)"
  by (induction es) (auto intro!: side_rules)

lemma side_wait [side_rules]: "waits_in R D \<Longrightarrow> steps_in R (cujoagent_wait_for_event D ep n t)"
  unfolding cujoagent_wait_for_event_def by (intro side_rules side_wait_block)

lemma side_fields [side_rules]:
  "steps_in R (set_tlv t n)" "steps_in R clear_tlv" "steps_in R (set_comms_ready b)" "steps_in R zero_temperatures"
  "steps_in R (upd_consumer (set_assoc_map i a m'))" "steps_in R (upd_consumer (free_all_in_consumer L))"
  "steps_in R (upd_consumer (cujoagent_update_consumer_wifi_structs dec))" "steps_in R (upd_consumer (set_intervals u))"
  "steps_in R (upd_consumer (tcollect_ctx_update f))"
  unfolding set_tlv_def clear_tlv_def set_comms_ready_def zero_temperatures_def set_assoc_map_def
    free_all_in_consumer_def cujoagent_update_consumer_wifi_structs_def set_intervals_def
  by (rule side_upd; simp add: part_simps)+

lemma side_emit [side_rules]: "waits_in R D \<Longrightarrow> steps_in R (cujoagent_emit_event_tlv D tag d n)"
  unfolding cujoagent_emit_event_tlv_def Let_def by (intro side_rules; assumption)

lemma side_builders [side_rules]:
  "steps_in R (cujoagent_timestamp L)"
  "steps_in R (cujoagent_new_station_event D L d v)"
  "steps_in R (cujoagent_new_radio_event L d im r v)"
  "steps_in R (cujoagent_new_data_batch_event L p fr)"
  "steps_in R (cujoagent_new_temperature_event L)"
  unfolding cujoagent_timestamp_def cujoagent_new_station_event_def cujoagent_new_radio_event_def
    cujoagent_new_data_batch_event_def cujoagent_new_temperature_event_def Let_def
  by (intro side_rules)+

lemma side_update_map [side_rules]: "steps_in R (cujoagent_update_associated_devices_map D L m d)"
  unfolding cujoagent_update_associated_devices_map_def cujoagent_add_device_to_associated_device_map_def Let_def
  by (auto split: option.split client_state_t.split intro!: side_rules)

lemma side_stop [side_rules]: "waits_in R D \<Longrightarrow> steps_in R (stop_collectors D mac ks b)"
  by (induction ks arbitrary: b) (auto intro!: side_rules)

lemma side_reports [side_rules]:
  "waits_in R D \<Longrightarrow> steps_in R (report_done D L mac i)"
  "waits_in R D \<Longrightarrow> steps_in R (report_state D L d im r v)"
  unfolding report_done_def report_state_def by (intro side_rules; assumption)+

lemma side_devices [side_rules]: "waits_in R D \<Longrightarrow> steps_in R (process_devices D L st dec v ds)"
  by (induction ds) (auto simp: process_device_def intro!: side_rules)

lemma side_vaps [side_rules]: "waits_in R D \<Longrightarrow> steps_in R (process_vaps D L st dec vs)"
  by (induction vs) (auto simp: process_vap_def split: prod.split intro!: side_rules)

lemma side_case_subtype:
  "steps_in R a \<Longrightarrow> steps_in R b \<Longrightarrow> steps_in R c \<Longrightarrow> steps_in R d \<Longrightarrow>
    steps_in R (case st of consumer_event_webconfig_init \<Rightarrow> a | consumer_event_webconfig_set_data \<Rightarrow> b
      | consumer_event_webconfig_get_data \<Rightarrow> c | _ \<Rightarrow> d)"
  by (cases st) simp_all

lemma side_webconfig [side_rules]: "waits_in R D \<Longrightarrow> steps_in R (cujoagent_process_webconfig_event D L B d st)"
  unfolding cujoagent_process_webconfig_event_def cujoagent_process_client_state_def
  by (intro side_rules side_case_subtype; assumption)

lemma side_mgmt [side_rules]: "waits_in R D \<Longrightarrow> steps_in R (cujoagent_process_mgmt_frame_event D L fr st)"
  unfolding cujoagent_process_mgmt_frame_event_def Let_def by (intro side_rules; assumption)

lemma side_l1 [side_rules]: "waits_in R D \<Longrightarrow> steps_in R (cujoagent_process_l1_event D L m st)"
  unfolding cujoagent_process_l1_event_def process_csi_def process_done_def
  by (cases m; simp; intro impI conjI side_rules; assumption)

lemma side_temperature [side_rules]: "waits_in R D \<Longrightarrow> steps_in R (cujoagent_process_temperature_event D L m st)"
  unfolding cujoagent_process_temperature_event_def store_reading_def send_temperatures_def
  by (cases m; simp; intro impI conjI side_rules; assumption)

lemma side_process_event [side_rules]: "waits_in R D \<Longrightarrow> steps_in R (process_event D L B e)"
  unfolding process_event_def
  by (cases "event_type e"; cases "ev_msg e"; simp; intro side_rules; assumption)

text \<open>So does the initialisation behind the queue, up to its flags.\<close>

lemma side_mkdir: "steps_in R (mkdir_loop D mode gid pre p)"
  by (induction p arbitrary: pre) (auto simp: cujoagent_dir_component_def intro!: side_rules)

lemma side_create_fds [side_rules]: "steps_in R (create_fds mk rs)"
  by (induction rs) (auto simp: part_simps intro!: side_rules side_upd)

lemma side_epoll_add [side_rules]: "steps_in R (epoll_add_all D xs)"
  by (induction xs rule: epoll_add_all.induct) (auto intro!: side_rules)

lemma side_init [side_rules]:
  "steps_in R (cujoagent_socket_init D)" "steps_in R (cujoagent_notify_events_init D)"
  "steps_in R (cujoagent_set_consumer_epoll_lists D)"
  unfolding cujoagent_socket_init_def cujoagent_notify_events_init_def cujoagent_set_consumer_epoll_lists_def
    cujoagent_mkdir_parents_def cujoagent_dir_component_def cujoagent_get_group_id_def set_sock_fd_def Let_def
  by (intro side_rules side_mkdir side_upd; simp add: part_simps)+

end

end
