(* ===== verification/Adv_Dcl_Pushers.thy ===== *)
theory Adv_Dcl_Pushers
  imports Adv_Dcl_Side
begin

text \<open>
  What the threads other than the consumer thread, the callbacks of rbus and the two requests of the
  initialisation do to the state that the consumer thread works on: they push well-typed events, and leave the
  Wi-Fi data and the subscribed access points alone. A relation between states that holds for a
  push of a well-typed event, and for every change of the other fields, holds across each of them, when
  it holds across a wait.
\<close>

section \<open>Well-typed events\<close>

text \<open>The message of an event is of the kind its type says, and its subtype is one of that type.\<close>

definition event_ok :: "cujoagent_wifi_consumer_event_t \<Rightarrow> bool" where
  "event_ok e = (case event_type e of
      consumer_event_type_webconfig \<Rightarrow> (case ev_msg e of MSG_DOC _ \<Rightarrow>
          event_subtype e \<in> {consumer_event_webconfig_init, consumer_event_webconfig_set_data, consumer_event_webconfig_get_data}
        | _ \<Rightarrow> False)
    | consumer_event_type_mgmt_frame \<Rightarrow> (case ev_msg e of MSG_FRAME _ \<Rightarrow>
          event_subtype e \<in> {consumer_event_probe_req, consumer_event_auth, consumer_event_assoc_req, consumer_event_reassoc_req}
        | _ \<Rightarrow> False)
    | consumer_event_type_l1 \<Rightarrow> (case ev_msg e of
          MSG_CSI _ \<Rightarrow> event_subtype e = consumer_event_l1_csi_data
        | MSG_DONE _ \<Rightarrow> event_subtype e = consumer_event_l1_done
        | _ \<Rightarrow> False)
    | consumer_event_type_temperature \<Rightarrow> (case ev_msg e of MSG_TEMPERATURE _ \<Rightarrow>
          event_subtype e = consumer_event_radio_temperature
        | _ \<Rightarrow> False))"

section \<open>The Wi-Fi data\<close>

definition wifi_part :: "'m consumer \<Rightarrow> 'm wifi_structs \<times> nat list" where
  "wifi_part c = (wifi c, subs_indexes c)"

lemma wifi_part_upd [simp]:
  "wifi_part (c\<lparr>tlv_ctx := x\<rparr>) = wifi_part c" "wifi_part (c\<lparr>comms_ready := b\<rparr>) = wifi_part c"
  "wifi_part (c\<lparr>queue := q\<rparr>) = wifi_part c" "wifi_part (c\<lparr>queue_wakeup := b\<rparr>) = wifi_part c"
  "wifi_part (fds_update f c) = wifi_part c" "wifi_part (l1_collections_update h c) = wifi_part c"
  "wifi_part (set_intervals v c) = wifi_part c"
  by (simp_all add: wifi_part_def subs_indexes_def set_intervals_def cong: option.case_cong)

lemma queue_set_intervals [simp]: "queue (set_intervals v c) = queue c"
  by (simp add: set_intervals_def)

section \<open>Relations that hold across a push\<close>

named_theorems push_rules

locale pusher_side =
  fixes R :: "('m, 'w) dclst \<Rightarrow> ('m, 'w) dclst \<Rightarrow> bool" and D :: "('m, 'w) denv"
  assumes order: "step_order R"
    and same: "queue (consumer t) = queue (consumer s) \<Longrightarrow> wifi_part (consumer t) = wifi_part (consumer s) \<Longrightarrow> R s t"
    and push: "event_ok e \<Longrightarrow> R s (s\<lparr>consumer := (consumer s)\<lparr>queue := map_option (\<lambda>q. queue_push D q e) (queue (consumer s)),
      queue_wakeup := True\<rparr>\<rparr>)"
begin

lemmas push_structure [push_rules] = steps_in_structure [OF order]

lemma push_dcall [push_rules]: "steps_in R (dcall g)"
  by (simp add: steps_in_def same)

lemma push_get [push_rules]: "steps_in R (consumer_get g)"
  by (simp add: steps_in_def same)

lemma push_upd: "(\<And>c. queue (g c) = queue c) \<Longrightarrow> (\<And>c. wifi_part (g c) = wifi_part c) \<Longrightarrow> steps_in R (upd_consumer g)"
  by (simp add: steps_in_def same)

lemma push_wait_block:
  "waits_in R D \<Longrightarrow> steps_in R (block (d_epoll_wait D ep t))" "waits_in R D \<Longrightarrow> steps_in R (block (d_recvfrom D fd))"
  by (simp_all add: steps_in_def waits_in_def)

lemma push_write_event [push_rules]: "steps_in R (cujoagent_write_event D fd n)"
  unfolding cujoagent_write_event_def by (intro push_rules)

lemma push_wait_events [push_rules]: "steps_in R (wait_events D n k es)"
  by (induction es) (auto intro!: push_rules)

lemma push_wait [push_rules]: "waits_in R D \<Longrightarrow> steps_in R (cujoagent_wait_for_event D ep n t)"
  unfolding cujoagent_wait_for_event_def by (intro push_rules push_wait_block)

lemma push_event:
  assumes "event_ok \<lparr>event_type = t, event_subtype = st, ev_msg = m\<rparr>"
  shows "steps_in R (cujoagent_push_to_consumer_queue D m t st)"
proof -
  have "steps_in R (upd_consumer (\<lambda>c. c\<lparr>queue := map_option
      (\<lambda>q. queue_push D q \<lparr>event_type = t, event_subtype = st, ev_msg = m\<rparr>) (queue c), queue_wakeup := True\<rparr>))"
    using push [OF assms] by (simp add: steps_in_def)
  then show ?thesis
    unfolding cujoagent_push_to_consumer_queue_def by (intro push_rules)
qed

lemma push_fields [push_rules]:
  "steps_in R (set_comms_ready b)" "steps_in R (upd_consumer (l1_collections_update h))"
  "steps_in R (upd_consumer (set_intervals u))" "steps_in R (upd_consumer (fds_update f))"
  unfolding set_comms_ready_def by (rule push_upd; simp)+

section \<open>The callbacks and the requests of the initialisation\<close>

lemma push_webconfig_handler: "steps_in R (cujoagent_webconfig_handler D B v name val)"
  unfolding cujoagent_webconfig_handler_def Let_def
  by (intro push_rules push_event) (auto simp: event_ok_def)

lemma push_frame_handler: "steps_in R (cujoagent_frame_events_handler D B v bytes)"
proof -
  have "event_ok \<lparr>event_type = consumer_event_type_mgmt_frame, event_subtype = st, ev_msg = MSG_FRAME fr\<rparr>"
    if "frame_event_subtype t w = Some st" for t w st fr
    using that by (auto simp: event_ok_def frame_event_subtype_def split: wifi_mgmt_frame_type_t.splits if_splits)
  then have p: "steps_in R (cujoagent_push_to_consumer_queue D (MSG_FRAME fr) consumer_event_type_mgmt_frame st)"
    if "frame_event_subtype t w = Some st" for t w st fr
    using push_event that by blast
  show ?thesis
    unfolding cujoagent_frame_events_handler_def Let_def
    by (auto split: option.split intro!: push_structure p)
qed

lemma push_temperature_handler: "steps_in R (cujoagent_radio_temperature_handler D v name t)"
  unfolding cujoagent_radio_temperature_handler_def
  by (intro push_rules push_event) (auto simp: event_ok_def)

lemma push_close [push_rules]: "steps_in R (cujoagent_close_if_valid D r)"
  unfolding cujoagent_close_if_valid_def by (intro push_rules)

lemma push_init_get: "waits_in R D \<Longrightarrow> steps_in R (cujoagent_webconfig_init_get D B)"
  unfolding cujoagent_webconfig_init_get_def
  by (intro push_rules push_event) (simp_all add: event_ok_def)

lemma push_assoc_get: "steps_in R (cujoagent_assoc_list_init_get D B)"
  unfolding cujoagent_assoc_list_init_get_def
  by (intro push_rules push_event) (simp add: event_ok_def)

section \<open>The collectors\<close>

lemma push_l1_events [push_rules]: "steps_in R (l1_events D col es)"
  by (induction es) (auto intro!: push_rules)

lemma push_unsubscribe [push_rules]: "steps_in R (unsubscribe_all B xs)"
  by (induction xs) (auto intro!: push_rules)

lemma push_close_fd [push_rules]: "steps_in R (close_fd D fd)"
  unfolding close_fd_def by (intro push_rules)

lemma push_l1_collect [push_rules]: "waits_in R D \<Longrightarrow> steps_in R (l1_collect D B col ep)"
  unfolding l1_collect_def Let_def cujoagent_set_csi_collection_def by (intro push_rules push_wait_block; assumption)

lemma push_collector: "waits_in R D \<Longrightarrow> steps_in R (cujoagent_l1_collector D B col)"
  unfolding cujoagent_l1_collector_def l1_collector_end_def
  by (intro push_rules push_event; (assumption | simp add: event_ok_def))

section \<open>The fifo thread\<close>

lemma push_read_loop: "steps_in R (fifo_read_loop n D B buf)"
proof (induction n arbitrary: buf)
  case (Suc n)
  then show ?case
    unfolding fifo_read_loop.simps Let_def
    by (intro push_rules push_event) (simp_all add: event_ok_def)
qed (simp add: push_structure)

lemma push_fifo_loop:
  assumes "waits_in R D"
  shows "steps_in R (cujoagent_fifo_loop n D B)"
proof -
  have e: "steps_in R (fifo_events k D B es buf)" for k es buf
    by (induction es arbitrary: buf) (auto intro!: push_rules push_read_loop)
  have "steps_in R (fifo_rounds n D B buf)" for buf
    by (induction n arbitrary: buf) (auto intro!: push_rules push_wait_block assms e split: prod.split)
  then show ?thesis
    unfolding cujoagent_fifo_loop_def by (intro push_rules)
qed

section \<open>The socket thread\<close>

lemma push_start [push_rules]: "steps_in R (cujoagent_start_l1_collection D B st)"
  unfolding cujoagent_start_l1_collection_def new_collector_def by (intro push_rules)

lemma push_version [push_rules]: "steps_in R (cujoagent_send_version_tlv D fd a)"
  unfolding cujoagent_send_version_tlv_def by (intro push_rules)

lemma push_socket_loop:
  assumes "waits_in R D"
  shows "steps_in R (cujoagent_socket_loop n D B)"
proof -
  have h: "steps_in R (cujoagent_tlv_handshake n D fd buf a)" for n fd buf a
    by (induction n arbitrary: buf a) (auto simp: Let_def intro!: push_rules push_wait_block assms split: option.split prod.split)
  have no: "steps_in R (socket_notification D a)" for a
    unfolding socket_notification_def Let_def by (intro push_rules)
  have da: "steps_in R (socket_datagram D B ss)" for ss
    unfolding socket_datagram_def Let_def
    by (auto split: option.split prod.split cujo_fpc_tag_list.split intro!: push_rules push_wait_block assms)
  have ev: "steps_in R (socket_events D B es ss)" for es ss
    by (induction es arbitrary: ss) (auto intro!: push_rules no da)
  have "steps_in R (socket_rounds n D B ss)" for n ss
    by (induction n arbitrary: ss)
      (auto simp: socket_round_def intro!: push_rules push_wait_block assms ev split: prod.split)
  then show ?thesis
    unfolding cujoagent_socket_loop_def by (intro push_rules h)
qed

lemmas pushers = push_fifo_loop push_socket_loop push_collector push_webconfig_handler push_frame_handler
  push_temperature_handler push_init_get push_assoc_get

end

end
