(* ===== verification/Adv_Dcl_Stations.thy ===== *)
theory Adv_Dcl_Stations
  imports Adv_Dcl_Demo Adv_Dcl_Pushers
begin

text \<open>
  The associated devices: the numbering of access points, the refinement of the maps of the consumer
  to one finite map per access point that follows connects and disconnects, and the exactness of
  the station event built from them.
\<close>

section \<open>Hash maps\<close>

definition hm_law :: "('m, 'w) dlib \<Rightarrow> bool" where
  "hm_law L \<longleftrightarrow>
     hm_get L (hm_empty L) = Map.empty \<and>
     (\<forall>m k d. hm_get L (hm_put L m (Some k) d) = (hm_get L m)(k \<mapsto> d)) \<and>
     (\<forall>m k d. hm_get L m k \<noteq> None \<longrightarrow> hm_get L (hm_set L m k d) = (hm_get L m)(k \<mapsto> d)) \<and>
     (\<forall>m k. hm_get L (hm_remove L m k) = (hm_get L m)(k := None)) \<and>
     (\<forall>m. hm_count L m = length (hm_entries L m))"

lemma demo_hm_law: "hm_law demo_dlib"
  by (simp add: hm_law_def demo_dlib_def delete_conv' update_conv')

section \<open>What leaves a part of the consumer alone\<close>

definition keeps :: "('m consumer \<Rightarrow> 'b) \<Rightarrow> ('m, 'w, 'a) dcl \<Rightarrow> bool" where
  "keeps f m \<longleftrightarrow> (\<forall>s. f (consumer (snd (run_state m s))) = f (consumer s))"

named_theorems keeps_rules

lemma keepsD: "keeps f m \<Longrightarrow> f (consumer (snd (run_state m s))) = f (consumer s)"
  by (simp add: keeps_def)

lemma keeps_respects: "keeps f m = steps_in (\<lambda>s t. f (consumer t) = f (consumer s)) m"
  by (simp add: keeps_def steps_in_def)

lemmas keeps_structure [keeps_rules] =
  steps_in_structure [OF step_order_eq [of "\<lambda>s :: ('m, 'w) dclst. f (consumer s)"], folded keeps_respects] for f

lemma keeps_dcall [keeps_rules]: "keeps f (dcall g)"
  by (simp add: keeps_def)

lemma keeps_get [keeps_rules]: "keeps f (consumer_get g)"
  by (simp add: keeps_def)

lemma keeps_upd: "(\<And>c. f (g c) = f c) \<Longrightarrow> keeps f (upd_consumer g)"
  by (simp add: keeps_def)

text \<open>While the consumer thread waits, the other threads do not touch the Wi-Fi data and the subscribed access
  points: both are written by the consumer thread alone, once the initialisation has subscribed.\<close>

definition wait_keeps_wifi :: "('m, 'w) denv \<Rightarrow> bool" where
  "wait_keeps_wifi D \<longleftrightarrow> waits_in (\<lambda>s t. wifi_part (consumer t) = wifi_part (consumer s)) D"

text \<open>What the consumer thread asks of the others they do: no thread, callback or request of the
  initialisation touches them, when none does while it waits itself. The collectors write the intervals of the
  subscriptions, which are not among them.\<close>

interpretation wifi_side: pusher_side "\<lambda>(s :: ('m, 'w) dclst) t. wifi_part (consumer t) = wifi_part (consumer s)" D
  for D :: "('m, 'w) denv"
  by unfold_locales (rule step_order_eq, simp_all)

lemma others_keep_wifi:
  assumes "wait_keeps_wifi D"
  shows "keeps wifi_part (cujoagent_fifo_loop n D B)" "keeps wifi_part (cujoagent_socket_loop n D B)"
    "keeps wifi_part (cujoagent_l1_collector D B col)" "keeps wifi_part (cujoagent_webconfig_handler D B v name doc)"
    "keeps wifi_part (cujoagent_frame_events_handler D B v bytes)" "keeps wifi_part (cujoagent_radio_temperature_handler D v name t)"
    "keeps wifi_part (cujoagent_webconfig_init_get D B)" "keeps wifi_part (cujoagent_assoc_list_init_get D B)"
  unfolding keeps_respects by (intro wifi_side.pushers assms [unfolded wait_keeps_wifi_def])+

lemma keeps_write_event [keeps_rules]: "keeps f (cujoagent_write_event D fd n)"
  unfolding cujoagent_write_event_def by (intro keeps_rules)

lemma keeps_timestamp [keeps_rules]: "keeps f (cujoagent_timestamp L)"
  unfolding cujoagent_timestamp_def by (intro keeps_rules)

lemma keeps_new_station_event [keeps_rules]: "keeps f (cujoagent_new_station_event D L d v)"
  unfolding cujoagent_new_station_event_def Let_def by (intro keeps_rules)

lemma keeps_new_radio_event [keeps_rules]: "keeps f (cujoagent_new_radio_event L d im r v)"
  unfolding cujoagent_new_radio_event_def Let_def by (intro keeps_rules)

lemma keeps_update_map [keeps_rules]: "keeps f (cujoagent_update_associated_devices_map D L m d)"
  unfolding cujoagent_update_associated_devices_map_def cujoagent_add_device_to_associated_device_map_def Let_def
  by (auto split: option.split client_state_t.split intro!: keeps_rules)

lemma keeps_wait_events [keeps_rules]: "keeps f (wait_events D n k es)"
  by (induction es) (auto intro!: keeps_rules)

lemma keeps_wait [keeps_rules]:
  assumes "wait_keeps_wifi D"
  shows "keeps wifi_part (cujoagent_wait_for_event D ep n t)"
proof -
  have "keeps wifi_part (block (d_epoll_wait D ep t))"
    using assms by (simp add: keeps_def wait_keeps_wifi_def waits_in_def)
  then show ?thesis
    unfolding cujoagent_wait_for_event_def by (intro keeps_rules)
qed

lemma keeps_tlv [keeps_rules]:
  "keeps wifi_part (set_tlv t n)" "keeps wifi_part clear_tlv" "keeps wifi_part (set_comms_ready b)"
  unfolding set_tlv_def clear_tlv_def set_comms_ready_def by (intro keeps_upd; simp)+

lemma keeps_emit [keeps_rules]: "wait_keeps_wifi D \<Longrightarrow> keeps wifi_part (cujoagent_emit_event_tlv D tag d n)"
  unfolding cujoagent_emit_event_tlv_def Let_def by (intro keeps_rules; assumption)

lemma keeps_stop [keeps_rules]: "wait_keeps_wifi D \<Longrightarrow> keeps wifi_part (stop_collectors D mac ks b)"
  by (induction ks arbitrary: b) (auto intro!: keeps_rules)

lemma keeps_reports [keeps_rules]:
  "wait_keeps_wifi D \<Longrightarrow> keeps wifi_part (report_done D L mac i)"
  "wait_keeps_wifi D \<Longrightarrow> keeps wifi_part (report_state D L d im r v)"
  unfolding report_done_def report_state_def by (intro keeps_rules; assumption)+

section \<open>Connects and disconnects as updates of a finite map\<close>

text \<open>The devices of an access point, by address.\<close>

definition devices :: "('m, 'w) dlib \<Rightarrow> 'm option \<Rightarrow> mac_address_t \<Rightarrow> assoc_dev_data_t option" where
  "devices L m mac = (case m of None \<Rightarrow> None | Some x \<Rightarrow> hm_get L x (mac_str mac))"

definition stations :: "('m, 'w) dlib \<Rightarrow> 'm wifi_structs \<times> nat list \<Rightarrow> nat \<Rightarrow> nat \<Rightarrow> mac_address_t \<Rightarrow> assoc_dev_data_t option" where
  "stations L ws i a = devices L (associated_devices_map (rdk_vap_array (radios (fst ws) i) a))"

definition track :: "assoc_dev_data_t \<Rightarrow> (mac_address_t \<Rightarrow> assoc_dev_data_t option) \<Rightarrow> mac_address_t \<Rightarrow> assoc_dev_data_t option" where
  "track d M = (case client_state d of
      client_state_disconnected \<Rightarrow> M(cli_MACAddress d := None)
    | client_state_connected \<Rightarrow> M(cli_MACAddress d \<mapsto> d)
    | client_state_other _ \<Rightarrow> M)"

definition track_vap where
  "track_vap L st dec v M = (case v of (i, im, a) \<Rightarrow>
     (case associated_devices_diff_map (rdk_vap_array (dec_radios dec i) a) of
        None \<Rightarrow> M
      | Some diff \<Rightarrow> M(i := (M i)(a := fold track (filter (\<lambda>d. client_state d = st) (hm_entries L diff)) (M i a)))))"

lemma update_map_devices:
  assumes "hm_law L" "\<And>x w. fst (d_malloc D x w)"
  shows "\<exists>m'. fst (run_state (cujoagent_update_associated_devices_map D L (Some m) (Some d)) s) = Some m'
    \<and> devices L (Some m') = track d (devices L (Some m))"
proof (cases "client_state d")
  case client_state_disconnected
  then show ?thesis
    using assms(1) by (auto simp: cujoagent_update_associated_devices_map_def hm_law_def devices_def track_def
        cujoagent_remove_device_from_associated_devices_map_def)
next
  case client_state_connected
  then show ?thesis
    using assms by (auto simp: cujoagent_update_associated_devices_map_def hm_law_def devices_def track_def
        cujoagent_add_device_to_associated_device_map_def Let_def split: option.split)
next
  case (client_state_other n)
  then show ?thesis
    by (simp add: cujoagent_update_associated_devices_map_def track_def)
qed

lemma stations_set:
  "stations L (wifi_part (set_assoc_map i a m c)) = (stations L (wifi_part c))(i := (stations L (wifi_part c) i)(a := devices L m))"
  by (simp add: stations_def wifi_part_def set_assoc_map_def fun_eq_iff)

lemma assoc_map_at_part: "assoc_map_at c i a = associated_devices_map (rdk_vap_array (radios (fst (wifi_part c)) i) a)"
  by (simp add: assoc_map_at_def wifi_part_def)

lemma process_device_stations:
  fixes d and im and dec and st
  assumes "hm_law L" "\<And>x w. fst (d_malloc D x w)" "wait_keeps_wifi D" "assoc_map_at (consumer s) i a \<noteq> None"
  defines "s' \<equiv> snd (run_state (process_device D L st dec (i, im, a) d) s)"
  shows "stations L (wifi_part (consumer s')) = (stations L (wifi_part (consumer s)))
      (i := (stations L (wifi_part (consumer s)) i)(a := track d (stations L (wifi_part (consumer s)) i a)))"
    and "assoc_map_at (consumer s') i a \<noteq> None"
proof -
  obtain m where m: "assoc_map_at (consumer s) i a = Some m" using assms(4) by blast
  let ?u = "cujoagent_update_associated_devices_map D L (Some m) (Some d)"
  obtain m' where m': "fst (run_state ?u s) = Some m'" "devices L (Some m') = track d (devices L (Some m))"
    using update_map_devices [OF assms(1,2)] by blast
  define s1 where "s1 = snd (run_state ?u s)"
  have c1: "consumer s1 = consumer s"
    using keepsD [OF keeps_update_map, of id] by (simp add: s1_def)
  define s2 where "s2 = s1\<lparr>consumer := set_assoc_map i a (Some m') (consumer s1)\<rparr>"
  define rest where "rest = do {
       go \<leftarrow> (if st = client_state_disconnected
           then report_done D L (cli_MACAddress d) (rdk_vap_index (rdk_vap_array (dec_radios dec i) a))
           else return True);
       if go then report_state D L d im (dec_radios dec i) (vap_array (dec_radios dec i) a) else return ()
     }"
  have "keeps wifi_part rest"
    unfolding rest_def using assms(3) by (intro keeps_rules; assumption)
  moreover have "process_device D L st dec (i, im, a) d = do {
       x \<leftarrow> consumer_get (\<lambda>c. assoc_map_at c i a);
       y \<leftarrow> cujoagent_update_associated_devices_map D L x (Some d);
       _ \<leftarrow> upd_consumer (set_assoc_map i a y);
       rest
     }"
    by (simp add: process_device_def rest_def)
  ultimately have w: "wifi_part (consumer s') = wifi_part (consumer s2)"
    by (simp add: s'_def m m'(1) case_prod_beta s1_def [symmetric] s2_def keepsD)
  have "stations L (wifi_part (consumer s)) i a = devices L (Some m)"
    using m by (simp add: stations_def assoc_map_at_part)
  then show "stations L (wifi_part (consumer s')) = (stations L (wifi_part (consumer s)))
      (i := (stations L (wifi_part (consumer s)) i)(a := track d (stations L (wifi_part (consumer s)) i a)))"
    using m' by (simp add: w s2_def stations_set c1)
  show "assoc_map_at (consumer s') i a \<noteq> None"
    by (simp add: assoc_map_at_part w s2_def) (simp add: wifi_part_def set_assoc_map_def)
qed

lemma process_devices_stations:
  assumes "hm_law L" "\<And>x w. fst (d_malloc D x w)" "wait_keeps_wifi D" "assoc_map_at (consumer s) i a \<noteq> None"
  shows "stations L (wifi_part (consumer (snd (run_state (process_devices D L st dec (i, im, a) ds) s)))) =
    (stations L (wifi_part (consumer s)))(i := (stations L (wifi_part (consumer s)) i)
      (a := fold track (filter (\<lambda>d. client_state d = st) ds) (stations L (wifi_part (consumer s)) i a)))"
  using assms(4)
proof (induction ds arbitrary: s)
  case (Cons d ds)
  show ?case
  proof (cases "client_state d = st")
    case True
    define s1 where "s1 = snd (run_state (process_device D L st dec (i, im, a) d) s)"
    note p = process_device_stations [OF assms(1-3) Cons.prems, of st dec im d, folded s1_def]
    have "run_state (process_devices D L st dec (i, im, a) (d # ds)) s = run_state (process_devices D L st dec (i, im, a) ds) s1"
      using True by (simp add: case_prod_beta s1_def)
    then show ?thesis
      using True by (simp only: Cons.IH [OF p(2)] p(1)) (simp add: fun_eq_iff)
  next
    case False
    then show ?thesis by (simp add: case_prod_beta Cons.IH [OF Cons.prems])
  qed
qed simp

lemma process_vap_stations:
  assumes "hm_law L" "\<And>x w. fst (d_malloc D x w)" "wait_keeps_wifi D"
  shows "stations L (wifi_part (consumer (snd (run_state (process_vap D L st dec v) s)))) =
    track_vap L st dec v (stations L (wifi_part (consumer s)))"
proof -
  obtain i im a where v: "v = (i, im, a)" by (cases v)
  show ?thesis
  proof (cases "associated_devices_diff_map (rdk_vap_array (dec_radios dec i) a)")
    case None
    then show ?thesis by (simp add: v process_vap_def track_vap_def)
  next
    case (Some diff)
    show ?thesis
    proof (cases "assoc_map_at (consumer s) i a")
      case None
      let ?s = "snd (run_state (upd_consumer (set_assoc_map i a (Some (hm_empty L))))
          (s\<lparr>dworld := snd (d_malloc D ''hash_map'' (dworld s))\<rparr>))"
      have e: "devices L (Some (hm_empty L)) = devices L None"
        using assms(1) by (simp add: devices_def hm_law_def fun_eq_iff)
      have o: "stations L (wifi_part (consumer s)) i a = devices L None"
        using None by (simp add: stations_def assoc_map_at_part)
      have "stations L (wifi_part (consumer ?s)) = stations L (wifi_part (consumer s))"
        by (simp add: stations_set e) (simp add: o [symmetric])
      moreover have "assoc_map_at (consumer ?s) i a \<noteq> None"
        by (simp add: assoc_map_at_def set_assoc_map_def)
      ultimately show ?thesis
        using process_devices_stations [OF assms, of ?s i a st dec im "hm_entries L diff"] Some None assms(2)
        by (simp add: v process_vap_def track_vap_def)
    next
      case (Some m)
      then show ?thesis
        using process_devices_stations [OF assms, of s i a st dec im "hm_entries L diff"]
          \<open>associated_devices_diff_map (rdk_vap_array (dec_radios dec i) a) = Some diff\<close>
        by (simp add: v process_vap_def track_vap_def)
    qed
  qed
qed

text \<open>C6: The consumer follows connects and disconnects whether or not the agent is there: where no allocation
  fails, and no other thread touches the Wi-Fi data while the consumer thread waits, which none of them does,
  processing a diff document in one of the two states applies, access point by access point and entry by
  entry, exactly the devices of that state to the maps of the consumer, as a connect adds or
  replaces the entry of its address and a disconnect removes it; what is sent, what fails to be
  sent and a collection that has to be stopped make no difference.\<close>

theorem client_state_refines_station_maps:
  assumes "hm_law L" "\<And>x w. fst (d_malloc D x w)" "wait_keeps_wifi D"
  shows "stations L (wifi_part (consumer (snd (run_state (cujoagent_process_client_state D L st dec) s)))) =
    fold (track_vap L st dec)
      (vap_walk L (numRadios (wifi_prop (wifi (consumer s)))) (dec_prop dec) (subs_indexes (consumer s)))
      (stations L (wifi_part (consumer s)))"
proof -
  have "stations L (wifi_part (consumer (snd (run_state (process_vaps D L st dec vs) s)))) =
      fold (track_vap L st dec) vs (stations L (wifi_part (consumer s)))" for vs
    by (induction vs arbitrary: s) (simp_all add: case_prod_beta process_vap_stations [OF assms])
  then show ?thesis
    by (simp add: cujoagent_process_client_state_def)
qed

lemma demo_interfaces: "interfaces demo_dlib demo_prop = interface_map demo_prop"
  by (simp add: interfaces_def demo_prop_def demo_dlib_def)

text \<open>A connect on the first access point of the demonstration, where nothing fails to be allocated.\<close>

definition demo_dev :: assoc_dev_data_t where
  "demo_dev = \<lparr>cli_MACAddress = (2, 0, 0, 0, 0, 1), client_state = client_state_connected\<rparr>"

definition demo_decoded :: "demo_map decoded_data" where
  "demo_decoded = decoded_zero\<lparr>dec_prop := demo_prop, dec_radios := (\<lambda>_. radio_zero\<lparr>rdk_vap_array := (\<lambda>a.
     \<lparr>rdk_vap_index = 0, associated_devices_map = None,
       associated_devices_diff_map = (if a = 0 then Some [(mac_str (cli_MACAddress demo_dev), demo_dev)] else None),
       acl_map = None\<rparr>)\<rparr>)\<rparr>"

lemma demo_walk:
  "vap_walk demo_dlib (numRadios (wifi_prop (wifi demo_consumer))) demo_prop (subs_indexes demo_consumer) =
    [(0, interface_map demo_prop ! 0, 0), (0, interface_map demo_prop ! 2, 2)]"
proof -
  have "subs_indexes demo_consumer = [0, 4]" "numRadios (wifi_prop (wifi demo_consumer)) = 1"
    by (simp_all add: subs_indexes_def demo_consumer_def) (simp add: demo_prop_def)
  moreover have "vap_of_sub demo_dlib demo_prop 0 0 = Some (0, interface_map demo_prop ! 0, 0)"
    "vap_of_sub demo_dlib demo_prop 0 4 = Some (0, interface_map demo_prop ! 2, 2)"
    unfolding vap_of_sub_def cujoagent_iface_property_def cujoagent_vap_array_index_def demo_interfaces
    by (simp_all add: demo_prop_def)
  ultimately show ?thesis
    by (simp add: vap_walk_def List.map_filter_def)
qed

theorem client_state_refines_station_maps_witness:
  "stations demo_dlib (wifi_part (consumer (snd (run_state
     (cujoagent_process_client_state demo_denv_ok demo_dlib client_state_connected demo_decoded) demo_dcl))))
     0 0 (cli_MACAddress demo_dev) = Some demo_dev"
proof -
  have d: "dec_prop demo_decoded = demo_prop" by (simp add: demo_decoded_def)
  have diff: "associated_devices_diff_map (rdk_vap_array (dec_radios demo_decoded i) a) =
      (if a = 0 then Some [(mac_str (cli_MACAddress demo_dev), demo_dev)] else None)" for i a
    by (simp add: demo_decoded_def)
  have e: "hm_entries demo_dlib m = map snd m" for m by (simp add: demo_dlib_def)
  have c: "client_state demo_dev = client_state_connected" by (simp add: demo_dev_def)
  have "fst (d_malloc demo_denv_ok x w)" "wait_keeps_wifi demo_denv_ok" for x w
    by (simp_all add: demo_denv_ok_def wait_keeps_wifi_def waits_in_def demo_denv_def)
  note * = client_state_refines_station_maps [OF demo_hm_law this, of client_state_connected demo_decoded demo_dcl]
  show ?thesis
    unfolding * by (simp add: d demo_walk track_vap_def diff e track_def c)
qed

section \<open>The numbering of access points\<close>

lemma vap_array_loop_radio:
  assumes "distinct (map iface_index ifs)"
  shows "map (\<lambda>im. vap_array_loop im ifs k) (filter (\<lambda>i. rdk_radio_index i = r) ifs) =
    map (\<lambda>j. k + 1 + int j) [0..<length (filter (\<lambda>i. rdk_radio_index i = r) ifs)]"
  using assms
proof (induction ifs arbitrary: k)
  case (Cons x xs)
  have "map (\<lambda>im. vap_array_loop im (x # xs) k) (filter (\<lambda>i. rdk_radio_index i = r) xs) =
      map (\<lambda>im. vap_array_loop im xs (if rdk_radio_index x = r then k + 1 else k)) (filter (\<lambda>i. rdk_radio_index i = r) xs)"
  proof (rule map_cong [OF refl])
    fix im assume im: "im \<in> set (filter (\<lambda>i. rdk_radio_index i = r) xs)"
    then have "iface_index x \<noteq> iface_index im" using Cons.prems by force
    then show "vap_array_loop im (x # xs) k = vap_array_loop im xs (if rdk_radio_index x = r then k + 1 else k)"
      using im by (simp add: Let_def)
  qed
  also have "\<dots> = map (\<lambda>j. (if rdk_radio_index x = r then k + 1 else k) + 1 + int j)
      [0..<length (filter (\<lambda>i. rdk_radio_index i = r) xs)]"
    using Cons by simp
  finally show ?case
    by (auto simp: Let_def upt_conv_Cons map_Suc_upt [symmetric] comp_def simp del: upt_Suc)
qed simp

text \<open>The access points of a radio are numbered without gaps: with distinct indexes in the interface
  map, the array indexes computed for the interfaces of one radio, in the order of the map, are
  0, 1, 2 and so on, so two access points of a radio never share a place and none lies outside the
  first as many places as the radio has access points.\<close>

lemma vap_array_index_numbers:
  assumes "distinct (map iface_index (interfaces L p))"
  shows "map (cujoagent_vap_array_index L p) (filter (\<lambda>i. rdk_radio_index i = r) (interfaces L p)) =
    map int [0..<length (filter (\<lambda>i. rdk_radio_index i = r) (interfaces L p))]"
  using vap_array_loop_radio [OF assms, of "- 1" r] by (simp add: cujoagent_vap_array_index_def [abs_def])

theorem vap_array_index_numbers_witness:
  "map (cujoagent_vap_array_index demo_dlib demo_prop) (interfaces demo_dlib demo_prop) = [0, 1, 2]"
proof -
  have "filter (\<lambda>i. rdk_radio_index i = 0) (interfaces demo_dlib demo_prop) = interfaces demo_dlib demo_prop"
    unfolding demo_interfaces by (simp add: demo_prop_def)
  moreover have "[0..<length (interfaces demo_dlib demo_prop)] = [0, 1, 2]"
    unfolding demo_interfaces by (simp add: demo_prop_def upt_rec)
  moreover have "distinct (map iface_index (interfaces demo_dlib demo_prop))"
    unfolding demo_interfaces by (simp add: demo_prop_def)
  ultimately show ?thesis
    using vap_array_index_numbers [of demo_dlib demo_prop 0] by simp
qed

section \<open>The station event\<close>

lemma write_rows_ok:
  "k + length vs \<le> length xs \<Longrightarrow> write_rows xs k vs = Some (take k xs @ vs @ drop (k + length vs) xs)"
proof (induction vs arbitrary: xs k)
  case (Cons v vs)
  then have "write_rows (xs[k := v]) (k + 1) vs = Some (take (k + 1) (xs[k := v]) @ vs @ drop (k + 1 + length vs) (xs[k := v]))"
    by simp
  then show ?case
    using Cons.prems by (simp add: take_Suc_conv_app_nth)
qed simp

definition vap_rows where
  "vap_rows L c v = (case v of (i, im, a) \<Rightarrow>
     (case assoc_map_at c i a of None \<Rightarrow> [] | Some m \<Rightarrow> map (station_row L im) (hm_entries L m)))"

lemma fill_rows_ok:
  assumes "hm_law L"
  shows "offset + length (concat (map (vap_rows L c) w)) \<le> length xs \<Longrightarrow>
    fill_rows L c w offset xs = Some (take offset xs @ concat (map (vap_rows L c) w)
      @ drop (offset + length (concat (map (vap_rows L c) w))) xs)"
proof (induction w arbitrary: offset xs)
  case (Cons v w)
  obtain i im a where v: "v = (i, im, a)" by (cases v)
  show ?case
  proof (cases "assoc_map_at c i a")
    case None
    then show ?thesis using Cons by (simp add: v vap_rows_def)
  next
    case (Some m)
    let ?r = "map (station_row L im) (hm_entries L m)"
    have n: "hm_count L m = length ?r" using assms by (simp add: hm_law_def)
    have "write_rows xs offset ?r = Some (take offset xs @ ?r @ drop (offset + length ?r) xs)"
      using Cons.prems Some by (intro write_rows_ok) (simp add: v vap_rows_def)
    then show ?thesis
      using Cons.IH [of "offset + length ?r" "take offset xs @ ?r @ drop (offset + length ?r) xs"] Cons.prems Some n
      by (simp add: v vap_rows_def ac_simps min_def)
  qed
qed simp

lemma count_clients_rows:
  "hm_law L \<Longrightarrow> count_clients L c w = length (concat (map (vap_rows L c) w))"
  by (induction w) (auto simp: count_clients_def vap_rows_def hm_law_def split: option.split)

text \<open>C22: The station event is exact: the rows counted before the event is allocated are the rows
  written into it, so nothing is written behind it and nothing in it is left unset, and they are
  the devices of every access point of interest, in the order of radios and subscriptions.\<close>

theorem station_event_exact:
  assumes "hm_law L"
  shows "station_rows L c = Some (concat (map (vap_rows L c)
      (vap_walk L (numRadios (wifi_prop (wifi c))) (wifi_prop (wifi c)) (subs_indexes c))))
    \<and> station_count L c = length (the (station_rows L c))"
proof -
  let ?w = "vap_walk L (numRadios (wifi_prop (wifi c))) (wifi_prop (wifi c)) (subs_indexes c)"
  have "fill_rows L c ?w 0 (replicate (count_clients L c ?w) row_zero) = Some (concat (map (vap_rows L c) ?w))"
    using fill_rows_ok [OF assms, of 0 c ?w "replicate (count_clients L c ?w) row_zero"]
    by (simp add: count_clients_rows [OF assms])
  then show ?thesis
    by (simp add: station_rows_def station_count_def count_clients_rows [OF assms] Let_def)
qed

theorem station_event_exact_witness:
  "length (the (station_rows demo_dlib (set_assoc_map 0 2 (Some [(mac_str (cli_MACAddress demo_dev), demo_dev)]) demo_consumer))) = 1"
proof -
  let ?c = "set_assoc_map 0 2 (Some [(mac_str (cli_MACAddress demo_dev), demo_dev)]) demo_consumer"
  have w: "wifi_prop (wifi ?c) = demo_prop" "subs_indexes ?c = subs_indexes demo_consumer"
    by (simp_all add: set_assoc_map_def subs_indexes_def demo_consumer_def)
  have n: "numRadios (wifi_prop (wifi demo_consumer)) = numRadios demo_prop"
    by (simp add: demo_consumer_def)
  have a: "assoc_map_at ?c 0 0 = None" "assoc_map_at ?c 0 2 = Some [(mac_str (cli_MACAddress demo_dev), demo_dev)]"
    by (simp_all add: assoc_map_at_def set_assoc_map_def demo_consumer_def demo_zero_def consumer_zero_def
        radio_zero_def)
  show ?thesis
    using station_event_exact [OF demo_hm_law, of ?c] demo_walk
    by (simp add: w n vap_rows_def a) (simp add: demo_dlib_def)
qed

end
