(* ===== verification/Adv_Reach.thy ===== *)
theory Adv_Reach
  imports Main
begin

text \<open>
  Systems of threads as a predicate for the start and a relation for the steps: reachable states,
  invariants relative to what is known already, and what holds on from a state.
\<close>

inductive reachable :: "('s \<Rightarrow> bool) \<Rightarrow> ('s \<Rightarrow> 's \<Rightarrow> bool) \<Rightarrow> 's \<Rightarrow> bool" for init step where
  reach_init: "init s \<Longrightarrow> reachable init step s"
| reach_next: "reachable init step s \<Longrightarrow> step s t \<Longrightarrow> reachable init step t"

lemma reachable_steps: "reachable init step s \<Longrightarrow> step\<^sup>*\<^sup>* s t \<Longrightarrow> reachable init step t"
  by (rule rtranclp_induct [of step s t]) (auto intro: reachable.reach_next)

text \<open>The contract of an invariant: the steps keep it where \<open>known\<close>, an invariant already shown, holds.\<close>

locale invariant_of =
  fixes init :: "'s \<Rightarrow> bool" and step :: "'s \<Rightarrow> 's \<Rightarrow> bool" and known :: "'s \<Rightarrow> bool" and inv :: "'s \<Rightarrow> bool"
  assumes known: "reachable init step s \<Longrightarrow> known s"
    and start: "init s \<Longrightarrow> inv s"
    and keeps: "known s \<Longrightarrow> inv s \<Longrightarrow> step s t \<Longrightarrow> inv t"
begin

lemma holds: "reachable init step s \<Longrightarrow> inv s"
proof (induction rule: reachable.induct)
  case (reach_init s)
  then show ?case by (rule start)
next
  case (reach_next s t)
  then show ?case by (blast intro: known keeps)
qed

end

text \<open>What every step from a reachable state keeps is kept for ever.\<close>

lemma kept_for_ever:
  assumes "reachable init step s" "step\<^sup>*\<^sup>* s t" "Q s"
    and "\<And>u v. reachable init step u \<Longrightarrow> Q u \<Longrightarrow> step u v \<Longrightarrow> Q v"
  shows "Q t"
  using assms(2)
proof (induction rule: rtranclp_induct)
  case base
  then show ?case by (rule assms(3))
next
  case (step u v)
  from assms(1) step.hyps(1) have "reachable init step u" by (rule reachable_steps)
  then show ?case using step.IH step.hyps(2) by (rule assms(4))
qed

end
