(* ===== verification/Adv_Dcl_Sync.thy ===== *)
theory Adv_Dcl_Sync
  imports Adv_Dcl_Side Adv_Reach
begin

text \<open>
  The threads of the data-collection library at their two mutexes and their condition variable: a relation
  whose steps are what a thread does between two calls of the thread library. The fields that the mutexes
  protect are those of \<open>struct consumer\<close>; what the consumer thread does with an event
  otherwise is \<open>Adv_Dcl_Process\<close>.
\<close>

section \<open>Where the threads are\<close>

datatype thread = Consumer | Other nat

text \<open>The consumer thread. Behind \<open>C_event\<close> it works on an event with the mutex held; for a device that
  left it enters the second mutex, looks for the collector, and tells the one it found to stop.\<close>

datatype consumer_pc =
    C_start | C_test | C_sleep | C_woken | C_exit | C_drain
  | C_event cujoagent_wifi_consumer_event_t
  | C_want_l1 cujoagent_wifi_consumer_event_t
  | C_l1 cujoagent_wifi_consumer_event_t
  | C_stop cujoagent_wifi_consumer_event_t l1_collector
  | C_done

text \<open>Any other thread: between calls, pushing an event (a collector its last one), at a hello, starting or
  ending a collection, or shutting down.\<close>

datatype other_pc =
    O_idle
  | O_push_want cujoagent_wifi_consumer_event_t "l1_collector option"
  | O_push_in cujoagent_wifi_consumer_event_t "l1_collector option"
  | O_push_signal "l1_collector option"
  | O_hello_want | O_hello_in
  | O_start_want l1_collection_start | O_start_in l1_collection_start | O_create nat l1_collector
  | O_collect l1_collector | O_end_want l1_collector | O_end_in l1_collector
  | O_deinit_want_l1 | O_deinit_l1 | O_deinit_stop l1_collector
  | O_deinit_want | O_deinit_in | O_deinit_signal | O_deinit_wait | O_deinit_done

text \<open>\<open>pushed\<close> and \<open>taken\<close> are the events in the order in which they entered and left the queue; \<open>freed\<close>
  holds the collectors whose memory was freed.\<close>

record 'm sync =
  cons :: "'m consumer"
  lock :: "thread option"
  l1_lock :: "thread option"
  alive :: bool
  cpc :: consumer_pc
  opc :: "nat \<Rightarrow> other_pc"
  pushed :: "cujoagent_wifi_consumer_event_t list"
  taken :: "cujoagent_wifi_consumer_event_t list"
  freed :: "l1_collector set"

section \<open>What the sections do\<close>

definition push_section :: "('m, 'w) denv \<Rightarrow> cujoagent_wifi_consumer_event_t \<Rightarrow> 'm consumer \<Rightarrow> 'm consumer" where
  "push_section D e c = c\<lparr>queue := map_option (\<lambda>q. queue_push D q e) (queue c), queue_wakeup := True\<rparr>"

text \<open>The slot a new collection gets, when it gets one.\<close>

definition start_slot :: "l1_collection_start \<Rightarrow> 'm consumer \<Rightarrow> nat option" where
  "start_slot st c =
     (if disable_l1_collection c \<or> collecting (start_mac st) (l1_collections c) then None
      else free_slot (l1_collections c) 0)"

text \<open>Signalling wakes the consumer thread if it sleeps.\<close>

definition signalled :: "consumer_pc \<Rightarrow> consumer_pc" where
  "signalled c = (if c = C_sleep then C_woken else c)"

abbreviation at_lock :: "nat \<Rightarrow> other_pc \<Rightarrow> 'm sync \<Rightarrow> 'm sync" where
  "at_lock i p s \<equiv> s\<lparr>lock := Some (Other i), opc := (opc s)(i := p)\<rparr>"

abbreviation at_l1 :: "nat \<Rightarrow> other_pc \<Rightarrow> 'm sync \<Rightarrow> 'm sync" where
  "at_l1 i p s \<equiv> s\<lparr>l1_lock := Some (Other i), opc := (opc s)(i := p)\<rparr>"

abbreviation goes :: "nat \<Rightarrow> other_pc \<Rightarrow> 'm sync \<Rightarrow> 'm sync" where
  "goes i p s \<equiv> s\<lparr>opc := (opc s)(i := p)\<rparr>"

section \<open>The consumer thread\<close>

text \<open>A thread may also wake from its sleep without a signal.\<close>

inductive consumer_step :: "('m, 'w) denv \<Rightarrow> 'm sync \<Rightarrow> 'm sync \<Rightarrow> bool" for D where
  c_lock: "alive s \<Longrightarrow> cpc s = C_start \<Longrightarrow> lock s = None \<Longrightarrow>
     consumer_step D s (s\<lparr>lock := Some Consumer, cpc := C_test\<rparr>)"
| c_sleep: "cpc s = C_test \<Longrightarrow> \<not> queue_wakeup (cons s) \<Longrightarrow> consumer_step D s (s\<lparr>lock := None, cpc := C_sleep\<rparr>)"
| c_spurious: "cpc s = C_sleep \<Longrightarrow> consumer_step D s (s\<lparr>cpc := C_woken\<rparr>)"
| c_relock: "alive s \<Longrightarrow> cpc s = C_woken \<Longrightarrow> lock s = None \<Longrightarrow>
     consumer_step D s (s\<lparr>lock := Some Consumer, cpc := C_test\<rparr>)"
| c_up: "cpc s = C_test \<Longrightarrow> queue_wakeup (cons s) \<Longrightarrow> consumer_step D s (s\<lparr>cpc := C_exit\<rparr>)"
| c_return: "cpc s = C_exit \<Longrightarrow> exit_consumer (cons s) \<Longrightarrow> consumer_step D s (s\<lparr>lock := None, cpc := C_done\<rparr>)"
| c_round: "cpc s = C_exit \<Longrightarrow> \<not> exit_consumer (cons s) \<Longrightarrow> consumer_step D s (s\<lparr>cpc := C_drain\<rparr>)"
| c_pop: "cpc s = C_drain \<Longrightarrow> queue (cons s) = Some (x # xs) \<Longrightarrow> queue_pop D (x # xs) = (e, rest) \<Longrightarrow>
     consumer_step D s (s\<lparr>cons := (cons s)\<lparr>queue := Some rest\<rparr>, cpc := C_event e, taken := taken s @ [e]\<rparr>)"
| c_empty: "cpc s = C_drain \<Longrightarrow> queue (cons s) \<in> {None, Some []} \<Longrightarrow>
     consumer_step D s (s\<lparr>cons := (cons s)\<lparr>queue_wakeup := False\<rparr>, cpc := C_test\<rparr>)"
| c_work: "cpc s = C_event e \<Longrightarrow> sync_part c = sync_part (cons s) \<Longrightarrow> consumer_step D s (s\<lparr>cons := c\<rparr>)"
| c_finish: "cpc s = C_event e \<Longrightarrow> consumer_step D s (s\<lparr>cpc := C_drain\<rparr>)"
| c_want: "cpc s = C_event e \<Longrightarrow> consumer_step D s (s\<lparr>cpc := C_want_l1 e\<rparr>)"
| c_lock_l1: "alive s \<Longrightarrow> cpc s = C_want_l1 e \<Longrightarrow> l1_lock s = None \<Longrightarrow>
     consumer_step D s (s\<lparr>l1_lock := Some Consumer, cpc := C_l1 e\<rparr>)"
| c_find: "cpc s = C_l1 e \<Longrightarrow> Some col \<in> set (l1_collections (cons s)) \<Longrightarrow> consumer_step D s (s\<lparr>cpc := C_stop e col\<rparr>)"
| c_stop: "cpc s = C_stop e col \<Longrightarrow> consumer_step D s (s\<lparr>cpc := C_l1 e\<rparr>)"
| c_unlock_l1: "cpc s = C_l1 e \<Longrightarrow> consumer_step D s (s\<lparr>l1_lock := None, cpc := C_event e\<rparr>)"

section \<open>The other threads\<close>

text \<open>\<open>fails\<close> says whether the creation of a thread may fail. A collector that is created has its own memory;
  where its thread could not be created, the slot is emptied and the collector freed without the mutex.\<close>

inductive push_step :: "('m, 'w) denv \<Rightarrow> nat \<Rightarrow> 'm sync \<Rightarrow> 'm sync \<Rightarrow> bool" for D i where
  p_call: "opc s i = O_idle \<Longrightarrow> push_step D i s (goes i (O_push_want e None) s)"
| p_lock: "alive s \<Longrightarrow> opc s i = O_push_want e k \<Longrightarrow> lock s = None \<Longrightarrow> push_step D i s (at_lock i (O_push_in e k) s)"
| p_push: "opc s i = O_push_in e k \<Longrightarrow> push_step D i s
     (s\<lparr>cons := push_section D e (cons s), lock := None, opc := (opc s)(i := O_push_signal k),
        pushed := pushed s @ [e]\<rparr>)"
| p_signal: "opc s i = O_push_signal k \<Longrightarrow> push_step D i s
     (s\<lparr>cpc := signalled (cpc s), opc := (opc s)(i := (case k of None \<Rightarrow> O_idle | Some col \<Rightarrow> O_end_want col))\<rparr>)"

inductive hello_step :: "nat \<Rightarrow> 'm sync \<Rightarrow> 'm sync \<Rightarrow> bool" for i where
  h_call: "opc s i = O_idle \<Longrightarrow> hello_step i s (goes i O_hello_want s)"
| h_lock: "alive s \<Longrightarrow> opc s i = O_hello_want \<Longrightarrow> lock s = None \<Longrightarrow> hello_step i s (at_lock i O_hello_in s)"
| h_ready: "opc s i = O_hello_in \<Longrightarrow> hello_step i s
     (s\<lparr>cons := (cons s)\<lparr>comms_ready := True\<rparr>, lock := None, opc := (opc s)(i := O_idle)\<rparr>)"

inductive start_step :: "bool \<Rightarrow> nat \<Rightarrow> 'm sync \<Rightarrow> 'm sync \<Rightarrow> bool" for fails i where
  s_call: "opc s i = O_idle \<Longrightarrow> start_step fails i s (goes i (O_start_want st) s)"
| s_lock: "alive s \<Longrightarrow> opc s i = O_start_want st \<Longrightarrow> l1_lock s = None \<Longrightarrow> start_step fails i s (at_l1 i (O_start_in st) s)"
| s_refuse: "opc s i = O_start_in st \<Longrightarrow> start_step fails i s (s\<lparr>l1_lock := None, opc := (opc s)(i := O_idle)\<rparr>)"
| s_take: "opc s i = O_start_in st \<Longrightarrow> start_slot st (cons s) = Some slot \<Longrightarrow> l1_start col = st \<Longrightarrow> start_step fails i s
     (s\<lparr>cons := (cons s)\<lparr>l1_collections := (l1_collections (cons s))[slot := Some col]\<rparr>, l1_lock := None,
        opc := (opc s)(i := O_create slot col), freed := freed s - {col}\<rparr>)"
| s_created: "opc s i = O_create slot col \<Longrightarrow> opc s j = O_idle \<Longrightarrow> start_step fails i s
     (s\<lparr>opc := (opc s)(i := O_idle, j := O_collect col)\<rparr>)"
| s_failed: "fails \<Longrightarrow> opc s i = O_create slot col \<Longrightarrow> start_step fails i s
     (s\<lparr>cons := (cons s)\<lparr>l1_collections := (l1_collections (cons s))[slot := None]\<rparr>,
        opc := (opc s)(i := O_idle), freed := insert col (freed s)\<rparr>)"

inductive collector_step :: "nat \<Rightarrow> 'm sync \<Rightarrow> 'm sync \<Rightarrow> bool" for i where
  k_done: "opc s i = O_collect col \<Longrightarrow> collector_step i s (goes i (O_push_want
     \<lparr>event_type = consumer_event_type_l1, event_subtype = consumer_event_l1_done,
      ev_msg = MSG_DONE \<lparr>done_vap_index = start_vap_index (l1_start col), done_mac = start_mac (l1_start col)\<rparr>\<rparr>
     (Some col)) s)"
| k_stopped: "opc s i = O_collect col \<Longrightarrow> collector_step i s (goes i (O_end_want col) s)"
| k_lock: "alive s \<Longrightarrow> opc s i = O_end_want col \<Longrightarrow> l1_lock s = None \<Longrightarrow> collector_step i s (at_l1 i (O_end_in col) s)"
| k_end: "opc s i = O_end_in col \<Longrightarrow> collector_step i s
     (s\<lparr>cons := (cons s)\<lparr>l1_collections := clear_slot col (l1_collections (cons s))\<rparr>, l1_lock := None,
        opc := (opc s)(i := O_idle), freed := insert col (freed s)\<rparr>)"

inductive deinit_step :: "nat \<Rightarrow> 'm sync \<Rightarrow> 'm sync \<Rightarrow> bool" for i where
  d_call: "opc s i = O_idle \<Longrightarrow> deinit_step i s (goes i O_deinit_want_l1 s)"
| d_lock_l1: "alive s \<Longrightarrow> opc s i = O_deinit_want_l1 \<Longrightarrow> l1_lock s = None \<Longrightarrow> deinit_step i s (at_l1 i O_deinit_l1 s)"
| d_find: "opc s i = O_deinit_l1 \<Longrightarrow> Some col \<in> set (l1_collections (cons s)) \<Longrightarrow> deinit_step i s (goes i (O_deinit_stop col) s)"
| d_stop: "opc s i = O_deinit_stop col \<Longrightarrow> deinit_step i s (goes i O_deinit_l1 s)"
| d_disable: "opc s i = O_deinit_l1 \<Longrightarrow> deinit_step i s
     (s\<lparr>cons := (cons s)\<lparr>disable_l1_collection := True\<rparr>, l1_lock := None, opc := (opc s)(i := O_deinit_want)\<rparr>)"
| d_lock: "alive s \<Longrightarrow> opc s i = O_deinit_want \<Longrightarrow> lock s = None \<Longrightarrow> deinit_step i s (at_lock i O_deinit_in s)"
| d_exit: "opc s i = O_deinit_in \<Longrightarrow> deinit_step i s
     (s\<lparr>cons := (cons s)\<lparr>exit_consumer := True, queue_wakeup := True\<rparr>, lock := None,
        opc := (opc s)(i := O_deinit_signal)\<rparr>)"
| d_signal: "opc s i = O_deinit_signal \<Longrightarrow> deinit_step i s
     (s\<lparr>cpc := signalled (cpc s), opc := (opc s)(i := O_deinit_wait)\<rparr>)"
| d_destroy: "opc s i = O_deinit_wait \<Longrightarrow> deinit_step i s (s\<lparr>alive := False, opc := (opc s)(i := O_deinit_done)\<rparr>)"

definition other_step :: "bool \<Rightarrow> ('m, 'w) denv \<Rightarrow> nat \<Rightarrow> 'm sync \<Rightarrow> 'm sync \<Rightarrow> bool" where
  "other_step fails D i s t \<longleftrightarrow>
     push_step D i s t \<or> hello_step i s t \<or> start_step fails i s t \<or> collector_step i s t \<or> deinit_step i s t"

definition sync_step :: "bool \<Rightarrow> ('m, 'w) denv \<Rightarrow> 'm sync \<Rightarrow> 'm sync \<Rightarrow> bool" where
  "sync_step fails D s t \<longleftrightarrow> consumer_step D s t \<or> (\<exists>i. other_step fails D i s t)"

text \<open>The library as \<open>cujoagent_consumer_init\<close> leaves it.\<close>

definition sync_init :: "'m sync \<Rightarrow> bool" where
  "sync_init s \<longleftrightarrow> queue_part (cons s) = (Some [], False, False) \<and> \<not> disable_l1_collection (cons s)
     \<and> l1_collections (cons s) = replicate DCL_MAX_CSI_CLIENTS None \<and> lock s = None \<and> l1_lock s = None \<and> alive s
     \<and> cpc s = C_start \<and> opc s = (\<lambda>_. O_idle) \<and> pushed s = [] \<and> taken s = [] \<and> freed s = {}"

end
