(* ===== verification/Adv_Dcl_Locks.thy ===== *)
theory Adv_Dcl_Locks
  imports Adv_Dcl_Sync Adv_Dcl_Demo
begin

text \<open>
  What the threads of the data-collection library promise each other in every interleaving: who owns
  the mutexes, that no event is lost or reordered, that the mutexes cannot deadlock, that a shutdown is
  final, which collector may be gone while a thread still holds a pointer to it, and that the shutdown does
  not wait for the consumer thread.
\<close>

abbreviation sync_reachable :: "bool \<Rightarrow> ('m, 'w) denv \<Rightarrow> 'm sync \<Rightarrow> bool" where
  "sync_reachable fails D \<equiv> reachable sync_init (sync_step fails D)"

lemma sync_step_cases [consumes 1, case_names consumer push hello start collector deinit]:
  assumes "sync_step fails D s t"
  obtains "consumer_step D s t" | i where "push_step D i s t" | i where "hello_step i s t"
    | i where "start_step fails i s t" | i where "collector_step i s t" | i where "deinit_step i s t"
  using assms unfolding sync_step_def other_step_def by blast

section \<open>Owners of the mutexes\<close>

fun c_in_lock :: "consumer_pc \<Rightarrow> bool" where
  "c_in_lock C_start = False" | "c_in_lock C_sleep = False" | "c_in_lock C_woken = False" | "c_in_lock C_done = False"
| "c_in_lock _ = True"

fun c_in_l1 :: "consumer_pc \<Rightarrow> bool" where
  "c_in_l1 (C_l1 e) = True" | "c_in_l1 (C_stop e col) = True" | "c_in_l1 _ = False"

fun o_in_lock :: "other_pc \<Rightarrow> bool" where
  "o_in_lock (O_push_in e k) = True" | "o_in_lock O_hello_in = True" | "o_in_lock O_deinit_in = True"
| "o_in_lock _ = False"

fun o_in_l1 :: "other_pc \<Rightarrow> bool" where
  "o_in_l1 (O_start_in st) = True" | "o_in_l1 (O_end_in col) = True" | "o_in_l1 O_deinit_l1 = True"
| "o_in_l1 (O_deinit_stop col) = True" | "o_in_l1 _ = False"

definition owner :: "thread option \<Rightarrow> bool \<Rightarrow> (nat \<Rightarrow> bool) \<Rightarrow> bool" where
  "owner l c f \<longleftrightarrow> (l = Some Consumer \<longleftrightarrow> c) \<and> (\<forall>i. l = Some (Other i) \<longleftrightarrow> f i)"

definition owners :: "'m sync \<Rightarrow> bool" where
  "owners s \<longleftrightarrow> owner (lock s) (c_in_lock (cpc s)) (\<lambda>i. o_in_lock (opc s i))
     \<and> owner (l1_lock s) (c_in_l1 (cpc s)) (\<lambda>i. o_in_l1 (opc s i))"

text \<open>A thread leaves a mutex as it is, takes a free one, or gives back its own.\<close>

lemma owner_other_moves:
  assumes "owner l c f" "l' = l \<and> f' i = f i \<or> l = None \<and> l' = Some (Other i) \<and> f' i \<or> f i \<and> l' = None \<and> \<not> f' i"
    and "\<And>j. j \<noteq> i \<Longrightarrow> f' j = f j"
  shows "owner l' c f'"
proof -
  have o: "l = Some Consumer \<longleftrightarrow> c" "\<And>j. l = Some (Other j) \<longleftrightarrow> f j" using assms(1) by (auto simp: owner_def)
  have "l' = Some (Other j) \<longleftrightarrow> f' j" for j
    using assms(2,3) o(2) [of j] o(2) [of i] by (cases "j = i") auto
  moreover have "l' = Some Consumer \<longleftrightarrow> c"
    using assms(2) o(1) o(2) [of i] by auto
  ultimately show ?thesis by (simp add: owner_def)
qed

lemma owner_consumer_moves:
  assumes "owner l c f" "l' = l \<and> c' = c \<or> l = None \<and> l' = Some Consumer \<and> c' \<or> c \<and> l' = None \<and> \<not> c'"
  shows "owner l' c' f"
  using assms by (auto simp: owner_def)

lemma owners_move:
  assumes "owners s" "c_in_lock (cpc t) = c_in_lock (cpc s)" "c_in_l1 (cpc t) = c_in_l1 (cpc s)"
    and "lock t = lock s \<and> o_in_lock (opc t i) = o_in_lock (opc s i)
      \<or> lock s = None \<and> lock t = Some (Other i) \<and> o_in_lock (opc t i)
      \<or> o_in_lock (opc s i) \<and> lock t = None \<and> \<not> o_in_lock (opc t i)"
    and "l1_lock t = l1_lock s \<and> o_in_l1 (opc t i) = o_in_l1 (opc s i)
      \<or> l1_lock s = None \<and> l1_lock t = Some (Other i) \<and> o_in_l1 (opc t i)
      \<or> o_in_l1 (opc s i) \<and> l1_lock t = None \<and> \<not> o_in_l1 (opc t i)"
    and "\<And>j. j \<noteq> i \<Longrightarrow> o_in_lock (opc t j) = o_in_lock (opc s j) \<and> o_in_l1 (opc t j) = o_in_l1 (opc s j)"
  shows "owners t"
  unfolding owners_def
proof
  show "owner (lock t) (c_in_lock (cpc t)) (\<lambda>i. o_in_lock (opc t i))"
    using assms(1,2,4,6) unfolding owners_def by (auto elim: owner_other_moves [where i = i])
  show "owner (l1_lock t) (c_in_l1 (cpc t)) (\<lambda>i. o_in_l1 (opc t i))"
    using assms(1,3,5,6) unfolding owners_def by (auto elim: owner_other_moves [where i = i])
qed

lemma signalled_in [simp]: "c_in_lock (signalled c) = c_in_lock c" "c_in_l1 (signalled c) = c_in_l1 c"
  by (simp_all add: signalled_def)

lemma owners_consumer: "consumer_step D s t \<Longrightarrow> owners s \<Longrightarrow> owners t"
  by (induction rule: consumer_step.induct) (auto simp: owners_def intro: owner_consumer_moves)

lemma owners_push: "push_step D i s t \<Longrightarrow> owners s \<Longrightarrow> owners t"
  by (induction rule: push_step.induct) (erule owners_move [where i = i]; simp split: option.split)+

lemma owners_hello: "hello_step i s t \<Longrightarrow> owners s \<Longrightarrow> owners t"
  by (induction rule: hello_step.induct) (erule owners_move [where i = i]; simp)+

lemma owners_start: "start_step fails i s t \<Longrightarrow> owners s \<Longrightarrow> owners t"
  by (induction rule: start_step.induct) (erule owners_move [where i = i]; auto)+

lemma owners_collector: "collector_step i s t \<Longrightarrow> owners s \<Longrightarrow> owners t"
  by (induction rule: collector_step.induct) (erule owners_move [where i = i]; simp)+

lemma owners_deinit: "deinit_step i s t \<Longrightarrow> owners s \<Longrightarrow> owners t"
  by (induction rule: deinit_step.induct) (erule owners_move [where i = i]; simp)+

lemma owners_step: "owners s \<Longrightarrow> sync_step fails D s t \<Longrightarrow> owners t"
  by (erule sync_step_cases)
    (blast intro: owners_consumer owners_push owners_hello owners_start owners_collector owners_deinit)+

interpretation own: invariant_of sync_init "sync_step fails D" "\<lambda>_. True" owners for fails D
proof
  show "owners s" if "sync_init s" for s :: "'a sync"
    using that by (simp add: sync_init_def owners_def owner_def)
qed (simp_all add: owners_step)

lemma owner_pc:
  "owners s \<Longrightarrow> o_in_lock (opc s i) \<Longrightarrow> lock s = Some (Other i)"
  "owners s \<Longrightarrow> o_in_l1 (opc s i) \<Longrightarrow> l1_lock s = Some (Other i)"
  "owners s \<Longrightarrow> c_in_lock (cpc s) \<Longrightarrow> lock s = Some Consumer"
  "owners s \<Longrightarrow> c_in_l1 (cpc s) \<Longrightarrow> l1_lock s = Some Consumer"
  by (simp_all add: owners_def owner_def)

lemma lock_pc:
  "owners s \<Longrightarrow> lock s = Some (Other i) \<Longrightarrow> o_in_lock (opc s i)"
  "owners s \<Longrightarrow> l1_lock s = Some (Other i) \<Longrightarrow> o_in_l1 (opc s i)"
  "owners s \<Longrightarrow> lock s = Some Consumer \<Longrightarrow> c_in_lock (cpc s)"
  "owners s \<Longrightarrow> l1_lock s = Some Consumer \<Longrightarrow> c_in_l1 (cpc s)"
  unfolding owners_def owner_def by blast+

text \<open>While the consumer thread works on an event, no other thread touches the queue or its flags.\<close>

lemma others_leave_queue:
  assumes "owners s" "lock s = Some Consumer" "other_step fails D i s t"
  shows "queue_part (cons t) = queue_part (cons s)"
proof -
  have n: "\<not> o_in_lock (opc s i)" using owner_pc(1) [OF assms(1)] assms(2) by fastforce
  show ?thesis
    using assms(3) n unfolding other_step_def
    by (auto elim!: push_step.cases hello_step.cases start_step.cases collector_step.cases deinit_step.cases
        simp: queue_part_def)
qed

section \<open>The queue\<close>

text \<open>The queue of the platform is first in, first out.\<close>

definition fifo_law :: "('m, 'w) denv \<Rightarrow> bool" where
  "fifo_law D \<longleftrightarrow> (\<forall>q e. queue_push D q e = q @ [e]) \<and> (\<forall>x xs. queue_pop D (x # xs) = (x, xs))"

fun processing :: "consumer_pc \<Rightarrow> bool" where
  "processing C_drain = True" | "processing (C_event e) = True" | "processing (C_want_l1 e) = True"
| "processing (C_l1 e) = True" | "processing (C_stop e col) = True" | "processing _ = False"

fun signalling :: "other_pc \<Rightarrow> bool" where
  "signalling (O_push_signal k) = True" | "signalling O_deinit_signal = True" | "signalling _ = False"

definition exit_inv :: "'m sync \<Rightarrow> bool" where
  "exit_inv s \<longleftrightarrow> (exit_consumer (cons s) \<longrightarrow> queue_wakeup (cons s) \<and> \<not> processing (cpc s))"

definition wake_inv :: "'m sync \<Rightarrow> bool" where
  "wake_inv s \<longleftrightarrow> (\<forall>x xs. queue (cons s) = Some (x # xs) \<longrightarrow> queue_wakeup (cons s))
     \<and> (queue_wakeup (cons s) \<and> cpc s = C_sleep \<longrightarrow> (\<exists>i. signalling (opc s i)))"

definition order_inv :: "'m sync \<Rightarrow> bool" where
  "order_inv s \<longleftrightarrow> (\<exists>q. queue (cons s) = Some q \<and> taken s @ q = pushed s)"

lemma signalled_cases: "signalled c \<noteq> C_sleep" "processing (signalled c) = processing c"
  by (simp_all add: signalled_def)

lemmas sync_cases = consumer_step.cases push_step.cases hello_step.cases start_step.cases collector_step.cases deinit_step.cases

lemma processing_in_lock: "processing c \<Longrightarrow> c_in_lock c"
  by (cases c) simp_all

lemma exit_inv_step:
  assumes "owners s" "exit_inv s" "sync_step fails D s t"
  shows "exit_inv t"
  using assms(3)
proof (cases rule: sync_step_cases)
  case consumer
  then show ?thesis using assms(2)
    by (induction rule: consumer_step.induct) (auto simp: exit_inv_def part_simps)
next
  case (deinit i)
  have "\<not> processing (cpc s)" if "o_in_lock (opc s i)"
    using owner_pc(1) [OF assms(1) that] owner_pc(3) [OF assms(1)] processing_in_lock by fastforce
  with deinit show ?thesis using assms(2)
    by (induction rule: deinit_step.induct) (auto simp: exit_inv_def signalled_cases)
qed (use assms(2) in \<open>auto elim!: push_step.cases hello_step.cases start_step.cases collector_step.cases
    simp: exit_inv_def push_section_def signalled_cases\<close>)

interpretation exi: invariant_of sync_init "sync_step fails D" owners exit_inv for fails D
proof
  show "exit_inv s" if "sync_init s" for s :: "'a sync"
    using that by (simp add: sync_init_def exit_inv_def queue_part_def)
qed (simp_all add: exit_inv_step own.holds)

lemma wake_move:
  assumes "wake_inv s" "queue (cons t) = queue (cons s)" "queue_wakeup (cons t) = queue_wakeup (cons s)" "cpc t = cpc s"
    and "\<And>j. signalling (opc s j) \<Longrightarrow> signalling (opc t j)"
  shows "wake_inv t"
  using assms by (auto simp: wake_inv_def)

lemma wake_inv_step:
  assumes "exit_inv s" "wake_inv s" "sync_step fails D s t"
  shows "wake_inv t"
  using assms(3)
proof (cases rule: sync_step_cases)
  case consumer
  then show ?thesis using assms(1,2)
    by (induction rule: consumer_step.induct) (auto simp: wake_inv_def exit_inv_def part_simps)
next
  case (push i)
  then show ?thesis using assms(2)
  proof (induction rule: push_step.induct)
    case (p_signal s k)
    then show ?case by (simp add: wake_inv_def signalled_cases)
  next
    case (p_push s e k)
    then show ?case by (auto simp: wake_inv_def push_section_def intro!: exI [of _ i])
  qed (erule wake_move; auto)+
next
  case (deinit i)
  then show ?thesis using assms(2)
  proof (induction rule: deinit_step.induct)
    case (d_signal s)
    then show ?case by (simp add: wake_inv_def signalled_cases)
  next
    case (d_exit s)
    then show ?case by (auto simp: wake_inv_def intro!: exI [of _ i])
  qed (erule wake_move; auto)+
next
  case (start i)
  then show ?thesis using assms(2) by (induction rule: start_step.induct) (erule wake_move; auto)+
next
  case (collector i)
  then show ?thesis using assms(2) by (induction rule: collector_step.induct) (erule wake_move; auto)+
next
  case (hello i)
  then show ?thesis using assms(2) by (induction rule: hello_step.induct) (erule wake_move; auto)+
qed

interpretation wak: invariant_of sync_init "sync_step fails D" exit_inv wake_inv for fails D
proof
  show "wake_inv s" if "sync_init s" for s :: "'a sync"
    using that by (simp add: sync_init_def wake_inv_def queue_part_def)
qed (simp_all add: wake_inv_step exi.holds)

lemma order_inv_step:
  assumes "fifo_law D" "order_inv s" "sync_step fails D s t"
  shows "order_inv t"
  using assms(3)
proof (cases rule: sync_step_cases)
  case consumer
  then show ?thesis using assms(1,2)
    by (induction rule: consumer_step.induct) (auto simp: order_inv_def part_simps fifo_law_def)
qed (use assms(1,2) in \<open>auto elim!: push_step.cases hello_step.cases start_step.cases collector_step.cases deinit_step.cases
    simp: order_inv_def push_section_def fifo_law_def\<close>)

lemma order_inv_holds:
  assumes "fifo_law D" "sync_reachable fails D s"
  shows "order_inv s"
  using assms(2)
proof (induction rule: reachable.induct)
  case (reach_init s)
  then show ?case by (simp add: sync_init_def order_inv_def queue_part_def)
next
  case (reach_next s t)
  then show ?case using order_inv_step [OF assms(1)] by blast
qed

text \<open>C16: No event is lost and none overtakes another: in every interleaving of the threads, the
  events the consumer thread has taken, followed by those in the queue, are the events that were pushed, in their
  order; and when the consumer thread sleeps and no thread is about to signal it, the queue is empty.\<close>

theorem no_event_is_lost:
  assumes "fifo_law D" "sync_reachable fails D s"
  shows "\<exists>q. queue (cons s) = Some q \<and> taken s @ q = pushed s
    \<and> (cpc s = C_sleep \<and> (\<forall>i. \<not> signalling (opc s i)) \<longrightarrow> q = [])"
proof -
  obtain q where q: "queue (cons s) = Some q" "taken s @ q = pushed s"
    using order_inv_holds [OF assms] by (auto simp: order_inv_def)
  have "q = []" if "cpc s = C_sleep" "\<forall>i. \<not> signalling (opc s i)"
    using wak.holds [OF assms(2)] q(1) that by (cases q) (auto simp: wake_inv_def)
  with q show ?thesis by blast
qed

section \<open>The end\<close>

lemma exit_step:
  assumes "sync_reachable fails D s" "exit_consumer (cons s)" "sync_step fails D s t"
  shows "taken t = taken s" "exit_consumer (cons t)"
proof -
  have e: "\<not> processing (cpc s)" using exi.holds [OF assms(1)] assms(2) by (simp add: exit_inv_def)
  from assms(3) have "taken t = taken s \<and> exit_consumer (cons t)"
  proof (cases rule: sync_step_cases)
    case consumer
    then show ?thesis using assms(2) e by (induction rule: consumer_step.induct) (auto simp: part_simps)
  qed (use assms(2) in \<open>auto elim!: push_step.cases hello_step.cases start_step.cases collector_step.cases deinit_step.cases
      simp: push_section_def\<close>)
  then show "taken t = taken s" "exit_consumer (cons t)" by auto
qed

lemma clear_slot_subset: "set (clear_slot col xs) \<subseteq> insert None (set xs)"
  by (induction xs) auto

lemma disabled_step:
  assumes "disable_l1_collection (cons s)" "sync_step fails D s t"
  shows "disable_l1_collection (cons t)" "set (l1_collections (cons t)) \<subseteq> insert None (set (l1_collections (cons s)))"
proof -
  from assms(2) have "disable_l1_collection (cons t) \<and> set (l1_collections (cons t)) \<subseteq> insert None (set (l1_collections (cons s)))"
  proof (cases rule: sync_step_cases)
    case consumer
    then show ?thesis using assms(1) by (induction rule: consumer_step.induct) (auto simp: part_simps)
  next
    case (start i)
    then show ?thesis using assms(1)
      by (induction rule: start_step.induct) (auto simp: start_slot_def dest!: subsetD [OF set_update_subset_insert])
  next
    case (collector i)
    then show ?thesis using assms(1) clear_slot_subset by (induction rule: collector_step.induct) auto
  qed (use assms(1) in \<open>auto elim!: push_step.cases hello_step.cases deinit_step.cases simp: push_section_def\<close>)
  then show "disable_l1_collection (cons t)" "set (l1_collections (cons t)) \<subseteq> insert None (set (l1_collections (cons s)))" by auto
qed

text \<open>C18: A shutdown is final: once the consumer thread is told to end, no further event is taken from
  the queue, and once collections are disabled no collector is entered, whatever the other threads go on to
  do. What was pushed and not taken is lost.\<close>

theorem shutdown_is_final:
  assumes "sync_reachable fails D s" "(sync_step fails D)\<^sup>*\<^sup>* s t"
  shows "(exit_consumer (cons s) \<longrightarrow> taken t = taken s \<and> exit_consumer (cons t))
    \<and> (disable_l1_collection (cons s) \<longrightarrow>
        (\<forall>col. Some col \<in> set (l1_collections (cons t)) \<longrightarrow> Some col \<in> set (l1_collections (cons s))))"
proof -
  have "taken t = taken s \<and> exit_consumer (cons t)" if "exit_consumer (cons s)"
    using kept_for_ever [OF assms, of "\<lambda>u. taken u = taken s \<and> exit_consumer (cons u)"] that exit_step by metis
  moreover have "disable_l1_collection (cons t) \<and> set (l1_collections (cons t)) \<subseteq> insert None (set (l1_collections (cons s)))"
    if "disable_l1_collection (cons s)"
  proof (rule kept_for_ever [OF assms])
    show "disable_l1_collection (cons s) \<and> set (l1_collections (cons s)) \<subseteq> insert None (set (l1_collections (cons s)))"
      using that by auto
  next
    fix u v assume "disable_l1_collection (cons u) \<and> set (l1_collections (cons u)) \<subseteq> insert None (set (l1_collections (cons s)))"
      and "sync_step fails D u v"
    then show "disable_l1_collection (cons v) \<and> set (l1_collections (cons v)) \<subseteq> insert None (set (l1_collections (cons s)))"
      using disabled_step [of u fails D v] by blast
  qed
  ultimately show ?thesis by blast
qed

section \<open>No deadlock\<close>

text \<open>Where a thread goes on without a mutex, and the mutex it asks for otherwise.\<close>

fun wants_lock :: "other_pc \<Rightarrow> bool" where
  "wants_lock (O_push_want e k) = True" | "wants_lock O_hello_want = True" | "wants_lock O_deinit_want = True"
| "wants_lock _ = False"

fun wants_l1 :: "other_pc \<Rightarrow> bool" where
  "wants_l1 (O_start_want st) = True" | "wants_l1 (O_end_want col) = True" | "wants_l1 O_deinit_want_l1 = True"
| "wants_l1 _ = False"

lemma other_goes_on:
  assumes "alive s" "opc s i \<notin> {O_idle, O_deinit_done}" "wants_lock (opc s i) \<Longrightarrow> lock s = None"
    "wants_l1 (opc s i) \<Longrightarrow> l1_lock s = None" "\<exists>j. opc s j = O_idle"
  shows "\<exists>t. other_step fails D i s t"
proof -
  obtain j where "opc s j = O_idle" using assms(5) by blast
  then show ?thesis
    using assms(1-4) unfolding other_step_def
    by (cases "opc s i") (auto intro: push_step.intros hello_step.intros start_step.intros collector_step.intros deinit_step.intros)
qed

lemma consumer_goes_on:
  assumes "alive s" "cpc s \<notin> {C_sleep, C_done}" "cpc s \<in> {C_start, C_woken} \<Longrightarrow> lock s = None"
    "\<And>e. cpc s = C_want_l1 e \<Longrightarrow> l1_lock s = None"
  shows "\<exists>t. consumer_step D s t"
proof (cases "cpc s")
  case C_test
  then show ?thesis by (cases "queue_wakeup (cons s)") (auto intro: consumer_step.intros)
next
  case C_exit
  then show ?thesis by (cases "exit_consumer (cons s)") (auto intro: consumer_step.intros)
next
  case C_drain
  show ?thesis
  proof (cases "queue (cons s) \<in> {None, Some []}")
    case False
    then obtain x xs where "queue (cons s) = Some (x # xs)" by (metis insert_iff list.exhaust option.exhaust)
    then show ?thesis using C_drain by (metis c_pop prod.exhaust)
  qed (use C_drain in \<open>auto intro: consumer_step.intros\<close>)
qed (use assms in \<open>auto intro: consumer_step.intros\<close>)

definition few_busy :: "'m sync \<Rightarrow> bool" where
  "few_busy s \<longleftrightarrow> finite {i. opc s i \<noteq> O_idle}"

lemma few_busy_move: "few_busy s \<Longrightarrow> finite {j. opc t j \<noteq> opc s j} \<Longrightarrow> few_busy t"
  unfolding few_busy_def by (rule finite_subset [of _ "{i. opc s i \<noteq> O_idle} \<union> {j. opc t j \<noteq> opc s j}"]) auto

lemma moved_finite: "finite {j. (f(i := p)) j \<noteq> f j}" "finite {j. (f(i := p, k := q)) j \<noteq> f j}"
  by (rule finite_subset [of _ "{i, k}"], auto)+

lemma few_busy_step: "few_busy s \<Longrightarrow> sync_step fails D s t \<Longrightarrow> few_busy t"
  by (erule few_busy_move, erule sync_step_cases)
    (auto elim!: sync_cases simp del: fun_upd_apply simp: moved_finite)

interpretation few: invariant_of sync_init "sync_step fails D" "\<lambda>_. True" few_busy for fails D
proof
  show "few_busy s" if "sync_init s" for s :: "'a sync"
    using that by (simp add: sync_init_def few_busy_def)
qed (simp_all add: few_busy_step)

lemma some_idle:
  assumes "sync_reachable fails D s"
  shows "\<exists>j. opc s j = O_idle"
proof -
  have "{i. opc s i \<noteq> O_idle} \<noteq> UNIV"
    using few.holds [OF assms] infinite_UNIV_nat unfolding few_busy_def by metis
  then show ?thesis by blast
qed

text \<open>C17: The two mutexes never deadlock: in every reachable state in which the mutexes exist, if any thread
  is on its way (the consumer neither asleep nor ended, or another thread inside one of its calls), some
  thread that is on its way can go on, without a new call and without a wake-up out of nothing. The wait for
  a stopped collector has a time-out, so it is a step of its own.\<close>

theorem mutexes_never_deadlock:
  assumes "sync_reachable fails D s" "alive s"
    and "cpc s \<notin> {C_sleep, C_done} \<or> (\<exists>i. opc s i \<notin> {O_idle, O_deinit_done})"
  shows "(cpc s \<noteq> C_sleep \<and> (\<exists>t. consumer_step D s t)) \<or> (\<exists>i t. opc s i \<noteq> O_idle \<and> other_step fails D i s t)"
proof -
  have o: "owners s" by (rule own.holds [OF assms(1)])
  note idle = some_idle [OF assms(1)]
  note goes = other_goes_on [OF assms(2) _ _ _ idle, of _ fails D]
  have l1: ?thesis if l: "l1_lock s \<noteq> None"
  proof (cases "l1_lock s = Some Consumer")
    case True
    then have c: "c_in_l1 (cpc s)" using o by (simp add: lock_pc)
    then have "\<exists>t. consumer_step D s t" by (intro consumer_goes_on [OF assms(2)]) auto
    then show ?thesis using c by auto
  next
    case False
    then obtain i where i: "l1_lock s = Some (Other i)" using l by (metis option.exhaust thread.exhaust)
    then have "o_in_l1 (opc s i)" using o by (simp add: lock_pc)
    then have "\<exists>t. other_step fails D i s t" "opc s i \<noteq> O_idle" by (auto intro!: goes elim: o_in_l1.elims)
    then show ?thesis by blast
  qed
  have lk: ?thesis if l: "lock s \<noteq> None" "l1_lock s = None"
  proof (cases "lock s = Some Consumer")
    case True
    then have c: "c_in_lock (cpc s)" using o by (simp add: lock_pc)
    then have "\<exists>t. consumer_step D s t" using l(2) by (intro consumer_goes_on [OF assms(2)]) auto
    then show ?thesis using c by auto
  next
    case False
    then obtain i where i: "lock s = Some (Other i)" using l by (metis option.exhaust thread.exhaust)
    then have "o_in_lock (opc s i)" using o by (simp add: lock_pc)
    then have "\<exists>t. other_step fails D i s t" "opc s i \<noteq> O_idle" by (auto intro!: goes elim: o_in_lock.elims)
    then show ?thesis by blast
  qed
  have ?thesis if "lock s = None" "l1_lock s = None"
    using assms(3)
  proof
    assume "cpc s \<notin> {C_sleep, C_done}"
    then show ?thesis using consumer_goes_on [OF assms(2), of D] that by auto
  next
    assume "\<exists>i. opc s i \<notin> {O_idle, O_deinit_done}"
    then show ?thesis using goes that by blast
  qed
  with l1 lk show ?thesis by blast
qed

section \<open>Collectors in hand\<close>

definition in_hand :: "'m sync \<Rightarrow> l1_collector \<Rightarrow> bool" where
  "in_hand s col \<longleftrightarrow> (\<exists>e. cpc s = C_stop e col) \<or> (\<exists>i. opc s i = O_deinit_stop col)"

text \<open>A collector in a slot has not been freed, and one in hand is in a slot.\<close>

definition hand_inv :: "'m sync \<Rightarrow> bool" where
  "hand_inv s \<longleftrightarrow> length (l1_collections (cons s)) = DCL_MAX_CSI_CLIENTS
     \<and> (\<forall>col. Some col \<in> set (l1_collections (cons s)) \<longrightarrow> col \<notin> freed s)
     \<and> (\<forall>col. in_hand s col \<longrightarrow> Some col \<in> set (l1_collections (cons s)))"

lemma one_slot: "length xs = Suc 0 \<Longrightarrow> \<exists>x. xs = [x]"
  by (cases xs) auto

lemma hand_excluded:
  assumes "owners s" "o_in_l1 (opc s i)" "opc s i \<noteq> O_deinit_stop col"
  shows "\<not> in_hand s col"
proof
  assume "in_hand s col"
  then consider "c_in_l1 (cpc s)" | k where "opc s k = O_deinit_stop col" by (auto simp: in_hand_def)
  then show False
  proof cases
    case 1
    then show False using owner_pc(2,4) [OF assms(1)] assms(2) by fastforce
  next
    case (2 k)
    then have "l1_lock s = Some (Other k)" using owner_pc(2) [OF assms(1), of k] by simp
    then show False using owner_pc(2) [OF assms(1) assms(2)] 2 assms(3) by simp
  qed
qed

text \<open>A step that leaves the slots and what was freed, and takes nothing in hand.\<close>

lemma hand_move:
  assumes "hand_inv s" "l1_collections (cons t) = l1_collections (cons s)" "freed t = freed s"
    and "\<And>col. in_hand t col \<Longrightarrow> in_hand s col \<or> Some col \<in> set (l1_collections (cons s))"
  shows "hand_inv t"
  using assms by (auto simp: hand_inv_def)

lemma hand_inv_step:
  assumes "owners s" "hand_inv s" "sync_step False D s t"
  shows "hand_inv t"
  using assms(3)
proof (cases rule: sync_step_cases)
  case consumer
  then show ?thesis using assms(2)
    by (induction rule: consumer_step.induct) (erule hand_move; auto simp: in_hand_def part_simps)+
next
  case (push i)
  then show ?thesis using assms(2)
    by (induction rule: push_step.induct)
      (erule hand_move; auto simp: in_hand_def push_section_def signalled_def split: if_splits option.splits)+
next
  case (hello i)
  then show ?thesis using assms(2)
    by (induction rule: hello_step.induct) (erule hand_move; auto simp: in_hand_def split: if_splits)+
next
  case (deinit i)
  then show ?thesis using assms(2)
    by (induction rule: deinit_step.induct)
      (erule hand_move; auto simp: in_hand_def signalled_def split: if_splits)+
next
  case (start i)
  then show ?thesis using assms(1,2)
  proof (induction rule: start_step.induct)
    case (s_take s st slot col)
    obtain x where x: "l1_collections (cons s) = [x]" using s_take by (auto simp: hand_inv_def dest: one_slot)
    then have sl: "slot = 0" using s_take.hyps(2) by (auto simp: start_slot_def split: if_splits)
    have n: "\<not> in_hand s c" for c
      using hand_excluded [OF s_take.prems(1), of i] s_take.hyps(1) by simp
    have "in_hand (s\<lparr>cons := (cons s)\<lparr>l1_collections := (l1_collections (cons s))[slot := Some col]\<rparr>, l1_lock := None,
        opc := (opc s)(i := O_create slot col), freed := freed s - {col}\<rparr>) c \<Longrightarrow> in_hand s c" for c
      by (auto simp: in_hand_def split: if_splits)
    with n have n': "\<not> in_hand (s\<lparr>cons := (cons s)\<lparr>l1_collections := (l1_collections (cons s))[slot := Some col]\<rparr>, l1_lock := None,
        opc := (opc s)(i := O_create slot col), freed := freed s - {col}\<rparr>) c" for c by blast
    show ?case using n' s_take.prems(2) x sl unfolding hand_inv_def by simp
  qed (erule hand_move; auto simp: in_hand_def split: if_splits)+
next
  case (collector i)
  then show ?thesis using assms(1,2)
  proof (induction rule: collector_step.induct)
    case (k_end s col)
    obtain x where x: "l1_collections (cons s) = [x]" using k_end by (auto simp: hand_inv_def dest: one_slot)
    have n: "\<not> in_hand s c" for c
      using hand_excluded [OF k_end.prems(1), of i] k_end.hyps(1) by simp
    have "in_hand (s\<lparr>cons := (cons s)\<lparr>l1_collections := clear_slot col (l1_collections (cons s))\<rparr>, l1_lock := None,
        opc := (opc s)(i := O_idle), freed := insert col (freed s)\<rparr>) c \<Longrightarrow> in_hand s c" for c
      by (auto simp: in_hand_def split: if_splits)
    with n have n': "\<not> in_hand (s\<lparr>cons := (cons s)\<lparr>l1_collections := clear_slot col (l1_collections (cons s))\<rparr>, l1_lock := None,
        opc := (opc s)(i := O_idle), freed := insert col (freed s)\<rparr>) c" for c by blast
    show ?case using n' k_end.prems(2) x unfolding hand_inv_def by auto
  qed (erule hand_move; auto simp: in_hand_def split: if_splits)+
qed

interpretation han: invariant_of sync_init "sync_step False D" owners hand_inv for D
proof
  show "hand_inv s" if "sync_init s" for s :: "'a sync"
    using that by (auto simp: sync_init_def hand_inv_def in_hand_def)
qed (simp_all add: hand_inv_step own.holds)

lemma sync_stepI:
  "consumer_step D s t \<Longrightarrow> sync_step fails D s t" "push_step D i s t \<Longrightarrow> sync_step fails D s t"
  "hello_step i s t \<Longrightarrow> sync_step fails D s t" "start_step fails i s t \<Longrightarrow> sync_step fails D s t"
  "collector_step i s t \<Longrightarrow> sync_step fails D s t" "deinit_step i s t \<Longrightarrow> sync_step fails D s t"
  unfolding sync_step_def other_step_def by blast+

lemma step_next:
  "sync_reachable fails D s \<Longrightarrow> consumer_step D s t \<Longrightarrow> sync_reachable fails D t"
  "sync_reachable fails D s \<Longrightarrow> push_step D i s t \<Longrightarrow> sync_reachable fails D t"
  "sync_reachable fails D s \<Longrightarrow> hello_step i s t \<Longrightarrow> sync_reachable fails D t"
  "sync_reachable fails D s \<Longrightarrow> start_step fails i s t \<Longrightarrow> sync_reachable fails D t"
  "sync_reachable fails D s \<Longrightarrow> collector_step i s t \<Longrightarrow> sync_reachable fails D t"
  "sync_reachable fails D s \<Longrightarrow> deinit_step i s t \<Longrightarrow> sync_reachable fails D t"
  by (erule reach_next, erule sync_stepI)+

text \<open>The library after its initialisation.\<close>

definition sync_zero :: "'m sync" where
  "sync_zero = \<lparr>cons = consumer_zero\<lparr>queue := Some []\<rparr>, lock = None, l1_lock = None, alive = True, cpc = C_start,
     opc = (\<lambda>_. O_idle), pushed = [], taken = [], freed = {}\<rparr>"

lemma sync_zero_reachable: "sync_reachable fails D sync_zero"
  by (rule reach_init) (simp add: sync_init_def sync_zero_def consumer_zero_def queue_part_def)

lemma deinit_finds:
  assumes "sync_reachable fails D s" "alive s" "opc s i = O_idle" "l1_lock s = None" "Some col \<in> set (l1_collections (cons s))"
  shows "sync_reachable fails D (at_l1 i (O_deinit_stop col) s)"
proof -
  have "sync_reachable fails D (goes i O_deinit_want_l1 s)"
    using assms(3) by (intro step_next(6) [OF assms(1) d_call])
  then have "sync_reachable fails D (at_l1 i O_deinit_l1 (goes i O_deinit_want_l1 s))"
    by (rule step_next(6) [OF _ d_lock_l1]) (use assms in simp_all)
  then have "sync_reachable fails D (goes i (O_deinit_stop col) (at_l1 i O_deinit_l1 (goes i O_deinit_want_l1 s)))"
    by (rule step_next(6) [OF _ d_find]) (use assms in simp_all)
  then show ?thesis by (simp add: fun_upd_idem)
qed

lemma starts:
  assumes "sync_reachable fails D s" "alive s" "opc s i = O_idle" "l1_lock s = None" "start_slot (l1_start col) (cons s) = Some slot"
  shows "sync_reachable fails D (s\<lparr>cons := (cons s)\<lparr>l1_collections := (l1_collections (cons s))[slot := Some col]\<rparr>,
      l1_lock := None, opc := (opc s)(i := O_create slot col), freed := freed s - {col}\<rparr>)"
proof -
  have "sync_reachable fails D (goes i (O_start_want (l1_start col)) s)"
    using assms(3) by (intro step_next(4) [OF assms(1) s_call])
  then have "sync_reachable fails D (at_l1 i (O_start_in (l1_start col)) (goes i (O_start_want (l1_start col)) s))"
    by (rule step_next(4) [OF _ s_lock]) (use assms in simp_all)
  moreover define u where "u = at_l1 i (O_start_in (l1_start col)) (goes i (O_start_want (l1_start col)) s)"
  ultimately have "sync_reachable fails D u" by simp
  then have "sync_reachable fails D (u\<lparr>cons := (cons u)\<lparr>l1_collections := (l1_collections (cons u))[slot := Some col]\<rparr>,
      l1_lock := None, opc := (opc u)(i := O_create slot col), freed := freed u - {col}\<rparr>)"
    by (rule step_next(4) [OF _ s_take]) (simp_all add: u_def assms(5))
  then show ?thesis by (simp add: u_def)
qed

text \<open>C19: A thread holds a pointer to a freed collector only when the creation of a collector's thread
  fails: the consumer thread and the shutdown look a collector up and use it within the mutex, and its thread
  frees it after leaving its slot within the mutex; but where the thread cannot be created, the starting thread
  empties the slot and frees the collector after it has given the mutex back, while the consumer thread may
  just have found it.\<close>

theorem freed_collector_in_hand_iff:
  "(\<exists>(s :: 'm sync) col. sync_reachable fails D s \<and> in_hand s col \<and> col \<in> freed s) \<longleftrightarrow> fails"
proof
  assume "\<exists>(s :: 'm sync) col. sync_reachable fails D s \<and> in_hand s col \<and> col \<in> freed s"
  then obtain s :: "'m sync" and col where s: "sync_reachable fails D s" "in_hand s col" "col \<in> freed s" by blast
  show fails
  proof (rule ccontr)
    assume "\<not> fails"
    then have "hand_inv s" using han.holds [of D s] s(1) by simp
    then show False using s(2,3) by (auto simp: hand_inv_def)
  qed
next
  assume fails
  define col where "col = \<lparr>notification = 3, notification_ack = 4, timer = 5,
    l1_start = \<lparr>start_vap_index = 0, start_mac = mac_zero, timeout_secs = 1, temperature_interval_secs = 1, max_csi_readings = 1\<rparr>\<rparr>"
  define s1 :: "'m sync" where "s1 = sync_zero\<lparr>cons := (cons sync_zero)\<lparr>l1_collections := [Some col]\<rparr>,
    opc := (\<lambda>_. O_idle)(0 := O_create 0 col), freed := {}\<rparr>"
  have "start_slot (l1_start col) (cons (sync_zero :: 'm sync)) = Some 0"
    by (simp add: start_slot_def sync_zero_def consumer_zero_def collecting_def)
  then have "sync_reachable fails D s1"
    using starts [OF sync_zero_reachable, of 0 col 0 fails D] by (simp add: s1_def sync_zero_def consumer_zero_def)
  then have "sync_reachable fails D (at_l1 1 (O_deinit_stop col) s1)"
    by (rule deinit_finds) (simp_all add: s1_def sync_zero_def)
  moreover define s2 where "s2 = at_l1 1 (O_deinit_stop col) s1"
  ultimately have "sync_reachable fails D s2" by simp
  then have "sync_reachable fails D (s2\<lparr>cons := (cons s2)\<lparr>l1_collections := (l1_collections (cons s2))[0 := None]\<rparr>,
      opc := (opc s2)(0 := O_idle), freed := insert col (freed s2)\<rparr>)"
    by (rule step_next(4) [OF _ s_failed [OF \<open>fails\<close>]]) (simp add: s2_def s1_def)
  moreover have "in_hand (s2\<lparr>cons := (cons s2)\<lparr>l1_collections := (l1_collections (cons s2))[0 := None]\<rparr>,
      opc := (opc s2)(0 := O_idle), freed := insert col (freed s2)\<rparr>) col"
    by (auto simp: in_hand_def s2_def)
  ultimately show "\<exists>(s :: 'm sync) col. sync_reachable fails D s \<and> in_hand s col \<and> col \<in> freed s"
    by (intro exI [of _ col] exI conjI) (assumption | simp)+
qed

section \<open>The shutdown and the consumer thread\<close>

text \<open>The consumer thread asleep, and after a shutdown signalled but not yet running.\<close>

definition sync_asleep :: "'m sync" where
  "sync_asleep = sync_zero\<lparr>cpc := C_sleep\<rparr>"

definition sync_shut :: "bool \<Rightarrow> 'm sync" where
  "sync_shut destroyed = sync_zero\<lparr>
     cons := (cons sync_zero)\<lparr>disable_l1_collection := True, exit_consumer := True, queue_wakeup := True\<rparr>,
     cpc := C_woken, alive := \<not> destroyed,
     opc := (\<lambda>_. O_idle)(0 := (if destroyed then O_deinit_done else O_deinit_wait))\<rparr>"

lemma sync_asleep_reachable: "sync_reachable fails D (sync_asleep :: 'm sync)"
proof -
  have "sync_reachable fails D ((sync_zero :: 'm sync)\<lparr>lock := Some Consumer, cpc := C_test\<rparr>)"
    by (rule step_next(1) [OF sync_zero_reachable c_lock]) (simp_all add: sync_zero_def)
  then have "sync_reachable fails D ((sync_zero :: 'm sync)\<lparr>lock := Some Consumer, cpc := C_test\<rparr>\<lparr>lock := None, cpc := C_sleep\<rparr>)"
    by (rule step_next(1) [OF _ c_sleep]) (simp_all add: sync_zero_def consumer_zero_def)
  then show ?thesis by (simp add: sync_asleep_def sync_zero_def)
qed

lemma sync_shut_reachable: "sync_reachable fails D (sync_shut destroyed :: 'm sync)"
proof -
  have "sync_reachable fails D (goes 0 O_deinit_want_l1 (sync_asleep :: 'm sync))"
    by (rule step_next(6) [OF sync_asleep_reachable d_call]) (simp add: sync_asleep_def sync_zero_def)
  then have "sync_reachable fails D (at_l1 0 O_deinit_l1 (goes 0 O_deinit_want_l1 (sync_asleep :: 'm sync)))"
    by (rule step_next(6) [OF _ d_lock_l1]) (simp_all add: sync_asleep_def sync_zero_def)
  moreover define s2 where "s2 = at_l1 0 O_deinit_l1 (goes 0 O_deinit_want_l1 (sync_asleep :: 'm sync))"
  ultimately have "sync_reachable fails D s2" by simp
  moreover define s3 where "s3 = s2\<lparr>cons := (cons s2)\<lparr>disable_l1_collection := True\<rparr>, l1_lock := None, opc := (opc s2)(0 := O_deinit_want)\<rparr>"
  ultimately have "sync_reachable fails D s3"
    unfolding s3_def by (rule_tac step_next(6) [OF _ d_disable]) (simp_all add: s2_def)
  then have "sync_reachable fails D (at_lock 0 O_deinit_in s3)"
    by (rule step_next(6) [OF _ d_lock]) (simp_all add: s3_def s2_def sync_asleep_def sync_zero_def)
  moreover define s4 where "s4 = at_lock 0 O_deinit_in s3"
  ultimately have "sync_reachable fails D s4" by simp
  moreover define s5 where "s5 = s4\<lparr>cons := (cons s4)\<lparr>exit_consumer := True, queue_wakeup := True\<rparr>, lock := None,
    opc := (opc s4)(0 := O_deinit_signal)\<rparr>"
  ultimately have "sync_reachable fails D s5"
    unfolding s5_def by (rule_tac step_next(6) [OF _ d_exit]) (simp_all add: s4_def)
  moreover define s6 where "s6 = s5\<lparr>cpc := signalled (cpc s5), opc := (opc s5)(0 := O_deinit_wait)\<rparr>"
  ultimately have "sync_reachable fails D s6"
    unfolding s6_def by (rule_tac step_next(6) [OF _ d_signal]) (simp_all add: s5_def)
  moreover from this have "sync_reachable fails D (s6\<lparr>alive := False, opc := (opc s6)(0 := O_deinit_done)\<rparr>)"
    by (rule step_next(6) [OF _ d_destroy]) (simp add: s6_def)
  ultimately show ?thesis
    by (cases destroyed)
      (simp_all add: sync_shut_def s6_def s5_def s4_def s3_def s2_def signalled_def sync_asleep_def sync_zero_def)
qed

text \<open>C39: The shutdown does not wait for the consumer thread: it tells it to end, and destroys the mutexes
  and the condition while the consumer thread, signalled, has not run again and has still to take the
  mutex; it can take no step any more.\<close>

theorem shutdown_destroys_awaited_mutex:
  "\<exists>s :: 'm sync. sync_reachable fails D s \<and> exit_consumer (cons s) \<and> \<not> alive s \<and> cpc s = C_woken
     \<and> \<not> (\<exists>t. consumer_step D s t)"
proof -
  have "\<not> (\<exists>t. consumer_step D (sync_shut True :: 'm sync) t)"
    by (auto simp: sync_shut_def elim: consumer_step.cases)
  then show ?thesis
    using sync_shut_reachable [of fails D True] by (intro exI [of _ "sync_shut True"]) (simp add: sync_shut_def)
qed

section \<open>The bodies of the threads\<close>

text \<open>The sections of the relation are what the bodies of \<open>Adv_Dcl_Core\<close>, \<open>Adv_Dcl_Msg\<close> and \<open>Adv_Dcl_Threads\<close> do.\<close>

interpretation sync_side: consumer_side "\<lambda>(s :: ('m, 'w) dclst) t. sync_part (consumer t) = sync_part (consumer s)"
  by unfold_locales (rule step_order_eq, simp)

interpretation queue_side: consumer_side "\<lambda>(s :: ('m, 'w) dclst) t. queue_part (consumer t) = queue_part (consumer s)"
  by unfold_locales (rule step_order_eq, simp add: part_simps)

lemma push_is_section:
  assumes "fst (run_state (cujoagent_push_to_consumer_queue D m t st) s) = 0"
  shows "consumer (snd (run_state (cujoagent_push_to_consumer_queue D m t st) s))
    = push_section D \<lparr>event_type = t, event_subtype = st, ev_msg = m\<rparr> (consumer s)"
  using assms by (auto simp: cujoagent_push_to_consumer_queue_def push_section_def split: if_splits)

lemma new_collector_keeps: "consumer (snd (run_state (new_collector D B st) s)) = consumer s"
  by (simp add: new_collector_def close_fd_def case_prod_beta)

lemma new_collector_start: "fst (run_state (new_collector D B st) s) = Some col \<Longrightarrow> l1_start col = st"
  by (auto simp: new_collector_def close_fd_def case_prod_beta split: if_splits)

lemma start_is_section:
  assumes "fst (run_state (cujoagent_start_l1_collection D B st) s) = 0"
  shows "\<exists>slot col. start_slot st (consumer s) = Some slot \<and> l1_start col = st
    \<and> consumer (snd (run_state (cujoagent_start_l1_collection D B st) s))
      = (consumer s)\<lparr>l1_collections := (l1_collections (consumer s))[slot := Some col]\<rparr>"
proof -
  obtain slot where sl: "start_slot st (consumer s) = Some slot"
    using assms by (cases "free_slot (l1_collections (consumer s)) 0")
      (auto simp: cujoagent_start_l1_collection_def start_slot_def split: if_splits)
  then have g: "\<not> disable_l1_collection (consumer s)" "\<not> collecting (start_mac st) (l1_collections (consumer s))"
    "free_slot (l1_collections (consumer s)) 0 = Some slot" by (auto simp: start_slot_def split: if_splits)
  obtain col where c: "fst (run_state (new_collector D B st) s) = Some col"
    using assms g by (cases "fst (run_state (new_collector D B st) s)")
      (auto simp: cujoagent_start_l1_collection_def case_prod_beta)
  have "consumer (snd (run_state (cujoagent_start_l1_collection D B st) s))
      = (consumer s)\<lparr>l1_collections := (l1_collections (consumer s))[slot := Some col]\<rparr>"
    using assms g c by (auto simp: cujoagent_start_l1_collection_def case_prod_beta new_collector_keeps split: if_splits)
  then show ?thesis using sl new_collector_start [OF c] by blast
qed

lemma wp_sync_side:
  assumes "steps_in (\<lambda>(s :: ('m, 'w) dclst) t. sync_part (consumer t) = sync_part (consumer s)) m"
    and "\<And>r s'. sync_part (consumer s') = sync_part (consumer s) \<Longrightarrow> Q r s'"
  shows "wp m Q s"
  using assms by (simp add: wp_def steps_in_def)

lemma wp_upd_consumer: "Q () (s\<lparr>consumer := f (consumer s)\<rparr>) \<Longrightarrow> wp (upd_consumer f) Q s"
  by (simp add: wp_def)

lemma init_is_section:
  assumes "fst (run_state (cujoagent_consumer_init D) s) = 0"
  shows "sync_init \<lparr>cons = consumer (snd (run_state (cujoagent_consumer_init D) s)), lock = None, l1_lock = None,
    alive = True, cpc = C_start, opc = (\<lambda>_. O_idle), pushed = [], taken = [], freed = {}\<rparr>"
proof -
  have "wp (cujoagent_consumer_init D) (\<lambda>r t. r = 0 \<longrightarrow> queue_part (consumer t) = (Some [], False, False)
      \<and> \<not> disable_l1_collection (consumer t) \<and> l1_collections (consumer t) = replicate DCL_MAX_CSI_CLIENTS None) s"
    unfolding cujoagent_consumer_init_def
    by (intro wp_bind wp_upd_consumer wp_if wp_return wp_sync_side [OF sync_side.side_dcall]
        wp_sync_side [OF sync_side.side_init(1)] wp_sync_side [OF sync_side.side_init(2)] wp_sync_side [OF sync_side.side_init(3)])
      (auto simp: part_simps queue_part_def consumer_zero_def)
  then show ?thesis using assms by (simp add: wp_def sync_init_def)
qed

text \<open>The consumer thread handles an event as one step after another of the relation sees it: if the other
  threads leave the queue and its flags while it waits, which they do because it owns the mutex, the
  whole handling leaves them.\<close>

lemma process_event_owns_queue:
  assumes "waits_in (\<lambda>s t. queue_part (consumer t) = queue_part (consumer s)) D"
  shows "queue_part (consumer (snd (run_state (process_event D L B e) s))) = queue_part (consumer s)"
  using queue_side.side_process_event [OF assms] by (simp add: steps_in_def)

section \<open>Concrete runs\<close>

definition demo_event :: cujoagent_wifi_consumer_event_t where
  "demo_event = \<lparr>event_type = consumer_event_type_webconfig, event_subtype = consumer_event_webconfig_init,
     ev_msg = MSG_DOC ''radios''\<rparr>"

text \<open>An event was pushed while the consumer thread slept.\<close>

definition sync_pushed :: "demo_map sync" where
  "sync_pushed = sync_asleep\<lparr>cons := push_section demo_denv demo_event (cons sync_asleep),
     opc := (\<lambda>_. O_idle)(0 := O_push_signal None), pushed := [demo_event]\<rparr>"

lemma sync_pushed_reachable: "sync_reachable fails demo_denv sync_pushed"
proof -
  have "sync_reachable fails demo_denv (goes 0 (O_push_want demo_event None) (sync_asleep :: demo_map sync))"
    by (rule step_next(2) [OF sync_asleep_reachable p_call]) (simp add: sync_asleep_def sync_zero_def)
  then have "sync_reachable fails demo_denv (at_lock 0 (O_push_in demo_event None) (goes 0 (O_push_want demo_event None) (sync_asleep :: demo_map sync)))"
    by (rule step_next(2) [OF _ p_lock]) (simp_all add: sync_asleep_def sync_zero_def)
  moreover define u where "u = at_lock 0 (O_push_in demo_event None) (goes 0 (O_push_want demo_event None) (sync_asleep :: demo_map sync))"
  ultimately have "sync_reachable fails demo_denv u" by simp
  then have "sync_reachable fails demo_denv (u\<lparr>cons := push_section demo_denv demo_event (cons u), lock := None,
      opc := (opc u)(0 := O_push_signal None), pushed := pushed u @ [demo_event]\<rparr>)"
    by (rule step_next(2) [OF _ p_push]) (simp add: u_def)
  then show ?thesis by (simp add: u_def sync_pushed_def sync_asleep_def sync_zero_def)
qed

theorem no_event_is_lost_witness: "taken sync_pushed @ [demo_event] = pushed sync_pushed"
proof -
  have f: "fifo_law demo_denv" by (simp add: fifo_law_def demo_denv_def)
  have "queue (cons sync_pushed) = Some [demo_event]"
    by (simp add: sync_pushed_def sync_asleep_def sync_zero_def push_section_def demo_denv_def)
  then show ?thesis
    using no_event_is_lost [OF f sync_pushed_reachable [of False]] by auto
qed

theorem shutdown_is_final_witness:
  "taken (goes 1 (O_push_want demo_event None) (sync_shut True :: demo_map sync)) = []"
proof -
  have "push_step demo_denv 1 (sync_shut True :: demo_map sync) (goes 1 (O_push_want demo_event None) (sync_shut True))"
    by (rule p_call) (simp add: sync_shut_def)
  then have "(sync_step False demo_denv)\<^sup>*\<^sup>* (sync_shut True :: demo_map sync)
      (goes 1 (O_push_want demo_event None) (sync_shut True))"
    by (intro r_into_rtranclp sync_stepI)
  then show ?thesis
    using shutdown_is_final [OF sync_shut_reachable [of False demo_denv True]] by (simp add: sync_shut_def sync_zero_def)
qed

theorem mutexes_never_deadlock_witness:
  "(\<exists>t. consumer_step demo_denv (sync_shut False :: demo_map sync) t)
   \<or> (\<exists>i t. opc (sync_shut False :: demo_map sync) i \<noteq> O_idle \<and> other_step False demo_denv i (sync_shut False) t)"
proof -
  have "alive (sync_shut False :: demo_map sync)" "cpc (sync_shut False :: demo_map sync) = C_woken"
    by (simp_all add: sync_shut_def)
  then show ?thesis
    using mutexes_never_deadlock [OF sync_shut_reachable [of False demo_denv False]] by simp
qed

end
