(* ===== verification/Adv_Dcl_Typing.thy ===== *)
theory Adv_Dcl_Typing
  imports Adv_Dcl_Locks Adv_Dcl_Pushers
begin

text \<open>
  The consumer queue is typed: the message of an event is of the kind its type says, and its subtype
  is one of that type. Every thread of the library and every callback pushes such events only, and so, in
  every interleaving, the events in the queue, those taken off it and the one that is worked on are
  such events: the casts of the consumer thread are sound and the cases its model leaves over do not arise.
\<close>

section \<open>What a thread does to the queue\<close>

text \<open>A move leaves the queue alone, pushes an event that satisfies \<open>P\<close>, or is a wait, during which the other
  threads make moves of their own.\<close>

inductive queue_move :: "(cujoagent_wifi_consumer_event_t \<Rightarrow> bool) \<Rightarrow> ('m, 'w) denv \<Rightarrow> ('m, 'w) dclst \<Rightarrow> ('m, 'w) dclst \<Rightarrow> bool"
  for P D where
  qm_alone: "queue (consumer t) = queue (consumer s) \<Longrightarrow> queue_move P D s t"
| qm_push: "P e \<Longrightarrow> queue (consumer t) = map_option (\<lambda>q. queue_push D q e) (queue (consumer s)) \<Longrightarrow> queue_move P D s t"
| qm_epoll: "queue_move P D s (snd (d_epoll_wait D ep timeout s))"
| qm_recv: "queue_move P D s (snd (d_recvfrom D fd s))"

definition pushes_only :: "(cujoagent_wifi_consumer_event_t \<Rightarrow> bool) \<Rightarrow> ('m, 'w) denv \<Rightarrow> ('m, 'w, 'a) dcl \<Rightarrow> bool" where
  "pushes_only P D m \<longleftrightarrow> steps_in (queue_move P D)\<^sup>*\<^sup>* m"

lemma step_order_star: "step_order r\<^sup>*\<^sup>*"
  by (auto simp: step_order_def)

lemma moves_wait: "waits_in (queue_move P D)\<^sup>*\<^sup>* D"
  by (auto simp: waits_in_def intro: r_into_rtranclp qm_epoll qm_recv)

interpretation pushing: pusher_side "(queue_move event_ok D)\<^sup>*\<^sup>*" D for D :: "('m, 'w) denv"
proof
  show "step_order (queue_move event_ok D)\<^sup>*\<^sup>*" by (rule step_order_star)
next
  fix s t :: "('m, 'w) dclst"
  assume "queue (consumer t) = queue (consumer s)"
  then show "(queue_move event_ok D)\<^sup>*\<^sup>* s t" by (intro r_into_rtranclp qm_alone)
next
  fix e and s :: "('m, 'w) dclst"
  assume "event_ok e"
  then show "(queue_move event_ok D)\<^sup>*\<^sup>* s (s\<lparr>consumer := (consumer s)\<lparr>queue := map_option (\<lambda>q. queue_push D q e) (queue (consumer s)),
      queue_wakeup := True\<rparr>\<rparr>)"
    by (intro r_into_rtranclp qm_push) simp_all
qed

interpretation working: consumer_side "(queue_move (\<lambda>_. False) D)\<^sup>*\<^sup>*" for D :: "('m, 'w) denv"
  by unfold_locales (rule step_order_star, auto simp: part_simps intro: r_into_rtranclp qm_alone)

section \<open>The events in the interleaving\<close>

text \<open>The steps in which a thread that starts to push does so with a well-typed event.\<close>

definition typed_step :: "bool \<Rightarrow> ('m, 'w) denv \<Rightarrow> 'm sync \<Rightarrow> 'm sync \<Rightarrow> bool" where
  "typed_step fails D s t \<longleftrightarrow> sync_step fails D s t \<and> (\<forall>i e k. opc s i = O_idle \<and> opc t i = O_push_want e k \<longrightarrow> event_ok e)"

fun pushing_event :: "other_pc \<Rightarrow> cujoagent_wifi_consumer_event_t option" where
  "pushing_event (O_push_want e k) = Some e" | "pushing_event (O_push_in e k) = Some e" | "pushing_event _ = None"

text \<open>The event the consumer thread works on.\<close>

fun event_in_hand :: "consumer_pc \<Rightarrow> cujoagent_wifi_consumer_event_t option" where
  "event_in_hand (C_event e) = Some e" | "event_in_hand (C_want_l1 e) = Some e" | "event_in_hand (C_l1 e) = Some e"
| "event_in_hand (C_stop e col) = Some e" | "event_in_hand _ = None"

definition typed_inv :: "'m sync \<Rightarrow> bool" where
  "typed_inv s \<longleftrightarrow> (\<forall>e \<in> set (pushed s). event_ok e) \<and> (\<forall>i e. pushing_event (opc s i) = Some e \<longrightarrow> event_ok e)
     \<and> (\<forall>e. event_in_hand (cpc s) = Some e \<longrightarrow> e \<in> set (taken s))"

lemma in_hand_signalled [simp]: "event_in_hand (signalled c) = event_in_hand c"
  by (simp add: signalled_def)

lemma typed_inv_step:
  assumes "typed_inv s" "typed_step fails D s t"
  shows "typed_inv t"
proof -
  have st: "sync_step fails D s t" and ok: "\<And>i e k. opc s i = O_idle \<Longrightarrow> opc t i = O_push_want e k \<Longrightarrow> event_ok e"
    using assms(2) by (auto simp: typed_step_def)
  have ev: "event_ok e" if "opc s i = O_push_want e k \<or> opc s i = O_push_in e k" for i e k
    using assms(1) that unfolding typed_inv_def by (metis pushing_event.simps(1,2))
  from st show ?thesis
  proof (cases rule: sync_step_cases)
    case consumer
    then show ?thesis using assms(1)
      by (induction rule: consumer_step.induct) (auto simp: typed_inv_def)
  next
    case (push i)
    then show ?thesis
    proof (cases rule: push_step.cases)
      case (p_call e)
      then show ?thesis using assms(1) ok [of i e None] by (auto simp: typed_inv_def)
    next
      case (p_lock e k)
      then show ?thesis using assms(1) ev [of i e k] by (auto simp: typed_inv_def)
    next
      case (p_push e k)
      then show ?thesis using assms(1) ev [of i e k] by (auto simp: typed_inv_def)
    next
      case (p_signal k)
      then show ?thesis using assms(1) by (auto simp: typed_inv_def split: option.splits)
    qed
  next
    case (hello i)
    then show ?thesis using assms(1)
      by (induction rule: hello_step.induct) (auto simp: typed_inv_def split: if_splits)
  next
    case (start i)
    then show ?thesis using assms(1)
      by (induction rule: start_step.induct) (auto simp: typed_inv_def split: if_splits)
  next
    case (collector i)
    then show ?thesis using assms(1)
      by (induction rule: collector_step.induct) (auto simp: typed_inv_def event_ok_def split: if_splits)
  next
    case (deinit i)
    then show ?thesis using assms(1)
      by (induction rule: deinit_step.induct) (auto simp: typed_inv_def split: if_splits)
  qed
qed

interpretation tyd: invariant_of sync_init "typed_step fails D" "\<lambda>_. True" typed_inv for fails D
proof
  show "typed_inv s" if "sync_init s" for s :: "'a sync"
    using that by (simp add: sync_init_def typed_inv_def)
qed (simp_all add: typed_inv_step)

lemma typed_reachable: "reachable sync_init (typed_step fails D) s \<Longrightarrow> sync_reachable fails D s"
  by (induction rule: reachable.induct) (auto simp: typed_step_def intro: reachable.intros)

text \<open>C7: The consumer queue is typed at every moment. Whatever the world answers and however far each loop is
  followed, the fifo thread, the socket thread, a collector, the three callbacks of rbus, and the two requests of
  the initialisation, for the radios and for the associated devices, push only events with a message and a
  subtype of the kind their type says, and the handling of an event pushes none. In every interleaving of the
  threads in which the callers push such events, with a first-in-first-out queue, every event in the queue,
  every event taken off it, and the one the consumer thread works on are such events too, so that it
  can be cast by its type.\<close>

theorem consumer_queue_is_typed:
  "pushes_only event_ok D (cujoagent_fifo_loop n D B)
    \<and> pushes_only event_ok D (cujoagent_socket_loop n D B)
    \<and> pushes_only event_ok D (cujoagent_l1_collector D B col)
    \<and> pushes_only event_ok D (cujoagent_webconfig_handler D B v name doc)
    \<and> pushes_only event_ok D (cujoagent_frame_events_handler D B v bytes)
    \<and> pushes_only event_ok D (cujoagent_radio_temperature_handler D v name t)
    \<and> pushes_only event_ok D (cujoagent_webconfig_init_get D B)
    \<and> pushes_only event_ok D (cujoagent_assoc_list_init_get D B)
    \<and> pushes_only (\<lambda>_. False) D (process_event D L B ev)
    \<and> (fifo_law D \<and> reachable sync_init (typed_step fails D) z \<longrightarrow>
        (\<exists>q. queue (cons z) = Some q \<and> (\<forall>e \<in> set q. event_ok e)) \<and> (\<forall>e \<in> set (taken z). event_ok e)
        \<and> (\<forall>e. event_in_hand (cpc z) = Some e \<longrightarrow> event_ok e))"
proof -
  have i: "(\<exists>q. queue (cons z) = Some q \<and> (\<forall>e \<in> set q. event_ok e)) \<and> (\<forall>e \<in> set (taken z). event_ok e)
      \<and> (\<forall>e. event_in_hand (cpc z) = Some e \<longrightarrow> event_ok e)"
    if f: "fifo_law D" and r: "reachable sync_init (typed_step fails D) z"
  proof -
    obtain q where q: "queue (cons z) = Some q" "taken z @ q = pushed z"
      using order_inv_holds [OF f typed_reachable [OF r]] by (auto simp: order_inv_def)
    have "set (pushed z) = set (taken z) \<union> set q" by (metis q(2) set_append)
    then show ?thesis
      using tyd.holds [OF r] q(1) by (auto simp: typed_inv_def)
  qed
  note P = pushing.pushers(1-3,7) [OF moves_wait, folded pushes_only_def]
    pushing.pushers(4-6,8) [folded pushes_only_def] working.side_process_event [OF moves_wait, folded pushes_only_def]
  show ?thesis
    by (rule conjI, rule P)+ (rule impI, erule conjE, rule i)
qed

lemma typed_next:
  assumes "reachable sync_init (typed_step fails D) s" "sync_step fails D s t"
    and "\<And>i e k. opc s i = O_idle \<Longrightarrow> opc t i = O_push_want e k \<Longrightarrow> event_ok e"
  shows "reachable sync_init (typed_step fails D) t"
proof (rule reach_next [OF assms(1)])
  show "typed_step fails D s t" using assms(2,3) unfolding typed_step_def by blast
qed

lemma consumer_keeps_opc: "consumer_step D s t \<Longrightarrow> opc t = opc s"
  by (induction rule: consumer_step.induct) simp_all

lemma typed_consumer: "reachable sync_init (typed_step fails D) s \<Longrightarrow> consumer_step D s t \<Longrightarrow> reachable sync_init (typed_step fails D) t"
  by (erule typed_next) (auto simp: sync_stepI dest: consumer_keeps_opc)

text \<open>An event is pushed, and the consumer thread takes it.\<close>

theorem consumer_queue_is_typed_witness:
  "\<exists>z :: demo_map sync. sync_reachable False demo_denv z \<and> event_in_hand (cpc z) = Some demo_event \<and> event_ok demo_event"
proof -
  let ?R = "reachable sync_init (typed_step False demo_denv)"
  define s1 :: "demo_map sync" where "s1 = goes 0 (O_push_want demo_event None) sync_zero"
  define s2 where "s2 = at_lock 0 (O_push_in demo_event None) s1"
  define s3 where "s3 = s2\<lparr>cons := push_section demo_denv demo_event (cons s2), lock := None,
    opc := (opc s2)(0 := O_push_signal None), pushed := pushed s2 @ [demo_event]\<rparr>"
  define s4 where "s4 = s3\<lparr>lock := Some Consumer, cpc := C_test\<rparr>"
  define s5 where "s5 = s4\<lparr>cpc := C_exit\<rparr>"
  define s6 where "s6 = s5\<lparr>cpc := C_drain\<rparr>"
  define s7 where "s7 = s6\<lparr>cons := (cons s6)\<lparr>queue := Some []\<rparr>, cpc := C_event demo_event, taken := taken s6 @ [demo_event]\<rparr>"
  have q: "queue (cons s3) = Some [demo_event]" "queue_wakeup (cons s3)" "\<not> exit_consumer (cons s3)"
    by (simp_all add: s3_def s2_def s1_def push_section_def sync_zero_def) (simp_all add: demo_denv_def consumer_zero_def)
  have z: "alive s3" "cpc s3 = C_start" "lock s3 = None"
    by (simp_all add: s3_def s2_def s1_def sync_zero_def)
  have "?R sync_zero" by (rule reach_init) (simp add: sync_init_def sync_zero_def consumer_zero_def queue_part_def)
  then have "?R s1"
    unfolding s1_def by (rule typed_next [OF _ sync_stepI(2) [OF p_call]]) (auto simp: s1_def sync_zero_def demo_event_def event_ok_def split: if_splits)
  then have "?R s2"
    unfolding s2_def by (rule typed_next [OF _ sync_stepI(2) [OF p_lock]]) (auto simp: s2_def s1_def sync_zero_def split: if_splits)
  then have "?R s3"
    unfolding s3_def by (rule typed_next [OF _ sync_stepI(2) [OF p_push]]) (auto simp: s3_def s2_def s1_def sync_zero_def split: if_splits)
  then have "?R s4"
    unfolding s4_def by (rule typed_consumer) (rule c_lock, simp_all add: z)
  then have "?R s5"
    unfolding s5_def by (rule typed_consumer) (rule c_up, simp_all add: s4_def q)
  then have "?R s6"
    unfolding s6_def by (rule typed_consumer) (rule c_round, simp_all add: s5_def s4_def q)
  then have r: "?R s7"
    unfolding s7_def by (rule typed_consumer)
      (rule c_pop [where x = demo_event and xs = "[]"], simp_all add: s6_def s5_def s4_def q, simp add: demo_denv_def)
  have f: "fifo_law demo_denv" by (simp add: fifo_law_def demo_denv_def)
  have c: "cpc s7 = C_event demo_event" by (simp add: s7_def)
  have "event_ok demo_event"
    using consumer_queue_is_typed [THEN conjunct2, THEN conjunct2, THEN conjunct2, THEN conjunct2, THEN conjunct2,
        THEN conjunct2, THEN conjunct2, THEN conjunct2, THEN conjunct2, rule_format, OF conjI, OF f r] c
    by simp
  then show ?thesis
    using typed_reachable [OF r] c by (intro exI [of _ s7]) simp
qed

end
