(* ===== verification/Adv_Dcl_Life.thy ===== *)
theory Adv_Dcl_Life
  imports Adv_Dcl_Demo "HOL-Library.Multiset"
begin

text \<open>
  The resources of the data-collection library: descriptors of a collection, the subscriptions, and
  what shutdown closes and frees.
\<close>

section \<open>Descriptors\<close>

text \<open>The open descriptors of the world: creating one yields a new one or nothing, closing removes one, and
  the other routines used here leave them alone.\<close>

definition makes_fd :: "('w \<Rightarrow> int set) \<Rightarrow> ('w \<Rightarrow> int \<times> 'w) \<Rightarrow> bool" where
  "makes_fd op mk \<longleftrightarrow> (\<forall>w. (fst (mk w) = - 1 \<and> op (snd (mk w)) = op w) \<or>
     (0 \<le> fst (mk w) \<and> fst (mk w) \<notin> op w \<and> op (snd (mk w)) = insert (fst (mk w)) (op w)))"

definition fd_law :: "('w \<Rightarrow> int set) \<Rightarrow> ('m, 'w) denv \<Rightarrow> ('m, 'w) dbus \<Rightarrow> bool" where
  "fd_law op D B \<longleftrightarrow> makes_fd op (d_eventfd D) \<and> makes_fd op (d_timerfd_create B) \<and>
     (\<forall>fd w. op (snd (d_close D fd w)) = op w - {fd}) \<and>
     (\<forall>x w. op (snd (d_malloc D x w)) = op w) \<and> (\<forall>x w. op (snd (d_free D x w)) = op w) \<and>
     (\<forall>a b w. op (snd (d_epoll_add D a b w)) = op w) \<and> (\<forall>a b w. op (snd (d_epoll_del D a b w)) = op w) \<and>
     (\<forall>w. op (snd (d_rbus_close D w)) = op w) \<and> (\<forall>r w. op (snd (d_pthread_create B r w)) = op w)"

lemma fd_law_keep:
  assumes "fd_law op D B"
  shows "op (snd (d_close D fd w)) = op w - {fd}" "op (snd (d_malloc D x w)) = op w" "op (snd (d_free D x w)) = op w"
    "op (snd (d_epoll_add D a b w)) = op w" "op (snd (d_epoll_del D a b w)) = op w" "op (snd (d_rbus_close D w)) = op w"
    "op (snd (d_pthread_create B r w)) = op w"
  using assms by (simp_all add: fd_law_def)

section \<open>Starting a collection\<close>

definition fds_of :: "l1_collector \<Rightarrow> int set" where
  "fds_of col = {notification col, notification_ack col, timer col}"

definition close_if :: "('m, 'w) denv \<Rightarrow> int \<Rightarrow> 'w \<Rightarrow> 'w" where
  "close_if D fd w = (if fd \<ge> 0 then snd (d_close D fd w) else w)"

lemma close_fd_run: "run_state (close_fd D fd) s = ((), s\<lparr>dworld := close_if D fd (dworld s)\<rparr>)"
  by (simp add: close_fd_def close_if_def)

lemma free_slot_Some: "free_slot xs j = Some k \<Longrightarrow> j \<le> k \<and> k - j < length xs \<and> xs ! (k - j) = None"
proof (induction xs arbitrary: j)
  case (Cons x xs)
  show ?case
  proof (cases x)
    case (Some c)
    then have "j + 1 \<le> k \<and> k - (j + 1) < length xs \<and> xs ! (k - (j + 1)) = None" using Cons by simp
    moreover from this have "k - j = Suc (k - Suc j)" by (auto simp: Suc_diff_Suc)
    ultimately show ?thesis by simp
  qed (use Cons in simp)
qed simp

lemma new_collector_fds:
  assumes "fd_law op D B"
  shows "consumer (snd (run_state (new_collector D B st) s)) = consumer s"
    and "fst (run_state (new_collector D B st) s) = None \<Longrightarrow> op (dworld (snd (run_state (new_collector D B st) s))) = op (dworld s)"
    and "fst (run_state (new_collector D B st) s) = Some col \<Longrightarrow> l1_start col = st \<and> (\<forall>fd \<in> fds_of col. 0 \<le> fd) \<and>
       card (fds_of col) = 3 \<and> fds_of col \<inter> op (dworld s) = {} \<and>
       op (dworld (snd (run_state (new_collector D B st) s))) = op (dworld s) \<union> fds_of col"
proof -
  note k = fd_law_keep [OF assms]
  have e: "makes_fd op (d_eventfd D)" "makes_fd op (d_timerfd_create B)" using assms by (simp_all add: fd_law_def)
  obtain ok w1 where 1: "d_malloc D ''collector'' (dworld s) = (ok, w1)" by fastforce
  obtain n w2 where 2: "d_eventfd D w1 = (n, w2)" by fastforce
  obtain a w3 where 3: "d_eventfd D w2 = (a, w3)" by fastforce
  obtain t w4 where 4: "d_timerfd_create B w3 = (t, w4)" by fastforce
  obtain x w5 where 5: "d_epoll_add D (queue_epoll (fds (consumer s))) a w4 = (x, w5)" by fastforce
  have o: "op w1 = op (dworld s)" "op w5 = op w4"
    using k(2) [of "''collector''" "dworld s"] k(4) [of "queue_epoll (fds (consumer s))" a w4] 1 5 by simp_all
  have f: "(n = - 1 \<and> op w2 = op w1) \<or> (0 \<le> n \<and> n \<notin> op w1 \<and> op w2 = insert n (op w1))"
    "(a = - 1 \<and> op w3 = op w2) \<or> (0 \<le> a \<and> a \<notin> op w2 \<and> op w3 = insert a (op w2))"
    "(t = - 1 \<and> op w4 = op w3) \<or> (0 \<le> t \<and> t \<notin> op w3 \<and> op w4 = insert t (op w3))"
    using e [unfolded makes_fd_def, THEN spec] 2 3 4 by (metis fst_conv snd_conv)+
  have r: "run_state (new_collector D B st) s =
     (if \<not> ok then (None, s\<lparr>dworld := w1\<rparr>) else if n = - 1 then (None, s\<lparr>dworld := w2\<rparr>)
      else if a = - 1 then (None, s\<lparr>dworld := close_if D n w3\<rparr>)
      else if t = - 1 then (None, s\<lparr>dworld := close_if D n (close_if D a w4)\<rparr>)
      else if x \<noteq> 0 then (None, s\<lparr>dworld := close_if D t (close_if D n (close_if D a w5))\<rparr>)
      else (Some \<lparr>notification = n, notification_ack = a, timer = t, l1_start = st\<rparr>, s\<lparr>dworld := w5\<rparr>))"
    by (simp add: new_collector_def close_fd_run 1 2 3 4 5)
  have c: "op (close_if D fd w) = (if fd \<ge> 0 then op w - {fd} else op w)" for fd w
    by (simp add: close_if_def k(1))
  show "consumer (snd (run_state (new_collector D B st) s)) = consumer s"
    by (simp add: r)
  show "op (dworld (snd (run_state (new_collector D B st) s))) = op (dworld s)"
    if "fst (run_state (new_collector D B st) s) = None"
    using that f o by (auto simp: r c split: if_splits)
  show "l1_start col = st \<and> (\<forall>fd \<in> fds_of col. 0 \<le> fd) \<and>
       card (fds_of col) = 3 \<and> fds_of col \<inter> op (dworld s) = {} \<and>
       op (dworld (snd (run_state (new_collector D B st) s))) = op (dworld s) \<union> fds_of col"
    if "fst (run_state (new_collector D B st) s) = Some col"
    using that f o by (auto simp: r fds_of_def split: if_splits)
qed

text \<open>C10: Starting a collection is all or nothing: when it succeeds, one free slot holds a collector for the
  address asked for, which no other slot collects for, and exactly three new descriptors are open;
  on every failure (disabled, address taken, no slot, no memory, no descriptor, no registration, no
  thread) the consumer is as before and the same descriptors are open.\<close>

theorem start_l1_collection_all_or_nothing:
  fixes D :: "('m, 'w) denv" and B :: "('m, 'w) dbus" and op :: "'w \<Rightarrow> int set"
  assumes "fd_law op D B"
  defines "s' st s \<equiv> snd (run_state (cujoagent_start_l1_collection D B st) s)"
  shows "(if fst (run_state (cujoagent_start_l1_collection D B st) s) = 0
     then \<exists>k col. k < length (l1_collections (consumer s)) \<and> l1_collections (consumer s) ! k = None \<and>
        consumer (s' st s) = (consumer s)\<lparr>l1_collections := (l1_collections (consumer s))[k := Some col]\<rparr> \<and>
        l1_start col = st \<and> \<not> collecting (start_mac st) (l1_collections (consumer s)) \<and>
        card (fds_of col) = 3 \<and> fds_of col \<inter> op (dworld s) = {} \<and>
        op (dworld (s' st s)) = op (dworld s) \<union> fds_of col
     else consumer (s' st s) = consumer s \<and> op (dworld (s' st s)) = op (dworld s))"
proof -
  note k = fd_law_keep [OF assms(1)]
  let ?l = "l1_collections (consumer s)"
  define nc where "nc = run_state (new_collector D B st) s"
  note nc = new_collector_fds [OF assms(1), of st s, folded nc_def]
  have slot: "k < length ?l \<and> ?l ! k = None" if "free_slot ?l 0 = Some k" for k
    using free_slot_Some [OF that] by simp
  consider (no) "disable_l1_collection (consumer s) \<or> collecting (start_mac st) ?l \<or> free_slot ?l 0 = None \<or> fst nc = None"
    | (yes) k col where "\<not> disable_l1_collection (consumer s)" "\<not> collecting (start_mac st) ?l" "free_slot ?l 0 = Some k" "fst nc = Some col"
    by fastforce
  then show ?thesis
  proof cases
    case no
    show ?thesis
    proof (cases "disable_l1_collection (consumer s) \<or> collecting (start_mac st) ?l \<or> free_slot ?l 0 = None")
      case True
      then have "run_state (cujoagent_start_l1_collection D B st) s = (- 1, s)"
        by (auto simp: cujoagent_start_l1_collection_def)
      then show ?thesis by (simp add: s'_def)
    next
      case False
      then have "run_state (cujoagent_start_l1_collection D B st) s = (- 1, snd nc)"
        using no by (auto simp: cujoagent_start_l1_collection_def nc_def [symmetric] case_prod_beta)
      then show ?thesis using no nc(1,2) False by (auto simp: s'_def)
    qed
  next
    case yes
    define w where "w = snd (d_pthread_create B ''cujoagent_l1_collector'' (dworld (snd nc)))"
    have o: "op w = op (dworld s) \<union> fds_of col" using nc(3) [OF yes(4)] k(7) by (simp add: w_def)
    show ?thesis
    proof (cases "fst (d_pthread_create B ''cujoagent_l1_collector'' (dworld (snd nc))) = 0")
      case True
      have "consumer (s' st s) = (consumer s)\<lparr>l1_collections := ?l[k := Some col]\<rparr>" "dworld (s' st s) = w"
        "fst (run_state (cujoagent_start_l1_collection D B st) s) = 0"
        using yes True nc(1)
        by (simp_all add: s'_def cujoagent_start_l1_collection_def nc_def [symmetric] case_prod_beta w_def)
      then show ?thesis using slot [OF yes(3)] yes(2) nc(3) [OF yes(4)] o by auto
    next
      case False
      define w' where "w' = snd (d_epoll_del D (queue_epoll (fds (consumer s))) (notification_ack col) w)"
      have w': "op w' = op (dworld s) \<union> fds_of col" using o k(5) by (simp add: w'_def)
      have "consumer (s' st s) = (consumer s)\<lparr>l1_collections := (?l[k := Some col])[k := None]\<rparr>"
        "dworld (s' st s) = close_if D (timer col) (close_if D (notification col) (close_if D (notification_ack col) w'))"
        "fst (run_state (cujoagent_start_l1_collection D B st) s) = - 1"
        using yes False nc(1)
        by (simp_all add: s'_def cujoagent_start_l1_collection_def nc_def [symmetric] case_prod_beta w_def w'_def close_fd_run)
      moreover have "(?l[k := Some col])[k := None] = ?l"
        using slot [OF yes(3)] by (metis list_update_id list_update_overwrite)
      moreover have "op (close_if D (timer col) (close_if D (notification col) (close_if D (notification_ack col) w'))) = op (dworld s)"
        using nc(3) [OF yes(4)] w' by (auto simp: close_if_def k(1) fds_of_def)
      ultimately show ?thesis by simp
    qed
  qed
qed

lemma demo_makes_fd: "makes_fd (\<lambda>w. set (w_open w)) new_fd"
proof -
  have m: "m \<le> fold max xs m" for m :: int and xs
  proof (induction xs arbitrary: m)
    case (Cons x xs)
    have "max x m \<le> fold max xs (max x m)" by (rule Cons)
    then show ?case by simp
  qed simp
  have e: "x \<le> fold max xs m" if "x \<in> set xs" for x m :: int and xs
    using that
  proof (induction xs arbitrary: m)
    case (Cons y xs)
    then show ?case using m [of "max y m" xs] by auto
  qed simp
  have "fold max (w_open w) 9 + 1 \<notin> set (w_open w)" for w
    using e [of "fold max (w_open w) 9 + 1" "w_open w" 9] by auto
  moreover have "0 \<le> fold max (w_open w) 9 + 1" for w
    using m [of 9 "w_open w"] by simp
  ultimately show ?thesis by (simp add: makes_fd_def new_fd_def Let_def) blast
qed

lemma demo_fd_law: "fd_law (\<lambda>w. set (w_open w)) demo_denv demo_dbus"
  using demo_makes_fd by (auto simp: fd_law_def demo_denv_def demo_dbus_def)

theorem start_l1_collection_all_or_nothing_witness:
  "card (set (w_open (dworld (snd (run_state (cujoagent_start_l1_collection demo_denv demo_dbus (l1_start_of demo_dbus [])) demo_dcl))))) = 3"
proof -
  have "fst (run_state (cujoagent_start_l1_collection demo_denv demo_dbus (l1_start_of demo_dbus [])) demo_dcl) = 0"
    by (simp add: cujoagent_start_l1_collection_def new_collector_def collecting_def demo_denv_def demo_dbus_def
        dcl_world0_def new_fd_def)
  then show ?thesis
    using start_l1_collection_all_or_nothing [OF demo_fd_law, of "l1_start_of demo_dbus []" demo_dcl]
    by (auto simp: dcl_world0_def)
qed

end
