(* ===== verification/Adv_Dcl_Shutdown.thy ===== *)
theory Adv_Dcl_Shutdown
  imports Adv_Dcl_Life "HOL-Library.Multiset"
begin

text \<open>
  Shutdown of the data-collection library: which descriptors are closed and which memory is freed,
  how often, and what happens to both after an initialisation that failed.
\<close>

section \<open>Closing descriptors\<close>

text \<open>A reference to a field of the descriptors reads what it writes; two references are independent when
  neither writes what the other reads.\<close>

definition reads_back :: "fdref \<Rightarrow> bool" where
  "reads_back r \<longleftrightarrow> (\<forall>v f. fst r (snd r (\<lambda>_. v) f) = v)"

definition independent :: "fdref \<Rightarrow> fdref \<Rightarrow> bool" where
  "independent r r' \<longleftrightarrow> (\<forall>v f. fst r' (snd r (\<lambda>_. v) f) = fst r' f)"

fun all_independent :: "fdref list \<Rightarrow> bool" where
  "all_independent [] \<longleftrightarrow> True"
| "all_independent (r # rs) \<longleftrightarrow> reads_back r \<and> (\<forall>r' \<in> set rs. independent r r' \<and> independent r' r) \<and> all_independent rs"

text \<open>The references in the order of shutdown.\<close>

definition shutdown_order :: "fdref list" where
  "shutdown_order = sock_ref # fifo_ref # close_order"

lemma shutdown_order_independent: "all_independent shutdown_order"
  by (simp add: shutdown_order_def close_order_def eventfd_refs_def reads_back_def independent_def)

definition open_in :: "consumer_fds \<Rightarrow> fdref list \<Rightarrow> int list" where
  "open_in f rs = filter (\<lambda>fd. fd \<ge> 0) (map (\<lambda>r. fst r f) rs)"

definition close_list :: "('m, 'w) denv \<Rightarrow> int list \<Rightarrow> 'w \<Rightarrow> 'w" where
  "close_list D ks w = fold (\<lambda>fd w. snd (d_close D fd w)) ks w"

lemma close_all_run:
  assumes "all_independent rs"
  shows "dworld (snd (run_state (close_all D rs) s)) = close_list D (open_in (fds (consumer s)) rs) (dworld s)
    \<and> (\<forall>r \<in> set rs. fst r (fds (consumer (snd (run_state (close_all D rs) s)))) < 0)
    \<and> (\<forall>r'. (\<forall>r \<in> set rs. independent r r') \<longrightarrow>
        fst r' (fds (consumer (snd (run_state (close_all D rs) s)))) = fst r' (fds (consumer s)))"
  using assms
proof (induction rs arbitrary: s)
  case (Cons r rs)
  define s1 where "s1 = snd (run_state (cujoagent_close_if_valid D r) s)"
  have e: "run_state (close_all D (r # rs)) s = run_state (close_all D rs) s1"
    by (simp add: s1_def case_prod_beta)
  have i: "independent r r'" "independent r' r" if "r' \<in> set rs" for r' using Cons.prems that by simp_all
  have f: "fst r' (fds (consumer s1)) = fst r' (fds (consumer s))" if "independent r r'" for r'
    using that by (simp add: s1_def cujoagent_close_if_valid_def independent_def)
  have n: "fst r (fds (consumer s1)) < 0"
    using Cons.prems by (simp add: s1_def cujoagent_close_if_valid_def reads_back_def)
  have w: "dworld s1 = close_list D (open_in (fds (consumer s)) [r]) (dworld s)"
    by (simp add: s1_def cujoagent_close_if_valid_def close_list_def open_in_def)
  have o: "open_in (fds (consumer s1)) rs = open_in (fds (consumer s)) rs"
    using f i(1) by (simp add: open_in_def cong: map_cong)
  have ih: "all_independent rs" using Cons.prems by simp
  note IH = Cons.IH [OF ih, of s1]
  have "fst r (fds (consumer (snd (run_state (close_all D rs) s1)))) < 0"
    using IH [THEN conjunct2, THEN conjunct2, rule_format, of r] i(2) n by simp
  moreover have "close_list D (open_in (fds (consumer s)) (r # rs)) (dworld s) =
      close_list D (open_in (fds (consumer s)) rs) (dworld s1)"
    by (simp add: w) (simp add: close_list_def open_in_def)
  moreover have "fst r' (fds (consumer (snd (run_state (close_all D rs) s1)))) = fst r' (fds (consumer s))"
    if "\<forall>q \<in> set (r # rs). independent q r'" for r'
    using IH [THEN conjunct2, THEN conjunct2, rule_format, of r'] that f [of r'] by simp
  ultimately show ?case
    using IH o unfolding e by (metis set_ConsD)
qed (simp add: close_list_def open_in_def)

section \<open>What shutdown frees\<close>

fun free_list :: "('m, 'w) denv \<Rightarrow> string list \<Rightarrow> 'w \<Rightarrow> 'w" where
  "free_list D [] w = w"
| "free_list D (x # xs) w = free_list D xs (snd (d_free D x w))"

lemma free_list_append: "free_list D (xs @ ys) w = free_list D ys (free_list D xs w)"
  by (induction xs arbitrary: w) simp_all

definition names_of :: "string \<Rightarrow> rbusEventSubscription_t option list option \<Rightarrow> string list" where
  "names_of name p = (case p of None \<Rightarrow> [] | Some xs \<Rightarrow> replicate (length (filter (\<lambda>x. x \<noteq> None) xs)) ''eventName'' @ [name])"

definition ptr_name :: "string \<Rightarrow> 'a option \<Rightarrow> string list" where
  "ptr_name name p = (case p of None \<Rightarrow> [] | Some _ \<Rightarrow> [name])"

lemma free_names_run: "run_state (free_names D xs) s =
    ((), s\<lparr>dworld := free_list D (replicate (length (filter (\<lambda>x. x \<noteq> None) xs)) ''eventName'') (dworld s)\<rparr>)"
  by (induction xs arbitrary: s) (auto simp: case_prod_beta)

lemma free_subscriptions_run: "run_state (free_subscriptions D name p) s =
    ((), s\<lparr>dworld := free_list D (names_of name p) (dworld s)\<rparr>)"
  by (simp add: free_subscriptions_def names_of_def free_names_run free_list_append case_prod_beta split: option.split)

lemma free_ptr_run: "run_state (free_ptr D name p) s = ((), s\<lparr>dworld := free_list D (ptr_name name p) (dworld s)\<rparr>)"
  by (simp add: free_ptr_def ptr_name_def split: option.split)

definition freed_late :: "'m consumer \<Rightarrow> string list" where
  "freed_late c = ptr_name ''vap_subs_indexes'' (vap_subs_indexes (subs c)) @
     names_of ''subscriptions'' (subscriptions (subs c)) @
     names_of ''raw_data_subscriptions'' (raw_data_subscriptions (subs c)) @
     names_of ''on_demand_subscriptions'' (on_demand_subscriptions (subs c)) @
     ptr_name ''temperature_data'' (temperature_data (tcollect_ctx c))"

definition after_frees :: "('m, 'w) denv \<Rightarrow> 'm consumer \<Rightarrow> 'w \<Rightarrow> 'w" where
  "after_frees D c w = free_list D (freed_late c)
     (let w1 = free_list D (ptr_name ''queue'' (queue c)) w in if rbus_handle c then snd (d_rbus_close D w1) else w1)"

lemma consumer_deinit_run:
  "run_state (cujoagent_consumer_deinit D) s =
     run_state (close_all D shutdown_order) (s\<lparr>dworld := after_frees D (consumer s) (dworld s)\<rparr>)"
  by (simp add: cujoagent_consumer_deinit_def shutdown_order_def cujoagent_close_event_fds_def case_prod_beta
      free_ptr_run free_subscriptions_run after_frees_def freed_late_def free_list_append Let_def)

lemma free_list_keeps: "(\<And>x w. p (snd (d_free D x w)) = p w) \<Longrightarrow> p (free_list D xs w) = p w"
  by (induction xs arbitrary: w) simp_all

lemma after_frees_keeps:
  assumes "\<And>x w. p (snd (d_free D x w)) = p w" "\<And>w. p (snd (d_rbus_close D w)) = p w"
  shows "p (after_frees D c w) = p w"
  using assms by (simp add: after_frees_def free_list_keeps Let_def)

text \<open>The calls of \<open>close\<close> and of \<open>free\<close>, the last one first.\<close>

definition log_law :: "('w \<Rightarrow> int list) \<Rightarrow> ('w \<Rightarrow> string list) \<Rightarrow> ('m, 'w) denv \<Rightarrow> bool" where
  "log_law cl fr D \<longleftrightarrow>
     (\<forall>fd w. cl (snd (d_close D fd w)) = fd # cl w \<and> fr (snd (d_close D fd w)) = fr w) \<and>
     (\<forall>x w. cl (snd (d_free D x w)) = cl w \<and> fr (snd (d_free D x w)) = x # fr w) \<and>
     (\<forall>w. cl (snd (d_rbus_close D w)) = cl w \<and> fr (snd (d_rbus_close D w)) = fr w) \<and>
     (\<forall>x w. cl (snd (d_malloc D x w)) = cl w \<and> fr (snd (d_malloc D x w)) = fr w)"

lemma close_list_cl: "log_law cl fr D \<Longrightarrow> cl (close_list D ks w) = rev ks @ cl w"
  unfolding close_list_def by (induction ks arbitrary: w) (simp_all add: log_law_def)

lemma close_list_fr: "log_law cl fr D \<Longrightarrow> fr (close_list D ks w) = fr w"
  unfolding close_list_def by (induction ks arbitrary: w) (simp_all add: log_law_def)

lemma free_list_fr: "log_law cl fr D \<Longrightarrow> fr (free_list D xs w) = rev xs @ fr w"
  by (induction xs arbitrary: w) (simp_all add: log_law_def)

text \<open>The eleven fields of the consumer that hold descriptors.\<close>

definition fd_fields :: "consumer_fds \<Rightarrow> int list" where
  "fd_fields f = [sock_fd f, fifo_fd f, misc_epoll f, misc_notification f, queue_epoll f, comms_epoll f,
     comms_notification f, comms_notification_ack f, fifo_epoll f, fifo_notification f, fifo_notification_ack f]"

lemma shutdown_order_fields: "mset (map (\<lambda>r. fst r f) shutdown_order) = mset (fd_fields f)"
  by (simp add: shutdown_order_def close_order_def eventfd_refs_def fd_fields_def)

lemma shutdown_order_all: "(\<forall>r \<in> set shutdown_order. fst r f < 0) \<longleftrightarrow> (\<forall>fd \<in> set (fd_fields f). fd < 0)"
  using shutdown_order_fields [of f, THEN mset_eq_setD] by (metis (no_types, lifting) imageE image_eqI list.set_map)

text \<open>C28: Shutdown closes each descriptor once: the calls of close are, in some order, one for each of the
  eleven descriptor fields of the consumer that holds a number that is not negative, which is what the code takes
  for an open descriptor, with that number, and no others; afterwards all eleven fields are negative, so
  that a second shutdown closes nothing.\<close>

theorem shutdown_closes_each_descriptor_once:
  assumes "log_law cl fr D"
  defines "deinit s \<equiv> snd (run_state (cujoagent_consumer_deinit D) s)"
  shows "mset (cl (dworld (deinit s))) = mset (filter (\<lambda>fd. 0 \<le> fd) (fd_fields (fds (consumer s)))) + mset (cl (dworld s))
    \<and> (\<forall>fd \<in> set (fd_fields (fds (consumer (deinit s)))). fd < 0)
    \<and> cl (dworld (deinit (deinit s))) = cl (dworld (deinit s))"
proof -
  have k: "cl (after_frees D c w) = cl w" for c w
    using assms by (intro after_frees_keeps) (simp_all add: log_law_def)
  have a: "cl (dworld (deinit s)) = rev (open_in (fds (consumer s)) shutdown_order) @ cl (dworld s)" for s
    using close_all_run [OF shutdown_order_independent, of D "s\<lparr>dworld := after_frees D (consumer s) (dworld s)\<rparr>"]
    by (simp add: deinit_def consumer_deinit_run close_list_cl [OF assms(1)] k)
  have n: "\<forall>r \<in> set shutdown_order. fst r (fds (consumer (deinit s))) < 0"
    using close_all_run [OF shutdown_order_independent, of D "s\<lparr>dworld := after_frees D (consumer s) (dworld s)\<rparr>"]
    by (simp add: deinit_def consumer_deinit_run)
  then have "open_in (fds (consumer (deinit s))) shutdown_order = []"
    by (auto simp: open_in_def filter_empty_conv)
  moreover have "mset (open_in (fds (consumer s)) shutdown_order) = mset (filter (\<lambda>fd. 0 \<le> fd) (fd_fields (fds (consumer s))))"
    unfolding open_in_def mset_filter shutdown_order_fields by (rule refl)
  ultimately show ?thesis
    using a n unfolding shutdown_order_all by simp
qed

text \<open>An initialisation that fails early closes descriptor 0: the consumer is zeroed before anything can
  fail, zero counts as an open descriptor at shutdown, and so the cleanup after a queue that could
  not be created closes descriptor 0, which the library never opened, eleven times.\<close>

lemma failed_init_closes_descriptor_zero:
  assumes "log_law cl fr D" "\<not> fst (d_malloc D ''queue'' (dworld s))"
  shows "fst (run_state (cujoagent_consumer_init D) s) = - 1
    \<and> cl (dworld (snd (run_state (cujoagent_consumer_deinit D) (snd (run_state (cujoagent_consumer_init D) s))))) =
      replicate 11 0 @ cl (dworld s)"
proof -
  define s1 where "s1 = s\<lparr>consumer := consumer_zero, dworld := snd (d_malloc D ''queue'' (dworld s))\<rparr>"
  have r: "run_state (cujoagent_consumer_init D) s = (- 1, s1)"
    using assms(2) by (simp add: cujoagent_consumer_init_def s1_def)
  have z: "fds (consumer s1) = fds_zero" by (simp add: s1_def consumer_zero_def)
  have "open_in fds_zero shutdown_order = replicate 11 0"
    by (simp add: open_in_def shutdown_order_def close_order_def eventfd_refs_def fds_zero_def numeral_eq_Suc)
  moreover have "cl (after_frees D c w) = cl w" for c w
    using assms(1) by (intro after_frees_keeps) (simp_all add: log_law_def)
  moreover have "cl (dworld s1) = cl (dworld s)" using assms(1) by (simp add: s1_def log_law_def)
  ultimately show ?thesis
    using close_all_run [OF shutdown_order_independent, of D "s1\<lparr>dworld := after_frees D (consumer s1) (dworld s1)\<rparr>"]
    by (simp add: r consumer_deinit_run close_list_cl [OF assms(1)] z)
qed

section \<open>The array of access points\<close>

definition private_indexes :: "wifi_interface_name_idex_map_t list \<Rightarrow> nat list" where
  "private_indexes ifs = map iface_index (filter (\<lambda>i. bridge_name i = ''brlan0'') ifs)"

text \<open>With enough memory exactly the access points on the private bridge are subscribed.\<close>

lemma collect_vaps_all:
  fixes s :: "('m, 'w) dclst"
  assumes "\<And>x w. fst (d_malloc D x w)" "vap_subs_count (subs (consumer s)) = length (subs_indexes (consumer s))"
  shows "fst (run_state (collect_vaps D ifs) s) \<and>
    subs_indexes (consumer (snd (run_state (collect_vaps D ifs) s))) = subs_indexes (consumer s) @ private_indexes ifs"
  using assms(2)
proof (induction ifs arbitrary: s)
  case (Cons i r)
  show ?case
  proof (cases "bridge_name i = ''brlan0''")
    case True
    define g where "g = (\<lambda>c :: 'm consumer. subs_update (\<lambda>sb. vap_subs_indexes_update (\<lambda>p. Some
        (take (vap_subs_count sb - 1) (case p of None \<Rightarrow> [] | Some xs \<Rightarrow> xs) @ [iface_index i])) sb) c)"
    define s1 where "s1 = s\<lparr>dworld := snd (d_malloc D ''vap_subs_indexes'' (dworld s)),
      consumer := g (subs_update (vap_subs_count_update Suc) (consumer s))\<rparr>"
    have e: "take (vap_subs_count (subs (consumer s))) (case vap_subs_indexes (subs (consumer s)) of None \<Rightarrow> [] | Some xs \<Rightarrow> xs)
        = subs_indexes (consumer s)"
      by (simp add: subs_indexes_def split: option.split)
    have "run_state (collect_vaps D (i # r)) s = run_state (collect_vaps D r) s1"
      using True assms(1) by (simp add: s1_def case_prod_beta g_def [symmetric] del: One_nat_def)
    moreover have "subs_indexes (consumer s1) = subs_indexes (consumer s) @ [iface_index i]"
      using Cons.prems e by (simp add: s1_def g_def) (simp add: subs_indexes_def)
    moreover have "vap_subs_count (subs (consumer s1)) = Suc (vap_subs_count (subs (consumer s)))"
      by (simp add: s1_def g_def)
    ultimately show ?thesis
      using Cons.IH [of s1] Cons.prems True by (simp add: private_indexes_def)
  next
    case False
    then show ?thesis using Cons by (simp add: private_indexes_def)
  qed
qed (simp add: private_indexes_def)

lemma collect_vaps_fails:
  assumes "log_law cl fr D" "\<not> fst (run_state (collect_vaps D ifs) s)"
  shows "fr (dworld (snd (run_state (collect_vaps D ifs) s))) =
    ptr_name ''vap_subs_indexes'' (vap_subs_indexes (subs (consumer (snd (run_state (collect_vaps D ifs) s))))) @ fr (dworld s)"
  using assms(2)
proof (induction ifs arbitrary: s)
  case (Cons i r)
  have m: "fr (snd (d_malloc D x w)) = fr w" for x w using assms(1) by (simp add: log_law_def)
  have f: "fr (snd (d_free D x w)) = x # fr w" for x w using assms(1) by (simp add: log_law_def)
  show ?case
    using Cons.prems
    by (auto simp: case_prod_beta free_ptr_run Cons.IH m f ptr_name_def split: option.split if_splits)
qed simp

text \<open>A subscription that runs out of memory ends in a double free: when the array of access points
  cannot grow, it is freed and its pointer kept, so the shutdown that follows frees it again.\<close>

lemma failed_subscription_frees_twice:
  assumes "log_law cl fr D" "\<not> fst (run_state (collect_vaps D ifs) s)"
    and "vap_subs_indexes (subs (consumer (snd (run_state (collect_vaps D ifs) s)))) \<noteq> None"
  shows "count_list (fr (dworld (snd (run_state (cujoagent_consumer_deinit D) (snd (run_state (collect_vaps D ifs) s))))))
      ''vap_subs_indexes'' = count_list (fr (dworld s)) ''vap_subs_indexes'' + 2"
proof -
  define s1 where "s1 = snd (run_state (collect_vaps D ifs) s)"
  have f1: "fr (dworld s1) = ''vap_subs_indexes'' # fr (dworld s)"
    using collect_vaps_fails [OF assms(1,2)] assms(3) by (auto simp: s1_def ptr_name_def)
  have n: "count_list (names_of name p) ''vap_subs_indexes'' = 0" if "name \<noteq> ''vap_subs_indexes''" for name p
    using that by (auto simp: names_of_def count_list_0_iff split: option.split)
  have q: "count_list (ptr_name name p) ''vap_subs_indexes'' = 0" if "name \<noteq> ''vap_subs_indexes''"
    for name and p :: "'x option"
    using that by (simp add: ptr_name_def split: option.split)
  have "count_list (freed_late (consumer s1)) ''vap_subs_indexes'' = 1"
    using assms(3) by (auto simp: freed_late_def n q s1_def [symmetric]) (simp add: ptr_name_def)
  moreover have "fr (after_frees D c w) = rev (freed_late c) @ rev (ptr_name ''queue'' (queue c)) @ fr w" for c w
    using assms(1) by (simp add: after_frees_def free_list_fr [OF assms(1)] Let_def log_law_def)
  ultimately have "count_list (fr (dworld (snd (run_state (cujoagent_consumer_deinit D) s1)))) ''vap_subs_indexes'' =
      count_list (fr (dworld s1)) ''vap_subs_indexes'' + 1"
    using close_all_run [OF shutdown_order_independent, of D "s1\<lparr>dworld := after_frees D (consumer s1) (dworld s1)\<rparr>"]
    by (simp add: consumer_deinit_run close_list_fr [OF assms(1)] q)
  then show ?thesis by (simp add: f1 s1_def [symmetric])
qed

section \<open>The demonstration world\<close>

lemma demo_log_law: "log_law w_closed w_freed demo_denv"
  by (simp add: log_law_def demo_denv_def)

theorem shutdown_closes_each_descriptor_once_witness:
  "mset (w_closed (dworld (snd (run_state (cujoagent_consumer_deinit demo_denv) demo_dcl)))) = mset [3, 4, 5, 6, 7, 8, 9, 10, 11, 12, 13]"
  using shutdown_closes_each_descriptor_once [OF demo_log_law, of demo_dcl, THEN conjunct1]
  by (simp add: fd_fields_def demo_fds_def dcl_world0_def)

theorem failed_init_closes_descriptor_zero_witness:
  "w_closed (dworld (snd (run_state (cujoagent_consumer_deinit demo_denv) (snd (run_state (cujoagent_consumer_init demo_denv)
     (demo_dcl\<lparr>dworld := dcl_world0\<lparr>w_fail := [''queue'']\<rparr>\<rparr>)))))) = replicate 11 0"
  using failed_init_closes_descriptor_zero [OF demo_log_law, of "demo_dcl\<lparr>dworld := dcl_world0\<lparr>w_fail := [''queue'']\<rparr>\<rparr>"]
  by (simp add: demo_denv_def dcl_world0_def)

text \<open>The first allocation succeeds, the second does not.\<close>

definition scarce_denv :: "(demo_map, dcl_world) denv" where
  "scarce_denv = demo_denv\<lparr>d_malloc := (\<lambda>x w. (w_pos w < 1, w\<lparr>w_pos := w_pos w + 1\<rparr>))\<rparr>"

theorem failed_subscription_frees_twice_witness:
  "count_list (w_freed (dworld (snd (run_state (cujoagent_consumer_deinit scarce_denv)
     (snd (run_state (collect_vaps scarce_denv (interface_map demo_prop)) \<lparr>consumer = demo_zero, dworld = dcl_world0\<rparr>))))))
     ''vap_subs_indexes'' = 2"
proof -
  let ?s = "\<lparr>consumer = demo_zero, dworld = dcl_world0\<rparr>"
  have l: "log_law w_closed w_freed scarce_denv" by (simp add: log_law_def scarce_denv_def demo_denv_def)
  have "\<not> fst (run_state (collect_vaps scarce_denv (interface_map demo_prop)) ?s)"
    "vap_subs_indexes (subs (consumer (snd (run_state (collect_vaps scarce_denv (interface_map demo_prop)) ?s)))) \<noteq> None"
    by (simp_all add: demo_prop_def scarce_denv_def dcl_world0_def free_ptr_run)
  then show ?thesis
    using failed_subscription_frees_twice [OF l, of "interface_map demo_prop" ?s] by (simp add: dcl_world0_def)
qed

end
