(* ===== verification/Adv_Dcl_Readings.thy ===== *)
theory Adv_Dcl_Readings
  imports Adv_Dcl_Emit
begin

text \<open>
  What comes in from rbus: the names of the temperature subscriptions, a round of temperature
  readings, the memory read for a management frame, the access-control lists of a document, and the
  copies of the Wi-Fi data between the consumer and a decoded document.
\<close>

section \<open>Names of radios\<close>

lemma scan_d_nat_digits:
  assumes "\<not> isdigit c"
  shows "scan_d (nat_digits n @ c # r) = Some (of_nat n)"
proof -
  obtain d ds where d: "nat_digits n = d # ds"
    using nat_digits_not_Nil [of n] by (cases "nat_digits n") auto
  have all: "\<forall>x \<in> set (nat_digits n). isdigit x"
    using nat_digits_isdigit [of n] by (simp add: list_all_iff)
  then have "isdigit d" using d by simp
  then have "dropWhile isspace (nat_digits n @ c # r) = nat_digits n @ c # r" "d \<noteq> CHR ''-''" "d \<noteq> CHR ''+''"
    using d isdigit_not_space isdigit_not_sign by simp_all
  moreover have "takeWhile isdigit (nat_digits n @ c # r) = nat_digits n"
    using all assms by (simp add: takeWhile_append2)
  ultimately show ?thesis
    using d by (simp add: scan_d_def) (metis append_Cons dec_value_nat_digits)
qed

lemma unat_of_nat_small: "n < 2 ^ 32 \<Longrightarrow> unat (of_nat n :: uint) = n"
  by (simp add: unsigned_of_nat take_bit_nat_eq_self)

lemma word_eq_of_nat: "unat x = n \<Longrightarrow> x = (of_nat n :: uint)"
  by auto

text \<open>The name of a temperature subscription is read back: a reading published under the name the
  library subscribed for the radio with index k (counted from 1 in the name) is queued as a reading
  of radio k, for every radio index whose name the scan can hold.\<close>

lemma temperature_name_addresses_radio:
  assumes "k + 1 < 2 ^ 32"
  shows "run_state (cujoagent_radio_temperature_handler D True (temperature_name (k + 1)) (Some t)) s =
    run_state (cujoagent_push_to_consumer_queue D (MSG_TEMPERATURE \<lparr>radio_index = k, temperature = t\<rparr>)
      consumer_event_type_temperature consumer_event_radio_temperature \<bind> (\<lambda>_. return ())) s"
proof -
  have "\<not> isdigit (CHR ''.'')" by (simp add: isdigit_def)
  then have "radio_of_name (temperature_name (k + 1)) = Some (of_nat (k + 1))"
    by (simp add: radio_of_name_def temperature_name_def scan_d_nat_digits del: of_nat_add of_nat_Suc)
  moreover have "of_nat (k + 1) \<noteq> (0 :: uint)"
    using assms by (simp only: word_of_nat_eq_0_iff) (auto dest!: dvd_imp_le)
  moreover have "unat (of_nat (k + 1) - 1 :: uint) = k"
    using assms by (simp add: take_bit_nat_eq_self unsigned_of_nat)
  ultimately show ?thesis
    by (simp add: cujoagent_radio_temperature_handler_def del: of_nat_add of_nat_Suc)
qed

theorem temperature_name_addresses_radio_witness:
  "queue (consumer (snd (run_state (cujoagent_radio_temperature_handler demo_denv True (temperature_name 2) (Some 40)) demo_dcl))) =
     Some [\<lparr>event_type = consumer_event_type_temperature, event_subtype = consumer_event_radio_temperature,
       ev_msg = MSG_TEMPERATURE \<lparr>radio_index = 1, temperature = 40\<rparr>\<rparr>]"
proof -
  have "(1 :: nat) + 1 = 2" "(1 :: nat) + 1 < 2 ^ 32" by simp_all
  note r = temperature_name_addresses_radio [OF this(2), unfolded this(1), of demo_denv 40 demo_dcl]
  show ?thesis
    unfolding r by (simp add: cujoagent_push_to_consumer_queue_def) (simp add: demo_denv_def dcl_world0_def)
qed

section \<open>Rounds of readings\<close>

fun feed :: "('m, 'w) denv \<Rightarrow> ('m, 'w) dlib \<Rightarrow> radio_temperature_context_t list \<Rightarrow> ('m, 'w, unit) dcl" where
  "feed D L [] = return ()"
| "feed D L (t # ts) = do {
     _ \<leftarrow> cujoagent_process_temperature_event D L (MSG_TEMPERATURE t) consumer_event_radio_temperature;
     feed D L ts
   }"

definition stored :: "radio_temperature_context_t \<Rightarrow> 'm consumer \<Rightarrow> 'm consumer" where
  "stored t = tcollect_ctx_update (\<lambda>x. x\<lparr>temperature_data :=
     map_option (\<lambda>xs. xs[radio_index t := temperature t]) (temperature_data x), collected_count := collected_count x + 1\<rparr>)"

lemma readings_stored [simp]: "readings (stored t c) = (readings c)[radio_index t := temperature t]"
  by (simp add: readings_def stored_def split: option.split)

lemma count_stored [simp]: "collected_count (tcollect_ctx (stored t c)) = collected_count (tcollect_ctx c) + 1"
  by (simp add: stored_def)

lemma ready_stored [simp]: "comms_ready (stored t c) = comms_ready c"
  by (simp add: stored_def)

lemma temperature_event_run:
  "run_state (cujoagent_process_temperature_event D L (MSG_TEMPERATURE t) consumer_event_radio_temperature) s =
    (if length (readings (consumer s)) \<le> radio_index t then ((), s)
     else if collected_count (tcollect_ctx (consumer s)) + 1 = of_nat (length (readings (consumer s)))
     then run_state (send_temperatures D L) (s\<lparr>consumer := stored t (consumer s)\<rparr>)
     else ((), s\<lparr>consumer := stored t (consumer s)\<rparr>))"
  by (simp add: cujoagent_process_temperature_event_def store_reading_def stored_def [symmetric] case_prod_beta)

lemma feed_before_full:
  assumes "length (readings (consumer s)) = n" "n < 2 ^ 32" "\<forall>t \<in> set ts. radio_index t < n"
    and "unat (collected_count (tcollect_ctx (consumer s))) + length ts < n"
  shows "run_state (feed D L ts) s = ((), s\<lparr>consumer := fold stored ts (consumer s)\<rparr>)
    \<and> unat (collected_count (tcollect_ctx (fold stored ts (consumer s)))) =
        unat (collected_count (tcollect_ctx (consumer s))) + length ts
    \<and> length (readings (fold stored ts (consumer s))) = n"
  using assms(1,3,4)
proof (induction ts arbitrary: s)
  case (Cons t ts)
  let ?c = "collected_count (tcollect_ctx (consumer s))"
  let ?s = "s\<lparr>consumer := stored t (consumer s)\<rparr>"
  have u: "unat (?c + 1) = unat ?c + 1"
    using Cons.prems(3) assms(2) by (simp add: unat_plus_simple [THEN iffD1] word_le_nat_alt unat_word_ariths)
  have "?c + 1 \<noteq> of_nat n"
  proof
    assume "?c + 1 = of_nat n"
    then have "unat ?c + 1 = n" using u unat_of_nat_small [OF assms(2)] by simp
    then show False using Cons.prems(3) by simp
  qed
  then have "run_state (feed D L (t # ts)) s = run_state (feed D L ts) ?s"
    using Cons.prems by (simp add: case_prod_beta temperature_event_run)
  then show ?case
    using Cons.IH [of ?s] Cons.prems u by simp
qed simp

lemma fold_stored_reading:
  "distinct (map radio_index ts) \<Longrightarrow> \<forall>t \<in> set ts. radio_index t < length (readings c) \<Longrightarrow>
    (\<forall>t \<in> set ts. readings (fold stored ts c) ! radio_index t = temperature t)
    \<and> (\<forall>k. k \<notin> radio_index ` set ts \<longrightarrow> readings (fold stored ts c) ! k = readings c ! k)"
proof (induction ts arbitrary: c)
  case (Cons t ts)
  have "\<forall>u \<in> set ts. radio_index u < length (readings (stored t c))" using Cons.prems(2) by simp
  then show ?case
    using Cons.IH [of "stored t c"] Cons.prems by (auto simp: nth_list_update)
qed simp

lemma stored_fields [simp]:
  "fds (stored t c) = fds c" "tlv_notify_lut (stored t c) = tlv_notify_lut c"
  by (simp_all add: stored_def)

lemma fold_stored_fields [simp]:
  "fds (fold stored ts c) = fds c" "tlv_notify_lut (fold stored ts c) = tlv_notify_lut c"
  "comms_ready (fold stored ts c) = comms_ready c"
  by (induction ts arbitrary: c) simp_all

lemma feed_full:
  assumes "length (readings (consumer s)) = n" "n < 2 ^ 32" "collected_count (tcollect_ctx (consumer s)) = 0"
    and "length ts = n" "ts \<noteq> []" "\<forall>t \<in> set ts. radio_index t < n"
  shows "run_state (feed D L ts) s = run_state (send_temperatures D L) (s\<lparr>consumer := fold stored ts (consumer s)\<rparr>)"
    "length (readings (fold stored ts (consumer s))) = n"
    "dworld (snd (run_state (feed D L (butlast ts)) s)) = dworld s"
proof -
  define us where "us = butlast ts"
  define t where "t = last ts"
  have ts: "ts = us @ [t]" using assms(5) by (simp add: us_def t_def)
  have feed_append: "run_state (feed D L (xs @ ys)) s = run_state (feed D L ys) (snd (run_state (feed D L xs) s))" for xs ys s
    by (induction xs arbitrary: s) (simp_all add: case_prod_beta)
  let ?c = "fold stored us (consumer s)"
  have l: "length us + 1 = n" using assms(4) ts by simp
  have b: "run_state (feed D L us) s = ((), s\<lparr>consumer := ?c\<rparr>)" "unat (collected_count (tcollect_ctx ?c)) = length us"
    "length (readings ?c) = n"
    using feed_before_full [OF assms(1,2), of us D L] assms(3,6) l ts by simp_all
  have "collected_count (tcollect_ctx ?c) = of_nat (length us)" using word_eq_of_nat [OF b(2)] .
  then have "collected_count (tcollect_ctx ?c) + 1 = of_nat n" using l by (metis of_nat_1 of_nat_add)
  then have "run_state (feed D L ts) s = run_state (send_temperatures D L) (s\<lparr>consumer := stored t ?c\<rparr>)"
    using assms(6) b(1,3) by (simp add: ts feed_append temperature_event_run case_prod_beta)
  moreover have "stored t ?c = fold stored ts (consumer s)" by (simp add: ts)
  ultimately show "run_state (feed D L ts) s = run_state (send_temperatures D L) (s\<lparr>consumer := fold stored ts (consumer s)\<rparr>)"
    by simp
  show "length (readings (fold stored ts (consumer s))) = n" using b(3) by (simp add: ts)
  show "dworld (snd (run_state (feed D L (butlast ts)) s)) = dworld s"
    using b(1) by (simp add: us_def)
qed

text \<open>Reading a clock sends nothing and leaves the event descriptors alone.\<close>

definition clock_law :: "('m, 'w) dlib \<Rightarrow> ('w \<Rightarrow> int \<Rightarrow> 64 word) \<Rightarrow> ('w \<Rightarrow> (cujo_fpc_tlv \<times> addr) list) \<Rightarrow> bool" where
  "clock_law L cnt sent \<longleftrightarrow> (\<forall>w. cnt (snd (d_clock L w)) = cnt w \<and> sent (snd (d_clock L w)) = sent w
     \<and> cnt (snd (d_gettimeofday L w)) = cnt w \<and> sent (snd (d_gettimeofday L w)) = sent w)"

text \<open>Nothing pending between the consumer and the socket thread.\<close>

definition idle :: "('w \<Rightarrow> int \<Rightarrow> 64 word) \<Rightarrow> ('m, 'w) dclst \<Rightarrow> bool" where
  "idle cnt s \<longleftrightarrow> tlv_notify_lut (consumer s) = tlv_notify_lut_filler
     \<and> comms_notification (fds (consumer s)) \<noteq> comms_notification_ack (fds (consumer s))
     \<and> cnt (dworld s) (comms_notification (fds (consumer s))) = 0
     \<and> cnt (dworld s) (comms_notification_ack (fds (consumer s))) = 0"

lemma emit_idle:
  fixes n :: nat and dat :: fpc_data and to :: addr
  assumes "delivery_law D cnt sent freed up" "idle cnt s" "lut_find tag tlv_notify_lut_filler = (ready, ack)" "ready \<noteq> NOTIFY_NONE"
    and "fst (d_malloc D ''tlv'' (dworld s))"
  defines "t \<equiv> \<lparr>tlv_tag = tag, tlv_len = of_nat n, tlv_data = dat\<rparr>"
    and "run \<equiv> run_state (cujoagent_emit_event_tlv (with_socket_thread D cnt to) tag (Some dat) n) s"
  shows "fst run = (if n < 65536 \<and> up t to then 0 else - 1)"
    "sent (dworld (snd run)) = sent (dworld s) @ (if n < 65536 \<and> up t to then [(t, to)] else [])"
    "tcollect_ctx (consumer (snd run)) = tcollect_ctx (consumer s)"
proof -
  have i: "tlv_notify_lut (consumer s) = tlv_notify_lut_filler" "cnt (dworld s) (comms_notification (fds (consumer s))) = 0"
    "comms_notification (fds (consumer s)) \<noteq> comms_notification_ack (fds (consumer s))"
    "cnt (dworld s) (comms_notification_ack (fds (consumer s))) = 0"
    using assms(2) by (simp_all add: idle_def)
  note E = emit_run [OF assms(1) i(1) assms(3,4) i(2-4) prod.collapse [symmetric], where dat = dat and n = n and to = to, folded run_def t_def]
  show "fst run = (if n < 65536 \<and> up t to then 0 else - 1)" using E(1) assms(5) by simp
  show "sent (dworld (snd run)) = sent (dworld s) @ (if n < 65536 \<and> up t to then [(t, to)] else [])"
    using E(2) assms(5) by simp
  show "tcollect_ctx (consumer (snd run)) = tcollect_ctx (consumer s)"
    by (simp add: E(4))
qed

lemma temperature_row:
  "lut_find CUJO_FPC_TEMPERATURE_DATA_EVENT tlv_notify_lut_filler = (NOTIFY_TEMPERATURE_READY, NOTIFY_TEMPERATURE_SENT)"
  by (simp add: tlv_notify_lut_filler_def)

lemma batch_row:
  "lut_find CUJO_FPC_WIFI_DATA_BATCH_EVENT tlv_notify_lut_filler = (NOTIFY_BATCH_DATA_READY, NOTIFY_BATCH_DATA_SENT)"
  by (simp add: tlv_notify_lut_filler_def)

lemma send_temperatures_sends:
  assumes "delivery_law D cnt sent freed up" "idle cnt s" "clock_law L cnt sent" "\<And>x w. fst (d_malloc D x w)"
    and "comms_ready (consumer s)" "\<And>t. up t to" "TEMPERATURE_EVENT_SIZE L + 4 * length (readings (consumer s)) < 65536"
  shows "\<exists>e. sent (dworld (snd (run_state (send_temperatures (with_socket_thread D cnt to) L) s))) = sent (dworld s) @
       [(\<lparr>tlv_tag = CUJO_FPC_TEMPERATURE_DATA_EVENT, tlv_len = of_nat (TEMPERATURE_EVENT_SIZE L + 4 * length (readings (consumer s))),
          tlv_data = FPC_TEMPERATURE e\<rparr>, to)]
    \<and> temperatures_count e = of_nat (length (readings (consumer s))) \<and> temperatures e = readings (consumer s)
    \<and> readings (consumer (snd (run_state (send_temperatures (with_socket_thread D cnt to) L) s))) =
        replicate (length (readings (consumer s))) 0
    \<and> collected_count (tcollect_ctx (consumer (snd (run_state (send_temperatures (with_socket_thread D cnt to) L) s)))) = 0"
proof -
  let ?E = "with_socket_thread D cnt to"
  have se: "send_law D cnt sent freed up" using assms(1) by (simp add: delivery_law_def)
  define w1 where "w1 = snd (d_malloc D ''temperature_data_event'' (dworld s))"
  define b where "b = run_state (cujoagent_timestamp L) (s\<lparr>dworld := w1\<rparr>)"
  have b: "consumer (snd b) = consumer s" "cnt (dworld (snd b)) = cnt (dworld s)" "sent (dworld (snd b)) = sent (dworld s)"
    using assms(3) se by (simp_all add: b_def cujoagent_timestamp_def clock_law_def send_law_def w1_def case_prod_beta split: option.split)
  define e where "e = \<lparr>te_timestamp_ms = fst b, temperatures_count = of_nat (length (readings (consumer s))), temperatures = readings (consumer s)\<rparr>"
  let ?n = "TEMPERATURE_EVENT_SIZE L + 4 * length (readings (consumer s))"
  define r where "r = run_state (cujoagent_emit_event_tlv ?E CUJO_FPC_TEMPERATURE_DATA_EVENT (Some (FPC_TEMPERATURE e)) ?n) (snd b)"
  have "idle cnt (snd b)" using assms(2) b by (simp add: idle_def)
  note E = emit_idle [OF assms(1) this temperature_row _ assms(4), where dat = "FPC_TEMPERATURE e" and n = ?n and to = to, folded r_def]
  have run: "run_state (send_temperatures ?E L) s = run_state zero_temperatures (snd r)"
    using assms(4,5) b(1)
    by (simp add: send_temperatures_def cujoagent_new_temperature_event_def case_prod_beta w1_def [symmetric]
        b_def [symmetric] e_def [symmetric] r_def [symmetric])
  have t: "tcollect_ctx (consumer (snd r)) = tcollect_ctx (consumer s)" using E(3) b(1) by simp
  have z: "readings (consumer (snd (run_state zero_temperatures q))) = replicate (length (readings (consumer q))) 0"
    "collected_count (tcollect_ctx (consumer (snd (run_state zero_temperatures q)))) = 0"
    "dworld (snd (run_state zero_temperatures q)) = dworld q" for q :: "('a, 'b) dclst"
    by (simp_all add: zero_temperatures_def readings_def map_replicate_const split: option.split)
  have "readings (consumer (snd r)) = readings (consumer s)" using t by (simp add: readings_def)
  then show ?thesis
    using E(2) assms(6,7) b(3) by (intro exI [of _ e]) (simp add: run z e_def)
qed

text \<open>C23: A round of temperatures sends the readings it received: with the agent there, memory at hand, nothing
  pending, a socket that takes the message, and few enough radios for its length to fit, after one reading of every
  radio, in any order, from an empty round, nothing has been sent or allocated before the last of them; with the
  last one exactly one message is sent to the agent, whose temperature event counts the radios and
  holds, for each radio, the temperature of its reading; and the next round starts empty.\<close>

theorem temperature_round_sends_readings:
  assumes "length (readings (consumer s)) = n" "n < 2 ^ 32" "collected_count (tcollect_ctx (consumer s)) = 0"
    and "distinct (map radio_index ts)" "length ts = n" "ts \<noteq> []" "\<forall>t \<in> set ts. radio_index t < n"
    and "delivery_law D cnt sent freed up" "idle cnt s" "clock_law L cnt sent" "\<And>x w. fst (d_malloc D x w)"
    and "comms_ready (consumer s)" "\<And>t. up t to" "TEMPERATURE_EVENT_SIZE L + 4 * n < 65536"
  defines "run \<equiv> \<lambda>xs. snd (run_state (feed (with_socket_thread D cnt to) L xs) s)"
  shows "dworld (run (butlast ts)) = dworld s
    \<and> (\<exists>e. sent (dworld (run ts)) = sent (dworld s) @
         [(\<lparr>tlv_tag = CUJO_FPC_TEMPERATURE_DATA_EVENT, tlv_len = of_nat (TEMPERATURE_EVENT_SIZE L + 4 * n),
            tlv_data = FPC_TEMPERATURE e\<rparr>, to)]
       \<and> temperatures_count e = of_nat n \<and> length (temperatures e) = n
       \<and> (\<forall>t \<in> set ts. temperatures e ! radio_index t = temperature t))
    \<and> readings (consumer (run ts)) = replicate n 0 \<and> collected_count (tcollect_ctx (consumer (run ts))) = 0"
proof -
  note F = feed_full [OF assms(1-3,5-7)]
  let ?s = "s\<lparr>consumer := fold stored ts (consumer s)\<rparr>"
  have i: "idle cnt ?s" "comms_ready (consumer ?s)" "TEMPERATURE_EVENT_SIZE L + 4 * length (readings (consumer ?s)) < 65536"
    using assms(9,12,14) F(2) by (simp_all add: idle_def)
  have r: "\<forall>t \<in> set ts. readings (consumer ?s) ! radio_index t = temperature t"
    using fold_stored_reading [OF assms(4), of "consumer s"] assms(1,7) by simp
  show ?thesis
    using send_temperatures_sends [OF assms(8) i(1) assms(10,11) i(2) assms(13) i(3)] F r
    by (auto simp: run_def)
qed

lemma demo_idle: "idle w_cnt demo_dcl"
  by (simp add: idle_def dcl_world0_def)

lemma demo_clock: "clock_law demo_dlib w_cnt w_sent"
  by (simp add: clock_law_def demo_dlib_def)

theorem temperature_round_sends_readings_witness:
  "let s = snd (run_state (feed (with_socket_thread demo_denv_ok w_cnt ''agent'') demo_dlib
     [\<lparr>radio_index = 1, temperature = 50\<rparr>, \<lparr>radio_index = 0, temperature = 40\<rparr>]) demo_dcl)
   in (\<exists>e. map (tlv_data \<circ> fst) (w_sent (dworld s)) = [FPC_TEMPERATURE e] \<and> temperatures e = [40, 50]) \<and> readings (consumer s) = [0, 0]"
proof -
  let ?ts = "[\<lparr>radio_index = 1, temperature = 50\<rparr>, \<lparr>radio_index = 0, temperature = 40 :: uint\<rparr>]"
  have d: "readings demo_consumer = [0, 0]" "collected_count (tcollect_ctx demo_consumer) = 0" "TEMPERATURE_EVENT_SIZE demo_dlib = 12"
    by (simp_all add: readings_def demo_consumer_def demo_dlib_def)
  have two: "length xs = 2 \<Longrightarrow> xs ! 0 = a \<Longrightarrow> xs ! 1 = b \<Longrightarrow> xs = [a, b]" for xs :: "uint list" and a b
    by (auto simp: numeral_2_eq_2 length_Suc_conv)
  have r: "length (readings (consumer demo_dcl)) = 2" "collected_count (tcollect_ctx (consumer demo_dcl)) = 0"
    using d by simp_all
  obtain e where "w_sent (dworld (snd (run_state (feed (with_socket_thread demo_denv_ok w_cnt ''agent'') demo_dlib ?ts) demo_dcl))) =
      w_sent (dworld demo_dcl) @ [(\<lparr>tlv_tag = CUJO_FPC_TEMPERATURE_DATA_EVENT, tlv_len = of_nat (TEMPERATURE_EVENT_SIZE demo_dlib + 4 * 2),
        tlv_data = FPC_TEMPERATURE e\<rparr>, ''agent'')]"
    "length (temperatures e) = 2" "\<forall>t \<in> set ?ts. temperatures e ! radio_index t = temperature t"
    "readings (consumer (snd (run_state (feed (with_socket_thread demo_denv_ok w_cnt ''agent'') demo_dlib ?ts) demo_dcl))) = replicate 2 0"
    using temperature_round_sends_readings [OF r(1) _ r(2) _ _ _ _ demo_delivery_law demo_idle demo_clock demo_malloc,
        where ts = ?ts and to = "''agent''"] d by auto
  moreover from this have "temperatures e = [40, 50]" by (intro two) simp_all
  ultimately show ?thesis by (simp add: dcl_world0_def numeral_2_eq_2)
qed

text \<open>A round that cannot be sent for want of memory is the last for a long time: the count is reset
  only after the event was built, so it passes the number of radios and never equals it again;
  whatever readings arrive, nothing is sent or even allocated until the count has wrapped around
  (or a collection ends).\<close>

lemma temperatures_stop_after_failed_allocation:
  assumes "length (readings (consumer s)) = n" "radio_index t < n" "n + length ts < 2 ^ 32"
    and "unat (collected_count (tcollect_ctx (consumer s))) + 1 = n" "comms_ready (consumer s)"
    and "\<not> fst (d_malloc D ''temperature_data_event'' (dworld s))"
  shows "dworld (snd (run_state (feed D L (t # ts)) s)) = snd (d_malloc D ''temperature_data_event'' (dworld s))"
proof -
  have stuck: "dworld (snd (run_state (feed D L ts) s)) = dworld s"
    if "length (readings (consumer s)) = n" "n \<le> unat (collected_count (tcollect_ctx (consumer s)))"
      "unat (collected_count (tcollect_ctx (consumer s))) + length ts < 2 ^ 32" for s ts
    using that
  proof (induction ts arbitrary: s)
    case (Cons u us)
    let ?c = "collected_count (tcollect_ctx (consumer s))"
    have e: "unat (?c + 1) = unat ?c + 1"
      using Cons.prems(3) by (simp add: unat_word_ariths)
    have "?c + 1 \<noteq> of_nat n"
      using e Cons.prems unat_of_nat_small [of n] by auto
    then have "dworld (snd (run_state (cujoagent_process_temperature_event D L (MSG_TEMPERATURE u) consumer_event_radio_temperature) s)) = dworld s"
      using Cons.prems by (simp add: temperature_event_run)
    show ?case
      using Cons \<open>?c + 1 \<noteq> of_nat n\<close> e by (simp add: case_prod_beta temperature_event_run)
  qed simp
  let ?c = "collected_count (tcollect_ctx (consumer s))"
  let ?s = "s\<lparr>consumer := stored t (consumer s), dworld := snd (d_malloc D ''temperature_data_event'' (dworld s))\<rparr>"
  have e: "?c + 1 = of_nat n" using word_eq_of_nat [OF refl, of ?c] assms(4) by (metis of_nat_1 of_nat_add)
  have "unat (?c + 1) = n" using e assms(3) by (simp add: unsigned_of_nat take_bit_nat_eq_self)
  moreover have "run_state (feed D L (t # ts)) s = run_state (feed D L ts) ?s"
    using assms e by (simp add: temperature_event_run case_prod_beta send_temperatures_def)
  ultimately show ?thesis
    using stuck [of ?s ts] assms(1,3) by simp
qed

theorem temperatures_stop_after_failed_allocation_witness:
  "w_sent (dworld (snd (run_state (feed demo_denv demo_dlib (replicate 10 \<lparr>radio_index = 0, temperature = 40\<rparr>))
     \<lparr>consumer = stored \<lparr>radio_index = 1, temperature = 50\<rparr> demo_consumer,
       dworld = dcl_world0\<lparr>w_fail := [''temperature_data_event'']\<rparr>\<rparr>))) = []"
proof -
  let ?s = "\<lparr>consumer = stored \<lparr>radio_index = 1, temperature = 50\<rparr> demo_consumer,
     dworld = dcl_world0\<lparr>w_fail := [''temperature_data_event'']\<rparr>\<rparr>"
  let ?t = "\<lparr>radio_index = 0, temperature = 40 :: uint\<rparr>"
  have "readings demo_consumer = [0, 0]" "collected_count (tcollect_ctx demo_consumer) = 0"
    by (simp_all add: readings_def demo_consumer_def)
  then have "dworld (snd (run_state (feed demo_denv demo_dlib (?t # replicate 9 ?t)) ?s)) =
      snd (d_malloc demo_denv ''temperature_data_event'' (dworld ?s))"
    by (intro temperatures_stop_after_failed_allocation [of _ 2]) (simp_all add: demo_denv_def)
  moreover have "replicate 10 ?t = ?t # replicate 9 ?t" by (simp add: numeral_eq_Suc)
  moreover have "w_sent (snd (d_malloc demo_denv ''temperature_data_event'' (dworld ?s))) = []"
    by (simp add: demo_denv_def dcl_world0_def)
  ultimately show ?thesis by simp
qed

section \<open>Management frames\<close>

text \<open>A management frame is trusted in its length: with memory at hand and the agent there, the copy
  into the capture reads behind the bytes of the message exactly when the length in the frame's
  own header is more than the bytes that came.\<close>

lemma mgmt_frame_overread:
  assumes "comms_ready (consumer s)" "\<And>x w. fst (d_malloc D x w)"
  shows "fst (run_state (cujoagent_process_mgmt_frame_event D L fr st) s) = READ_BEHIND_MESSAGE \<longleftrightarrow> length (frame_data fr) < frame_len fr"
  using assms by (auto simp: cujoagent_process_mgmt_frame_event_def cujoagent_new_wifi_pcap_def Let_def case_prod_beta
      split: option.split)

text \<open>C37: What is read for a management frame: with the agent there, memory at hand and nothing pending, the copy into
  the capture reads behind the bytes of the message exactly when the length in the frame's own header is
  more than the bytes that came. Otherwise the event is traced after it was sent, so not when the access point of the
  frame is unknown, when the length of the event does not fit the 16 bits of the protocol, or when the socket does
  not take it; where it is traced, the trace reads behind the bytes of the capture exactly when the
  frame has fewer than 22 bytes, the three addresses and the four bytes before them, or, where debug lines are
  not formatted, fewer than 4; every other frame is handled within its bytes.\<close>

theorem frame_reads_exact:
  assumes "delivery_law D cnt sent freed up" "idle cnt s" "clock_law L cnt sent" "\<And>x w. fst (d_malloc D x w)"
    and "comms_ready (consumer s)" "\<And>t. up t to = taken"
    and "st \<in> {consumer_event_probe_req, consumer_event_auth, consumer_event_assoc_req, consumer_event_reassoc_req}"
  shows "fst (run_state (cujoagent_process_mgmt_frame_event (with_socket_thread D cnt to) L fr st) s) =
    (if length (frame_data fr) < frame_len fr then READ_BEHIND_MESSAGE
     else if cujoagent_vap_index_to_vap_info L (consumer s) (frame_ap_index fr) = None
        \<or> 65536 \<le> BATCH_EVENT_SIZE L + (PCAP_SIZE L + (frame_len fr + 8)) \<or> \<not> taken then FRAME_DONE
     else if frame_len fr < (if TRACE_DEBUG L then 22 else 4) then READ_BEHIND_CAPTURE else FRAME_DONE)"
proof (cases "length (frame_data fr) < frame_len fr")
  case True
  then show ?thesis
    using mgmt_frame_overread [of s "with_socket_thread D cnt to" L fr st] assms(4,5) by simp
next
  case False
  define w1 where "w1 = snd (d_malloc D ''data_batch_event'' (snd (d_malloc D ''pcap'' (dworld s))))"
  define tv where "tv = fst (d_gettimeofday L w1)"
  define p where "p = \<lparr>pcap_ts = tv, pcap_caplen = of_nat (frame_len fr + EMPTY_RT_LEN), pcap_len = of_nat (frame_len fr + EMPTY_RT_LEN),
    has_radiotap_header = True, pcap_data = [0, 0, of_nat EMPTY_RT_LEN, 0, 0, 0, 0, 0] @ take (frame_len fr) (frame_data fr)\<rparr>"
  have p: "cujoagent_new_wifi_pcap tv (frame_len fr + EMPTY_RT_LEN) fr = Some p"
    using False by (simp add: cujoagent_new_wifi_pcap_def p_def)
  have h: "trace_radiotap 0 0 p = Some ([TRACE_RADIOTAP 0 0 8], 8)"
    by (simp add: trace_radiotap_def read_le16_def p_def)
  have f: "trace_frame (TRACE_DEBUG L) 0 8 (pcap_data p) = None \<longleftrightarrow> frame_len fr < (if TRACE_DEBUG L then 22 else 4)"
    using False by (subst trace_frame_None) (auto simp: p_def)
  have b: "trace_batch (TRACE_DEBUG L) e = None \<longleftrightarrow> frame_len fr < (if TRACE_DEBUG L then 22 else 4)"
    if "wifi_captures_count e = 1" "wifi_captures e = Some p" for e
    unfolding f [symmetric] by (simp add: trace_batch_def that trace_capture_def h split: option.split)
  have e: "cujoagent_print_events L None None (Some e) None None = None \<longleftrightarrow> frame_len fr < (if TRACE_DEBUG L then 22 else 4)"
    if "wifi_captures_count e = 1" "wifi_captures e = Some p" for e
    unfolding b [OF that, symmetric] by (cases "trace_batch (TRACE_DEBUG L) e") (simp_all add: cujoagent_print_events_def)
  have np: "(case cujoagent_print_events L None None (Some e) None None of None \<Rightarrow> READ_BEHIND_CAPTURE | Some _ \<Rightarrow> FRAME_DONE)
      = (if frame_len fr < (if TRACE_DEBUG L then 22 else 4) then READ_BEHIND_CAPTURE else FRAME_DONE)"
    if "wifi_captures_count e = 1" "wifi_captures e = Some p" for e
    using e [OF that] by (auto split: option.split)
  let ?E = "with_socket_thread D cnt to" and ?n = "BATCH_EVENT_SIZE L + (PCAP_SIZE L + (frame_len fr + 8))"
  define b where "b = run_state (cujoagent_timestamp L) (s\<lparr>dworld := snd (d_gettimeofday L w1)\<rparr>)"
  have se: "send_law D cnt sent freed up" using assms(1) by (simp add: delivery_law_def)
  have b: "consumer (snd b) = consumer s" "cnt (dworld (snd b)) = cnt (dworld s)"
    using assms(3) se by (simp_all add: b_def cujoagent_timestamp_def clock_law_def send_law_def w1_def case_prod_beta split: option.split)
  have "idle cnt (snd b)" using assms(2) b by (simp add: idle_def)
  then have em: "fst (run_state (cujoagent_emit_event_tlv ?E CUJO_FPC_WIFI_DATA_BATCH_EVENT (Some dat) ?n) (snd b)) =
      (if ?n < 65536 \<and> taken then 0 else - 1)" for dat
    using emit_idle(1) [OF assms(1) _ batch_row _ assms(4), where s = "snd b" and dat = dat and n = ?n and to = to] assms(6) by simp
  show ?thesis
  proof (cases "cujoagent_vap_index_to_vap_info L (consumer s) (frame_ap_index fr)")
    case None
    then show ?thesis
      using assms(4,5,7) False by (simp add: cujoagent_process_mgmt_frame_event_def cujoagent_new_data_batch_event_def
          w1_def [symmetric] p [unfolded tv_def] case_prod_beta Let_def split del: if_split del: insert_iff singleton_iff)
  next
    case (Some vi)
    show ?thesis
    proof (cases "?n < 65536 \<and> taken")
      case True
      then show ?thesis
        using Some assms(4,5,7) False em by (simp add: cujoagent_process_mgmt_frame_event_def cujoagent_new_data_batch_event_def
            w1_def [symmetric] b_def [symmetric] p [unfolded tv_def] np case_prod_beta Let_def
            split del: if_split del: insert_iff singleton_iff)
    next
      case no: False
      then have "65536 \<le> ?n \<or> \<not> taken" by auto
      moreover have "fst (run_state (cujoagent_emit_event_tlv ?E CUJO_FPC_WIFI_DATA_BATCH_EVENT (Some dat) ?n) (snd b)) = - 1" for dat
        using em no by (simp only: if_False)
      ultimately show ?thesis
        using Some assms(4,5,7) False by (simp add: cujoagent_process_mgmt_frame_event_def cujoagent_new_data_batch_event_def
            w1_def [symmetric] b_def [symmetric] p [unfolded tv_def] case_prod_beta Let_def
            split del: if_split del: insert_iff singleton_iff)
    qed
  qed
qed

lemma mgmt_frame_overread_witness:
  "fst (run_state (cujoagent_process_mgmt_frame_event demo_denv_ok demo_dlib (frame_of demo_dbus [0xB0, 0] \<lparr>frame_len := 1000\<rparr>)
     consumer_event_auth) demo_dcl) = READ_BEHIND_MESSAGE"
  using mgmt_frame_overread [of demo_dcl demo_denv_ok demo_dlib "frame_of demo_dbus [0xB0, 0] \<lparr>frame_len := 1000\<rparr>" consumer_event_auth]
  by (simp add: demo_denv_ok_def) (simp add: demo_dbus_def)

lemma demo_vap_known: "cujoagent_vap_index_to_vap_info demo_dlib (consumer demo_dcl) 0 \<noteq> None"
proof -
  have i: "interfaces demo_dlib demo_prop = interface_map demo_prop"
    by (simp add: interfaces_def demo_prop_def demo_dlib_def)
  have "cujoagent_iface_property demo_dlib demo_prop 0 = Some (interface_map demo_prop ! 0)"
    "cujoagent_vap_array_index demo_dlib demo_prop (interface_map demo_prop ! 0) = 0"
    by (simp_all add: cujoagent_iface_property_def cujoagent_vap_array_index_def i) (simp_all add: demo_prop_def)
  moreover have "wifi_prop (wifi demo_consumer) = demo_prop" by (simp add: demo_consumer_def)
  ultimately show ?thesis by (simp add: cujoagent_vap_index_to_vap_info_def)
qed

theorem frame_reads_exact_witness:
  "fst (run_state (cujoagent_process_mgmt_frame_event (with_socket_thread demo_denv_ok w_cnt ''agent'') demo_dlib
     (frame_of demo_dbus [0xB0, 0]) consumer_event_auth) demo_dcl) = READ_BEHIND_CAPTURE"
proof -
  let ?fr = "frame_of demo_dbus [0xB0, 0]"
  have "frame_ap_index ?fr = 0" "frame_len ?fr = length (frame_data ?fr)" "frame_len ?fr = 2" "TRACE_DEBUG demo_dlib"
    "BATCH_EVENT_SIZE demo_dlib = 24" "PCAP_SIZE demo_dlib = 32"
    by (simp_all add: demo_dbus_def demo_dlib_def)
  then show ?thesis
    using frame_reads_exact [OF demo_delivery_law demo_idle demo_clock demo_malloc, where to = "''agent''" and taken = True and st = consumer_event_auth and fr = ?fr]
      demo_vap_known by simp
qed

section \<open>Access-control lists\<close>

text \<open>A well-formed list holds each entry under the text of its address: removing the text removes the
  entry and nothing else.\<close>

definition acl_law :: "('m, 'w) dlib \<Rightarrow> ('m \<Rightarrow> bool) \<Rightarrow> bool" where
  "acl_law L ok \<longleftrightarrow> (\<forall>m k. ok m \<longrightarrow> ok (acl_remove L m k) \<and>
     acl_entries L (acl_remove L m k) = filter (\<lambda>mac. mac_str mac \<noteq> k) (acl_entries L m))"

lemma drain_acl_empty:
  assumes "acl_law L ok" "ok m"
  shows "acl_entries L (drain_acl L m) = []"
proof -
  have "acl_entries L (foldl (\<lambda>m' mac. acl_remove L m' (mac_str mac)) m xs) =
      filter (\<lambda>mac. mac_str mac \<notin> mac_str ` set xs) (acl_entries L m)" for xs
    using assms(2)
  proof (induction xs arbitrary: m)
    case (Cons x xs)
    then have "ok (acl_remove L m (mac_str x))"
      "acl_entries L (acl_remove L m (mac_str x)) = filter (\<lambda>mac. mac_str mac \<noteq> mac_str x) (acl_entries L m)"
      using assms(1) by (simp_all add: acl_law_def)
    then show ?case
      using Cons.IH by (auto intro: filter_cong)
  qed simp
  then show ?thesis by (simp add: drain_acl_def filter_empty_conv)
qed

text \<open>The library keeps no access-control list: after the initial document, and after a document that
  was set, no access point the document describes has one in the consumer, and every list that was
  destroyed for this had been emptied, so that no entry is lost.\<close>

lemma no_acl_kept:
  assumes "acl_law L ok" "fst (d_malloc D ''webconfig_subdoc_data'' (dworld s))"
    and "st = consumer_event_webconfig_init \<or> st = consumer_event_webconfig_set_data"
    and "fst (webconfig_decode B doc (cujoagent_update_decoded_wifi_structs (consumer s) decoded_zero)
           (snd (d_malloc D ''webconfig_subdoc_data'' (dworld s)))) = (0, dec)"
    and "\<And>i j m. (i, j) \<in> set (acl_range dec) \<Longrightarrow> acl_map (rdk_vap_array (dec_radios dec i) j) = Some m \<Longrightarrow> ok m"
    and "(i, j) \<in> set (acl_range dec)" "i < dec_num_radios dec"
  shows "acl_map (rdk_vap_array (radios (wifi (consumer (snd (run_state (cujoagent_process_webconfig_event D L B doc st) s)))) i) j) = None
    \<and> (\<forall>m \<in> set (snd (cujoagent_free_decoded_macfilter_entries L dec)). acl_entries L m = [])"
proof
  show "\<forall>m \<in> set (snd (cujoagent_free_decoded_macfilter_entries L dec)). acl_entries L m = []"
    using assms(5) drain_acl_empty [OF assms(1)]
    by (force simp: cujoagent_free_decoded_macfilter_entries_def List.map_filter_def split: option.splits)
  have ij: "i < numRadios (dec_prop dec)" "j < num_vaps (dec_radios dec i)"
    using assms(6) by (auto simp: acl_range_def)
  have u: "acl_map (rdk_vap_array (radios (wifi (cujoagent_update_consumer_wifi_structs
      (fst (cujoagent_free_decoded_macfilter_entries L dec)) c)) i) j) = None" for c
    using ij assms(7) by (simp add: cujoagent_update_consumer_wifi_structs_def cujoagent_free_decoded_macfilter_entries_def Let_def)
  from assms(3) show "acl_map (rdk_vap_array (radios (wifi (consumer (snd (run_state
      (cujoagent_process_webconfig_event D L B doc st) s)))) i) j) = None"
  proof
    assume "st = consumer_event_webconfig_init"
    then show ?thesis
      using assms(2,4) u by (simp add: cujoagent_process_webconfig_event_def cujoagent_write_event_def case_prod_beta)
  next
    assume "st = consumer_event_webconfig_set_data"
    then show ?thesis
      using assms(2,4) u by (simp add: cujoagent_process_webconfig_event_def case_prod_beta)
  qed
qed

definition demo_acl_dev :: assoc_dev_data_t where
  "demo_acl_dev = \<lparr>cli_MACAddress = (2, 0, 0, 0, 0, 9), client_state = client_state_connected\<rparr>"

text \<open>A document with one radio, one access point and one entry in its list.\<close>

definition demo_acl_doc :: "demo_map decoded_data" where
  "demo_acl_doc = decoded_zero\<lparr>dec_num_radios := 1, dec_prop := demo_prop, dec_radios := (\<lambda>_. radio_zero\<lparr>num_vaps := 1,
     rdk_vap_array := (\<lambda>_. \<lparr>rdk_vap_index = 0, associated_devices_map = None, associated_devices_diff_map = None,
       acl_map = Some [(mac_str (cli_MACAddress demo_acl_dev), demo_acl_dev)]\<rparr>)\<rparr>)\<rparr>"

lemma no_acl_kept_witness:
  "acl_map (rdk_vap_array (radios (wifi (consumer (snd (run_state (cujoagent_process_webconfig_event demo_denv_ok demo_dlib
     (demo_dbus\<lparr>webconfig_decode := (\<lambda>s d w. ((0, demo_acl_doc), w))\<rparr>) ''doc'' consumer_event_webconfig_set_data) demo_dcl)))) 0) 0) = None"
proof -
  let ?ok = "\<lambda>m. \<forall>(k, d) \<in> set m. k = mac_str (cli_MACAddress d)"
  have keys: "map (cli_MACAddress \<circ> snd) (AList.delete k m) = filter (\<lambda>mac. mac_str mac \<noteq> k) (map (cli_MACAddress \<circ> snd) m)"
    if "?ok m" for k and m :: demo_map
    using that by (induction m) auto
  have "acl_law demo_dlib ?ok"
    unfolding acl_law_def by (intro allI impI conjI) (simp_all add: demo_dlib_def keys del: map_map, simp add: AList.delete_eq)
  moreover have "dec_prop demo_acl_doc = demo_prop" "dec_num_radios demo_acl_doc = 1" "num_vaps (dec_radios demo_acl_doc i) = 1"
    "acl_map (rdk_vap_array (dec_radios demo_acl_doc i) j) = Some [(mac_str (cli_MACAddress demo_acl_dev), demo_acl_dev)]" for i j
    by (simp_all add: demo_acl_doc_def)
  moreover from this(1,3) have "(0, 0) \<in> set (acl_range demo_acl_doc)"
    by (simp add: acl_range_def) (simp add: demo_prop_def)
  ultimately have "acl_map (rdk_vap_array (radios (wifi (consumer (snd (run_state (cujoagent_process_webconfig_event demo_denv_ok demo_dlib
     (demo_dbus\<lparr>webconfig_decode := (\<lambda>s d w. ((0, demo_acl_doc), w))\<rparr>) ''doc'' consumer_event_webconfig_set_data) demo_dcl)))) 0) 0) = None \<and>
     (\<forall>m \<in> set (snd (cujoagent_free_decoded_macfilter_entries demo_dlib demo_acl_doc)). acl_entries demo_dlib m = [])"
    by (intro no_acl_kept [where ok = ?ok]) (auto simp: demo_denv_ok_def)
  then show ?thesis by (rule conjunct1)
qed

section \<open>Copies of the Wi-Fi data\<close>

text \<open>The Wi-Fi data survives a document: what the library copies into the decoder's structure before
  decoding and back into the consumer afterwards is the consumer's data unchanged, when the document
  changes nothing.\<close>

lemma wifi_structs_roundtrip:
  "cujoagent_update_consumer_wifi_structs (cujoagent_update_decoded_wifi_structs c dec) c = c"
proof -
  have "(\<lambda>w. w\<lparr>config := config (wifi c), wifi_prop := wifi_prop (wifi c),
      radios := (\<lambda>i. if i < numRadios (wifi_prop (wifi c)) then radios (wifi c) i else radios w i)\<rparr>) (wifi c) = wifi c"
    by (cases "wifi c") (simp add: fun_eq_iff)
  then show ?thesis
    by (cases c) (simp add: cujoagent_update_consumer_wifi_structs_def cujoagent_update_decoded_wifi_structs_def Let_def
        cong: if_cong)
qed

end
