(* ===== verification/Adv_Logger.thy ===== *)
theory Adv_Logger
  imports Adv_Sysevent Adv_Reach
begin

text \<open>
  The logger thread and the threads that set the logging period, at the mutex \<open>logMutex\<close> and the condition
  \<open>logCond\<close>. The sections under the mutex are short and wait for nothing, except for the timed wait, which
  gives the mutex back; so a step is one section, or what the logger does between two of them.
\<close>

section \<open>The threads\<close>

text \<open>The hourly wait, and the wait for what is left of the period.\<close>

datatype logger_wait = W_hour | W_rest

datatype logger_pc =
    L_start | L_enter logger_wait | L_sleep logger_wait | L_answer logger_wait bool
  | L_reload | L_reload_rest | L_zero | L_reload_zero | L_run

text \<open>\<open>counted\<close> is the period the logger last read; \<open>launches\<close> counts how often it ran its scripts.\<close>

record lstate =
  ulPeriod :: ULONG           \<comment> \<open>\<open>ulLoggingPeriod\<close>\<close>
  log_ready :: bool          \<comment> \<open>\<open>logReady\<close>\<close>
  remaining_time :: ULONG
  lpc :: logger_pc
  counted :: ULONG
  launches :: nat

definition reload :: "logger_pc \<Rightarrow> lstate \<Rightarrow> lstate" where
  "reload p s = s\<lparr>remaining_time := ulPeriod s, counted := ulPeriod s, lpc := p\<rparr>"

inductive logger_step :: "lstate \<Rightarrow> lstate \<Rightarrow> bool" where
  l_start: "lpc s = L_start \<Longrightarrow> logger_step s (reload (L_enter W_hour) s)"
| l_ready: "lpc s = L_enter w \<Longrightarrow> log_ready s \<Longrightarrow> logger_step s (s\<lparr>log_ready := False, lpc := L_answer w False\<rparr>)"
| l_sleep: "lpc s = L_enter w \<Longrightarrow> \<not> log_ready s \<Longrightarrow> logger_step s (s\<lparr>lpc := L_sleep w\<rparr>)"
| l_woken: "lpc s = L_sleep w \<Longrightarrow> log_ready s \<Longrightarrow> logger_step s (s\<lparr>log_ready := False, lpc := L_answer w False\<rparr>)"
| l_timeout: "lpc s = L_sleep w \<Longrightarrow> logger_step s (s\<lparr>log_ready := False, lpc := L_answer w (\<not> log_ready s)\<rparr>)"
| l_hour: "lpc s = L_answer W_hour True \<Longrightarrow> rem = remaining_time s - 60 \<Longrightarrow>
     logger_step s (s\<lparr>remaining_time := rem, lpc := (if rem < 60 \<and> rem \<noteq> 0 then L_enter W_rest else L_zero)\<rparr>)"
| l_hour_new: "lpc s = L_answer W_hour False \<Longrightarrow> logger_step s (s\<lparr>lpc := L_reload\<rparr>)"
| l_rest: "lpc s = L_answer W_rest True \<Longrightarrow> logger_step s (s\<lparr>remaining_time := 0, lpc := L_zero\<rparr>)"
| l_rest_new: "lpc s = L_answer W_rest False \<Longrightarrow> logger_step s (s\<lparr>lpc := L_reload_rest\<rparr>)"
| l_reload: "lpc s = L_reload \<Longrightarrow> logger_step s (reload (L_enter W_hour) s)"
| l_reload_rest: "lpc s = L_reload_rest \<Longrightarrow> logger_step s (reload L_zero s)"
| l_zero: "lpc s = L_zero \<Longrightarrow> logger_step s (s\<lparr>lpc := (if remaining_time s = 0 then L_reload_zero else L_run)\<rparr>)"
| l_reload_zero: "lpc s = L_reload_zero \<Longrightarrow> logger_step s (reload L_run s)"
| l_run: "lpc s = L_run \<Longrightarrow> logger_step s (s\<lparr>launches := Suc (launches s), lpc := L_enter W_hour\<rparr>)"

text \<open>Another thread sets a period that was stored: the handler has checked its range.\<close>

inductive set_period_step :: "lstate \<Rightarrow> lstate \<Rightarrow> bool" where
  set_period: "60 \<le> v \<Longrightarrow> v \<le> 2880 \<Longrightarrow> set_period_step s (s\<lparr>ulPeriod := v, log_ready := True\<rparr>)"

definition log_step :: "lstate \<Rightarrow> lstate \<Rightarrow> bool" where
  "log_step s t \<longleftrightarrow> logger_step s t \<or> set_period_step s t"

text \<open>The logger starts when the stored period has been read, whatever it is; when none was stored it is 0.\<close>

definition log_init :: "lstate \<Rightarrow> bool" where
  "log_init s \<longleftrightarrow> lpc s = L_start \<and> \<not> log_ready s"

section \<open>The period the logger counts\<close>

fun reads_next :: "logger_pc \<Rightarrow> bool" where
  "reads_next L_start = True" | "reads_next (L_answer w b) = (\<not> b)" | "reads_next L_reload = True"
| "reads_next L_reload_rest = True" | "reads_next L_reload_zero = True" | "reads_next _ = False"

fun count_ok :: "logger_pc \<Rightarrow> ULONG \<Rightarrow> ULONG \<Rightarrow> bool" where
  "count_ok (L_enter W_hour) r p = (60 \<le> r \<and> r \<le> p)"
| "count_ok (L_sleep W_hour) r p = (60 \<le> r \<and> r \<le> p)"
| "count_ok (L_answer W_hour b) r p = (60 \<le> r \<and> r \<le> p)"
| "count_ok L_zero r p = (r = 0 \<or> 60 \<le> r \<and> r \<le> p)"
| "count_ok L_run r p = (60 \<le> r \<and> r \<le> p)"
| "count_ok (L_enter W_rest) r p = (0 < r \<and> r < 60)"
| "count_ok (L_sleep W_rest) r p = (0 < r \<and> r < 60)"
| "count_ok (L_answer W_rest b) r p = (0 < r \<and> r < 60)"
| "count_ok _ r p = True"

lemma count_ok_wait:
  "count_ok (L_sleep w) r p = count_ok (L_enter w) r p" "count_ok (L_answer w b) r p = count_ok (L_enter w) r p"
  by (cases w; simp)+

definition log_inv :: "lstate \<Rightarrow> bool" where
  "log_inv s \<longleftrightarrow> (log_ready s \<or> reads_next (lpc s) \<or> counted s = ulPeriod s)
     \<and> (60 \<le> counted s \<and> counted s \<le> 2880 \<longrightarrow> count_ok (lpc s) (remaining_time s) (counted s))"

lemma log_inv_step:
  assumes "log_inv s" "log_step s t"
  shows "log_inv t"
  using assms(2) unfolding log_step_def
proof
  assume "set_period_step s t"
  then show ?thesis using assms(1) by (cases rule: set_period_step.cases) (auto simp: log_inv_def)
next
  assume "logger_step s t"
  then show ?thesis using assms(1)
  proof (cases rule: logger_step.cases)
    case (l_hour rem)
    have "rem \<le> counted s" if "60 \<le> remaining_time s" "remaining_time s \<le> counted s"
      using that l_hour(3) by (simp add: word_le_nat_alt unat_sub)
    moreover have "rem \<noteq> 0 \<Longrightarrow> 0 < rem" by (simp add: word_gt_0)
    ultimately show ?thesis using assms(1) l_hour(1,2) by (auto simp: log_inv_def not_less)
  qed (auto simp: log_inv_def reload_def count_ok_wait)
qed

interpretation log: invariant_of log_init log_step "\<lambda>_. True" log_inv
proof
  show "log_inv s" if "log_init s" for s
    using that by (simp add: log_init_def log_inv_def)
qed (simp_all add: log_inv_step)

text \<open>C20: A new logging period is never missed, whatever period was stored at the start and however the
  logger and the threads that set periods interleave: when the logger sleeps and is not about to be woken, it
  counts the period that is set. Where the period it counts is in the range that the handler asks for, 60 to
  2880 minutes, between 60 minutes and the whole period are left in an hourly wait and less than 60 in a
  wait for the rest, and it runs its scripts with a countdown that has not wrapped. A period of 0, which the agent
  has when none was stored, is outside this range.\<close>

theorem new_period_never_missed:
  assumes "reachable log_init log_step s"
  shows "(lpc s = L_sleep w \<and> \<not> log_ready s \<longrightarrow> counted s = ulPeriod s)
    \<and> (60 \<le> counted s \<and> counted s \<le> 2880 \<longrightarrow>
        (lpc s = L_sleep W_hour \<longrightarrow> 60 \<le> remaining_time s \<and> remaining_time s \<le> counted s)
      \<and> (lpc s = L_sleep W_rest \<longrightarrow> 0 < remaining_time s \<and> remaining_time s < 60)
      \<and> (lpc s = L_run \<longrightarrow> 60 \<le> remaining_time s \<and> remaining_time s \<le> counted s))"
  using log.holds [OF assms] by (cases w) (auto simp: log_inv_def)

text \<open>An unset period wraps: after the first hour of a logger that has read 0 the countdown is \<open>2\<^sup>6\<^sup>4 - 60\<close>
  minutes, and it goes on to run its scripts with it.\<close>

lemma unset_period_wraps:
  assumes "lpc s = L_answer W_hour True" "remaining_time s = 0"
  shows "logger_step s (s\<lparr>remaining_time := - 60, lpc := L_zero\<rparr>)"
    "logger_step (s\<lparr>remaining_time := - 60, lpc := L_zero\<rparr>) (s\<lparr>remaining_time := - 60, lpc := L_run\<rparr>)"
  using l_hour [OF assms(1), of "- 60"] l_zero [of "s\<lparr>remaining_time := - 60, lpc := L_zero\<rparr>"] assms(2)
  by simp_all

section \<open>The round of the logger\<close>

text \<open>Where no period is set meanwhile, the steps of a round are the round of \<open>Adv_Sysevent\<close>.\<close>

lemma two_steps: "logger_step s t \<Longrightarrow> logger_step t u \<Longrightarrow> logger_step\<^sup>*\<^sup>* s u"
  by (rule rtranclp.rtrancl_into_rtrancl [OF r_into_rtranclp])

lemma timed_out:
  assumes "lpc s = L_enter w" "\<not> log_ready s"
  shows "logger_step\<^sup>*\<^sup>* s (s\<lparr>lpc := L_answer w True\<rparr>)"
proof (rule two_steps)
  show "logger_step s (s\<lparr>lpc := L_sleep w\<rparr>)" using assms by (rule l_sleep)
  show "logger_step (s\<lparr>lpc := L_sleep w\<rparr>) (s\<lparr>lpc := L_answer w True\<rparr>)"
    using l_timeout [of "s\<lparr>lpc := L_sleep w\<rparr>" w] assms(2) by (cases s) simp
qed

lemma from_zero:
  assumes "lpc s = L_zero"
  shows "\<exists>t. logger_step\<^sup>*\<^sup>* s t \<and> lpc t = L_enter W_hour \<and> launches t = Suc (launches s)
    \<and> remaining_time t = (if remaining_time s = 0 then ulPeriod s else remaining_time s)"
proof -
  let ?u = "if remaining_time s = 0 then reload L_run s else s\<lparr>lpc := L_run\<rparr>"
  have "logger_step\<^sup>*\<^sup>* s ?u"
  proof (cases "remaining_time s = 0")
    case True
    have "logger_step (s\<lparr>lpc := L_reload_zero\<rparr>) (reload L_run s)"
      using l_reload_zero [of "s\<lparr>lpc := L_reload_zero\<rparr>"] by (simp add: reload_def)
    with l_zero [OF assms] True show ?thesis by (simp add: two_steps)
  next
    case False
    with l_zero [OF assms] show ?thesis by (simp add: r_into_rtranclp)
  qed
  moreover have "logger_step ?u (?u\<lparr>launches := Suc (launches ?u), lpc := L_enter W_hour\<rparr>)"
    by (rule l_run) (simp add: reload_def)
  ultimately show ?thesis
    by (intro exI conjI) (erule rtranclp.rtrancl_into_rtrancl, assumption, auto simp: reload_def)
qed

lemma to_zero:
  assumes "logger_step\<^sup>*\<^sup>* s v" "lpc v = L_zero"
  shows "\<exists>t. logger_step\<^sup>*\<^sup>* s t \<and> lpc t = L_enter W_hour \<and> launches t = Suc (launches v)
    \<and> remaining_time t = (if remaining_time v = 0 then ulPeriod v else remaining_time v)"
  using from_zero [OF assms(2)] rtranclp_trans [OF assms(1)] by blast

lemma round_agrees:
  assumes "lpc s = L_enter W_hour" "\<not> log_ready s"
  shows "\<exists>t. logger_step\<^sup>*\<^sup>* s t \<and> lpc t = L_enter W_hour \<and> launches t = Suc (launches s)
    \<and> remaining_time t = fst (logger_round E True True (ulPeriod s) (remaining_time s))"
proof -
  define r where "r = remaining_time s - 60"
  define u where "u = s\<lparr>lpc := L_answer W_hour True\<rparr>"
  define v where "v = u\<lparr>remaining_time := r, lpc := (if r < 60 \<and> r \<noteq> 0 then L_enter W_rest else L_zero)\<rparr>"
  have v: "logger_step\<^sup>*\<^sup>* s v"
    unfolding v_def
    using timed_out [OF assms] l_hour [of u r]
    by (rule_tac rtranclp.rtrancl_into_rtrancl) (simp_all add: u_def r_def)
  show ?thesis
  proof (cases "r < 60 \<and> r \<noteq> 0")
    case True
    define w where "w = v\<lparr>remaining_time := 0, lpc := L_zero\<rparr>"
    have "logger_step\<^sup>*\<^sup>* v w"
    proof (rule rtranclp.rtrancl_into_rtrancl)
      show "logger_step\<^sup>*\<^sup>* v (v\<lparr>lpc := L_answer W_rest True\<rparr>)"
        using True assms(2) by (intro timed_out) (simp_all add: v_def u_def)
      show "logger_step (v\<lparr>lpc := L_answer W_rest True\<rparr>) w"
        using l_rest [of "v\<lparr>lpc := L_answer W_rest True\<rparr>"] by (simp add: w_def)
    qed
    then have "logger_step\<^sup>*\<^sup>* s w" by (rule rtranclp_trans [OF v])
    from to_zero [OF this] show ?thesis
      using True by (simp add: w_def v_def u_def r_def logger_round_def Let_def)
  next
    case False
    have f: "fst (logger_round E True True (ulPeriod s) (remaining_time s)) = (if r = 0 then ulPeriod s else r)"
      using False by (auto simp: r_def logger_round_def Let_def)
    have e: "lpc v = L_zero" "remaining_time v = r" "ulPeriod v = ulPeriod s" "launches v = launches s"
      using False by (auto simp: v_def u_def)
    show ?thesis unfolding f using to_zero [OF v e(1)] unfolding e(2-4) .
  qed
qed

section \<open>A run\<close>

definition demo_log :: lstate where
  "demo_log = \<lparr>ulPeriod = 90, log_ready = False, remaining_time = 90, lpc = L_sleep W_hour, counted = 90, launches = 0\<rparr>"

theorem new_period_never_missed_witness: "60 \<le> remaining_time demo_log \<and> counted demo_log = ulPeriod demo_log"
proof -
  let ?s = "demo_log\<lparr>lpc := L_start, remaining_time := 0, counted := 0\<rparr>"
  have "reachable log_init log_step ?s" by (rule reach_init) (simp add: log_init_def demo_log_def)
  then have "reachable log_init log_step (reload (L_enter W_hour) ?s)"
    by (rule reach_next) (simp add: log_step_def, rule disjI1, rule l_start, simp)
  then have "reachable log_init log_step ((reload (L_enter W_hour) ?s)\<lparr>lpc := L_sleep W_hour\<rparr>)"
    by (rule reach_next) (simp add: log_step_def, rule disjI1, rule l_sleep, simp_all add: reload_def demo_log_def)
  then have "reachable log_init log_step demo_log" by (simp add: reload_def demo_log_def)
  then show ?thesis using new_period_never_missed [of demo_log W_hour] by (simp add: demo_log_def)
qed

end
