(* ===== verification/Spec2Isabelle.thy ===== *)
theory Spec2Isabelle
  imports Adv_Startup Adv_Plugin Adv_Logs Adv_Release Adv_Process Adv_Decode Adv_Dcl_Emit Adv_Dcl_Stations Adv_Dcl_Typing Adv_Dcl_Shutdown Adv_Dcl_Readings Adv_Dcl_Locks Adv_Logger
begin

text \<open>
  Verification of the advanced-security component of the RDK-B gateway: the data-model plug-in that
  switches the security agent and its features on and off, keeps their settings, and executes
  web-configuration blobs (\<open>source/AdvSecurityDml\<close>), and the process that loads it
  (\<open>source/AdvSecuritySsp\<close>).

  \<^bold>\<open>The program.\<close> One global object (\<open>g_pAdvSecAgent\<close>, \<open>cosa_adv_security_internal.h\<close>) holds
  the flag of every feature and the numeric settings. The framework calls the get and set
  handlers of \<open>cosa_adv_security_dml.c\<close>, which check names, ranges and guards and call the
  operations of \<open>cosa_adv_security_internal.c\<close>; these write the setting to syscfg, update the
  flag and launch \<open>start_adv_security.sh\<close>. A web-configuration blob arrives through
  \<open>AdvancedSecurity_SetParamStringValue\<close>, is decoded by \<open>advsecurity_helpers.c\<close> and
  \<open>advsecurity_param.c\<close>, queued, and executed by the callback in
  \<open>cosa_adv_security_webconfig.c\<close>, which calls \<open>advsec_webconfig_handle_blob\<close>. The Wi-Fi
  agent reports the Levl parameter by an event (\<open>wifiEventReceiveHandler\<close>). At start
  \<open>CosaSecurityInitialize\<close> reads the stored settings back into the object and starts the threads
  that listen for system events, count down the logging period and watch the log files. The
  data-collection library (\<open>cujoagent_dcl_api.c\<close>) runs beside them: rbus callbacks, a fifo thread
  and collectors push events to the queue of a consumer thread, which decodes Wi-Fi documents,
  follows the associated devices and hands messages to a socket thread that talks to the agent.
  The process (\<open>ssp_main.c\<close>) reads the command line, becomes a daemon, connects to the message bus,
  creates and engages the component (\<open>ssp_action.c\<close>), through which the framework loads the plug-in
  (\<open>COSA_Init\<close> in \<open>plugin_main.c\<close>), and then sleeps, or reads commands from the console.

  \<^bold>\<open>The model.\<close> An operation is a function in the state monad over \<open>advst\<close>: the agent object,
  the few other globals the modelled operations use, and the outside world. The type of the world is a parameter,
  and everything that is not under \<open>src/\<close> (syscfg, rbus, the shell, files, cJSON, the safe
  string functions, the msgpack unpacker, the data-collection library) is a field of the records
  \<open>env\<close> and \<open>wenv\<close>, an argument of the operations. What the proofs need of such a routine is a
  named hypothesis: \<open>strcmp_s_law\<close>, \<open>strcpy_s_law\<close>, \<open>sprintf_s_law\<close>, \<open>ansc_equal_law\<close>,
  \<open>syscfg_law\<close>, \<open>version_law\<close>, \<open>via_law\<close> (the member of a message value that its tag names),
  \<open>allocs_ok\<close>, \<open>strcmp_s_bound_law\<close>, \<open>heap_law\<close> and \<open>startup_law\<close> (the services of start-up, records \<open>senv\<close> and \<open>lenv\<close>, leave the settings of
  syscfg alone); \<open>demo_env\<close>, \<open>demo_wenv\<close>, \<open>demo_senv\<close> and \<open>demo_lenv\<close> are instances that
  satisfy them, on which the witnesses evaluate the model. Build flags (\<open>WIFI_DATA_COLLECTION\<close>,
  \<open>NETWORK_INTELLIGENCE\<close>, \<open>DOWNLOADMODULE_ENABLE\<close>, the platform macros) are fields of \<open>env\<close>, so every
  property holds for each build. \<open>BOOL\<close> is \<open>8 word\<close>, \<open>ULONG\<close> and \<open>ANSC_STATUS\<close> are
  \<open>64 word\<close>; \<open>strtoul\<close> and the printing of numbers are written out. Log lines are left out.

  \<^bold>\<open>The data-collection library.\<close> Its operations run over \<open>dclst\<close>: the consumer object and the
  outside world. The records \<open>denv\<close> (operating system and queue), \<open>dlib\<close> (hash maps, sizes of the
  protocol, clocks) and \<open>dbus\<close> (OneWifi, rbus, threads and timers) are what is not under \<open>src/\<close>. A
  routine that blocks (\<open>d_epoll_wait\<close>, \<open>d_recvfrom\<close>, the wait on the condition) may change
  the whole state, since the other threads run meanwhile; a theorem that needs to know what they do
  says so: \<open>with_socket_thread\<close> composes the consumer thread with the socket thread's answer,
  \<open>wait_keeps_wifi\<close> states that no other thread changes the access points and their maps
  (\<open>Adv_Dcl_Pushers\<close> proves it of the threads that push). Further hypotheses are
  \<open>eventfd_law\<close> (an event descriptor adds what is written and is emptied by a read), \<open>send_law\<close> and
  \<open>delivery_law\<close> (which messages were sent and freed, and which the socket takes), \<open>stream_law\<close> and
  \<open>reply_law\<close> (the datagrams of the handshake, one of which may fail to come, and the answer to a hello),
  \<open>clock_law\<close> (reading the time sends nothing), \<open>dirs_law\<close> (the calls that make directories, in order),
  \<open>hm_law\<close> (a hash map is a finite map that counts its entries), \<open>fd_law\<close> and \<open>log_law\<close>
  (descriptors, and the calls of \<open>close\<close> and \<open>free\<close>). Where a property needs memory or an answer of the
  world to be there, its statement says so, or says what becomes of it otherwise. \<open>Adv_Dcl_Demo\<close> holds the instances that satisfy them. A pointer that
  may be NULL is an option; an access outside of an allocated block is None or False, as each
  definition says. Enumerators of event descriptors keep their C numbers, and counters and
  lengths their width.

  \<^bold>\<open>Its threads.\<close> \<open>Adv_Dcl_Sync\<close> interleaves the threads of the library at the two mutexes of the
  consumer, the condition and the queue: a step relation whose steps are the sections of the code
  between two calls that lock, unlock or wait, for the consumer thread, the pushing threads, the
  requests to start and stop, the collector threads and the shutdown. Its sections are the operations of the sequential
  model (\<open>push_is_section\<close>, \<open>start_is_section\<close>, \<open>init_is_section\<close>), and \<open>process_event_owns_queue\<close>
  shows that handling an event touches nothing that the mutexes protect. The order in which the queue hands
  events out is the hypothesis \<open>fifo_law\<close>. \<open>Adv_Logger\<close> does the same for the logger thread and
  the handlers that set its period.

  \<^bold>\<open>The process.\<close> Its operations run over \<open>sspst\<close>: the globals of \<open>ssp_main.c\<close> and the outside world.
  The framework, the bus and the operating system are the record \<open>penv\<close>, and the build is the one for
  Linux. A body goes on, calls \<open>exit\<close>, or uses a pointer that is NULL or freed (\<open>ctl\<close>); the
  controller is a pointer that may be NULL, live or freed. The hypotheses are \<open>pstr_law\<close> (the safe
  string functions), \<open>file_law\<close> (the block list is a file that does not change while it is read, and whether there is memory
  for it), \<open>typed_law\<close> (the characters typed at the console), \<open>agent_law\<close> (with a controller the
  framework has its agent of the data model) and \<open>values_law\<close> (the bus returns as many values as it counts); without the last two the commands
  \<open>e\<close> and \<open>r\<close> use a pointer that is not live (\<open>short_values_crash\<close>).
  The loading and unloading of the plug-in run over \<open>plugst\<close>, the state of the agent and the two
  global pointers, with the hypothesis \<open>load_law\<close>; the log monitor has \<open>logs_law\<close>.

  \<^bold>\<open>Theories.\<close>
  \<^item> \<open>Adv_Prelude\<close>: machine types, state-monad helpers, decimal printing and \<open>strtoul\<close>.
  \<^item> \<open>Adv_Env\<close>: the environment record, its documented behaviour, the concrete instances.
  \<^item> \<open>Adv_Agent\<close>: the agent object and the state; calls that leave the agent alone (\<open>quiet\<close>).
  \<^item> \<open>Adv_Syscfg\<close>: settings, temporary files, the Wi-Fi parameter and its precheck loop.
  \<^item> \<open>Adv_Toggle\<close>: the interfaces. \<open>setting_switch\<close> is an operation that stores a setting,
    writes a flag and launches the script; \<open>rfc_toggle\<close> a pair of them; \<open>rfc_object\<close> the
    get and set handlers of one object over such a pair. The laws of a feature control
    are proved once there.
  \<^item> \<open>Adv_Features\<close>, \<open>Adv_Control\<close>, \<open>Adv_Settings\<close>: the operations of
    \<open>cosa_adv_security_internal.c\<close>; the switches are interpretations of \<open>setting_switch\<close>.
  \<^item> \<open>Adv_Dml\<close>, \<open>Adv_Dml_Rfc\<close>: the handlers of \<open>cosa_adv_security_dml.c\<close>; fifteen feature
    controls are interpretations of \<open>rfc_object\<close>.
  \<^item> \<open>Adv_Registry\<close>: the registered handlers against the data-model file, and the fifteen
    controls as one family that refines an abstract switchboard; \<open>Adv_Plugin\<close>: loading and unloading
    the plug-in, and what a load that fails reports and releases.
  \<^item> \<open>Adv_Param\<close>, \<open>Adv_Webconfig\<close>: decoding and the web-configuration entry points. A value
    read under another tag than its own is what the union holds there, a field of \<open>wenv\<close>: arrays and binaries
    share the layout of maps and strings, and a read through a bad pointer is the outcome \<open>Crash\<close>.
  \<^item> \<open>Adv_Wp\<close>: a weakest-precondition calculus that passes over quiet calls.
  \<^item> \<open>Adv_Laws\<close>, \<open>Adv_Levl\<close>, \<open>Adv_Ranges\<close>: the effect of blobs, of starting and stopping
    features and of Levl, the bounds of the polling loops, ranges and round trips of settings.
  \<^item> \<open>Adv_System\<close>: the abstract machine of the agent object (\<open>agent_step\<close>), the simulation of
    every operation by it, and the invariants over all reachable states.
  \<^item> \<open>Adv_Decode\<close>: acceptance, what is read of a document whatever the order of its entries, and crash
    conditions of the decoding, what is queued,
    how a blob is answered, the stored version.
  \<^item> \<open>Adv_Sysevent\<close>, \<open>Adv_Events\<close>: the notification handler, the listener and logger threads, log
    rotation; the bridge mode followed edge by edge, the range of the countdown, the listener
    that never ends. \<open>Adv_Logs\<close>: the thread that watches the logs only rotates them.
    \<open>Adv_Release\<close>: the release of a document and of a queued request. \<open>Adv_Logger\<close>: a period
    that is set while the logger counts or runs is never missed.
  \<^item> \<open>Adv_Lifecycle\<close>, \<open>Adv_Startup\<close>: creation, initialisation and removal of the agent; creation is
    all or nothing, start-up restores what was stored, and the invariants of \<open>Adv_System\<close> hold from
    start-up on.

  \<^item> \<open>Adv_Dcl\<close>, \<open>Adv_Dcl_Core\<close>, \<open>Adv_Dcl_Msg\<close>: the data of the data-collection library, its building blocks
    and the sending of a message; \<open>Adv_Dcl_Wifi\<close>, \<open>Adv_Dcl_Process\<close>: what the consumer thread does with each
    event; \<open>Adv_Dcl_Trace\<close>: the trace of an event and the memory it is read from;
    \<open>Adv_Dcl_Threads\<close>, \<open>Adv_Dcl_Init\<close>: the other threads, the callbacks, initialisation and
    shutdown; \<open>Adv_Dcl_Demo\<close>: the concrete instances.
  \<^item> \<open>Adv_Dcl_Exchange\<close>, \<open>Adv_Dcl_Emit\<close>: the handshake and the delivery of an event through the socket
    thread; \<open>Adv_Dcl_Stations\<close>: the maps of associated devices refine finite maps, the numbering of
    access points, the station event; \<open>Adv_Dcl_Pushers\<close>: what the threads and requests that push do to the shared
    state, as a locale; \<open>Adv_Dcl_Typing\<close>: the eight that push events push well typed ones, and so the queue is well
    typed in every interleaving; \<open>Adv_Dcl_Life\<close>, \<open>Adv_Dcl_Shutdown\<close>: descriptors and memory over the life of
    a collection and of the library; \<open>Adv_Dcl_Readings\<close>: temperatures, frames,
    access-control lists, copies.
  \<^item> \<open>Adv_Reach\<close>: reachable states of a step relation, invariants as a locale. \<open>Adv_Dcl_Side\<close>: what
    the handling of an event by the consumer leaves alone, as a locale. \<open>Adv_Dcl_Sync\<close>,
    \<open>Adv_Dcl_Locks\<close>: the threads interleaved; no event is lost, doubled or reordered, the mutexes never deadlock, a
    shutdown is final, when a freed collector is used, and the shutdown that destroys a mutex another
    thread waits for.

  \<^item> \<open>Adv_Ssp\<close>: the process, its common data model with its callbacks, the bus, commands, options,
    privileges and signals. \<open>Adv_Process\<close>: the effect of the command line, when the block list names
    the agent, what a loaded component has, the trace level that follows the settings, when the
    console ends, that no bad pointer is used as long as nothing is cancelled from the console, and the
    console commands that use a freed controller otherwise.

  \<^bold>\<open>Bounds.\<close> The polling loops are recursions on the rounds the code allows: ten for Levl, one
  or five for the precheck. The two loops of the listener thread may run for ever; their fuel is
  the number of rounds followed, and the theorem about them holds for every fuel. The same holds for the loops of the socket, fifo and consumer
  threads and for the inner loops over the queue and the fifo, which others may refill; the handshake returns
  with fuel for every datagram up to the hello. The daemon sleeps for ever and has no answer for any
  fuel; the fuel of the console is the number of commands read. Buffer sizes are those of the code (32 bytes for
  a number, 64 and 72 for versions, 30 for a safe-browsing key).

  \<^bold>\<open>Not modelled.\<close> Log lines and the handler of WAN events, which only logs; the sharing
  of a hash map between the consumer and a decoded document, which hold the same pointers where
  the model holds equal values; the Windows and simulation builds of the process;
  \<open>CosaAdvSecUserSpaceDeInit\<close>, which is commented out; declarations of the headers; tests and
  scripts. Handlers are taken one at a time: the framework serialises calls into the plug-in,
  and what other processes do between two calls is any change of the world. The plug-in's calls to
  start and stop the data-collection library are routines of \<open>env\<close>.
\<close>

end
